(* ===== verification/Prelude.thy ===== *)
theory Prelude
  imports Main "HOL-Library.AList" "HOL-Library.Sublist"
begin

section \<open>Prelude: errors, the service monad, dictionaries, triples\<close>

text \<open>
  Shared by every component.  A service call of the control plane reads and writes one
  world and ends with a value or a raised exception; it is a function from the world to
  the outcome and the new world (type \<open>svc\<close>).  An exception does not undo what was
  written before it, except through \<open>transaction\<close> (in theory \<open>Repo_State\<close>).  A Python
  \<open>dict\<close> is an association list in insertion order.  The \<open>keeps\<close> triples and the
  collection \<open>keeps_intros\<close> carry invariants through calls.
\<close>

subsection \<open>Exceptions (errors.py and the builtins the source raises)\<close>

datatype err =
    DomainError string
  | AuthorizationError string
  | TenantBoundaryError string
  | ConflictError string
  | NotFoundError string
  | ValueError string
  | KeyError string
  | TimeoutError string
  | AssertionError string
  | OtherError string string \<comment> \<open>any other class, by its name\<close>

text \<open>The class tests of \<open>except AuthorizationError\<close>: the boundary error is a subclass.\<close>

fun is_authorization :: "err \<Rightarrow> bool" where
  "is_authorization (AuthorizationError _) = True"
| "is_authorization (TenantBoundaryError _) = True"
| "is_authorization _ = False"

fun is_conflict :: "err \<Rightarrow> bool" where
  "is_conflict (ConflictError _) = True"
| "is_conflict _ = False"

fun is_not_found :: "err \<Rightarrow> bool" where
  "is_not_found (NotFoundError _) = True"
| "is_not_found _ = False"

fun is_domain_error :: "err \<Rightarrow> bool" where
  "is_domain_error (DomainError _) = True"
| "is_domain_error e = (is_authorization e \<or> is_conflict e \<or> is_not_found e)"

subsection \<open>State and exceptions\<close>

type_synonym ('s, 'a) op = "'s \<Rightarrow> (err + 'a) \<times> 's"

definition ret :: "'a \<Rightarrow> ('s, 'a) op" where
  "ret a s = (Inr a, s)"

definition throw :: "err \<Rightarrow> ('s, 'a) op" where
  "throw e s = (Inl e, s)"

definition bnd :: "('s, 'a) op \<Rightarrow> ('a \<Rightarrow> ('s, 'b) op) \<Rightarrow> ('s, 'b) op" where
  "bnd m f s = (case m s of (Inl e, s') \<Rightarrow> (Inl e, s') | (Inr a, s') \<Rightarrow> f a s')"

definition seq :: "('s, unit) op \<Rightarrow> ('s, 'b) op \<Rightarrow> ('s, 'b) op" where
  "seq m k = bnd m (\<lambda>_. k)"

definition ensure :: "bool \<Rightarrow> err \<Rightarrow> ('s, 'b) op \<Rightarrow> ('s, 'b) op" where
  "ensure b e k = (if b then k else throw e)"

definition catch :: "('s, 'a) op \<Rightarrow> (err \<Rightarrow> ('s, 'a) op) \<Rightarrow> ('s, 'a) op" where
  "catch m h s = (case m s of (Inl e, s') \<Rightarrow> h e s' | (Inr a, s') \<Rightarrow> (Inr a, s'))"

definition of_sum :: "err + 'a \<Rightarrow> ('s, 'a) op" where
  "of_sum r s = (r, s)"

definition void :: "('s, 'a) op \<Rightarrow> ('s, unit) op" where
  "void m = bnd m (\<lambda>_. ret ())"

fun foreach :: "'a list \<Rightarrow> ('a \<Rightarrow> ('s, unit) op) \<Rightarrow> ('s, unit) op" where
  "foreach [] f = ret ()"
| "foreach (x # xs) f = seq (f x) (foreach xs f)"

fun mapM :: "('a \<Rightarrow> ('s, 'b) op) \<Rightarrow> 'a list \<Rightarrow> ('s, 'b list) op" where
  "mapM f [] = ret []"
| "mapM f (x # xs) = bnd (f x) (\<lambda>y. bnd (mapM f xs) (\<lambda>ys. ret (y # ys)))"

fun foldM :: "('b \<Rightarrow> 'a \<Rightarrow> ('s, 'b) op) \<Rightarrow> 'b \<Rightarrow> 'a list \<Rightarrow> ('s, 'b) op" where
  "foldM f b [] = ret b"
| "foldM f b (x # xs) = bnd (f b x) (\<lambda>b'. foldM f b' xs)"

named_theorems op_simps \<open>equations that run an operation on a state\<close>

lemma ret_run [op_simps]: "ret a s = (Inr a, s)"
  by (simp add: ret_def)

lemma throw_run [op_simps]: "throw e s = (Inl e, s)"
  by (simp add: throw_def)

lemma bnd_run [op_simps]:
  "bnd m f s = (case m s of (Inl e, s') \<Rightarrow> (Inl e, s') | (Inr a, s') \<Rightarrow> f a s')"
  by (simp add: bnd_def)

lemma seq_run [op_simps]:
  "seq m k s = (case m s of (Inl e, s') \<Rightarrow> (Inl e, s') | (Inr _, s') \<Rightarrow> k s')"
  by (simp add: seq_def bnd_def)

lemma ensure_run [op_simps]: "ensure b e k s = (if b then k s else (Inl e, s))"
  by (simp add: ensure_def throw_def)

lemma catch_run [op_simps]:
  "catch m h s = (case m s of (Inl e, s') \<Rightarrow> h e s' | (Inr a, s') \<Rightarrow> (Inr a, s'))"
  by (simp add: catch_def)

lemma of_sum_run [op_simps]: "of_sum r s = (r, s)"
  by (simp add: of_sum_def)

lemma bnd_ok:
  "bnd m f s = (Inr b, t) \<longleftrightarrow> (\<exists>a u. m s = (Inr a, u) \<and> f a u = (Inr b, t))"
  by (auto simp: bnd_def split: prod.splits sum.splits)

lemma seq_ok:
  "seq m k s = (Inr b, t) \<longleftrightarrow> (\<exists>u. m s = (Inr (), u) \<and> k u = (Inr b, t))"
  by (auto simp: seq_def bnd_ok)

lemma ensure_ok: "ensure b e k s = (Inr a, t) \<longleftrightarrow> b \<and> k s = (Inr a, t)"
  by (simp add: ensure_run)

lemma ret_ok: "ret a s = (Inr b, t) \<longleftrightarrow> b = a \<and> t = s"
  by (auto simp: ret_def)

lemma throw_ok: "throw e s = (Inr b, t) \<longleftrightarrow> False"
  by (simp add: throw_def)

lemma of_sum_ok: "of_sum r s = (Inr b, t) \<longleftrightarrow> r = Inr b \<and> t = s"
  by (auto simp: of_sum_def)

lemma if_ok: "(if c then m else k) s = r \<longleftrightarrow> (if c then m s = r else k s = r)"
  by simp

lemma catch_ok:
  "catch m k s = (Inr a, t) \<longleftrightarrow> m s = (Inr a, t) \<or> (\<exists>e u. m s = (Inl e, u) \<and> k e u = (Inr a, t))"
  by (auto simp: catch_def split: prod.splits sum.splits)

text \<open>Inverting a call that returned: every guard held, every step returned.\<close>

lemmas op_ok = bnd_ok seq_ok ensure_ok ret_ok throw_ok of_sum_ok

text \<open>A loop whose body only reads: each result is its element's, and the state is unchanged.\<close>

lemma mapM_ok:
  assumes "mapM f xs s = (Inr ys, s')" and "\<And>x y u u'. x \<in> set xs \<Longrightarrow> f x u = (Inr y, u') \<Longrightarrow> u' = u"
  shows "s' = s \<and> (\<forall>y\<in>set ys. \<exists>x\<in>set xs. f x s = (Inr y, s))"
  using assms
proof (induction xs arbitrary: ys)
  case (Cons x xs)
  then obtain y u zs where "f x s = (Inr y, u)" "mapM f xs u = (Inr zs, s')" "ys = y # zs"
    by (auto simp: bnd_ok ret_ok)
  with Cons.IH Cons.prems(2) show ?case by fastforce
qed (simp add: ret_ok)

text \<open>Checks that need no state: a value or the exception to raise.\<close>

definition need :: "'a option \<Rightarrow> err \<Rightarrow> ('a \<Rightarrow> err + 'b) \<Rightarrow> err + 'b" where
  "need x e k = (case x of None \<Rightarrow> Inl e | Some a \<Rightarrow> k a)"

definition check :: "bool \<Rightarrow> err \<Rightarrow> err + 'b \<Rightarrow> err + 'b" where
  "check b e k = (if b then k else Inl e)"

lemma need_ok: "need x e k = Inr b \<longleftrightarrow> (\<exists>a. x = Some a \<and> k a = Inr b)"
  by (cases x) (simp_all add: need_def)

lemma check_ok: "check b e k = Inr a \<longleftrightarrow> b \<and> k = Inr a"
  by (simp add: check_def)

lemmas checks_ok = need_ok check_ok

text \<open>\<open>for x in xs: acc = f(x, acc)\<close>, stopping at the first exception.\<close>

fun fold_check :: "('a \<Rightarrow> 'b \<Rightarrow> err + 'b) \<Rightarrow> 'a list \<Rightarrow> 'b \<Rightarrow> err + 'b" where
  "fold_check f [] b = Inr b"
| "fold_check f (x # xs) b = (case f x b of Inl e \<Rightarrow> Inl e | Inr b' \<Rightarrow> fold_check f xs b')"

lemma fold_check_inv:
  assumes "fold_check f xs b = Inr b'" and "P b"
    and "\<And>x b b'. x \<in> set xs \<Longrightarrow> P b \<Longrightarrow> f x b = Inr b' \<Longrightarrow> P b'"
  shows "P b'"
  using assms
proof (induction xs arbitrary: b)
  case (Cons x xs)
  then obtain b1 where b1: "f x b = Inr b1" and rest: "fold_check f xs b1 = Inr b'"
    by (auto split: sum.splits)
  have "P b1" using Cons.prems(2,3) b1 by auto
  with Cons.IH [OF rest] Cons.prems(3) show ?case by (meson list.set_intros(2))
qed simp

lemma bnd_assoc: "bnd (bnd m f) g = bnd m (\<lambda>a. bnd (f a) g)"
  by (rule ext) (simp add: bnd_def split: prod.splits sum.splits)

lemma ret_bnd [simp]: "bnd (ret a) f = f a"
  by (rule ext) (simp add: bnd_def ret_def)

lemma throw_bnd [simp]: "bnd (throw e) f = throw e"
  by (rule ext) (simp add: bnd_def throw_def)

lemma snd_void [simp]: "snd (void m s) = snd (m s)"
  by (simp add: void_def bnd_def ret_def split: prod.splits sum.splits)

subsection \<open>Dictionaries in insertion order\<close>

type_synonym ('k, 'v) dict = "('k \<times> 'v) list"

abbreviation dget :: "('k, 'v) dict \<Rightarrow> 'k \<Rightarrow> 'v option" where
  "dget d k \<equiv> map_of d k"

abbreviation dset :: "'k \<Rightarrow> 'v \<Rightarrow> ('k, 'v) dict \<Rightarrow> ('k, 'v) dict" where
  "dset \<equiv> AList.update"

text \<open>A comprehension over the items of a tenant-keyed table, in insertion order.\<close>

definition rows :: "string \<Rightarrow> (string \<times> 'k, 'v) dict \<Rightarrow> 'v list" where
  "rows t d = map snd (filter (\<lambda>r. fst (fst r) = t) d)"

definition slice :: "string \<Rightarrow> (string \<times> 'k, 'v) dict \<Rightarrow> (string \<times> 'k, 'v) dict" where
  "slice t d = filter (\<lambda>r. fst (fst r) = t) d"

lemma rows_slice: "rows t d = map snd (slice t d)"
  by (simp add: rows_def slice_def)

lemma rows_in: "v \<in> set (rows t d) \<longleftrightarrow> (\<exists>k. ((t, k), v) \<in> set d)"
  by (force simp: rows_def)

lemma dget_dset: "dget (dset k v d) = (dget d)(k \<mapsto> v)"
  by (rule update_conv')

lemma dget_dset_same [simp]: "dget (dset k v d) k = Some v"
  by (simp add: dget_dset)

lemma dget_dset_other [simp]: "k' \<noteq> k \<Longrightarrow> dget (dset k v d) k' = dget d k'"
  by (simp add: dget_dset)

lemma slice_dset_other:
  "t' \<noteq> fst k \<Longrightarrow> slice t' (dset k v d) = slice t' d"
  by (induction d) (auto simp: slice_def)

lemma dget_slice: "dget (slice t d) (t, k) = dget d (t, k)"
  by (induction d) (auto simp: slice_def)

lemma set_dset_sub: "set (dset k v d) \<subseteq> insert (k, v) (set d)"
  by (induction d) auto

lemma dset_new: "dget d k = None \<Longrightarrow> dset k v d = d @ [(k, v)]"
  by (induction d) (auto split: if_splits)

lemma dget_in: "dget d k = Some v \<Longrightarrow> (k, v) \<in> set d"
  by (rule map_of_SomeD)

lemma distinct_dset: "distinct (map fst d) \<Longrightarrow> distinct (map fst (dset k v d))"
  by (rule distinct_update)

lemma in_dget: "distinct (map fst d) \<Longrightarrow> (k, v) \<in> set d \<Longrightarrow> dget d k = Some v"
  by simp

text \<open>\<open>next((row for row in rows if p(row)), None)\<close>.\<close>

definition first :: "('a \<Rightarrow> bool) \<Rightarrow> 'a list \<Rightarrow> 'a option" where
  "first p xs = find p xs"

lemma first_simps [simp]:
  "first p [] = None"
  "first p (x # xs) = (if p x then Some x else first p xs)"
  by (simp_all add: first_def)

lemma first_Some: "first p xs = Some x \<Longrightarrow> x \<in> set xs \<and> p x"
  by (induction xs) (auto split: if_splits)

lemma first_None: "first p xs = None \<longleftrightarrow> (\<forall>x\<in>set xs. \<not> p x)"
  by (induction xs) auto

end
