(* ===== verification/PyStd.thy ===== *)
theory PyStd
  imports Prelude "HOL-Library.Char_ord" "HOL-Library.List_Lexorder" "HOL-Library.Product_Lexorder"
begin

section \<open>The parts of the Python standard library the source uses\<close>

text \<open>
  Strings are lists of bytes, in UTF-8: the length Python counts is the number of bytes
  that do not continue a code point (\<open>py_len\<close>), and the order of byte lists is the order
  of code points.  Times are microseconds since the Unix epoch, in UTC.  JSON values,
  their canonical text (\<open>json.dumps\<close> with sorted keys and no spaces) and the calendar
  arithmetic behind \<open>isoformat\<close> and the budget's days and months are written out.
\<close>

subsection \<open>Strings\<close>

definition py_len :: "string \<Rightarrow> nat" where
  "py_len s = length (filter (\<lambda>c. \<not> (128 \<le> (of_char c :: nat) \<and> (of_char c :: nat) < 192)) s)"

text \<open>\<open>s[:n]\<close>, in code points.\<close>

fun py_take :: "nat \<Rightarrow> string \<Rightarrow> string" where
  "py_take n [] = []"
| "py_take n (c # cs) =
     (if 128 \<le> (of_char c :: nat) \<and> (of_char c :: nat) < 192 then c # py_take n cs
      else if n = 0 then [] else c # py_take (n - 1) cs)"

text \<open>The code points \<open>str.strip\<close> removes, as UTF-8.\<close>

definition ws_tokens :: "string list" where
  "ws_tokens = map (\<lambda>n. [char_of (n::nat)]) [9, 10, 11, 12, 13, 28, 29, 30, 31, 32]
     @ map (map (char_of :: nat \<Rightarrow> char))
         ([[194, 133], [194, 160], [225, 154, 128], [226, 128, 168], [226, 128, 169],
           [226, 128, 175], [226, 129, 159], [227, 128, 128]]
          @ map (\<lambda>n. [226, 128, n]) [128, 129, 130, 131, 132, 133, 134, 135, 136, 137, 138])"

lemma ws_tokens_nonempty: "[] \<notin> set ws_tokens"
  by (simp add: ws_tokens_def)

definition drop_token :: "string list \<Rightarrow> string \<Rightarrow> string option" where
  "drop_token ts s = map_option (\<lambda>t. drop (length t) s) (find (\<lambda>t. t \<noteq> [] \<and> take (length t) s = t) ts)"

lemma drop_token_shorter: "drop_token ts s = Some r \<Longrightarrow> length r < length s"
  by (auto simp: drop_token_def find_Some_iff) (metis bot_nat_0.not_eq_extremum diff_less length_0_conv take_eq_Nil)

function strip_tokens :: "string list \<Rightarrow> string \<Rightarrow> string" where
  "strip_tokens ts s = (case drop_token ts s of None \<Rightarrow> s | Some r \<Rightarrow> strip_tokens ts r)"
  by pat_completeness auto
termination
  by (relation "measure (\<lambda>(ts, s). length s)") (auto dest: drop_token_shorter)

declare strip_tokens.simps [simp del]

definition strip :: "string \<Rightarrow> string" where
  "strip s = rev (strip_tokens (map rev ws_tokens) (rev (strip_tokens ws_tokens s)))"

text \<open>\<open>not value.strip()\<close>.\<close>

definition blank :: "string \<Rightarrow> bool" where
  "blank s \<longleftrightarrow> strip s = []"

text \<open>Text that starts and ends with a printable ASCII character is left alone.\<close>

definition printable :: "char \<Rightarrow> bool" where
  "printable c \<longleftrightarrow> 32 < (of_char c :: nat) \<and> (of_char c :: nat) < 127"

lemma ws_tokens_unprintable: "t \<in> set ws_tokens \<Longrightarrow> t \<noteq> [] \<and> \<not> printable (hd t) \<and> \<not> printable (last t)"
  by (auto simp: ws_tokens_def printable_def)

lemma drop_token_unprintable:
  "(\<And>t. t \<in> set ts \<Longrightarrow> t \<noteq> [] \<longrightarrow> \<not> printable (hd t)) \<Longrightarrow> printable c \<Longrightarrow> drop_token ts (c # cs) = None"
  unfolding drop_token_def find_None_iff map_option_is_None
proof
  assume un: "\<And>t. t \<in> set ts \<Longrightarrow> t \<noteq> [] \<longrightarrow> \<not> printable (hd t)" and c: "printable c"
  assume "\<exists>t. t \<in> set ts \<and> t \<noteq> [] \<and> take (length t) (c # cs) = t"
  then obtain t where t: "t \<in> set ts" "t \<noteq> []" "take (length t) (c # cs) = t" by blast
  have "hd (take (length t) (c # cs)) = c" using t(2) by (cases t) simp_all
  then have "hd t = c" by (simp only: t(3))
  with un [OF t(1)] t(2) c show False by simp
qed

lemma strip_tokens_unprintable:
  "(\<And>t. t \<in> set ts \<Longrightarrow> t \<noteq> [] \<longrightarrow> \<not> printable (hd t)) \<Longrightarrow> printable c \<Longrightarrow> strip_tokens ts (c # cs) = c # cs"
  by (subst strip_tokens.simps) (simp add: drop_token_unprintable)

lemma strip_printable:
  assumes "s \<noteq> []" "printable (hd s)" "printable (last s)"
  shows "strip s = s"
proof -
  obtain c cs where s: "s = c # cs" using assms(1) by (cases s) auto
  obtain d ds where r: "rev s = d # ds" using assms(1) by (cases "rev s") auto
  have d: "d = last s" using r by (metis hd_rev list.sel(1))
  have "strip_tokens ws_tokens s = s"
    using assms(2) ws_tokens_unprintable unfolding s by (intro strip_tokens_unprintable) auto
  moreover have "strip_tokens (map rev ws_tokens) (rev s) = rev s"
    using assms(3) ws_tokens_unprintable unfolding r d
    by (intro strip_tokens_unprintable) (auto simp: hd_rev)
  ultimately show ?thesis by (simp add: strip_def)
qed
definition to_lower :: "char \<Rightarrow> char" where
  "to_lower c = (let n = (of_char c :: nat) in if 65 \<le> n \<and> n \<le> 90 then char_of (n + 32) else c)"

definition lower :: "string \<Rightarrow> string" where
  "lower s = map to_lower s"

definition is_digit :: "char \<Rightarrow> bool" where
  "is_digit c = (let n = (of_char c :: nat) in 48 \<le> n \<and> n \<le> 57)"

definition is_upper :: "char \<Rightarrow> bool" where
  "is_upper c = (let n = (of_char c :: nat) in 65 \<le> n \<and> n \<le> 90)"

definition is_lower :: "char \<Rightarrow> bool" where
  "is_lower c = (let n = (of_char c :: nat) in 97 \<le> n \<and> n \<le> 122)"

definition is_alnum :: "char \<Rightarrow> bool" where
  "is_alnum c \<longleftrightarrow> is_digit c \<or> is_upper c \<or> is_lower c"

text \<open>\<open>re.compile(r"[A-Za-z0-9][A-Za-z0-9_.-]{0,254}\\Z").fullmatch\<close>, and with a colon.\<close>

definition opaque_with :: "char list \<Rightarrow> string \<Rightarrow> bool" where
  "opaque_with extra s = (case s of [] \<Rightarrow> False
     | c # cs \<Rightarrow> is_alnum c \<and> length cs \<le> 254 \<and> list_all (\<lambda>x. is_alnum x \<or> x \<in> set extra) cs)"

definition opaque :: "string \<Rightarrow> bool" where
  "opaque = opaque_with ''_.-''"

definition opaque_colon :: "string \<Rightarrow> bool" where
  "opaque_colon = opaque_with ''_.:-''"

text \<open>\<open>re.fullmatch('[0-9a-f]{64}', value)\<close>.\<close>

definition hex64 :: "string \<Rightarrow> bool" where
  "hex64 s \<longleftrightarrow> length s = 64 \<and> list_all (\<lambda>c. is_digit c \<or> c \<in> set ''abcdef'') s"

fun show_nat :: "nat \<Rightarrow> string" where
  "show_nat n = (if n < 10 then [char_of (48 + n)] else show_nat (n div 10) @ [char_of (48 + n mod 10)])"

declare show_nat.simps [simp del]

definition show_int :: "int \<Rightarrow> string" where
  "show_int i = (if i < 0 then CHR ''-'' # show_nat (nat (- i)) else show_nat (nat i))"

definition pad :: "nat \<Rightarrow> nat \<Rightarrow> string" where
  "pad w n = (let d = show_nat n in replicate (w - length d) (CHR ''0'') @ d)"

fun join :: "string \<Rightarrow> string list \<Rightarrow> string" where
  "join sep [] = []"
| "join sep [x] = x"
| "join sep (x # y # ys) = x @ sep @ join sep (y # ys)"

subsection \<open>Time\<close>

type_synonym time = int \<comment> \<open>microseconds since 1970-01-01T00:00:00Z\<close>

definition seconds :: "int \<Rightarrow> int" where
  "seconds n = n * 1000000"

definition hours :: "int \<Rightarrow> int" where
  "hours n = n * 3600000000"

text \<open>A timestamp argument whose zone the code checks.\<close>

datatype stamp = Aware time | Naive time

fun is_aware :: "stamp \<Rightarrow> bool" where
  "is_aware (Aware _) = True"
| "is_aware (Naive _) = False"

fun instant :: "stamp \<Rightarrow> time" where
  "instant (Aware t) = t"
| "instant (Naive t) = t"

definition day_number :: "time \<Rightarrow> int" where
  "day_number t = t div 86400000000"

text \<open>The proleptic Gregorian date of a day number: year, month, day.\<close>

definition civil :: "int \<Rightarrow> int \<times> int \<times> int" where
  "civil dn = (let z = dn + 719468; era = z div 146097; doe = z mod 146097;
       yoe = (doe - doe div 1460 + doe div 36524 - doe div 146096) div 365;
       doy = doe - (365 * yoe + yoe div 4 - yoe div 100);
       mp = (5 * doy + 2) div 153;
       d = doy - (153 * mp + 2) div 5 + 1;
       m = (if mp < 10 then mp + 3 else mp - 9);
       y = yoe + era * 400 + (if m \<le> 2 then 1 else 0)
     in (y, m, d))"

definition year_month :: "time \<Rightarrow> int \<times> int" where
  "year_month t = (case civil (day_number t) of (y, m, _) \<Rightarrow> (y, m))"

definition format_time :: "char \<Rightarrow> time \<Rightarrow> string" where
  "format_time sep t = (case civil (day_number t) of (y, m, d) \<Rightarrow>
     let us = t mod 86400000000; s = us div 1000000; f = us mod 1000000 in
     pad 4 (nat y) @ ''-'' @ pad 2 (nat m) @ ''-'' @ pad 2 (nat d) @ [sep]
     @ pad 2 (nat (s div 3600)) @ '':'' @ pad 2 (nat (s div 60 mod 60)) @ '':'' @ pad 2 (nat (s mod 60))
     @ (if f = 0 then [] else ''.'' @ pad 6 (nat f)) @ ''+00:00'')"

definition isoformat :: "time \<Rightarrow> string" where
  "isoformat = format_time (CHR ''T'')"

definition str_time :: "time \<Rightarrow> string" where
  "str_time = format_time (CHR '' '')"

subsection \<open>JSON\<close>

text \<open>
  A float is kept as the text \<open>repr\<close> gives it.  A \<open>dict\<close> with string keys is an
  association list in insertion order.
\<close>

datatype json = JNull | JBool bool | JInt int | JFloat string | JStr string
  | JList "json list" | JObj "(string \<times> json) list"

fun hex_digit :: "nat \<Rightarrow> char" where
  "hex_digit n = (if n < 10 then char_of (48 + n) else char_of (87 + n))"

definition escape_char :: "char \<Rightarrow> string" where
  "escape_char c = (let n = (of_char c :: nat) in
     if n = 34 then [char_of (92::nat), char_of (34::nat)]
     else if n = 92 then [char_of (92::nat), char_of (92::nat)]
     else if n = 10 then [char_of (92::nat), CHR ''n'']
     else if n = 13 then [char_of (92::nat), CHR ''r'']
     else if n = 9 then [char_of (92::nat), CHR ''t'']
     else if n = 8 then [char_of (92::nat), CHR ''b'']
     else if n = 12 then [char_of (92::nat), CHR ''f'']
     else if n < 32 then [char_of (92::nat), CHR ''u'', CHR ''0'', CHR ''0'', hex_digit (n div 16), hex_digit (n mod 16)]
     else [c])"

definition quote :: "string \<Rightarrow> string" where
  "quote s = [char_of (34::nat)] @ concat (map escape_char s) @ [char_of (34::nat)]"

fun dumps :: "json \<Rightarrow> string" where
  "dumps JNull = ''null''"
| "dumps (JBool b) = (if b then ''true'' else ''false'')"
| "dumps (JInt i) = show_int i"
| "dumps (JFloat r) = r"
| "dumps (JStr s) = quote s"
| "dumps (JList xs) = ''['' @ join '','' (map dumps xs) @ '']''"
| "dumps (JObj kvs) = ''{'' @ join '','' (map snd (sort_key fst
      (map (\<lambda>(k, v). (k, quote k @ '':'' @ dumps v)) kvs))) @ ''}''"

text \<open>\<open>allow_nan=False\<close> rejects the three non-finite floats.\<close>

fun finite_json :: "json \<Rightarrow> bool" where
  "finite_json (JFloat r) = (r \<notin> {''NaN'', ''Infinity'', ''-Infinity''})"
| "finite_json (JList xs) = list_all finite_json xs"
| "finite_json (JObj kvs) = list_all (\<lambda>(k, v). finite_json v) kvs"
| "finite_json _ = True"

fun jget :: "json \<Rightarrow> string \<Rightarrow> json option" where
  "jget (JObj kvs) k = map_of kvs k"
| "jget _ k = None"

end
