(* ===== verification/Domain.thy ===== *)
theory Domain
  imports PyStd
begin

section \<open>The domain model (packages/store_core/domain.py)\<close>

text \<open>
  Every enum of domain.py is a datatype whose constructors carry a prefix for the enum, with
  its \<open>.value\<close> strings; every dataclass is a record with the same fields in the same order,
  prefixed by the class.  \<open>datetime\<close> is \<open>time\<close>, \<open>Mapping[str, Any]\<close> is \<open>json\<close>,
  \<open>frozenset\<close> is a set, \<open>X | None\<close> is an option.  The constructors \<open>new_\<dots>\<close> fill in
  the field defaults of the dataclasses.
\<close>

datatype role = Role_MASTER | Role_FUNDS | Role_CATALOG_CS | Role_AUDITOR

fun role_value :: "role \<Rightarrow> string" where
  "role_value Role_MASTER = ''master''"
| "role_value Role_FUNDS = ''funds''"
| "role_value Role_CATALOG_CS = ''catalog_cs''"
| "role_value Role_AUDITOR = ''auditor''"

datatype capability = Cap_TENANT_ADMIN | Cap_FUNDS | Cap_CATALOG | Cap_CS | Cap_APPROVE_PURCHASE
  | Cap_APPROVE_REFUND | Cap_APPROVE_PRODUCT | Cap_APPROVE_CS | Cap_READ_AUDIT | Cap_RECOVERY

fun capability_value :: "capability \<Rightarrow> string" where
  "capability_value Cap_TENANT_ADMIN = ''tenant_admin''"
| "capability_value Cap_FUNDS = ''funds''"
| "capability_value Cap_CATALOG = ''catalog''"
| "capability_value Cap_CS = ''cs''"
| "capability_value Cap_APPROVE_PURCHASE = ''approve_purchase''"
| "capability_value Cap_APPROVE_REFUND = ''approve_refund''"
| "capability_value Cap_APPROVE_PRODUCT = ''approve_product''"
| "capability_value Cap_APPROVE_CS = ''approve_cs''"
| "capability_value Cap_READ_AUDIT = ''read_audit''"
| "capability_value Cap_RECOVERY = ''recovery''"

datatype approval_kind = Kind_PURCHASE | Kind_PRODUCT | Kind_SUPPLIER_REPLACEMENT | Kind_REFUND | Kind_CS
  | Kind_PAUSE

fun approval_kind_value :: "approval_kind \<Rightarrow> string" where
  "approval_kind_value Kind_PURCHASE = ''purchase''"
| "approval_kind_value Kind_PRODUCT = ''product''"
| "approval_kind_value Kind_SUPPLIER_REPLACEMENT = ''supplier_replacement''"
| "approval_kind_value Kind_REFUND = ''refund''"
| "approval_kind_value Kind_CS = ''cs''"
| "approval_kind_value Kind_PAUSE = ''pause''"

datatype command_state = Cmd_AWAITING_APPROVAL | Cmd_APPROVED | Cmd_REJECTED | Cmd_EXPIRED | Cmd_SUPERSEDED

fun command_state_value :: "command_state \<Rightarrow> string" where
  "command_state_value Cmd_AWAITING_APPROVAL = ''awaiting_approval''"
| "command_state_value Cmd_APPROVED = ''approved''"
| "command_state_value Cmd_REJECTED = ''rejected''"
| "command_state_value Cmd_EXPIRED = ''expired''"
| "command_state_value Cmd_SUPERSEDED = ''superseded''"

datatype approval_state = Apr_PENDING | Apr_APPROVED | Apr_REJECTED | Apr_EXPIRED | Apr_SUPERSEDED

fun approval_state_value :: "approval_state \<Rightarrow> string" where
  "approval_state_value Apr_PENDING = ''pending''"
| "approval_state_value Apr_APPROVED = ''approved''"
| "approval_state_value Apr_REJECTED = ''rejected''"
| "approval_state_value Apr_EXPIRED = ''expired''"
| "approval_state_value Apr_SUPERSEDED = ''superseded''"

datatype outbox_state = Obx_PENDING | Obx_LEASED | Obx_RETRY | Obx_COMPLETED | Obx_DEAD

fun outbox_state_value :: "outbox_state \<Rightarrow> string" where
  "outbox_state_value Obx_PENDING = ''pending''"
| "outbox_state_value Obx_LEASED = ''leased''"
| "outbox_state_value Obx_RETRY = ''retry''"
| "outbox_state_value Obx_COMPLETED = ''completed''"
| "outbox_state_value Obx_DEAD = ''dead''"

datatype inbox_state = Inb_RECEIVED | Inb_PROCESSED

fun inbox_state_value :: "inbox_state \<Rightarrow> string" where
  "inbox_state_value Inb_RECEIVED = ''received''"
| "inbox_state_value Inb_PROCESSED = ''processed''"

datatype agent_state = Agt_RUNNING | Agt_WAITING | Agt_COMPLETED | Agt_FAILED | Agt_BLOCKED
  | Agt_USAGE_LIMITED | Agt_UNKNOWN

fun agent_state_value :: "agent_state \<Rightarrow> string" where
  "agent_state_value Agt_RUNNING = ''running''"
| "agent_state_value Agt_WAITING = ''waiting''"
| "agent_state_value Agt_COMPLETED = ''completed''"
| "agent_state_value Agt_FAILED = ''failed''"
| "agent_state_value Agt_BLOCKED = ''blocked''"
| "agent_state_value Agt_USAGE_LIMITED = ''usage_limited''"
| "agent_state_value Agt_UNKNOWN = ''unknown''"

datatype adapter_capability = Adp_DEMO_EXECUTE | Adp_DEMO_LOOKUP | Adp_INBOUND_EVENTS | Adp_ORDERS_READ | Adp_ORDERS_WRITE
  | Adp_PRODUCTS_READ | Adp_PRODUCTS_WRITE | Adp_INVENTORY_READ

fun adapter_capability_value :: "adapter_capability \<Rightarrow> string" where
  "adapter_capability_value Adp_DEMO_EXECUTE = ''demo_execute''"
| "adapter_capability_value Adp_DEMO_LOOKUP = ''demo_lookup''"
| "adapter_capability_value Adp_INBOUND_EVENTS = ''inbound_events''"
| "adapter_capability_value Adp_ORDERS_READ = ''orders_read''"
| "adapter_capability_value Adp_ORDERS_WRITE = ''orders_write''"
| "adapter_capability_value Adp_PRODUCTS_READ = ''products_read''"
| "adapter_capability_value Adp_PRODUCTS_WRITE = ''products_write''"
| "adapter_capability_value Adp_INVENTORY_READ = ''inventory_read''"

datatype channel_order_state = Ord_RECEIVED | Ord_ACCEPTED | Ord_DUPLICATE | Ord_ROUTING | Ord_PO_PENDING
  | Ord_EXCEPTION | Ord_CANCELLED

fun channel_order_state_value :: "channel_order_state \<Rightarrow> string" where
  "channel_order_state_value Ord_RECEIVED = ''received''"
| "channel_order_state_value Ord_ACCEPTED = ''accepted''"
| "channel_order_state_value Ord_DUPLICATE = ''duplicate''"
| "channel_order_state_value Ord_ROUTING = ''routing''"
| "channel_order_state_value Ord_PO_PENDING = ''po_pending''"
| "channel_order_state_value Ord_EXCEPTION = ''exception''"
| "channel_order_state_value Ord_CANCELLED = ''cancelled''"

datatype routing_state = Rtg_PROPOSED | Rtg_ACCEPTED | Rtg_EXCEPTION

fun routing_state_value :: "routing_state \<Rightarrow> string" where
  "routing_state_value Rtg_PROPOSED = ''proposed''"
| "routing_state_value Rtg_ACCEPTED = ''accepted''"
| "routing_state_value Rtg_EXCEPTION = ''exception''"

datatype purchase_order_state = PO_DRAFT | PO_APPROVAL_PENDING | PO_APPROVED | PO_SUBMITTED | PO_ACKNOWLEDGED
  | PO_CANCEL_REQUESTED | PO_CANCELLED | PO_EXCEPTION

fun purchase_order_state_value :: "purchase_order_state \<Rightarrow> string" where
  "purchase_order_state_value PO_DRAFT = ''draft''"
| "purchase_order_state_value PO_APPROVAL_PENDING = ''approval_pending''"
| "purchase_order_state_value PO_APPROVED = ''approved''"
| "purchase_order_state_value PO_SUBMITTED = ''submitted''"
| "purchase_order_state_value PO_ACKNOWLEDGED = ''acknowledged''"
| "purchase_order_state_value PO_CANCEL_REQUESTED = ''cancel_requested''"
| "purchase_order_state_value PO_CANCELLED = ''cancelled''"
| "purchase_order_state_value PO_EXCEPTION = ''exception''"

datatype claim_status = Clm_OPEN | Clm_EVIDENCE_PENDING | Clm_APPROVED | Clm_REJECTED | Clm_REFUND_PENDING
  | Clm_REFUNDED | Clm_CLOSED

fun claim_status_value :: "claim_status \<Rightarrow> string" where
  "claim_status_value Clm_OPEN = ''OPEN''"
| "claim_status_value Clm_EVIDENCE_PENDING = ''EVIDENCE_PENDING''"
| "claim_status_value Clm_APPROVED = ''APPROVED''"
| "claim_status_value Clm_REJECTED = ''REJECTED''"
| "claim_status_value Clm_REFUND_PENDING = ''REFUND_PENDING''"
| "claim_status_value Clm_REFUNDED = ''REFUNDED''"
| "claim_status_value Clm_CLOSED = ''CLOSED''"

datatype settlement_status = Stl_IMPORTED | Stl_RECONCILED | Stl_EXCEPTION

fun settlement_status_value :: "settlement_status \<Rightarrow> string" where
  "settlement_status_value Stl_IMPORTED = ''IMPORTED''"
| "settlement_status_value Stl_RECONCILED = ''RECONCILED''"
| "settlement_status_value Stl_EXCEPTION = ''EXCEPTION''"

datatype attempt_state = Att_PREPARED | Att_DISPATCHING | Att_UNKNOWN | Att_RECONCILING | Att_VERIFIED_SUCCESS
  | Att_VERIFIED_FAILURE | Att_MANUAL_REVIEW

fun attempt_state_value :: "attempt_state \<Rightarrow> string" where
  "attempt_state_value Att_PREPARED = ''prepared''"
| "attempt_state_value Att_DISPATCHING = ''dispatching''"
| "attempt_state_value Att_UNKNOWN = ''unknown''"
| "attempt_state_value Att_RECONCILING = ''reconciling''"
| "attempt_state_value Att_VERIFIED_SUCCESS = ''verified_success''"
| "attempt_state_value Att_VERIFIED_FAILURE = ''verified_failure''"
| "attempt_state_value Att_MANUAL_REVIEW = ''manual_review''"

record approval_intent =
  ai_tenant_id :: string
  ai_command_id :: string
  ai_canonical_digest :: string
  ai_policy_version :: int
  ai_target_version :: int
  ai_created_at :: time

record execution_preparation =
  ep_id :: string
  ep_tenant_id :: string
  ep_command_id :: string
  ep_canonical_digest :: string
  ep_prepared_by :: string
  ep_prepared_at :: time

record tenant_context =
  ctx_tenant_id :: string
  ctx_user_id :: string
  ctx_membership_version :: int

record browser_session =
  bs_token_digest :: string
  bs_tenant_id :: string
  bs_user_id :: string
  bs_membership_version :: int
  bs_identity_assertion_ref :: string
  bs_issued_at :: time
  bs_expires_at :: time

record approval_confirmation_nonce =
  nc_token_digest :: string
  nc_session_digest :: string
  nc_tenant_id :: string
  nc_approval_id :: string
  nc_command_id :: string
  nc_issued_at :: time
  nc_expires_at :: time
  nc_consumed_at :: "time option"

record tenant =
  tn_id :: string
  tn_legal_name :: string
  tn_created_at :: time

record user =
  us_id :: string
  us_email :: string
  us_created_at :: time

record membership =
  mb_tenant_id :: string
  mb_user_id :: string
  mb_roles :: "role set"
  mb_active :: bool
  mb_version :: int

record command =
  cmd_id :: string
  cmd_tenant_id :: string
  cmd_kind :: approval_kind
  cmd_target_ref :: string
  cmd_payload :: json
  cmd_payload_digest :: string
  cmd_idempotency_key :: string
  cmd_state :: command_state
  cmd_created_at :: time
  cmd_supersedes_id :: "string option"

record approval =
  ap_id :: string
  ap_tenant_id :: string
  ap_command_id :: string
  ap_kind :: approval_kind
  ap_state :: approval_state
  ap_requested_at :: time
  ap_expires_at :: time
  ap_evidence :: "json list"
  ap_decided_by :: "string option"
  ap_decision_reason :: "string option"

record audit_event =
  au_id :: string
  au_tenant_id :: string
  au_occurred_at :: time
  au_actor_ref :: string
  au_action :: string
  au_target_ref :: string
  au_outcome :: string
  au_correlation_id :: string
  au_metadata :: json
  au_prev_hash :: "string option"
  au_event_hash :: string

record outbox_event =
  ob_id :: string
  ob_tenant_id :: string
  ob_topic :: string
  ob_aggregate_ref :: string
  ob_payload :: json
  ob_idempotency_key :: string
  ob_state :: outbox_state
  ob_created_at :: time
  ob_checkpoint :: json
  ob_lease_owner :: "string option"
  ob_lease_until :: "time option"
  ob_fencing_token :: int
  ob_completed_at :: "time option"
  ob_attempts :: int
  ob_available_at :: "time option"
  ob_last_error :: "string option"

record inbox_message =
  ib_id :: string
  ib_tenant_id :: string
  ib_provider :: string
  ib_connection_id :: string
  ib_external_event_id :: string
  ib_schema_version :: int
  ib_received_at :: time
  ib_payload_digest :: string
  ib_raw_payload_ref :: "string option"
  ib_state :: inbox_state
  ib_version :: int
  ib_processed_at :: "time option"

record agent_status_snapshot =
  ag_tenant_id :: string
  ag_agent_id :: string
  ag_role :: string
  ag_state :: agent_state
  ag_current_task :: "string option"
  ag_started_at :: "time option"
  ag_last_heartbeat_at :: "time option"
  ag_ended_at :: "time option"
  ag_last_message :: "string option"
  ag_last_commit :: "string option"
  ag_test_result :: "string option"
  ag_next_task :: "string option"
  ag_blocker :: "string option"
  ag_usage_limited :: bool
  ag_updated_at :: time

record adapter_capability_manifest =
  am_tenant_id :: string
  am_provider :: string
  am_connection_id :: string
  am_adapter_version :: string
  am_capabilities :: "adapter_capability set"
  am_inbound_schema_versions :: "int set"
  am_updated_at :: time

record demo_adapter_description =
  da_provider :: string
  da_adapter_version :: string
  da_normalized_schema_version :: int
  da_capability :: adapter_capability
  da_mode :: string

record normalized_demo_order =
  no_external_order_id :: string
  no_event_id :: string
  no_revision :: int
  no_currency :: string
  no_total_minor :: int
  no_lines :: "json list"
  no_source_digest :: "string option"

record demo_page =
  dp_items :: "json list"
  dp_next_cursor :: "string option"
  dp_has_more :: bool
  dp_observed_at :: time

record normalized_inbound_payload =
  np_tenant_id :: string
  np_immutable_ref :: string
  np_canonical_digest :: string
  np_schema_version :: int
  np_payload_json :: string
  np_source_digest :: "string option"
  np_created_at :: time

record adapter_poll_checkpoint =
  pc_tenant_id :: string
  pc_provider :: string
  pc_connection_id :: string
  pc_adapter_version :: string
  pc_cursor :: "string option"
  pc_overlap_from :: "time option"
  pc_version :: int
  pc_updated_at :: time
  pc_last_success_at :: "time option"

record channel_order =
  co_id :: string
  co_tenant_id :: string
  co_channel_id :: string
  co_external_order_key :: string
  co_payload_ref :: string
  co_currency :: string
  co_total_minor :: int
  co_status :: channel_order_state
  co_received_at :: time
  co_idempotency_key :: string
  co_version :: int

record order_line =
  ol_id :: string
  ol_tenant_id :: string
  ol_channel_order_id :: string
  ol_sku :: string
  ol_quantity :: int
  ol_unit_minor :: int
  ol_routed_status :: string
  ol_version :: int
  ol_tracking_key :: "string option"
  ol_tracking_status :: "string option"
  ol_tracking_version :: int
  ol_tracking_observed_at :: "time option"
  ol_source_line_key :: "string option"

record tracking_observation =
  trk_id :: string
  trk_tenant_id :: string
  trk_order_line_id :: string
  trk_tracking_key :: string
  trk_status :: string
  trk_observed_at :: time
  trk_response_digest :: string

record demo_claim =
  dc_id :: string
  dc_tenant_id :: string
  dc_channel_order_id :: string
  dc_claim_type :: string
  dc_amount_minor :: int
  dc_consumer_status :: claim_status
  dc_channel_status :: claim_status
  dc_supplier_status :: claim_status
  dc_idempotency_key :: string
  dc_created_at :: time
  dc_version :: int

record claim_status_observation =
  cs_id :: string
  cs_tenant_id :: string
  cs_claim_id :: string
  cs_status_kind :: string
  cs_status :: claim_status
  cs_observed_at :: time
  cs_response_digest :: string

record demo_settlement_batch =
  sb_id :: string
  sb_tenant_id :: string
  sb_channel_id :: string
  sb_period :: string
  sb_source_digest :: string
  sb_status :: settlement_status
  sb_idempotency_key :: string
  sb_created_at :: time
  sb_version :: int

record demo_settlement_line =
  sl_id :: string
  sl_tenant_id :: string
  sl_batch_id :: string
  sl_external_order_key :: string
  sl_kind :: string
  sl_amount_minor :: int
  sl_currency :: string
  sl_source_row_ref :: string
  sl_order_id :: "string option"
  sl_match_status :: string

record demo_realized_profit =
  rp_id :: string
  rp_tenant_id :: string
  rp_batch_id :: string
  rp_order_id :: string
  rp_projected_minor :: "int option"
  rp_realized_minor :: "int option"
  rp_status :: string
  rp_calculated_at :: time

record demo_catalog_import =
  ci_id :: string
  ci_tenant_id :: string
  ci_supplier_id :: string
  ci_source_digest :: string
  ci_idempotency_key :: string
  ci_created_at :: time

record demo_catalog_snapshot =
  sn_id :: string
  sn_tenant_id :: string
  sn_import_id :: string
  sn_supplier_id :: string
  sn_external_key :: string
  sn_source_digest :: string
  sn_payload_json :: string
  sn_created_at :: time

record demo_canonical_product =
  cp_id :: string
  cp_tenant_id :: string
  cp_sku :: string
  cp_title :: string
  cp_category :: string
  cp_price_minor :: int
  cp_currency :: string
  cp_attributes_json :: string
  cp_source_snapshot_id :: string
  cp_version :: int
  cp_created_at :: time

record demo_product_lineage =
  pl_id :: string
  pl_tenant_id :: string
  pl_source_snapshot_id :: string
  pl_canonical_product_id :: string
  pl_transform_version :: int
  pl_created_at :: time

record demo_channel_offer =
  ofr_id :: string
  ofr_tenant_id :: string
  ofr_channel_id :: string
  ofr_canonical_product_id :: string
  ofr_source_snapshot_id :: string
  ofr_external_key :: string
  ofr_price_minor :: int
  ofr_currency :: string
  ofr_version :: int
  ofr_created_at :: time

record demo_tool_command =
  tc_id :: string
  tc_tenant_id :: string
  tc_actor_type :: string
  tc_actor_id :: string
  tc_tool :: string
  tc_target_type :: string
  tc_target_id :: string
  tc_input_json :: string
  tc_idempotency_key :: string
  tc_requested_policy_version :: int
  tc_approval_id :: "string option"
  tc_mode :: string
  tc_state :: string
  tc_blocked_reason :: "string option"
  tc_created_at :: time
  tc_approval_command_id :: "string option"
  tc_intent_digest :: "string option"

record demo_agent_run =
  ar_id :: string
  ar_tenant_id :: string
  ar_agent_id :: string
  ar_goal :: string
  ar_policy_version :: int
  ar_model :: string
  ar_prompt_version :: string
  ar_input_digest :: string
  ar_decision_json :: string
  ar_confidence :: string
  ar_tool_calls :: int
  ar_reviewer :: "string option"
  ar_estimated_cost_minor :: int
  ar_charged_cost_minor :: "int option"
  ar_outcome :: string
  ar_created_at :: time

record demo_byok_reference =
  byok_id :: string
  byok_tenant_id :: string
  byok_provider :: string
  byok_secret_ref :: string
  byok_validation_status :: string
  byok_created_at :: time
  byok_version :: int

record demo_budget_policy =
  bp_tenant_id :: string
  bp_daily_limit_minor :: int
  bp_monthly_limit_minor :: int
  bp_generation_limit :: int
  bp_agent_run_limit :: int
  bp_max_tokens :: int
  bp_max_tool_calls :: int
  bp_model_tier :: string
  bp_version :: int

record demo_budget_request =
  br_tenant_id :: string
  br_idempotency_key :: string
  br_request_digest :: string
  br_run_id :: string
  br_outcome :: string
  br_created_at :: time

record demo_budget_ledger_entry =
  bl_id :: string
  bl_tenant_id :: string
  bl_run_id :: string
  bl_amount_minor :: int
  bl_occurred_at :: time
  bl_idempotency_key :: string

record demo_notification_preference =
  pf_tenant_id :: string
  pf_notification_key :: string
  pf_channels :: "string list"
  pf_muted :: bool
  pf_version :: int

record demo_notification_delivery =
  nd_id :: string
  nd_tenant_id :: string
  nd_notification_key :: string
  nd_channel :: string
  nd_payload_json :: string
  nd_state :: string
  nd_attempt :: int
  nd_fallback_from :: "string option"
  nd_idempotency_key :: string
  nd_created_at :: time

record demo_incident_acknowledgement =
  ik_id :: string
  ik_tenant_id :: string
  ik_incident_id :: string
  ik_acknowledged_by :: string
  ik_note :: string
  ik_idempotency_key :: string
  ik_acknowledged_at :: time

record demo_stop_control =
  sc_tenant_id :: string
  sc_scope_type :: string
  sc_scope_ref :: string
  sc_stopped :: bool
  sc_reason :: string
  sc_version :: int
  sc_updated_at :: time

record demo_backup_manifest =
  bm_id :: string
  bm_tenant_id :: string
  bm_source_digest :: string
  bm_schema_version :: int
  bm_created_at :: time

record demo_inventory_snapshot =
  iv_id :: string
  iv_tenant_id :: string
  iv_sku :: string
  iv_supplier_id :: string
  iv_quantity :: int
  iv_observed_at :: time

record demo_price_projection =
  pp_id :: string
  pp_tenant_id :: string
  pp_sku :: string
  pp_selling_price_minor :: int
  pp_supply_cost_minor :: int
  pp_variable_cost_minor :: int
  pp_fee_rate :: string
  pp_projected_contribution_minor :: int
  pp_projected_margin :: string
  pp_status :: string
  pp_calculated_at :: time

record routing_decision =
  rd_id :: string
  rd_tenant_id :: string
  rd_order_line_id :: string
  rd_supplier_id :: string
  rd_quantity :: int
  rd_unit_cost_minor :: int
  rd_reason :: string
  rd_status :: routing_state

record supplier_purchase_order =
  po_id :: string
  po_tenant_id :: string
  po_channel_order_id :: string
  po_supplier_id :: string
  po_status :: purchase_order_state
  po_idempotency_key :: string
  po_approval_command_id :: "string option"
  po_created_at :: time
  po_version :: int
  po_provider_reference :: "string option"
  po_last_response_digest :: "string option"
  po_last_observed_at :: "time option"

record purchase_line =
  pu_id :: string
  pu_tenant_id :: string
  pu_purchase_order_id :: string
  pu_order_line_id :: string
  pu_quantity :: int
  pu_unit_cost_minor :: int

record demo_execution_control =
  ec_tenant_id :: string
  ec_command_id :: string
  ec_policy_version :: int
  ec_target_version :: int
  ec_stopped :: bool

record execution_attempt =
  ea_id :: string
  ea_tenant_id :: string
  ea_command_id :: string
  ea_preparation_id :: string
  ea_operation_key :: string
  ea_intent_digest :: string
  ea_adapter_version :: string
  ea_provider :: string
  ea_connection_id :: string
  ea_state :: attempt_state
  ea_version :: int
  ea_lease_owner :: "string option"
  ea_lease_until :: "time option"
  ea_fencing_token :: int
  ea_provider_reference :: "string option"
  ea_last_observed_at :: "time option"
  ea_next_check_at :: "time option"

record attempt_observation =
  ao_id :: string
  ao_tenant_id :: string
  ao_attempt_id :: string
  ao_observation_kind :: string
  ao_response_digest :: string
  ao_observed_at :: time
  ao_correlation_id :: string

subsection \<open>Roles and capabilities\<close>

instantiation capability :: enum
begin

definition enum_capability :: "capability list" where
  "enum_capability = [Cap_TENANT_ADMIN, Cap_FUNDS, Cap_CATALOG, Cap_CS, Cap_APPROVE_PURCHASE,
     Cap_APPROVE_REFUND, Cap_APPROVE_PRODUCT, Cap_APPROVE_CS, Cap_READ_AUDIT, Cap_RECOVERY]"

definition enum_all_capability :: "(capability \<Rightarrow> bool) \<Rightarrow> bool" where
  "enum_all_capability P = list_all P enum_class.enum"

definition enum_ex_capability :: "(capability \<Rightarrow> bool) \<Rightarrow> bool" where
  "enum_ex_capability P = list_ex P enum_class.enum"

lemma capability_listed: "c \<in> set (enum_class.enum :: capability list)"
  by (cases c) (simp_all add: enum_capability_def)

lemma capability_listed_UNIV: "(UNIV :: capability set) = set (enum_class.enum :: capability list)"
  using capability_listed by blast

instance
proof
  show "(UNIV :: capability set) = set enum_class.enum"
    by (rule capability_listed_UNIV)
  show "distinct (enum_class.enum :: capability list)"
    by (simp add: enum_capability_def)
  show "enum_class.enum_all P \<longleftrightarrow> Ball UNIV P" for P :: "capability \<Rightarrow> bool"
    by (simp only: capability_listed_UNIV enum_all_capability_def list_all_iff)
  show "enum_class.enum_ex P \<longleftrightarrow> Bex UNIV P" for P :: "capability \<Rightarrow> bool"
    by (simp only: capability_listed_UNIV enum_ex_capability_def list_ex_iff)
qed

end

text \<open>Capabilities are listed in the order of their values, as \<open>sorted(value.value ...)\<close> does.\<close>

lemma capability_value_inj: "capability_value a = capability_value b \<Longrightarrow> a = b"
  by (cases a; cases b) simp_all

instantiation capability :: linorder
begin

definition less_eq_capability :: "capability \<Rightarrow> capability \<Rightarrow> bool" where
  "less_eq_capability a b \<longleftrightarrow> capability_value a \<le> capability_value b"

definition less_capability :: "capability \<Rightarrow> capability \<Rightarrow> bool" where
  "less_capability a b \<longleftrightarrow> capability_value a < capability_value b"

instance
  by standard (auto simp: less_eq_capability_def less_capability_def intro: capability_value_inj)

end

fun role_capabilities :: "role \<Rightarrow> capability set" where
  "role_capabilities Role_MASTER = UNIV"
| "role_capabilities Role_FUNDS = {Cap_FUNDS, Cap_APPROVE_PURCHASE, Cap_APPROVE_REFUND}"
| "role_capabilities Role_CATALOG_CS = {Cap_CATALOG, Cap_CS, Cap_APPROVE_PRODUCT, Cap_APPROVE_CS}"
| "role_capabilities Role_AUDITOR = {Cap_READ_AUDIT}"

fun approval_capability :: "approval_kind \<Rightarrow> capability" where
  "approval_capability Kind_PURCHASE = Cap_APPROVE_PURCHASE"
| "approval_capability Kind_PRODUCT = Cap_APPROVE_PRODUCT"
| "approval_capability Kind_SUPPLIER_REPLACEMENT = Cap_APPROVE_PRODUCT"
| "approval_capability Kind_REFUND = Cap_APPROVE_REFUND"
| "approval_capability Kind_CS = Cap_APPROVE_CS"
| "approval_capability Kind_PAUSE = Cap_RECOVERY"

subsection \<open>Constructors with the dataclass defaults\<close>

definition new_membership :: "string \<Rightarrow> string \<Rightarrow> role set \<Rightarrow> membership" where
  "new_membership tenant user roles = \<lparr>mb_tenant_id = tenant, mb_user_id = user, mb_roles = roles,
     mb_active = True, mb_version = 1\<rparr>"

definition new_command :: "string \<Rightarrow> string \<Rightarrow> approval_kind \<Rightarrow> string \<Rightarrow> json \<Rightarrow> string \<Rightarrow> string \<Rightarrow>
    command_state \<Rightarrow> time \<Rightarrow> command" where
  "new_command i tenant kind target payload dg key st created = \<lparr>cmd_id = i, cmd_tenant_id = tenant,
     cmd_kind = kind, cmd_target_ref = target, cmd_payload = payload, cmd_payload_digest = dg,
     cmd_idempotency_key = key, cmd_state = st, cmd_created_at = created, cmd_supersedes_id = None\<rparr>"

definition new_approval :: "string \<Rightarrow> string \<Rightarrow> string \<Rightarrow> approval_kind \<Rightarrow> approval_state \<Rightarrow> time \<Rightarrow>
    time \<Rightarrow> json list \<Rightarrow> approval" where
  "new_approval i tenant command kind st requested expires evidence = \<lparr>ap_id = i,
     ap_tenant_id = tenant, ap_command_id = command, ap_kind = kind, ap_state = st,
     ap_requested_at = requested, ap_expires_at = expires, ap_evidence = evidence,
     ap_decided_by = None, ap_decision_reason = None\<rparr>"

definition new_outbox_event :: "string \<Rightarrow> string \<Rightarrow> string \<Rightarrow> string \<Rightarrow> json \<Rightarrow> string \<Rightarrow>
    outbox_state \<Rightarrow> time \<Rightarrow> outbox_event" where
  "new_outbox_event i tenant topic aggregate payload key st created = \<lparr>ob_id = i,
     ob_tenant_id = tenant, ob_topic = topic, ob_aggregate_ref = aggregate, ob_payload = payload,
     ob_idempotency_key = key, ob_state = st, ob_created_at = created, ob_checkpoint = JObj [],
     ob_lease_owner = None, ob_lease_until = None, ob_fencing_token = 0, ob_completed_at = None,
     ob_attempts = 0, ob_available_at = None, ob_last_error = None\<rparr>"

definition new_inbox_message :: "string \<Rightarrow> string \<Rightarrow> string \<Rightarrow> string \<Rightarrow> string \<Rightarrow> int \<Rightarrow> time \<Rightarrow>
    string \<Rightarrow> string option \<Rightarrow> inbox_message" where
  "new_inbox_message i tenant provider connection ext schema received dg raw = \<lparr>ib_id = i,
     ib_tenant_id = tenant, ib_provider = provider, ib_connection_id = connection,
     ib_external_event_id = ext, ib_schema_version = schema, ib_received_at = received,
     ib_payload_digest = dg, ib_raw_payload_ref = raw, ib_state = Inb_RECEIVED, ib_version = 1,
     ib_processed_at = None\<rparr>"

definition new_channel_order :: "string \<Rightarrow> string \<Rightarrow> string \<Rightarrow> string \<Rightarrow> string \<Rightarrow> string \<Rightarrow> int \<Rightarrow>
    channel_order_state \<Rightarrow> time \<Rightarrow> string \<Rightarrow> channel_order" where
  "new_channel_order i tenant channel ext payload cur amount st received key = \<lparr>co_id = i,
     co_tenant_id = tenant, co_channel_id = channel, co_external_order_key = ext,
     co_payload_ref = payload, co_currency = cur, co_total_minor = amount, co_status = st,
     co_received_at = received, co_idempotency_key = key, co_version = 1\<rparr>"

definition new_order_line :: "string \<Rightarrow> string \<Rightarrow> string \<Rightarrow> string \<Rightarrow> int \<Rightarrow> int \<Rightarrow> string option \<Rightarrow>
    order_line" where
  "new_order_line i tenant order sku qty unit source = \<lparr>ol_id = i, ol_tenant_id = tenant,
     ol_channel_order_id = order, ol_sku = sku, ol_quantity = qty, ol_unit_minor = unit,
     ol_routed_status = ''unrouted'', ol_version = 1, ol_tracking_key = None,
     ol_tracking_status = None, ol_tracking_version = 0, ol_tracking_observed_at = None,
     ol_source_line_key = source\<rparr>"

definition new_purchase_order :: "string \<Rightarrow> string \<Rightarrow> string \<Rightarrow> string \<Rightarrow> purchase_order_state \<Rightarrow>
    string \<Rightarrow> string option \<Rightarrow> time \<Rightarrow> supplier_purchase_order" where
  "new_purchase_order i tenant order supplier st key command created = \<lparr>po_id = i,
     po_tenant_id = tenant, po_channel_order_id = order, po_supplier_id = supplier, po_status = st,
     po_idempotency_key = key, po_approval_command_id = command, po_created_at = created,
     po_version = 1, po_provider_reference = None, po_last_response_digest = None,
     po_last_observed_at = None\<rparr>"

definition new_execution_attempt :: "string \<Rightarrow> string \<Rightarrow> string \<Rightarrow> string \<Rightarrow> string \<Rightarrow> string \<Rightarrow>
    string \<Rightarrow> string \<Rightarrow> string \<Rightarrow> execution_attempt" where
  "new_execution_attempt i tenant command prep key intent adapter provider connection = \<lparr>ea_id = i,
     ea_tenant_id = tenant, ea_command_id = command, ea_preparation_id = prep,
     ea_operation_key = key, ea_intent_digest = intent, ea_adapter_version = adapter,
     ea_provider = provider, ea_connection_id = connection, ea_state = Att_PREPARED,
     ea_version = 1, ea_lease_owner = None, ea_lease_until = None, ea_fencing_token = 0,
     ea_provider_reference = None, ea_last_observed_at = None, ea_next_check_at = None\<rparr>"

end
