(* ===== verification/Repo_State.thy ===== *)
theory Repo_State
  imports Domain
begin

section \<open>The repository's tables, the world, transactions\<close>

text \<open>
  \<open>repo\<close> holds the attributes of \<open>InMemoryRepository.__init__\<close> in its order.  A world is a
  repository and the environment of the process: the identifiers \<open>uuid4\<close> will return, the
  readings of the clock, the tokens of \<open>secrets\<close>, and SHA-256 as a function from bytes to
  its hexadecimal digest.  Each call of \<open>uuid4\<close>, the clock or \<open>secrets\<close> consumes the next
  element of its sequence; a rollback restores the tables, never those counters.
\<close>

record repo =
  tenants :: "(string, tenant) dict"
  users :: "(string, user) dict"
  memberships :: "(string \<times> string, membership) dict"
  commands :: "(string \<times> string, command) dict"
  approvals :: "(string \<times> string, approval) dict"
  command_idempotency :: "(string \<times> string, string) dict"
  audit_events :: "(string, audit_event list) dict"
  outbox :: "(string \<times> string, outbox_event) dict"
  outbox_idempotency :: "(string \<times> string, string) dict"
  agent_status :: "(string \<times> string, agent_status_snapshot) dict"
  inbox :: "(string \<times> string, inbox_message) dict"
  manifests :: "(string \<times> string \<times> string, adapter_capability_manifest) dict"
  approval_intents :: "(string \<times> string, approval_intent) dict"
  execution_preparations :: "(string \<times> string, execution_preparation) dict"
  demo_controls :: "(string \<times> string, demo_execution_control) dict"
  attempts :: "(string \<times> string, execution_attempt) dict"
  observations :: "(string \<times> string, attempt_observation list) dict"
  normalized_payloads :: "(string \<times> string, normalized_inbound_payload) dict"
  poll_checkpoints :: "(string \<times> string \<times> string, adapter_poll_checkpoint) dict"
  channel_orders :: "(string \<times> string, channel_order) dict"
  order_lines :: "(string \<times> string, order_line) dict"
  routing_decisions :: "(string \<times> string, routing_decision) dict"
  purchase_orders :: "(string \<times> string, supplier_purchase_order) dict"
  purchase_lines :: "(string \<times> string, purchase_line) dict"
  tracking_observations :: "(string \<times> string, tracking_observation list) dict"
  claims :: "(string \<times> string, demo_claim) dict"
  claim_status_observations :: "(string \<times> string, claim_status_observation list) dict"
  settlement_batches :: "(string \<times> string, demo_settlement_batch) dict"
  settlement_lines :: "(string \<times> string, demo_settlement_line) dict"
  realized_profits :: "(string \<times> string \<times> string, demo_realized_profit) dict"
  catalog_imports :: "(string \<times> string, demo_catalog_import) dict"
  catalog_snapshots :: "(string \<times> string, demo_catalog_snapshot) dict"
  canonical_products :: "(string \<times> string, demo_canonical_product) dict"
  product_lineage :: "(string \<times> string, demo_product_lineage) dict"
  channel_offers :: "(string \<times> string, demo_channel_offer) dict"
  tool_commands :: "(string \<times> string, demo_tool_command) dict"
  agent_runs :: "(string \<times> string, demo_agent_run) dict"
  byok_references :: "(string \<times> string, demo_byok_reference) dict"
  budget_policies :: "(string, demo_budget_policy) dict"
  budget_ledger :: "(string \<times> string, demo_budget_ledger_entry) dict"
  budget_requests :: "(string \<times> string, demo_budget_request) dict"
  notification_preferences :: "(string \<times> string, demo_notification_preference) dict"
  notification_deliveries :: "(string \<times> string, demo_notification_delivery) dict"
  incident_acknowledgements :: "(string \<times> string, demo_incident_acknowledgement) dict"
  stop_controls :: "(string \<times> string \<times> string, demo_stop_control) dict"
  backup_manifests :: "(string \<times> string, demo_backup_manifest) dict"
  inventory_snapshots :: "(string \<times> string, demo_inventory_snapshot) dict"
  price_projections :: "(string \<times> string, demo_price_projection) dict"
  browser_sessions :: "(string, browser_session) dict"
  approval_confirmation_nonces :: "(string, approval_confirmation_nonce) dict"

definition empty_repo :: repo where
  "empty_repo = \<lparr>tenants = [], users = [], memberships = [], commands = [], approvals = [],
     command_idempotency = [], audit_events = [], outbox = [], outbox_idempotency = [],
     agent_status = [], inbox = [], manifests = [], approval_intents = [],
     execution_preparations = [], demo_controls = [], attempts = [], observations = [],
     normalized_payloads = [], poll_checkpoints = [], channel_orders = [], order_lines = [],
     routing_decisions = [], purchase_orders = [], purchase_lines = [],
     tracking_observations = [], claims = [], claim_status_observations = [],
     settlement_batches = [], settlement_lines = [], realized_profits = [],
     catalog_imports = [], catalog_snapshots = [], canonical_products = [],
     product_lineage = [], channel_offers = [], tool_commands = [], agent_runs = [],
     byok_references = [], budget_policies = [], budget_ledger = [], budget_requests = [],
     notification_preferences = [], notification_deliveries = [],
     incident_acknowledgements = [], stop_controls = [], backup_manifests = [],
     inventory_snapshots = [], price_projections = [], browser_sessions = [],
     approval_confirmation_nonces = []\<rparr>"

record world =
  db :: repo
  uuid_src :: "nat \<Rightarrow> string"
  uuid_ctr :: nat
  clock_src :: "nat \<Rightarrow> time"
  clock_ctr :: nat
  token_src :: "nat \<Rightarrow> string"
  token_ctr :: nat
  sha256 :: "string \<Rightarrow> string"

type_synonym 'a svc = "(world, 'a) op"

definition uuid4 :: "string svc" where
  "uuid4 s = (Inr (uuid_src s (uuid_ctr s)), s\<lparr>uuid_ctr := Suc (uuid_ctr s)\<rparr>)"

definition clock :: "time svc" where
  "clock s = (Inr (clock_src s (clock_ctr s)), s\<lparr>clock_ctr := Suc (clock_ctr s)\<rparr>)"

definition token_urlsafe :: "string svc" where
  "token_urlsafe s = (Inr (token_src s (token_ctr s)), s\<lparr>token_ctr := Suc (token_ctr s)\<rparr>)"

definition sha256_hex :: "string \<Rightarrow> string svc" where
  "sha256_hex x s = (Inr (sha256 s x), s)"

text \<open>A repository method that reads, and one that writes; a raise leaves the tables alone.\<close>

definition query :: "(repo \<Rightarrow> err + 'a) \<Rightarrow> 'a svc" where
  "query f s = (f (db s), s)"

definition reads :: "(repo \<Rightarrow> 'a) \<Rightarrow> 'a svc" where
  "reads f s = (Inr (f (db s)), s)"

definition mutate :: "(repo \<Rightarrow> err + ('a \<times> repo)) \<Rightarrow> 'a svc" where
  "mutate f s = (case f (db s) of Inl e \<Rightarrow> (Inl e, s) | Inr (a, r) \<Rightarrow> (Inr a, s\<lparr>db := r\<rparr>))"

definition modify :: "(repo \<Rightarrow> repo) \<Rightarrow> unit svc" where
  "modify f s = (Inr (), s\<lparr>db := f (db s)\<rparr>)"

text \<open>
  \<open>with repo.transaction()\<close>: on an exception every table is what it was at entry, and the
  exception propagates.
\<close>

definition transaction :: "'a svc \<Rightarrow> 'a svc" where
  "transaction m s = (case m s of (Inl e, s') \<Rightarrow> (Inl e, s'\<lparr>db := db s\<rparr>) | (Inr a, s') \<Rightarrow> (Inr a, s'))"

lemma world_runs [op_simps]:
  "uuid4 s = (Inr (uuid_src s (uuid_ctr s)), s\<lparr>uuid_ctr := Suc (uuid_ctr s)\<rparr>)"
  "clock s = (Inr (clock_src s (clock_ctr s)), s\<lparr>clock_ctr := Suc (clock_ctr s)\<rparr>)"
  "token_urlsafe s = (Inr (token_src s (token_ctr s)), s\<lparr>token_ctr := Suc (token_ctr s)\<rparr>)"
  "sha256_hex x s = (Inr (sha256 s x), s)"
  "query f s = (f (db s), s)"
  "reads g s = (Inr (g (db s)), s)"
  "modify h s = (Inr (), s\<lparr>db := h (db s)\<rparr>)"
  "mutate k s = (case k (db s) of Inl e \<Rightarrow> (Inl e, s) | Inr (a, r) \<Rightarrow> (Inr a, s\<lparr>db := r\<rparr>))"
  by (simp_all add: uuid4_def clock_def token_urlsafe_def sha256_hex_def query_def reads_def
      modify_def mutate_def)

lemma transaction_run [op_simps]:
  "transaction m s = (case m s of (Inl e, s') \<Rightarrow> (Inl e, s'\<lparr>db := db s\<rparr>) | (Inr a, s') \<Rightarrow> (Inr a, s'))"
  by (simp add: transaction_def)

lemma transaction_ok: "transaction m s = (Inr a, t) \<longleftrightarrow> m s = (Inr a, t)"
  by (auto simp: transaction_def split: prod.splits sum.splits)

lemma query_ok: "query f s = (Inr a, t) \<longleftrightarrow> f (db s) = Inr a \<and> t = s"
  by (auto simp: query_def)

lemma reads_ok: "reads f s = (Inr a, t) \<longleftrightarrow> a = f (db s) \<and> t = s"
  by (auto simp: reads_def)

lemma modify_ok: "modify f s = (Inr a, t) \<longleftrightarrow> t = s\<lparr>db := f (db s)\<rparr>"
  by (auto simp: modify_def)

lemma mutate_ok: "mutate f s = (Inr a, t) \<longleftrightarrow> (\<exists>r. f (db s) = Inr (a, r) \<and> t = s\<lparr>db := r\<rparr>)"
  by (auto simp: mutate_def split: sum.splits)

lemma clock_ok: "clock s = (Inr a, t) \<longleftrightarrow>
    a = clock_src s (clock_ctr s) \<and> t = s\<lparr>clock_ctr := Suc (clock_ctr s)\<rparr>"
  by (auto simp: clock_def)

lemma uuid4_ok: "uuid4 s = (Inr a, t) \<longleftrightarrow>
    a = uuid_src s (uuid_ctr s) \<and> t = s\<lparr>uuid_ctr := Suc (uuid_ctr s)\<rparr>"
  by (auto simp: uuid4_def)

lemma sha256_hex_ok: "sha256_hex x s = (Inr a, t) \<longleftrightarrow> a = sha256 s x \<and> t = s"
  by (auto simp: sha256_hex_def)

lemmas svc_ok = op_ok transaction_ok query_ok reads_ok modify_ok mutate_ok clock_ok uuid4_ok
  sha256_hex_ok

text \<open>A rejected transaction leaves every table as it was.\<close>

lemma transaction_atomic: "transaction m s = (Inl e, t) \<Longrightarrow> db t = db s"
  by (auto simp: transaction_def split: prod.splits sum.splits)

subsection \<open>Triples for invariants of the tables\<close>

text \<open>
  \<open>keeps h I m Q\<close>: run from a world whose digest function is \<open>h\<close> and whose tables satisfy
  \<open>I\<close>, the call ends, returning or raising, in tables that satisfy \<open>I\<close>, and a returned
  value satisfies \<open>Q\<close>.
\<close>

definition keeps :: "(string \<Rightarrow> string) \<Rightarrow> (repo \<Rightarrow> bool) \<Rightarrow> 'a svc \<Rightarrow> ('a \<Rightarrow> bool) \<Rightarrow> bool" where
  "keeps h I m Q \<longleftrightarrow> (\<forall>s. sha256 s = h \<longrightarrow> I (db s) \<longrightarrow>
     sha256 (snd (m s)) = h \<and> I (db (snd (m s))) \<and> (\<forall>a. fst (m s) = Inr a \<longrightarrow> Q a))"

lemma keepsI:
  assumes "\<And>s r t. sha256 s = h \<Longrightarrow> I (db s) \<Longrightarrow> m s = (r, t) \<Longrightarrow>
      sha256 t = h \<and> I (db t) \<and> (\<forall>a. r = Inr a \<longrightarrow> Q a)"
  shows "keeps h I m Q"
  unfolding keeps_def
proof (intro allI impI)
  fix s :: world assume s: "sha256 s = h" "I (db s)"
  have "m s = (fst (m s), snd (m s))" by (rule surjective_pairing)
  with s show "sha256 (snd (m s)) = h \<and> I (db (snd (m s))) \<and> (\<forall>a. fst (m s) = Inr a \<longrightarrow> Q a)"
    by (rule assms)
qed

lemma keepsD:
  assumes "keeps h I m Q" "sha256 s = h" "I (db s)" "m s = (r, t)"
  shows "sha256 t = h \<and> I (db t) \<and> (\<forall>a. r = Inr a \<longrightarrow> Q a)"
  using assms(1) [unfolded keeps_def, rule_format, OF assms(2,3)] assms(4) by simp

lemma keeps_weaken: "keeps h I m Q' \<Longrightarrow> (\<And>a. Q' a \<Longrightarrow> Q a) \<Longrightarrow> keeps h I m Q"
  by (fastforce simp: keeps_def)

lemma keeps_any: "keeps h I m Q \<Longrightarrow> keeps h I m (\<lambda>_. True)"
  by (erule keeps_weaken) simp

named_theorems keeps_intros \<open>composition rules for invariants\<close>

lemma keeps_ret [keeps_intros]: "Q a \<Longrightarrow> keeps h I (ret a) Q"
  by (simp add: keeps_def ret_def)

lemma keeps_throw [keeps_intros]: "keeps h I (throw e) Q"
  by (simp add: keeps_def throw_def)

lemma keeps_bnd:
  assumes "keeps h I m P" and "\<And>a. P a \<Longrightarrow> keeps h I (f a) Q"
  shows "keeps h I (bnd m f) Q"
proof (rule keepsI)
  fix s t :: world and r assume s: "sha256 s = h" "I (db s)" and run: "bnd m f s = (r, t)"
  show "sha256 t = h \<and> I (db t) \<and> (\<forall>a. r = Inr a \<longrightarrow> Q a)"
  proof (cases "m s")
    case (Pair r1 u)
    note u = keepsD [OF assms(1) s Pair]
    show ?thesis
    proof (cases r1)
      case (Inl e)
      with Pair run u show ?thesis by (auto simp: bnd_def)
    next
      case (Inr a)
      with Pair run have "f a u = (r, t)" by (simp add: bnd_def)
      with u Inr show ?thesis using keepsD [OF assms(2)] by blast
    qed
  qed
qed

lemma keeps_seq: "keeps h I m P \<Longrightarrow> keeps h I k Q \<Longrightarrow> keeps h I (seq m k) Q"
  unfolding seq_def by (erule keeps_bnd)

lemma keeps_ensure [keeps_intros]: "(b \<Longrightarrow> keeps h I k Q) \<Longrightarrow> keeps h I (ensure b e k) Q"
  by (simp add: ensure_def keeps_throw)

lemma keeps_catch:
  assumes "keeps h I m Q" and "\<And>e. keeps h I (k e) Q"
  shows "keeps h I (catch m k) Q"
proof (rule keepsI)
  fix s t :: world and r assume s: "sha256 s = h" "I (db s)" and run: "catch m k s = (r, t)"
  obtain r1 u where m: "m s = (r1, u)" by fastforce
  note u = keepsD [OF assms(1) s m]
  show "sha256 t = h \<and> I (db t) \<and> (\<forall>a. r = Inr a \<longrightarrow> Q a)"
  proof (cases r1)
    case (Inl e)
    with m run have "k e u = (r, t)" by (simp add: catch_def)
    with u keepsD [OF assms(2)] show ?thesis by blast
  qed (use m run u in \<open>auto simp: catch_def\<close>)
qed

lemma keeps_transaction [keeps_intros]: "keeps h I m Q \<Longrightarrow> keeps h I (transaction m) Q"
  by (auto simp: keeps_def transaction_def split: prod.splits sum.splits)

lemma keeps_env:
  "keeps h I uuid4 (\<lambda>_. True)" "keeps h I clock (\<lambda>_. True)"
  "keeps h I token_urlsafe (\<lambda>_. True)" "keeps h I (sha256_hex x) (\<lambda>v. v = h x)"
  "keeps h I (reads g) (\<lambda>_. True)" "keeps h I (query f) (\<lambda>_. True)"
  "keeps h I (of_sum c) (\<lambda>a. c = Inr a)"
  by (simp_all add: keeps_def op_simps)

lemma keeps_query: "(\<And>r a. I r \<Longrightarrow> f r = Inr a \<Longrightarrow> Q a) \<Longrightarrow> keeps h I (query f) Q"
  by (auto simp: keeps_def op_simps)

lemma keeps_reads: "(\<And>r. I r \<Longrightarrow> Q (f r)) \<Longrightarrow> keeps h I (reads f) Q"
  by (auto simp: keeps_def op_simps)

lemma keeps_modify: "(\<And>r. I r \<Longrightarrow> I (f r)) \<Longrightarrow> keeps h I (modify f) (\<lambda>_. True)"
  by (auto simp: keeps_def op_simps)

lemma keeps_mutate:
  "(\<And>r a r'. I r \<Longrightarrow> f r = Inr (a, r') \<Longrightarrow> I r' \<and> Q a) \<Longrightarrow> keeps h I (mutate f) Q"
  by (auto simp: keeps_def op_simps split: sum.splits)

lemma keeps_if [keeps_intros]:
  "(b \<Longrightarrow> keeps h I m Q) \<Longrightarrow> (\<not> b \<Longrightarrow> keeps h I k Q) \<Longrightarrow> keeps h I (if b then m else k) Q"
  by simp

lemma keeps_option [keeps_intros]:
  "(x = None \<Longrightarrow> keeps h I m Q) \<Longrightarrow> (\<And>a. x = Some a \<Longrightarrow> keeps h I (f a) Q) \<Longrightarrow>
     keeps h I (case x of None \<Rightarrow> m | Some a \<Rightarrow> f a) Q"
  by (cases x) simp_all

lemma keeps_prod [keeps_intros]:
  "(\<And>a b. x = (a, b) \<Longrightarrow> keeps h I (f a b) Q) \<Longrightarrow> keeps h I (case x of (a, b) \<Rightarrow> f a b) Q"
  by (cases x) simp

lemma keeps_let [keeps_intros]: "keeps h I (f x) Q \<Longrightarrow> keeps h I (let y = x in f y) Q"
  by simp

lemma keeps_foreach:
  "(\<And>x. x \<in> set xs \<Longrightarrow> keeps h I (f x) (\<lambda>_. True)) \<Longrightarrow> keeps h I (foreach xs f) (\<lambda>_. True)"
  by (induction xs) (auto intro: keeps_ret keeps_seq)

lemma keeps_mapM:
  "(\<And>x. x \<in> set xs \<Longrightarrow> keeps h I (f x) Q) \<Longrightarrow> keeps h I (mapM f xs) (\<lambda>ys. list_all Q ys)"
proof (induction xs)
  case (Cons x xs)
  have head: "keeps h I (f x) Q" by (simp add: Cons.prems)
  have "keeps h I (mapM f xs) (\<lambda>ys. list_all Q ys)" by (simp add: Cons.IH Cons.prems)
  with head show ?case
    unfolding mapM.simps by (auto intro!: keeps_bnd [OF head] keeps_bnd [where P = "list_all Q"] keeps_ret)
qed (simp add: keeps_ret)

lemma keeps_foldM:
  assumes "\<And>b x. x \<in> set xs \<Longrightarrow> Q b \<Longrightarrow> keeps h I (f b x) Q" and "Q b"
  shows "keeps h I (foldM f b xs) Q"
  using assms
proof (induction xs arbitrary: b)
  case (Cons x xs)
  have "keeps h I (f b x) Q" using Cons.prems by simp
  then show ?case
    unfolding foldM.simps by (rule keeps_bnd) (rule Cons.IH, auto simp: Cons.prems)
qed (simp add: keeps_ret)

lemma keeps_void: "keeps h I m Q \<Longrightarrow> keeps h I (void m) (\<lambda>_. True)"
  unfolding void_def by (erule keeps_bnd) (simp add: keeps_ret)

end
