(* ===== verification/Audit_Log.thy ===== *)
theory Audit_Log
  imports Repo_State
begin

section \<open>The audit log and its hash chain\<close>

text \<open>
  \<open>append_audit\<close> and \<open>audits_for\<close> of the repository, and \<open>_audit\<close>, \<open>verify_audit_chain\<close>,
  \<open>_canonical\<close> and \<open>_digest\<close> of service.py.  Each event stores the hash of its predecessor and
  the hash of its own material, which includes that predecessor's hash.
\<close>

definition audits_for :: "string \<Rightarrow> repo \<Rightarrow> audit_event list" where
  "audits_for t r = (case dget (audit_events r) t of None \<Rightarrow> [] | Some es \<Rightarrow> es)"

definition append_audit :: "audit_event \<Rightarrow> repo \<Rightarrow> repo" where
  "append_audit e r = r\<lparr>audit_events := dset (au_tenant_id e) (audits_for (au_tenant_id e) r @ [e]) (audit_events r)\<rparr>"

definition canonical :: "json \<Rightarrow> string" where
  "canonical v = dumps v"

definition digest :: "json \<Rightarrow> string svc" where
  "digest v = sha256_hex (canonical v)"

definition opt_str :: "string option \<Rightarrow> json" where
  "opt_str x = (case x of None \<Rightarrow> JNull | Some s \<Rightarrow> JStr s)"

text \<open>The dictionary \<open>material\<close>; \<open>default=str\<close> prints the time.\<close>

definition audit_material :: "string \<Rightarrow> string \<Rightarrow> time \<Rightarrow> string \<Rightarrow> string \<Rightarrow> string \<Rightarrow> string \<Rightarrow>
    string \<Rightarrow> json \<Rightarrow> string option \<Rightarrow> json" where
  "audit_material i t occurred actor action target outcome correlation meta prev = JObj
     [(''id'', JStr i), (''tenant_id'', JStr t), (''occurred_at'', JStr (str_time occurred)),
      (''actor_ref'', JStr actor), (''action'', JStr action), (''target_ref'', JStr target),
      (''outcome'', JStr outcome), (''correlation_id'', JStr correlation),
      (''metadata'', meta), (''prev_hash'', opt_str prev)]"

definition event_material :: "audit_event \<Rightarrow> string option \<Rightarrow> json" where
  "event_material e prev = audit_material (au_id e) (au_tenant_id e) (au_occurred_at e)
     (au_actor_ref e) (au_action e) (au_target_ref e) (au_outcome e) (au_correlation_id e)
     (au_metadata e) prev"

definition last_hash :: "audit_event list \<Rightarrow> string option" where
  "last_hash es = (if es = [] then None else Some (au_event_hash (last es)))"

definition audit :: "string \<Rightarrow> string \<Rightarrow> string \<Rightarrow> string \<Rightarrow> string \<Rightarrow> json \<Rightarrow> unit svc" where
  "audit t actor action target outcome meta =
     bnd (reads (audits_for t)) (\<lambda>events.
     bnd uuid4 (\<lambda>event_id. bnd uuid4 (\<lambda>correlation_id. bnd clock (\<lambda>now.
     bnd (digest (audit_material event_id t now actor action target outcome correlation_id meta
            (last_hash events))) (\<lambda>hash.
     modify (append_audit \<lparr>au_id = event_id, au_tenant_id = t, au_occurred_at = now,
       au_actor_ref = actor, au_action = action, au_target_ref = target, au_outcome = outcome,
       au_correlation_id = correlation_id, au_metadata = meta, au_prev_hash = last_hash events,
       au_event_hash = hash\<rparr>))))))"

text \<open>The loop of \<open>verify_audit_chain\<close>, from the hash of the event before.\<close>

fun chain_from :: "(string \<Rightarrow> string) \<Rightarrow> string option \<Rightarrow> audit_event list \<Rightarrow> bool" where
  "chain_from h prev [] = True"
| "chain_from h prev (e # es) =
     (if au_prev_hash e \<noteq> prev \<or> au_event_hash e \<noteq> h (canonical (event_material e prev)) then False
      else chain_from h (Some (au_event_hash e)) es)"

definition verify_audit_chain :: "string \<Rightarrow> bool svc" where
  "verify_audit_chain t s = (Inr (chain_from (sha256 s) None (audits_for t (db s))), s)"

subsection \<open>Lemmas\<close>

lemma audits_for_append [simp]:
  "audits_for t (append_audit e r) = audits_for t r @ (if au_tenant_id e = t then [e] else [])"
  by (simp add: audits_for_def append_audit_def dget_dset)

text \<open>An audit event leaves every other table as it is.\<close>

lemma append_audit_tables [simp]:
  "tenants (append_audit e r) = tenants r" "users (append_audit e r) = users r"
  "memberships (append_audit e r) = memberships r" "commands (append_audit e r) = commands r"
  "approvals (append_audit e r) = approvals r" "command_idempotency (append_audit e r) = command_idempotency r"
  "outbox (append_audit e r) = outbox r" "outbox_idempotency (append_audit e r) = outbox_idempotency r"
  "agent_status (append_audit e r) = agent_status r" "inbox (append_audit e r) = inbox r"
  "manifests (append_audit e r) = manifests r" "approval_intents (append_audit e r) = approval_intents r"
  "execution_preparations (append_audit e r) = execution_preparations r"
  "demo_controls (append_audit e r) = demo_controls r" "attempts (append_audit e r) = attempts r"
  "observations (append_audit e r) = observations r"
  "normalized_payloads (append_audit e r) = normalized_payloads r"
  "poll_checkpoints (append_audit e r) = poll_checkpoints r"
  "channel_orders (append_audit e r) = channel_orders r" "order_lines (append_audit e r) = order_lines r"
  "routing_decisions (append_audit e r) = routing_decisions r"
  "purchase_orders (append_audit e r) = purchase_orders r" "purchase_lines (append_audit e r) = purchase_lines r"
  "tracking_observations (append_audit e r) = tracking_observations r" "claims (append_audit e r) = claims r"
  "claim_status_observations (append_audit e r) = claim_status_observations r"
  "settlement_batches (append_audit e r) = settlement_batches r"
  "settlement_lines (append_audit e r) = settlement_lines r"
  "realized_profits (append_audit e r) = realized_profits r"
  "catalog_imports (append_audit e r) = catalog_imports r"
  "catalog_snapshots (append_audit e r) = catalog_snapshots r"
  "canonical_products (append_audit e r) = canonical_products r"
  "product_lineage (append_audit e r) = product_lineage r" "channel_offers (append_audit e r) = channel_offers r"
  "tool_commands (append_audit e r) = tool_commands r" "agent_runs (append_audit e r) = agent_runs r"
  "byok_references (append_audit e r) = byok_references r"
  "budget_policies (append_audit e r) = budget_policies r" "budget_ledger (append_audit e r) = budget_ledger r"
  "budget_requests (append_audit e r) = budget_requests r"
  "notification_preferences (append_audit e r) = notification_preferences r"
  "notification_deliveries (append_audit e r) = notification_deliveries r"
  "incident_acknowledgements (append_audit e r) = incident_acknowledgements r"
  "stop_controls (append_audit e r) = stop_controls r" "backup_manifests (append_audit e r) = backup_manifests r"
  "inventory_snapshots (append_audit e r) = inventory_snapshots r"
  "price_projections (append_audit e r) = price_projections r"
  "browser_sessions (append_audit e r) = browser_sessions r"
  "approval_confirmation_nonces (append_audit e r) = approval_confirmation_nonces r"
  by (simp_all add: append_audit_def)

lemma audits_for_cong: "audit_events r = audit_events r' \<Longrightarrow> audits_for t r = audits_for t r'"
  by (simp add: audits_for_def)

lemma chain_from_append:
  "chain_from h prev (es @ fs) \<longleftrightarrow> chain_from h prev es \<and>
     chain_from h (if es = [] then prev else last_hash es) fs"
  by (induction es arbitrary: prev) (auto simp: last_hash_def)

text \<open>What one call of \<open>_audit\<close> does: it returns, and appends one event whose links are right.\<close>

definition audit_entry :: "string \<Rightarrow> string \<Rightarrow> string \<Rightarrow> string \<Rightarrow> string \<Rightarrow> json \<Rightarrow> world \<Rightarrow> audit_event" where
  "audit_entry t actor action target outcome meta s =
     (let i = uuid_src s (uuid_ctr s); c = uuid_src s (Suc (uuid_ctr s)); now = clock_src s (clock_ctr s);
          prev = last_hash (audits_for t (db s))
      in \<lparr>au_id = i, au_tenant_id = t, au_occurred_at = now, au_actor_ref = actor, au_action = action,
          au_target_ref = target, au_outcome = outcome, au_correlation_id = c, au_metadata = meta,
          au_prev_hash = prev, au_event_hash = sha256 s (canonical
            (audit_material i t now actor action target outcome c meta prev))\<rparr>)"

lemma audit_run:
  "audit t actor action target outcome meta s =
     (Inr (), s\<lparr>db := append_audit (audit_entry t actor action target outcome meta s) (db s),
                uuid_ctr := uuid_ctr s + 2, clock_ctr := Suc (clock_ctr s)\<rparr>)"
  by (simp add: audit_def digest_def op_simps audit_entry_def Let_def)

lemma audit_entry_tenant [simp]: "au_tenant_id (audit_entry t actor action target outcome meta s) = t"
  by (simp add: audit_entry_def Let_def)

lemma audit_entry_links:
  "au_prev_hash (audit_entry t actor action target outcome meta s) = last_hash (audits_for t (db s))"
  "au_event_hash (audit_entry t actor action target outcome meta s) = sha256 s (canonical
     (event_material (audit_entry t actor action target outcome meta s) (last_hash (audits_for t (db s)))))"
  by (simp_all add: audit_entry_def Let_def event_material_def)

lemma audit_ok: "audit t actor action target outcome meta s = (Inr (), s') \<longleftrightarrow>
    s' = snd (audit t actor action target outcome meta s)"
  by (auto simp: audit_run)

lemma audit_world [simp]:
  "db (snd (audit t actor action target outcome meta s)) =
     append_audit (audit_entry t actor action target outcome meta s) (db s)"
  "sha256 (snd (audit t actor action target outcome meta s)) = sha256 s"
  "clock_src (snd (audit t actor action target outcome meta s)) = clock_src s"
  "clock_ctr (snd (audit t actor action target outcome meta s)) = Suc (clock_ctr s)"
  "uuid_src (snd (audit t actor action target outcome meta s)) = uuid_src s"
  "uuid_ctr (snd (audit t actor action target outcome meta s)) = uuid_ctr s + 2"
  by (simp_all add: audit_run)

text \<open>The chain of every tenant, as an invariant of the tables.\<close>

definition chains_ok :: "(string \<Rightarrow> string) \<Rightarrow> repo \<Rightarrow> bool" where
  "chains_ok h r \<longleftrightarrow> (\<forall>t. chain_from h None (audits_for t r))"

lemma audit_chains_ok: "keeps h (chains_ok h) (audit t actor action target outcome meta) (\<lambda>_. True)"
  by (rule keepsI) (auto simp: audit_run chains_ok_def chain_from_append audit_entry_links last_hash_def)

end
