(* ===== verification/Writes.thy ===== *)
theory Writes
  imports Audit_Log
begin

section \<open>Writes of a tenant, and what a call may write\<close>

text \<open>
  One \<open>repo_write\<close> is one assignment a repository method makes for a tenant: a row of that
  tenant under the row's own key, or an audit event linked to the tenant's last one.
  \<open>acts h t L m Q\<close> says of a call \<open>m\<close> that, returning or raising, it only makes such writes
  for tenant \<open>t\<close>, into the tables of \<open>L\<close>, and that a returned value satisfies \<open>Q\<close>.
  Tenant isolation, the audit log and the untouched tables follow from it through the locale
  \<open>guarded_writes\<close>.
\<close>

datatype table =
    T_tenants
  | T_users
  | T_memberships
  | T_commands
  | T_approvals
  | T_command_idempotency
  | T_audit_events
  | T_outbox
  | T_agent_status
  | T_inbox
  | T_manifests
  | T_approval_intents
  | T_execution_preparations
  | T_demo_controls
  | T_attempts
  | T_observations
  | T_normalized_payloads
  | T_poll_checkpoints
  | T_channel_orders
  | T_order_lines
  | T_routing_decisions
  | T_purchase_orders
  | T_purchase_lines
  | T_tracking_observations
  | T_claims
  | T_claim_status_observations
  | T_settlement_batches
  | T_settlement_lines
  | T_realized_profits
  | T_catalog_imports
  | T_catalog_snapshots
  | T_canonical_products
  | T_product_lineage
  | T_channel_offers
  | T_tool_commands
  | T_agent_runs
  | T_byok_references
  | T_budget_policies
  | T_budget_ledger
  | T_budget_requests
  | T_notification_preferences
  | T_notification_deliveries
  | T_incident_acknowledgements
  | T_stop_controls
  | T_backup_manifests
  | T_inventory_snapshots
  | T_price_projections
  | T_browser_sessions
  | T_approval_confirmation_nonces

inductive repo_write :: "(string \<Rightarrow> string) \<Rightarrow> string \<Rightarrow> table \<Rightarrow> repo \<Rightarrow> repo \<Rightarrow> bool" for h t where
  W_tenants: "tn_id v = t \<Longrightarrow> repo_write h t T_tenants r (r\<lparr>tenants := dset (tn_id v) v (tenants r)\<rparr>)"
| W_users: "repo_write h t T_users r (r\<lparr>users := dset (us_id v) v (users r)\<rparr>)"
| W_memberships: "mb_tenant_id v = t \<Longrightarrow> repo_write h t T_memberships r (r\<lparr>memberships := dset (mb_tenant_id v, mb_user_id v) v (memberships r)\<rparr>)"
| W_commands: "cmd_tenant_id v = t \<Longrightarrow> repo_write h t T_commands r (r\<lparr>commands := dset (cmd_tenant_id v, cmd_id v) v (commands r)\<rparr>)"
| W_approvals: "ap_tenant_id v = t \<Longrightarrow> repo_write h t T_approvals r (r\<lparr>approvals := dset (ap_tenant_id v, ap_command_id v) v (approvals r)\<rparr>)"
| W_command_idempotency: "repo_write h t T_command_idempotency r (r\<lparr>command_idempotency := dset (t, k) v (command_idempotency r)\<rparr>)"
| W_audit_events: "au_tenant_id e = t \<Longrightarrow> au_prev_hash e = last_hash (audits_for t r) \<Longrightarrow>
      au_event_hash e = h (canonical (event_material e (last_hash (audits_for t r)))) \<Longrightarrow>
      repo_write h t T_audit_events r (append_audit e r)"
| W_outbox: "ob_tenant_id v = t \<Longrightarrow> dget (outbox_idempotency r) (t, ob_idempotency_key v) = None \<Longrightarrow>
      repo_write h t T_outbox r (r\<lparr>outbox := dset (t, ob_id v) v (outbox r),
        outbox_idempotency := dset (t, ob_idempotency_key v) (ob_id v) (outbox_idempotency r)\<rparr>)"
| W_outbox_update: "ob_tenant_id v = t \<Longrightarrow> dget (outbox r) (t, ob_id v) = Some u \<Longrightarrow>
      ob_idempotency_key v = ob_idempotency_key u \<Longrightarrow>
      repo_write h t T_outbox r (r\<lparr>outbox := dset (t, ob_id v) v (outbox r)\<rparr>)"
| W_agent_status: "ag_tenant_id v = t \<Longrightarrow> repo_write h t T_agent_status r (r\<lparr>agent_status := dset (ag_tenant_id v, ag_agent_id v) v (agent_status r)\<rparr>)"
| W_inbox: "ib_tenant_id v = t \<Longrightarrow> repo_write h t T_inbox r (r\<lparr>inbox := dset (ib_tenant_id v, ib_id v) v (inbox r)\<rparr>)"
| W_manifests: "am_tenant_id v = t \<Longrightarrow> repo_write h t T_manifests r (r\<lparr>manifests := dset (am_tenant_id v, am_provider v, am_connection_id v) v (manifests r)\<rparr>)"
| W_approval_intents: "ai_tenant_id v = t \<Longrightarrow> repo_write h t T_approval_intents r (r\<lparr>approval_intents := dset (ai_tenant_id v, ai_command_id v) v (approval_intents r)\<rparr>)"
| W_execution_preparations: "ep_tenant_id v = t \<Longrightarrow> repo_write h t T_execution_preparations r (r\<lparr>execution_preparations := dset (ep_tenant_id v, ep_command_id v) v (execution_preparations r)\<rparr>)"
| W_demo_controls: "ec_tenant_id v = t \<Longrightarrow> repo_write h t T_demo_controls r (r\<lparr>demo_controls := dset (ec_tenant_id v, ec_command_id v) v (demo_controls r)\<rparr>)"
| W_attempts: "ea_tenant_id v = t \<Longrightarrow> repo_write h t T_attempts r (r\<lparr>attempts := dset (ea_tenant_id v, ea_id v) v (attempts r)\<rparr>)"
| W_observations: "(\<And>v. v \<in> set vs \<Longrightarrow> ao_tenant_id v = t \<and> ao_attempt_id v = k) \<Longrightarrow>
      repo_write h t T_observations r (r\<lparr>observations := dset (t, k) vs (observations r)\<rparr>)"
| W_normalized_payloads: "np_tenant_id v = t \<Longrightarrow> repo_write h t T_normalized_payloads r (r\<lparr>normalized_payloads := dset (np_tenant_id v, np_immutable_ref v) v (normalized_payloads r)\<rparr>)"
| W_poll_checkpoints: "pc_tenant_id v = t \<Longrightarrow> repo_write h t T_poll_checkpoints r (r\<lparr>poll_checkpoints := dset (pc_tenant_id v, pc_provider v, pc_connection_id v) v (poll_checkpoints r)\<rparr>)"
| W_channel_orders: "co_tenant_id v = t \<Longrightarrow> repo_write h t T_channel_orders r (r\<lparr>channel_orders := dset (co_tenant_id v, co_id v) v (channel_orders r)\<rparr>)"
| W_order_lines: "ol_tenant_id v = t \<Longrightarrow> repo_write h t T_order_lines r (r\<lparr>order_lines := dset (ol_tenant_id v, ol_id v) v (order_lines r)\<rparr>)"
| W_routing_decisions: "rd_tenant_id v = t \<Longrightarrow> repo_write h t T_routing_decisions r (r\<lparr>routing_decisions := dset (rd_tenant_id v, rd_order_line_id v) v (routing_decisions r)\<rparr>)"
| W_purchase_orders: "po_tenant_id v = t \<Longrightarrow> repo_write h t T_purchase_orders r (r\<lparr>purchase_orders := dset (po_tenant_id v, po_id v) v (purchase_orders r)\<rparr>)"
| W_purchase_lines: "pu_tenant_id v = t \<Longrightarrow> repo_write h t T_purchase_lines r (r\<lparr>purchase_lines := dset (pu_tenant_id v, pu_id v) v (purchase_lines r)\<rparr>)"
| W_tracking_observations: "(\<And>v. v \<in> set vs \<Longrightarrow> trk_tenant_id v = t \<and> trk_order_line_id v = k) \<Longrightarrow>
      repo_write h t T_tracking_observations r (r\<lparr>tracking_observations := dset (t, k) vs (tracking_observations r)\<rparr>)"
| W_claims: "dc_tenant_id v = t \<Longrightarrow> repo_write h t T_claims r (r\<lparr>claims := dset (dc_tenant_id v, dc_id v) v (claims r)\<rparr>)"
| W_claim_status_observations: "(\<And>v. v \<in> set vs \<Longrightarrow> cs_tenant_id v = t \<and> cs_claim_id v = k) \<Longrightarrow>
      repo_write h t T_claim_status_observations r (r\<lparr>claim_status_observations := dset (t, k) vs (claim_status_observations r)\<rparr>)"
| W_settlement_batches: "sb_tenant_id v = t \<Longrightarrow> repo_write h t T_settlement_batches r (r\<lparr>settlement_batches := dset (sb_tenant_id v, sb_id v) v (settlement_batches r)\<rparr>)"
| W_settlement_lines: "sl_tenant_id v = t \<Longrightarrow> repo_write h t T_settlement_lines r (r\<lparr>settlement_lines := dset (sl_tenant_id v, sl_id v) v (settlement_lines r)\<rparr>)"
| W_realized_profits: "rp_tenant_id v = t \<Longrightarrow> repo_write h t T_realized_profits r (r\<lparr>realized_profits := dset (rp_tenant_id v, rp_batch_id v, rp_order_id v) v (realized_profits r)\<rparr>)"
| W_catalog_imports: "ci_tenant_id v = t \<Longrightarrow> repo_write h t T_catalog_imports r (r\<lparr>catalog_imports := dset (ci_tenant_id v, ci_id v) v (catalog_imports r)\<rparr>)"
| W_catalog_snapshots: "sn_tenant_id v = t \<Longrightarrow> repo_write h t T_catalog_snapshots r (r\<lparr>catalog_snapshots := dset (sn_tenant_id v, sn_id v) v (catalog_snapshots r)\<rparr>)"
| W_canonical_products: "cp_tenant_id v = t \<Longrightarrow> repo_write h t T_canonical_products r (r\<lparr>canonical_products := dset (cp_tenant_id v, cp_id v) v (canonical_products r)\<rparr>)"
| W_product_lineage: "pl_tenant_id v = t \<Longrightarrow> repo_write h t T_product_lineage r (r\<lparr>product_lineage := dset (pl_tenant_id v, pl_source_snapshot_id v) v (product_lineage r)\<rparr>)"
| W_channel_offers: "ofr_tenant_id v = t \<Longrightarrow> repo_write h t T_channel_offers r (r\<lparr>channel_offers := dset (ofr_tenant_id v, ofr_id v) v (channel_offers r)\<rparr>)"
| W_tool_commands: "tc_tenant_id v = t \<Longrightarrow> repo_write h t T_tool_commands r (r\<lparr>tool_commands := dset (tc_tenant_id v, tc_id v) v (tool_commands r)\<rparr>)"
| W_agent_runs: "ar_tenant_id v = t \<Longrightarrow> repo_write h t T_agent_runs r (r\<lparr>agent_runs := dset (ar_tenant_id v, ar_id v) v (agent_runs r)\<rparr>)"
| W_byok_references: "byok_tenant_id v = t \<Longrightarrow> repo_write h t T_byok_references r (r\<lparr>byok_references := dset (byok_tenant_id v, byok_provider v) v (byok_references r)\<rparr>)"
| W_budget_policies: "bp_tenant_id v = t \<Longrightarrow> repo_write h t T_budget_policies r (r\<lparr>budget_policies := dset (bp_tenant_id v) v (budget_policies r)\<rparr>)"
| W_budget_ledger: "bl_tenant_id v = t \<Longrightarrow> repo_write h t T_budget_ledger r (r\<lparr>budget_ledger := dset (bl_tenant_id v, bl_id v) v (budget_ledger r)\<rparr>)"
| W_budget_requests: "br_tenant_id v = t \<Longrightarrow> repo_write h t T_budget_requests r (r\<lparr>budget_requests := dset (br_tenant_id v, br_idempotency_key v) v (budget_requests r)\<rparr>)"
| W_notification_preferences: "pf_tenant_id v = t \<Longrightarrow> repo_write h t T_notification_preferences r (r\<lparr>notification_preferences := dset (pf_tenant_id v, pf_notification_key v) v (notification_preferences r)\<rparr>)"
| W_notification_deliveries: "nd_tenant_id v = t \<Longrightarrow> repo_write h t T_notification_deliveries r (r\<lparr>notification_deliveries := dset (nd_tenant_id v, nd_id v) v (notification_deliveries r)\<rparr>)"
| W_incident_acknowledgements: "ik_tenant_id v = t \<Longrightarrow> repo_write h t T_incident_acknowledgements r (r\<lparr>incident_acknowledgements := dset (ik_tenant_id v, ik_id v) v (incident_acknowledgements r)\<rparr>)"
| W_stop_controls: "sc_tenant_id v = t \<Longrightarrow> repo_write h t T_stop_controls r (r\<lparr>stop_controls := dset (sc_tenant_id v, sc_scope_type v, sc_scope_ref v) v (stop_controls r)\<rparr>)"
| W_backup_manifests: "bm_tenant_id v = t \<Longrightarrow> repo_write h t T_backup_manifests r (r\<lparr>backup_manifests := dset (bm_tenant_id v, bm_id v) v (backup_manifests r)\<rparr>)"
| W_inventory_snapshots: "iv_tenant_id v = t \<Longrightarrow> repo_write h t T_inventory_snapshots r (r\<lparr>inventory_snapshots := dset (iv_tenant_id v, iv_id v) v (inventory_snapshots r)\<rparr>)"
| W_price_projections: "pp_tenant_id v = t \<Longrightarrow> repo_write h t T_price_projections r (r\<lparr>price_projections := dset (pp_tenant_id v, pp_id v) v (price_projections r)\<rparr>)"
| W_browser_sessions: "bs_tenant_id v = t \<Longrightarrow> dget (browser_sessions r) (bs_token_digest v) = None \<Longrightarrow>
      repo_write h t T_browser_sessions r (r\<lparr>browser_sessions := dset (bs_token_digest v) v (browser_sessions r)\<rparr>)"
| W_approval_confirmation_nonces: "nc_tenant_id v = t \<Longrightarrow> (\<And>u. dget (approval_confirmation_nonces r) (nc_token_digest v) = Some u \<Longrightarrow> nc_tenant_id u = t) \<Longrightarrow>
      repo_write h t T_approval_confirmation_nonces r (r\<lparr>approval_confirmation_nonces := dset (nc_token_digest v) v (approval_confirmation_nonces r)\<rparr>)"

definition writes :: "(string \<Rightarrow> string) \<Rightarrow> string \<Rightarrow> table set \<Rightarrow> repo \<Rightarrow> repo \<Rightarrow> bool" where
  "writes h t L = (\<lambda>r r'. \<exists>l\<in>L. repo_write h t l r r')\<^sup>*\<^sup>*"

subsection \<open>Every row is stored under its own key\<close>

definition keyed :: "('v \<Rightarrow> 'k) \<Rightarrow> ('k, 'v) dict \<Rightarrow> bool" where
  "keyed f d \<longleftrightarrow> distinct (map fst d) \<and> (\<forall>k v. (k, v) \<in> set d \<longrightarrow> f v = k)"

definition keyed_lists :: "('v \<Rightarrow> 'k) \<Rightarrow> ('k, 'v list) dict \<Rightarrow> bool" where
  "keyed_lists f d \<longleftrightarrow> distinct (map fst d) \<and> (\<forall>k vs v. (k, vs) \<in> set d \<longrightarrow> v \<in> set vs \<longrightarrow> f v = k)"

text \<open>Every outbox event is the one its idempotency key leads to.\<close>

definition outbox_indexed :: "repo \<Rightarrow> bool" where
  "outbox_indexed r \<longleftrightarrow> (\<forall>k e. (k, e) \<in> set (outbox r) \<longrightarrow>
     dget (outbox_idempotency r) (ob_tenant_id e, ob_idempotency_key e) = Some (ob_id e))"

primrec wf_table :: "table \<Rightarrow> repo \<Rightarrow> bool" where
  "wf_table T_tenants r \<longleftrightarrow> keyed tn_id (tenants r)"
| "wf_table T_users r \<longleftrightarrow> keyed us_id (users r)"
| "wf_table T_memberships r \<longleftrightarrow> keyed (\<lambda>v. (mb_tenant_id v, mb_user_id v)) (memberships r)"
| "wf_table T_commands r \<longleftrightarrow> keyed (\<lambda>v. (cmd_tenant_id v, cmd_id v)) (commands r)"
| "wf_table T_approvals r \<longleftrightarrow> keyed (\<lambda>v. (ap_tenant_id v, ap_command_id v)) (approvals r)"
| "wf_table T_command_idempotency r \<longleftrightarrow> distinct (map fst (command_idempotency r))"
| "wf_table T_audit_events r \<longleftrightarrow> keyed_lists au_tenant_id (audit_events r)"
| "wf_table T_outbox r \<longleftrightarrow> keyed (\<lambda>v. (ob_tenant_id v, ob_id v)) (outbox r) \<and> outbox_indexed r"
| "wf_table T_agent_status r \<longleftrightarrow> keyed (\<lambda>v. (ag_tenant_id v, ag_agent_id v)) (agent_status r)"
| "wf_table T_inbox r \<longleftrightarrow> keyed (\<lambda>v. (ib_tenant_id v, ib_id v)) (inbox r)"
| "wf_table T_manifests r \<longleftrightarrow> keyed (\<lambda>v. (am_tenant_id v, am_provider v, am_connection_id v)) (manifests r)"
| "wf_table T_approval_intents r \<longleftrightarrow> keyed (\<lambda>v. (ai_tenant_id v, ai_command_id v)) (approval_intents r)"
| "wf_table T_execution_preparations r \<longleftrightarrow> keyed (\<lambda>v. (ep_tenant_id v, ep_command_id v)) (execution_preparations r)"
| "wf_table T_demo_controls r \<longleftrightarrow> keyed (\<lambda>v. (ec_tenant_id v, ec_command_id v)) (demo_controls r)"
| "wf_table T_attempts r \<longleftrightarrow> keyed (\<lambda>v. (ea_tenant_id v, ea_id v)) (attempts r)"
| "wf_table T_observations r \<longleftrightarrow> keyed_lists (\<lambda>v. (ao_tenant_id v, ao_attempt_id v)) (observations r)"
| "wf_table T_normalized_payloads r \<longleftrightarrow> keyed (\<lambda>v. (np_tenant_id v, np_immutable_ref v)) (normalized_payloads r)"
| "wf_table T_poll_checkpoints r \<longleftrightarrow> keyed (\<lambda>v. (pc_tenant_id v, pc_provider v, pc_connection_id v)) (poll_checkpoints r)"
| "wf_table T_channel_orders r \<longleftrightarrow> keyed (\<lambda>v. (co_tenant_id v, co_id v)) (channel_orders r)"
| "wf_table T_order_lines r \<longleftrightarrow> keyed (\<lambda>v. (ol_tenant_id v, ol_id v)) (order_lines r)"
| "wf_table T_routing_decisions r \<longleftrightarrow> keyed (\<lambda>v. (rd_tenant_id v, rd_order_line_id v)) (routing_decisions r)"
| "wf_table T_purchase_orders r \<longleftrightarrow> keyed (\<lambda>v. (po_tenant_id v, po_id v)) (purchase_orders r)"
| "wf_table T_purchase_lines r \<longleftrightarrow> keyed (\<lambda>v. (pu_tenant_id v, pu_id v)) (purchase_lines r)"
| "wf_table T_tracking_observations r \<longleftrightarrow> keyed_lists (\<lambda>v. (trk_tenant_id v, trk_order_line_id v)) (tracking_observations r)"
| "wf_table T_claims r \<longleftrightarrow> keyed (\<lambda>v. (dc_tenant_id v, dc_id v)) (claims r)"
| "wf_table T_claim_status_observations r \<longleftrightarrow> keyed_lists (\<lambda>v. (cs_tenant_id v, cs_claim_id v)) (claim_status_observations r)"
| "wf_table T_settlement_batches r \<longleftrightarrow> keyed (\<lambda>v. (sb_tenant_id v, sb_id v)) (settlement_batches r)"
| "wf_table T_settlement_lines r \<longleftrightarrow> keyed (\<lambda>v. (sl_tenant_id v, sl_id v)) (settlement_lines r)"
| "wf_table T_realized_profits r \<longleftrightarrow> keyed (\<lambda>v. (rp_tenant_id v, rp_batch_id v, rp_order_id v)) (realized_profits r)"
| "wf_table T_catalog_imports r \<longleftrightarrow> keyed (\<lambda>v. (ci_tenant_id v, ci_id v)) (catalog_imports r)"
| "wf_table T_catalog_snapshots r \<longleftrightarrow> keyed (\<lambda>v. (sn_tenant_id v, sn_id v)) (catalog_snapshots r)"
| "wf_table T_canonical_products r \<longleftrightarrow> keyed (\<lambda>v. (cp_tenant_id v, cp_id v)) (canonical_products r)"
| "wf_table T_product_lineage r \<longleftrightarrow> keyed (\<lambda>v. (pl_tenant_id v, pl_source_snapshot_id v)) (product_lineage r)"
| "wf_table T_channel_offers r \<longleftrightarrow> keyed (\<lambda>v. (ofr_tenant_id v, ofr_id v)) (channel_offers r)"
| "wf_table T_tool_commands r \<longleftrightarrow> keyed (\<lambda>v. (tc_tenant_id v, tc_id v)) (tool_commands r)"
| "wf_table T_agent_runs r \<longleftrightarrow> keyed (\<lambda>v. (ar_tenant_id v, ar_id v)) (agent_runs r)"
| "wf_table T_byok_references r \<longleftrightarrow> keyed (\<lambda>v. (byok_tenant_id v, byok_provider v)) (byok_references r)"
| "wf_table T_budget_policies r \<longleftrightarrow> keyed bp_tenant_id (budget_policies r)"
| "wf_table T_budget_ledger r \<longleftrightarrow> keyed (\<lambda>v. (bl_tenant_id v, bl_id v)) (budget_ledger r)"
| "wf_table T_budget_requests r \<longleftrightarrow> keyed (\<lambda>v. (br_tenant_id v, br_idempotency_key v)) (budget_requests r)"
| "wf_table T_notification_preferences r \<longleftrightarrow> keyed (\<lambda>v. (pf_tenant_id v, pf_notification_key v)) (notification_preferences r)"
| "wf_table T_notification_deliveries r \<longleftrightarrow> keyed (\<lambda>v. (nd_tenant_id v, nd_id v)) (notification_deliveries r)"
| "wf_table T_incident_acknowledgements r \<longleftrightarrow> keyed (\<lambda>v. (ik_tenant_id v, ik_id v)) (incident_acknowledgements r)"
| "wf_table T_stop_controls r \<longleftrightarrow> keyed (\<lambda>v. (sc_tenant_id v, sc_scope_type v, sc_scope_ref v)) (stop_controls r)"
| "wf_table T_backup_manifests r \<longleftrightarrow> keyed (\<lambda>v. (bm_tenant_id v, bm_id v)) (backup_manifests r)"
| "wf_table T_inventory_snapshots r \<longleftrightarrow> keyed (\<lambda>v. (iv_tenant_id v, iv_id v)) (inventory_snapshots r)"
| "wf_table T_price_projections r \<longleftrightarrow> keyed (\<lambda>v. (pp_tenant_id v, pp_id v)) (price_projections r)"
| "wf_table T_browser_sessions r \<longleftrightarrow> keyed bs_token_digest (browser_sessions r)"
| "wf_table T_approval_confirmation_nonces r \<longleftrightarrow> keyed nc_token_digest (approval_confirmation_nonces r)"

definition wf_repo :: "repo \<Rightarrow> bool" where
  "wf_repo r \<longleftrightarrow> (\<forall>x. wf_table x r)"

subsection \<open>What a tenant sees\<close>

definition slice_by :: "('v \<Rightarrow> string) \<Rightarrow> string \<Rightarrow> ('k, 'v) dict \<Rightarrow> ('k, 'v) dict" where
  "slice_by f t d = filter (\<lambda>r. f (snd r) = t) d"


subsection \<open>Each write touches one table\<close>

primrec same_table :: "table \<Rightarrow> repo \<Rightarrow> repo \<Rightarrow> bool" where
  "same_table T_tenants r r' \<longleftrightarrow> tenants r' = tenants r"
| "same_table T_users r r' \<longleftrightarrow> users r' = users r"
| "same_table T_memberships r r' \<longleftrightarrow> memberships r' = memberships r"
| "same_table T_commands r r' \<longleftrightarrow> commands r' = commands r"
| "same_table T_approvals r r' \<longleftrightarrow> approvals r' = approvals r"
| "same_table T_command_idempotency r r' \<longleftrightarrow> command_idempotency r' = command_idempotency r"
| "same_table T_audit_events r r' \<longleftrightarrow> audit_events r' = audit_events r"
| "same_table T_outbox r r' \<longleftrightarrow> outbox r' = outbox r \<and> outbox_idempotency r' = outbox_idempotency r"
| "same_table T_agent_status r r' \<longleftrightarrow> agent_status r' = agent_status r"
| "same_table T_inbox r r' \<longleftrightarrow> inbox r' = inbox r"
| "same_table T_manifests r r' \<longleftrightarrow> manifests r' = manifests r"
| "same_table T_approval_intents r r' \<longleftrightarrow> approval_intents r' = approval_intents r"
| "same_table T_execution_preparations r r' \<longleftrightarrow> execution_preparations r' = execution_preparations r"
| "same_table T_demo_controls r r' \<longleftrightarrow> demo_controls r' = demo_controls r"
| "same_table T_attempts r r' \<longleftrightarrow> attempts r' = attempts r"
| "same_table T_observations r r' \<longleftrightarrow> observations r' = observations r"
| "same_table T_normalized_payloads r r' \<longleftrightarrow> normalized_payloads r' = normalized_payloads r"
| "same_table T_poll_checkpoints r r' \<longleftrightarrow> poll_checkpoints r' = poll_checkpoints r"
| "same_table T_channel_orders r r' \<longleftrightarrow> channel_orders r' = channel_orders r"
| "same_table T_order_lines r r' \<longleftrightarrow> order_lines r' = order_lines r"
| "same_table T_routing_decisions r r' \<longleftrightarrow> routing_decisions r' = routing_decisions r"
| "same_table T_purchase_orders r r' \<longleftrightarrow> purchase_orders r' = purchase_orders r"
| "same_table T_purchase_lines r r' \<longleftrightarrow> purchase_lines r' = purchase_lines r"
| "same_table T_tracking_observations r r' \<longleftrightarrow> tracking_observations r' = tracking_observations r"
| "same_table T_claims r r' \<longleftrightarrow> claims r' = claims r"
| "same_table T_claim_status_observations r r' \<longleftrightarrow> claim_status_observations r' = claim_status_observations r"
| "same_table T_settlement_batches r r' \<longleftrightarrow> settlement_batches r' = settlement_batches r"
| "same_table T_settlement_lines r r' \<longleftrightarrow> settlement_lines r' = settlement_lines r"
| "same_table T_realized_profits r r' \<longleftrightarrow> realized_profits r' = realized_profits r"
| "same_table T_catalog_imports r r' \<longleftrightarrow> catalog_imports r' = catalog_imports r"
| "same_table T_catalog_snapshots r r' \<longleftrightarrow> catalog_snapshots r' = catalog_snapshots r"
| "same_table T_canonical_products r r' \<longleftrightarrow> canonical_products r' = canonical_products r"
| "same_table T_product_lineage r r' \<longleftrightarrow> product_lineage r' = product_lineage r"
| "same_table T_channel_offers r r' \<longleftrightarrow> channel_offers r' = channel_offers r"
| "same_table T_tool_commands r r' \<longleftrightarrow> tool_commands r' = tool_commands r"
| "same_table T_agent_runs r r' \<longleftrightarrow> agent_runs r' = agent_runs r"
| "same_table T_byok_references r r' \<longleftrightarrow> byok_references r' = byok_references r"
| "same_table T_budget_policies r r' \<longleftrightarrow> budget_policies r' = budget_policies r"
| "same_table T_budget_ledger r r' \<longleftrightarrow> budget_ledger r' = budget_ledger r"
| "same_table T_budget_requests r r' \<longleftrightarrow> budget_requests r' = budget_requests r"
| "same_table T_notification_preferences r r' \<longleftrightarrow> notification_preferences r' = notification_preferences r"
| "same_table T_notification_deliveries r r' \<longleftrightarrow> notification_deliveries r' = notification_deliveries r"
| "same_table T_incident_acknowledgements r r' \<longleftrightarrow> incident_acknowledgements r' = incident_acknowledgements r"
| "same_table T_stop_controls r r' \<longleftrightarrow> stop_controls r' = stop_controls r"
| "same_table T_backup_manifests r r' \<longleftrightarrow> backup_manifests r' = backup_manifests r"
| "same_table T_inventory_snapshots r r' \<longleftrightarrow> inventory_snapshots r' = inventory_snapshots r"
| "same_table T_price_projections r r' \<longleftrightarrow> price_projections r' = price_projections r"
| "same_table T_browser_sessions r r' \<longleftrightarrow> browser_sessions r' = browser_sessions r"
| "same_table T_approval_confirmation_nonces r r' \<longleftrightarrow> approval_confirmation_nonces r' = approval_confirmation_nonces r"

lemma same_table_refl: "same_table x r r"
  by (cases x) simp_all

lemma same_table_trans: "same_table x r r' \<Longrightarrow> same_table x r' r'' \<Longrightarrow> same_table x r r''"
  by (cases x) simp_all

lemma all_tables: "(\<forall>x. P x) \<longleftrightarrow> P T_tenants \<and>
    P T_users \<and>
    P T_memberships \<and>
    P T_commands \<and>
    P T_approvals \<and>
    P T_command_idempotency \<and>
    P T_audit_events \<and>
    P T_outbox \<and>
    P T_agent_status \<and>
    P T_inbox \<and>
    P T_manifests \<and>
    P T_approval_intents \<and>
    P T_execution_preparations \<and>
    P T_demo_controls \<and>
    P T_attempts \<and>
    P T_observations \<and>
    P T_normalized_payloads \<and>
    P T_poll_checkpoints \<and>
    P T_channel_orders \<and>
    P T_order_lines \<and>
    P T_routing_decisions \<and>
    P T_purchase_orders \<and>
    P T_purchase_lines \<and>
    P T_tracking_observations \<and>
    P T_claims \<and>
    P T_claim_status_observations \<and>
    P T_settlement_batches \<and>
    P T_settlement_lines \<and>
    P T_realized_profits \<and>
    P T_catalog_imports \<and>
    P T_catalog_snapshots \<and>
    P T_canonical_products \<and>
    P T_product_lineage \<and>
    P T_channel_offers \<and>
    P T_tool_commands \<and>
    P T_agent_runs \<and>
    P T_byok_references \<and>
    P T_budget_policies \<and>
    P T_budget_ledger \<and>
    P T_budget_requests \<and>
    P T_notification_preferences \<and>
    P T_notification_deliveries \<and>
    P T_incident_acknowledgements \<and>
    P T_stop_controls \<and>
    P T_backup_manifests \<and>
    P T_inventory_snapshots \<and>
    P T_price_projections \<and>
    P T_browser_sessions \<and>
    P T_approval_confirmation_nonces" (is "_ \<longleftrightarrow> ?all")
proof (intro iffI allI)
  fix x assume ?all
  then show "P x" by (cases x) simp_all
qed simp

lemma write_other_tables: "repo_write h t l r r' \<Longrightarrow> \<forall>x. x \<noteq> l \<longrightarrow> same_table x r r'"
  unfolding all_tables by (erule repo_write.cases) (simp_all add: append_audit_def)

lemma write_other_table: "repo_write h t l r r' \<Longrightarrow> x \<noteq> l \<Longrightarrow> same_table x r r'"
  using write_other_tables by blast

text \<open>Two repositories agree on a tenant's rows of a table; users are global and left out.\<close>

primrec same_view :: "string \<Rightarrow> table \<Rightarrow> repo \<Rightarrow> repo \<Rightarrow> bool" where
  "same_view t T_tenants r r' \<longleftrightarrow> filter (\<lambda>x. fst x = t) (tenants r') = filter (\<lambda>x. fst x = t) (tenants r)"
| "same_view t T_users r r' \<longleftrightarrow> True = True"
| "same_view t T_memberships r r' \<longleftrightarrow> slice t (memberships r') = slice t (memberships r)"
| "same_view t T_commands r r' \<longleftrightarrow> slice t (commands r') = slice t (commands r)"
| "same_view t T_approvals r r' \<longleftrightarrow> slice t (approvals r') = slice t (approvals r)"
| "same_view t T_command_idempotency r r' \<longleftrightarrow> slice t (command_idempotency r') = slice t (command_idempotency r)"
| "same_view t T_audit_events r r' \<longleftrightarrow> filter (\<lambda>x. fst x = t) (audit_events r') = filter (\<lambda>x. fst x = t) (audit_events r)"
| "same_view t T_outbox r r' \<longleftrightarrow> slice t (outbox r') = slice t (outbox r)
     \<and> slice t (outbox_idempotency r') = slice t (outbox_idempotency r)"
| "same_view t T_agent_status r r' \<longleftrightarrow> slice t (agent_status r') = slice t (agent_status r)"
| "same_view t T_inbox r r' \<longleftrightarrow> slice t (inbox r') = slice t (inbox r)"
| "same_view t T_manifests r r' \<longleftrightarrow> slice t (manifests r') = slice t (manifests r)"
| "same_view t T_approval_intents r r' \<longleftrightarrow> slice t (approval_intents r') = slice t (approval_intents r)"
| "same_view t T_execution_preparations r r' \<longleftrightarrow> slice t (execution_preparations r') = slice t (execution_preparations r)"
| "same_view t T_demo_controls r r' \<longleftrightarrow> slice t (demo_controls r') = slice t (demo_controls r)"
| "same_view t T_attempts r r' \<longleftrightarrow> slice t (attempts r') = slice t (attempts r)"
| "same_view t T_observations r r' \<longleftrightarrow> slice t (observations r') = slice t (observations r)"
| "same_view t T_normalized_payloads r r' \<longleftrightarrow> slice t (normalized_payloads r') = slice t (normalized_payloads r)"
| "same_view t T_poll_checkpoints r r' \<longleftrightarrow> slice t (poll_checkpoints r') = slice t (poll_checkpoints r)"
| "same_view t T_channel_orders r r' \<longleftrightarrow> slice t (channel_orders r') = slice t (channel_orders r)"
| "same_view t T_order_lines r r' \<longleftrightarrow> slice t (order_lines r') = slice t (order_lines r)"
| "same_view t T_routing_decisions r r' \<longleftrightarrow> slice t (routing_decisions r') = slice t (routing_decisions r)"
| "same_view t T_purchase_orders r r' \<longleftrightarrow> slice t (purchase_orders r') = slice t (purchase_orders r)"
| "same_view t T_purchase_lines r r' \<longleftrightarrow> slice t (purchase_lines r') = slice t (purchase_lines r)"
| "same_view t T_tracking_observations r r' \<longleftrightarrow> slice t (tracking_observations r') = slice t (tracking_observations r)"
| "same_view t T_claims r r' \<longleftrightarrow> slice t (claims r') = slice t (claims r)"
| "same_view t T_claim_status_observations r r' \<longleftrightarrow> slice t (claim_status_observations r') = slice t (claim_status_observations r)"
| "same_view t T_settlement_batches r r' \<longleftrightarrow> slice t (settlement_batches r') = slice t (settlement_batches r)"
| "same_view t T_settlement_lines r r' \<longleftrightarrow> slice t (settlement_lines r') = slice t (settlement_lines r)"
| "same_view t T_realized_profits r r' \<longleftrightarrow> slice t (realized_profits r') = slice t (realized_profits r)"
| "same_view t T_catalog_imports r r' \<longleftrightarrow> slice t (catalog_imports r') = slice t (catalog_imports r)"
| "same_view t T_catalog_snapshots r r' \<longleftrightarrow> slice t (catalog_snapshots r') = slice t (catalog_snapshots r)"
| "same_view t T_canonical_products r r' \<longleftrightarrow> slice t (canonical_products r') = slice t (canonical_products r)"
| "same_view t T_product_lineage r r' \<longleftrightarrow> slice t (product_lineage r') = slice t (product_lineage r)"
| "same_view t T_channel_offers r r' \<longleftrightarrow> slice t (channel_offers r') = slice t (channel_offers r)"
| "same_view t T_tool_commands r r' \<longleftrightarrow> slice t (tool_commands r') = slice t (tool_commands r)"
| "same_view t T_agent_runs r r' \<longleftrightarrow> slice t (agent_runs r') = slice t (agent_runs r)"
| "same_view t T_byok_references r r' \<longleftrightarrow> slice t (byok_references r') = slice t (byok_references r)"
| "same_view t T_budget_policies r r' \<longleftrightarrow> filter (\<lambda>x. fst x = t) (budget_policies r') = filter (\<lambda>x. fst x = t) (budget_policies r)"
| "same_view t T_budget_ledger r r' \<longleftrightarrow> slice t (budget_ledger r') = slice t (budget_ledger r)"
| "same_view t T_budget_requests r r' \<longleftrightarrow> slice t (budget_requests r') = slice t (budget_requests r)"
| "same_view t T_notification_preferences r r' \<longleftrightarrow> slice t (notification_preferences r') = slice t (notification_preferences r)"
| "same_view t T_notification_deliveries r r' \<longleftrightarrow> slice t (notification_deliveries r') = slice t (notification_deliveries r)"
| "same_view t T_incident_acknowledgements r r' \<longleftrightarrow> slice t (incident_acknowledgements r') = slice t (incident_acknowledgements r)"
| "same_view t T_stop_controls r r' \<longleftrightarrow> slice t (stop_controls r') = slice t (stop_controls r)"
| "same_view t T_backup_manifests r r' \<longleftrightarrow> slice t (backup_manifests r') = slice t (backup_manifests r)"
| "same_view t T_inventory_snapshots r r' \<longleftrightarrow> slice t (inventory_snapshots r') = slice t (inventory_snapshots r)"
| "same_view t T_price_projections r r' \<longleftrightarrow> slice t (price_projections r') = slice t (price_projections r)"
| "same_view t T_browser_sessions r r' \<longleftrightarrow> slice_by bs_tenant_id t (browser_sessions r') = slice_by bs_tenant_id t (browser_sessions r)"
| "same_view t T_approval_confirmation_nonces r r' \<longleftrightarrow> slice_by nc_tenant_id t (approval_confirmation_nonces r') = slice_by nc_tenant_id t (approval_confirmation_nonces r)"

definition same_tenant :: "string \<Rightarrow> repo \<Rightarrow> repo \<Rightarrow> bool" where
  "same_tenant t r r' \<longleftrightarrow> (\<forall>x. same_view t x r r')"

lemma writes_frame: "writes h t L r r' \<Longrightarrow> x \<notin> L \<Longrightarrow> same_table x r r'"
  unfolding writes_def
proof (induction rule: rtranclp_induct)
  case (step y z)
  then show ?case using write_other_table same_table_trans by metis
qed (rule same_table_refl)

lemma writes_refl [simp]: "writes h t L r r"
  by (simp add: writes_def)

lemma writes_trans: "writes h t L r r' \<Longrightarrow> writes h t L r' r'' \<Longrightarrow> writes h t L r r''"
  unfolding writes_def by (rule rtranclp_trans)

lemma writes_one: "repo_write h t l r r' \<Longrightarrow> l \<in> L \<Longrightarrow> writes h t L r r'"
  unfolding writes_def by (rule r_into_rtranclp) blast

lemma writes_then: "writes h t L r r' \<Longrightarrow> repo_write h t l r' r'' \<Longrightarrow> l \<in> L \<Longrightarrow> writes h t L r r''"
  by (rule writes_trans [OF _ writes_one])

lemma writes_mono: "writes h t L r r' \<Longrightarrow> L \<subseteq> M \<Longrightarrow> writes h t M r r'"
  unfolding writes_def by (rule rtranclp_mono [THEN predicate2D, rotated]) auto

lemma writes_inv:
  assumes "writes h t L r r'" "I r"
    and "\<And>l a b. l \<in> L \<Longrightarrow> I a \<Longrightarrow> repo_write h t l a b \<Longrightarrow> I b"
  shows "I r'"
  using assms(1,2) unfolding writes_def by (induction rule: rtranclp_induct) (auto intro: assms(3))

subsection \<open>Writes keep every row under its key\<close>

lemma keyed_dset: "keyed f d \<Longrightarrow> f v = k \<Longrightarrow> keyed f (dset k v d)"
  using set_dset_sub by (fastforce simp: keyed_def distinct_dset)

lemma keyed_lists_dset:
  "keyed_lists f d \<Longrightarrow> (\<And>v. v \<in> set vs \<Longrightarrow> f v = k) \<Longrightarrow> keyed_lists f (dset k vs d)"
  using set_dset_sub by (fastforce simp: keyed_lists_def distinct_dset)

lemma keyed_dget: "keyed f d \<Longrightarrow> dget d k = Some v \<Longrightarrow> f v = k"
  by (auto simp: keyed_def dest: dget_in)

lemma keyed_in: "keyed f d \<Longrightarrow> (k, v) \<in> set d \<Longrightarrow> f v = k"
  by (simp add: keyed_def)

lemma keyed_lists_dget: "keyed_lists f d \<Longrightarrow> dget d k = Some vs \<Longrightarrow> v \<in> set vs \<Longrightarrow> f v = k"
  by (auto simp: keyed_lists_def dest: dget_in)

lemma keyed_empty [simp]: "keyed f []" "keyed_lists g []"
  by (simp_all add: keyed_def keyed_lists_def)

lemma wf_empty: "wf_repo empty_repo"
  unfolding wf_repo_def
proof
  show "wf_table x empty_repo" for x by (cases x) (simp_all add: empty_repo_def outbox_indexed_def)
qed

lemma wf_tableD: "wf_repo r \<Longrightarrow> wf_table x r"
  by (simp add: wf_repo_def)

lemma wf_audits: "wf_table T_audit_events r \<Longrightarrow> e \<in> set (audits_for t r) \<Longrightarrow> au_tenant_id e = t"
  by (cases "dget (audit_events r) t")
    (auto simp: audits_for_def intro: keyed_lists_dget [where f = au_tenant_id])

lemma wf_same_table: "same_table x r r' \<Longrightarrow> wf_table x r \<Longrightarrow> wf_table x r'"
  by (cases x) (simp_all add: outbox_indexed_def)

lemma outbox_indexed_append:
  "outbox_indexed r \<Longrightarrow> dget (outbox_idempotency r) (ob_tenant_id v, ob_idempotency_key v) = None \<Longrightarrow>
     outbox_indexed (r\<lparr>outbox := dset (ob_tenant_id v, ob_id v) v (outbox r),
        outbox_idempotency := dset (ob_tenant_id v, ob_idempotency_key v) (ob_id v) (outbox_idempotency r)\<rparr>)"
  using set_dset_sub unfolding outbox_indexed_def by (fastforce simp: dget_dset)

lemma outbox_indexed_update:
  "outbox_indexed r \<Longrightarrow> dget (outbox r) (ob_tenant_id v, ob_id v) = Some u \<Longrightarrow>
     keyed (\<lambda>v. (ob_tenant_id v, ob_id v)) (outbox r) \<Longrightarrow> ob_idempotency_key v = ob_idempotency_key u \<Longrightarrow>
     outbox_indexed (r\<lparr>outbox := dset (ob_tenant_id v, ob_id v) v (outbox r)\<rparr>)"
proof -
  assume a: "outbox_indexed r" "dget (outbox r) (ob_tenant_id v, ob_id v) = Some u"
    "keyed (\<lambda>v. (ob_tenant_id v, ob_id v)) (outbox r)" "ob_idempotency_key v = ob_idempotency_key u"
  then have "ob_tenant_id u = ob_tenant_id v" "ob_id u = ob_id v" using keyed_dget by fastforce+
  moreover have "((ob_tenant_id v, ob_id v), u) \<in> set (outbox r)" using a(2) by (rule dget_in)
  ultimately have "dget (outbox_idempotency r) (ob_tenant_id v, ob_idempotency_key v) = Some (ob_id v)"
    using a(1,4) unfolding outbox_indexed_def by fastforce
  with a(1) set_dset_sub show ?thesis unfolding outbox_indexed_def by fastforce
qed

lemma wf_written_table: "repo_write h t l r r' \<Longrightarrow> wf_table l r \<Longrightarrow> wf_table l r'"
proof (induction rule: repo_write.induct)
  case (W_audit_events e r)
  have "keyed_lists au_tenant_id
      (dset (au_tenant_id e) (audits_for (au_tenant_id e) r @ [e]) (audit_events r))"
    by (rule keyed_lists_dset)
      (use W_audit_events(4) in \<open>auto intro: wf_audits [OF W_audit_events(4)]\<close>)
  then show ?case by (simp add: append_audit_def)
next
  case (W_outbox v r)
  then show ?case by (auto simp: keyed_dset dest: outbox_indexed_append)
next
  case (W_outbox_update v r u)
  then show ?case by (auto simp: keyed_dset dest: outbox_indexed_update)
qed (simp_all add: keyed_dset keyed_lists_dset distinct_dset)

lemma wf_write:
  assumes w: "repo_write h t l r r'" and wf: "wf_repo r"
  shows "wf_repo r'"
  unfolding wf_repo_def
proof
  fix x
  show "wf_table x r'"
  proof (cases "x = l")
    case True
    then show ?thesis using wf_written_table [OF w] wf_tableD [OF wf] by simp
  next
    case False
    show ?thesis by (rule wf_same_table [OF write_other_table [OF w False] wf_tableD [OF wf]])
  qed
qed

lemma wf_writes: "writes h t L r r' \<Longrightarrow> wf_repo r \<Longrightarrow> wf_repo r'"
  by (rule writes_inv [where I = wf_repo]) (auto intro: wf_write)

subsection \<open>Calls that only write for one tenant\<close>

definition acts :: "(string \<Rightarrow> string) \<Rightarrow> string \<Rightarrow> table set \<Rightarrow> 'a svc \<Rightarrow> ('a \<Rightarrow> bool) \<Rightarrow> bool" where
  "acts h t L m Q \<longleftrightarrow> (\<forall>r0. keeps h (\<lambda>r. wf_repo r \<and> writes h t L r0 r) m Q)"

lemma actsD:
  assumes "acts h t L m Q" "sha256 s = h" "wf_repo (db s)" "m s = (x, s')"
  shows "sha256 s' = h" "wf_repo (db s')" "writes h t L (db s) (db s')" "\<And>a. x = Inr a \<Longrightarrow> Q a"
  using keepsD [OF assms(1) [unfolded acts_def, rule_format, of "db s"] assms(2) _ assms(4)] assms(3)
  by simp_all

lemma actsI:
  assumes "\<And>s x s'. sha256 s = h \<Longrightarrow> wf_repo (db s) \<Longrightarrow> m s = (x, s') \<Longrightarrow>
      sha256 s' = h \<and> writes h t L (db s) (db s') \<and> (\<forall>a. x = Inr a \<longrightarrow> Q a)"
  shows "acts h t L m Q"
  unfolding acts_def
proof (intro allI keepsI)
  fix r0 and s s' :: world and x
  assume s: "sha256 s = h" "wf_repo (db s) \<and> writes h t L r0 (db s)" "m s = (x, s')"
  from s(2) have wf: "wf_repo (db s)" and w: "writes h t L r0 (db s)" by simp_all
  note * = assms [OF s(1) wf s(3)]
  show "sha256 s' = h \<and> (wf_repo (db s') \<and> writes h t L r0 (db s')) \<and> (\<forall>a. x = Inr a \<longrightarrow> Q a)"
    using * wf w wf_writes writes_trans by blast
qed

named_theorems acts_rules \<open>what the parts of a call may write\<close>

lemma acts_weaken: "acts h t L m Q' \<Longrightarrow> (\<And>a. Q' a \<Longrightarrow> Q a) \<Longrightarrow> acts h t L m Q"
  unfolding acts_def using keeps_weaken by blast

lemma acts_any: "acts h t L m Q \<Longrightarrow> acts h t L m (\<lambda>_. True)"
  by (erule acts_weaken) simp

lemma acts_mono: "acts h t L m Q \<Longrightarrow> L \<subseteq> M \<Longrightarrow> acts h t M m Q"
  by (rule actsI) (blast dest: actsD(1,3,4) intro: writes_mono)

lemma acts_ret [acts_rules]: "Q a \<Longrightarrow> acts h t L (ret a) Q"
  by (simp add: acts_def keeps_ret)

lemma acts_throw [acts_rules]: "acts h t L (throw e) Q"
  by (simp add: acts_def keeps_throw)

lemma acts_bnd: "acts h t L m P \<Longrightarrow> (\<And>a. P a \<Longrightarrow> acts h t L (f a) Q) \<Longrightarrow> acts h t L (bnd m f) Q"
  unfolding acts_def using keeps_bnd by blast

lemma acts_bnd_any [acts_rules]:
  "acts h t L m (\<lambda>_. True) \<Longrightarrow> (\<And>a. acts h t L (f a) Q) \<Longrightarrow> acts h t L (bnd m f) Q"
  by (rule acts_bnd)

lemma acts_seq [acts_rules]: "acts h t L m (\<lambda>_. True) \<Longrightarrow> acts h t L k Q \<Longrightarrow> acts h t L (seq m k) Q"
  unfolding acts_def using keeps_seq by blast

lemma acts_ensure [acts_rules]: "(b \<Longrightarrow> acts h t L k Q) \<Longrightarrow> acts h t L (ensure b e k) Q"
  by (simp add: acts_def keeps_ensure)

lemma acts_catch [acts_rules]: "acts h t L m Q \<Longrightarrow> (\<And>e. acts h t L (k e) Q) \<Longrightarrow> acts h t L (catch m k) Q"
  unfolding acts_def using keeps_catch by blast

lemma acts_transaction [acts_rules]: "acts h t L m Q \<Longrightarrow> acts h t L (transaction m) Q"
  by (simp add: acts_def keeps_transaction)

lemma acts_if [acts_rules]:
  "(b \<Longrightarrow> acts h t L m Q) \<Longrightarrow> (\<not> b \<Longrightarrow> acts h t L k Q) \<Longrightarrow> acts h t L (if b then m else k) Q"
  by simp

lemma acts_option [acts_rules]:
  "(x = None \<Longrightarrow> acts h t L m Q) \<Longrightarrow> (\<And>a. x = Some a \<Longrightarrow> acts h t L (f a) Q) \<Longrightarrow>
     acts h t L (case x of None \<Rightarrow> m | Some a \<Rightarrow> f a) Q"
  by (cases x) simp_all

lemma acts_prod [acts_rules]:
  "(\<And>a b. x = (a, b) \<Longrightarrow> acts h t L (f a b) Q) \<Longrightarrow> acts h t L (case x of (a, b) \<Rightarrow> f a b) Q"
  by (cases x) simp

lemma acts_let [acts_rules]: "acts h t L (f x) Q \<Longrightarrow> acts h t L (let y = x in f y) Q"
  by simp

lemma acts_env [acts_rules]:
  "acts h t L uuid4 (\<lambda>_. True)" "acts h t L clock (\<lambda>_. True)"
  "acts h t L token_urlsafe (\<lambda>_. True)" "acts h t L (sha256_hex x) (\<lambda>_. True)"
  "acts h t L (digest y) (\<lambda>_. True)" "acts h t L (of_sum c) (\<lambda>_. True)"
  by (simp_all add: acts_def digest_def keeps_env keeps_any [OF keeps_env(4)] keeps_any [OF keeps_env(7)])

lemma acts_digest: "acts h t L (digest y) (\<lambda>v. v = h (canonical y))"
  by (simp add: acts_def keeps_env digest_def)

lemma acts_reads: "(\<And>r. wf_repo r \<Longrightarrow> Q (g r)) \<Longrightarrow> acts h t L (reads g) Q"
  by (auto simp: acts_def intro!: keeps_reads)

lemma acts_query: "(\<And>r a. wf_repo r \<Longrightarrow> f r = Inr a \<Longrightarrow> Q a) \<Longrightarrow> acts h t L (query f) Q"
  by (auto simp: acts_def intro!: keeps_query)

lemma acts_reads_any [acts_rules]: "acts h t L (reads g) (\<lambda>_. True)"
  by (rule acts_reads) simp

lemma acts_query_any [acts_rules]: "acts h t L (query f) (\<lambda>_. True)"
  by (rule acts_query) simp

lemma acts_of_sum: "acts h t L (of_sum c) (\<lambda>a. c = Inr a)"
  by (simp add: acts_def keeps_env)

lemma acts_modify: "(\<And>r. wf_repo r \<Longrightarrow> writes h t L r (f r)) \<Longrightarrow> acts h t L (modify f) (\<lambda>_. True)"
  by (rule actsI) (auto simp: op_simps)

lemma acts_mutate:
  "(\<And>r a r'. wf_repo r \<Longrightarrow> f r = Inr (a, r') \<Longrightarrow> writes h t L r r' \<and> Q a) \<Longrightarrow> acts h t L (mutate f) Q"
  by (rule actsI) (auto simp: op_simps split: sum.splits)

lemma acts_foreach [acts_rules]:
  "(\<And>x. x \<in> set xs \<Longrightarrow> acts h t L (f x) (\<lambda>_. True)) \<Longrightarrow> acts h t L (foreach xs f) (\<lambda>_. True)"
  by (simp add: acts_def keeps_foreach)

lemma acts_mapM:
  "(\<And>x. x \<in> set xs \<Longrightarrow> acts h t L (f x) Q) \<Longrightarrow> acts h t L (mapM f xs) (\<lambda>ys. list_all Q ys)"
  by (simp add: acts_def keeps_mapM)

lemma acts_mapM_any [acts_rules]:
  "(\<And>x. x \<in> set xs \<Longrightarrow> acts h t L (f x) (\<lambda>_. True)) \<Longrightarrow> acts h t L (mapM f xs) (\<lambda>_. True)"
  by (rule acts_any [OF acts_mapM])

lemma acts_foldM:
  "(\<And>b x. x \<in> set xs \<Longrightarrow> Q b \<Longrightarrow> acts h t L (f b x) Q) \<Longrightarrow> Q b \<Longrightarrow> acts h t L (foldM f b xs) Q"
  by (simp add: acts_def keeps_foldM)

lemma acts_void [acts_rules]: "acts h t L m Q \<Longrightarrow> acts h t L (void m) (\<lambda>_. True)"
  unfolding acts_def using keeps_void by blast

lemma acts_audit [acts_rules]:
  "T_audit_events \<in> L \<Longrightarrow> acts h t L (audit t actor action target outcome meta) (\<lambda>_. True)"
  by (rule actsI) (auto simp: audit_run audit_entry_links intro!: writes_one W_audit_events)

subsection \<open>Invariants that every write keeps\<close>

locale guarded_writes =
  fixes h :: "string \<Rightarrow> string" and t :: string and I :: "repo \<Rightarrow> bool"
  assumes write_keeps: "repo_write h t l r r' \<Longrightarrow> wf_repo r \<Longrightarrow> I r \<Longrightarrow> I r'"
begin

lemma writes_keep:
  assumes "writes h t L r r'" "wf_repo r" "I r"
  shows "I r'"
proof -
  have "wf_repo r' \<and> I r'"
    by (rule writes_inv [where I = "\<lambda>r. wf_repo r \<and> I r", OF assms(1)])
      (use assms in \<open>auto intro: wf_write write_keeps\<close>)
  then show ?thesis by simp
qed

lemma acts_keep:
  assumes "acts h t L m Q" "sha256 s = h" "wf_repo (db s)" "I (db s)"
  shows "I (db (snd (m s)))"
  using actsD(3) [OF assms(1-3) surjective_pairing] assms(3,4) by (rule writes_keep)

end

lemma slice_by_dset_other:
  "(\<And>u. dget d k = Some u \<Longrightarrow> f u \<noteq> t') \<Longrightarrow> f v \<noteq> t' \<Longrightarrow> slice_by f t' (dset k v d) = slice_by f t' d"
  by (induction d) (auto simp: slice_by_def)

lemma slice_by_dset_new:
  "k \<notin> fst ` set d \<Longrightarrow> f v \<noteq> t' \<Longrightarrow> slice_by f t' (dset k v d) = slice_by f t' d"
  by (induction d) (auto simp: slice_by_def)

lemma filter_fst_dset_other: "k \<noteq> t' \<Longrightarrow> filter (\<lambda>x. fst x = t') (dset k v d) = filter (\<lambda>x. fst x = t') d"
  by (induction d) auto

lemma same_view_refl: "same_view t x r r"
  by (cases x) simp_all

lemma same_view_trans: "same_view t x r r' \<Longrightarrow> same_view t x r' r'' \<Longrightarrow> same_view t x r r''"
  by (cases x) simp_all

lemma same_tenant_refl [simp]: "same_tenant t r r"
  by (simp add: same_tenant_def same_view_refl)

lemma same_tenant_trans: "same_tenant t r r' \<Longrightarrow> same_tenant t r' r'' \<Longrightarrow> same_tenant t r r''"
  unfolding same_tenant_def using same_view_trans by blast

lemma same_table_view: "same_table x r r' \<Longrightarrow> same_view t x r r'"
  by (cases x) simp_all

lemma write_same_view: "repo_write h t l r r' \<Longrightarrow> t' \<noteq> t \<Longrightarrow> same_view t' l r r'"
  by (erule repo_write.cases)
    (simp_all add: append_audit_def slice_dset_other slice_by_dset_other slice_by_dset_new
      map_of_eq_None_iff filter_fst_dset_other)

lemma write_other_tenant:
  assumes w: "repo_write h t l r r'" and t': "t' \<noteq> t"
  shows "same_tenant t' r r'"
  unfolding same_tenant_def
proof
  fix x
  show "same_view t' x r r'"
  proof (cases "x = l")
    case True
    then show ?thesis using write_same_view [OF w t'] by simp
  next
    case False
    show ?thesis by (rule same_table_view [OF write_other_table [OF w False]])
  qed
qed

interpretation isolation: guarded_writes h t "\<lambda>r. t' \<noteq> t \<longrightarrow> same_tenant t' r0 r" for h t t' r0
  by unfold_locales (blast intro: same_tenant_trans write_other_tenant)

inductive_cases audit_writeE: "repo_write h t T_audit_events r r'"

lemma write_audits:
  "repo_write h t l r r' \<Longrightarrow> audits_for t' r' = audits_for t' r \<or>
     (\<exists>e. audits_for t' r' = audits_for t' r @ [e] \<and> au_prev_hash e = last_hash (audits_for t' r)
        \<and> au_event_hash e = h (canonical (event_material e (last_hash (audits_for t' r)))))"
proof (cases "l = T_audit_events")
  case True
  moreover assume "repo_write h t l r r'"
  ultimately show ?thesis by (auto elim!: audit_writeE)
next
  case False
  moreover assume "repo_write h t l r r'"
  ultimately have "same_table T_audit_events r r'" by (auto dest: write_other_table)
  then show ?thesis by (auto intro: audits_for_cong)
qed

interpretation audit_prefix: guarded_writes h t "\<lambda>r. prefix es (audits_for t' r)" for h t t' es
proof
  fix l r r' assume "repo_write h t l r r'" "prefix es (audits_for t' r)"
  then show "prefix es (audits_for t' r')"
    using write_audits [of h t l r r' t'] by (auto intro: prefix_prefix)
qed

interpretation audit_links: guarded_writes h t "chains_ok h" for h t
proof
  fix l r r' assume w: "repo_write h t l r r'" and ok: "chains_ok h r"
  show "chains_ok h r'"
    unfolding chains_ok_def
  proof
    fix t'
    have "chain_from h None (audits_for t' r)" using ok by (simp add: chains_ok_def)
    with write_audits [OF w, of t'] show "chain_from h None (audits_for t' r')"
      by (auto simp: chain_from_append last_hash_def)
  qed
qed

end
