(* ===== verification/Identity.thy ===== *)
theory Identity
  imports Writes
begin

section \<open>Tenants, members and capabilities\<close>

text \<open>
  The tenant, user and membership tables of repository.py and the membership operations of
  \<open>StoreControlPlane\<close>: \<open>_membership\<close>, \<open>require\<close>, \<open>context_for\<close>, \<open>bootstrap_tenant\<close>,
  \<open>add_member\<close>, \<open>change_member_roles\<close>, \<open>revoke_member\<close>.  A context carries the version of
  the membership it was issued for; any later change makes it stale.
\<close>

subsection \<open>Repository methods\<close>

definition add_tenant :: "tenant \<Rightarrow> repo \<Rightarrow> repo" where
  "add_tenant t r = r\<lparr>tenants := dset (tn_id t) t (tenants r)\<rparr>"

definition find_user_by_email :: "string \<Rightarrow> repo \<Rightarrow> user option" where
  "find_user_by_email email r = first (\<lambda>u. us_email u = email) (map snd (users r))"

definition add_user :: "user \<Rightarrow> repo \<Rightarrow> err + (unit \<times> repo)" where
  "add_user u r = (case find_user_by_email (us_email u) r of
       Some existing \<Rightarrow>
         if us_id existing \<noteq> us_id u then Inl (ConflictError ''email already registered'')
         else Inr ((), r\<lparr>users := dset (us_id u) u (users r)\<rparr>)
     | None \<Rightarrow> Inr ((), r\<lparr>users := dset (us_id u) u (users r)\<rparr>))"

definition save_membership :: "membership \<Rightarrow> repo \<Rightarrow> repo" where
  "save_membership m r = r\<lparr>memberships := dset (mb_tenant_id m, mb_user_id m) m (memberships r)\<rparr>"

definition get_user :: "string \<Rightarrow> repo \<Rightarrow> err + user" where
  "get_user i r = (case dget (users r) i of
     None \<Rightarrow> Inl (NotFoundError ''user not found'') | Some u \<Rightarrow> Inr u)"

definition get_membership :: "string \<Rightarrow> string \<Rightarrow> repo \<Rightarrow> err + membership" where
  "get_membership t u r = (case dget (memberships r) (t, u) of
     None \<Rightarrow> Inl (NotFoundError ''membership not found'') | Some m \<Rightarrow> Inr m)"

definition tenant_memberships :: "string \<Rightarrow> repo \<Rightarrow> membership list" where
  "tenant_memberships t r = rows t (memberships r)"

definition save_agent_status :: "agent_status_snapshot \<Rightarrow> repo \<Rightarrow> repo" where
  "save_agent_status st r = r\<lparr>agent_status := dset (ag_tenant_id st, ag_agent_id st) st (agent_status r)\<rparr>"

definition agent_status_for :: "string \<Rightarrow> repo \<Rightarrow> agent_status_snapshot list" where
  "agent_status_for t r = rows t (sort_key fst (agent_status r))"

subsection \<open>Service operations\<close>

definition member_capabilities :: "membership \<Rightarrow> capability set" where
  "member_capabilities m = \<Union> (role_capabilities ` mb_roles m)"

definition membership_of :: "tenant_context \<Rightarrow> membership svc" where
  "membership_of ctx =
     bnd (query (get_membership (ctx_tenant_id ctx) (ctx_user_id ctx))) (\<lambda>m.
     ensure (mb_active m \<and> mb_version m = ctx_membership_version ctx)
       (AuthorizationError ''session is stale or revoked'')
     (ret m))"

definition require :: "tenant_context \<Rightarrow> capability \<Rightarrow> unit svc" where
  "require ctx c =
     bnd (membership_of ctx) (\<lambda>m.
     ensure (c \<in> member_capabilities m) (AuthorizationError ''missing capability'') (ret ()))"

definition context_for :: "string \<Rightarrow> string \<Rightarrow> tenant_context svc" where
  "context_for t u =
     bnd (query (get_membership t u)) (\<lambda>m.
     ensure (mb_active m) (AuthorizationError ''membership revoked'')
     (ret \<lparr>ctx_tenant_id = t, ctx_user_id = u, ctx_membership_version = mb_version m\<rparr>))"

definition unknown_agent :: "string \<Rightarrow> string \<Rightarrow> string \<Rightarrow> time \<Rightarrow> agent_status_snapshot" where
  "unknown_agent t agent role now = \<lparr>ag_tenant_id = t, ag_agent_id = agent, ag_role = role,
     ag_state = Agt_UNKNOWN, ag_current_task = None, ag_started_at = None,
     ag_last_heartbeat_at = None, ag_ended_at = None, ag_last_message = None,
     ag_last_commit = None, ag_test_result = None, ag_next_task = None, ag_blocker = None,
     ag_usage_limited = False, ag_updated_at = now\<rparr>"

text \<open>The body of \<open>bootstrap_tenant\<close> once the clock is read and the tenant's identifier drawn.\<close>

definition bootstrap_rows :: "time \<Rightarrow> string \<Rightarrow> string \<Rightarrow> string \<Rightarrow> tenant_context svc" where
  "bootstrap_rows now tid legal_name master_email =
     bnd uuid4 (\<lambda>uid.
     seq (modify (add_tenant \<lparr>tn_id = tid, tn_legal_name = legal_name, tn_created_at = now\<rparr>)) (
     seq (mutate (add_user \<lparr>us_id = uid, us_email = lower (strip master_email), us_created_at = now\<rparr>)) (
     seq (modify (save_membership (new_membership tid uid {Role_MASTER}))) (
     seq (foreach [(''root'', ''orchestrator''), (''codex_pm_luna'', ''pm''), (''worker'', ''worker'')]
            (\<lambda>(agent, role). modify (save_agent_status (unknown_agent tid agent role now)))) (
     seq (audit tid uid ''tenant.bootstrap'' tid ''succeeded'' (JObj [])) (
     ret \<lparr>ctx_tenant_id = tid, ctx_user_id = uid, ctx_membership_version = 1\<rparr>))))))"

definition bootstrap_tenant :: "string \<Rightarrow> string \<Rightarrow> tenant_context svc" where
  "bootstrap_tenant legal_name master_email = transaction (
     bnd clock (\<lambda>now. bnd uuid4 (\<lambda>tid. bootstrap_rows now tid legal_name master_email)))"

text \<open>\<open>sorted(role.value for role in role_set)\<close>.\<close>

definition roles_json :: "role set \<Rightarrow> json" where
  "roles_json rs = JObj [(''roles'', JList (map JStr (filter (\<lambda>v. v \<in> role_value ` rs)
      [''auditor'', ''catalog_cs'', ''funds'', ''master''])))]"

definition active_members :: "string \<Rightarrow> repo \<Rightarrow> membership list" where
  "active_members t r = filter mb_active (tenant_memberships t r)"

definition user_for_email :: "string \<Rightarrow> user svc" where
  "user_for_email normalized =
     bnd (reads (find_user_by_email normalized)) (\<lambda>found.
     case found of
       Some u \<Rightarrow> ret u
     | None \<Rightarrow> bnd uuid4 (\<lambda>uid. bnd clock (\<lambda>now.
         let u = \<lparr>us_id = uid, us_email = normalized, us_created_at = now\<rparr> in
         seq (mutate (add_user u)) (ret u))))"

definition add_member :: "tenant_context \<Rightarrow> string \<Rightarrow> role list \<Rightarrow> tenant_context svc" where
  "add_member ctx email roles = transaction (
     seq (require ctx Cap_TENANT_ADMIN) (
     let role_set = set roles; t = ctx_tenant_id ctx in
     ensure (role_set \<noteq> {} \<and> Role_MASTER \<notin> role_set)
       (ConflictError ''delegated member requires non-master role(s)'') (
     bnd (reads (active_members t)) (\<lambda>active.
     ensure (length active < 3) (ConflictError ''a tenant supports one master plus two active members'') (
     bnd (user_for_email (lower (strip email))) (\<lambda>user.
     bnd (reads (\<lambda>r. dget (memberships r) (t, us_id user))) (\<lambda>prior.
     let version = (case prior of Some p \<Rightarrow> mb_version p + 1 | None \<Rightarrow> 1) in
     seq (modify (save_membership \<lparr>mb_tenant_id = t, mb_user_id = us_id user, mb_roles = role_set,
            mb_active = True, mb_version = version\<rparr>)) (
     seq (audit t (ctx_user_id ctx) ''membership.add'' (us_id user) ''succeeded'' (roles_json role_set)) (
     ret \<lparr>ctx_tenant_id = t, ctx_user_id = us_id user, ctx_membership_version = version\<rparr>)))))))))"

definition change_member_roles :: "tenant_context \<Rightarrow> string \<Rightarrow> role list \<Rightarrow> unit svc" where
  "change_member_roles ctx user roles = transaction (
     seq (require ctx Cap_TENANT_ADMIN) (
     bnd (query (get_membership (ctx_tenant_id ctx) user)) (\<lambda>m.
     ensure (Role_MASTER \<notin> mb_roles m) (ConflictError ''master role cannot be delegated or changed'') (
     let role_set = set roles in
     ensure (role_set \<noteq> {} \<and> Role_MASTER \<notin> role_set) (ConflictError ''invalid delegated roles'') (
     seq (modify (save_membership (m\<lparr>mb_roles := role_set, mb_version := mb_version m + 1\<rparr>))) (
     audit (ctx_tenant_id ctx) (ctx_user_id ctx) ''membership.roles_changed'' user ''succeeded''
       (roles_json role_set)))))))"

definition revoke_member :: "tenant_context \<Rightarrow> string \<Rightarrow> unit svc" where
  "revoke_member ctx user = transaction (
     seq (require ctx Cap_TENANT_ADMIN) (
     bnd (query (get_membership (ctx_tenant_id ctx) user)) (\<lambda>m.
     ensure (Role_MASTER \<notin> mb_roles m) (ConflictError ''master membership cannot be revoked'') (
     seq (modify (save_membership (m\<lparr>mb_active := False, mb_version := mb_version m + 1\<rparr>))) (
     audit (ctx_tenant_id ctx) (ctx_user_id ctx) ''membership.revoke'' user ''succeeded'' (JObj []))))))"

subsection \<open>What the operations write\<close>

lemma acts_require [acts_rules]:
  "acts h t L (membership_of ctx) (\<lambda>_. True)" "acts h t L (require ctx c) (\<lambda>_. True)"
  "acts h t L (context_for i u) (\<lambda>_. True)"
  unfolding require_def membership_of_def context_for_def
  by (rule acts_rules TrueI)+

lemma writes_membership:
  "mb_tenant_id m = t \<Longrightarrow> T_memberships \<in> L \<Longrightarrow> writes h t L r (save_membership m r)"
  unfolding save_membership_def using W_memberships [of m t h r] by (auto intro: writes_one)

lemma acts_save_membership [acts_rules]:
  "mb_tenant_id m = t \<Longrightarrow> T_memberships \<in> L \<Longrightarrow> acts h t L (modify (save_membership m)) (\<lambda>_. True)"
  by (rule acts_modify) (rule writes_membership)

lemma acts_add_user [acts_rules]:
  "T_users \<in> L \<Longrightarrow> acts h t L (mutate (add_user u)) (\<lambda>_. True)"
  by (rule acts_mutate) (auto simp: add_user_def split: option.splits if_splits intro!: writes_one W_users)

lemma acts_add_tenant [acts_rules]:
  "tn_id v = t \<Longrightarrow> T_tenants \<in> L \<Longrightarrow> acts h t L (modify (add_tenant v)) (\<lambda>_. True)"
  by (rule acts_modify) (auto simp: add_tenant_def intro!: writes_one W_tenants)

lemma acts_save_agent_status [acts_rules]:
  "ag_tenant_id v = t \<Longrightarrow> T_agent_status \<in> L \<Longrightarrow> acts h t L (modify (save_agent_status v)) (\<lambda>_. True)"
  by (rule acts_modify) (auto simp: save_agent_status_def intro!: writes_one W_agent_status)

lemma get_membership_keys:
  "wf_repo r \<Longrightarrow> get_membership t u r = Inr m \<Longrightarrow> mb_tenant_id m = t \<and> mb_user_id m = u"
  using keyed_dget wf_tableD [of r T_memberships] by (fastforce simp: get_membership_def split: option.splits)

lemma acts_get_membership:
  "acts h t L (query (get_membership i u)) (\<lambda>m. mb_tenant_id m = i \<and> mb_user_id m = u)"
  by (rule acts_query) (rule get_membership_keys)

abbreviation member_tables :: "table set" where
  "member_tables \<equiv> {T_users, T_memberships, T_audit_events}"

lemma acts_add_member:
  "acts h (ctx_tenant_id ctx) member_tables (add_member ctx email roles)
     (\<lambda>c. ctx_tenant_id c = ctx_tenant_id ctx)"
  unfolding add_member_def user_for_email_def Let_def
  by (rule acts_rules | simp)+

lemma acts_change_member_roles:
  "acts h (ctx_tenant_id ctx) member_tables (change_member_roles ctx user roles) (\<lambda>_. True)"
  unfolding change_member_roles_def Let_def
  by (rule acts_bnd [OF acts_get_membership] acts_rules | simp)+

lemma acts_revoke_member:
  "acts h (ctx_tenant_id ctx) member_tables (revoke_member ctx user) (\<lambda>_. True)"
  unfolding revoke_member_def Let_def
  by (rule acts_bnd [OF acts_get_membership] acts_rules | simp)+

abbreviation bootstrap_tables :: "table set" where
  "bootstrap_tables \<equiv> {T_tenants, T_users, T_memberships, T_agent_status, T_audit_events}"

lemma acts_bootstrap_rows: "acts h tid bootstrap_tables (bootstrap_rows now tid name email) (\<lambda>_. True)"
  unfolding bootstrap_rows_def
  by (rule acts_rules | simp add: new_membership_def unknown_agent_def)+

text \<open>\<open>bootstrap_tenant\<close> writes for the tenant whose identifier it draws.\<close>

lemma bootstrap_writes:
  assumes "wf_repo (db s)" "bootstrap_tenant name email s = (x, s')"
  shows "sha256 s' = sha256 s \<and> wf_repo (db s') \<and>
     writes (sha256 s) (uuid_src s (uuid_ctr s)) bootstrap_tables (db s) (db s')"
proof -
  define u where "u = s\<lparr>clock_ctr := Suc (clock_ctr s), uuid_ctr := Suc (uuid_ctr s)\<rparr>"
  define m where "m = bootstrap_rows (clock_src s (clock_ctr s)) (uuid_src s (uuid_ctr s)) name email"
  have a: "acts (sha256 s) (uuid_src s (uuid_ctr s)) bootstrap_tables (transaction m) (\<lambda>_. True)"
    unfolding m_def by (intro acts_transaction acts_bootstrap_rows)
  have run: "transaction m u = (x, s')"
    using assms(2) by (auto simp: bootstrap_tenant_def op_simps u_def m_def split: prod.splits sum.splits)
  have "sha256 u = sha256 s" "wf_repo (db u)" "db u = db s" using assms(1) by (simp_all add: u_def)
  then show ?thesis using actsD(1-3) [OF a _ _ run] by simp
qed

subsection \<open>Membership versions only grow, and never come back\<close>

text \<open>Every membership of \<open>r\<close> is still there in \<open>r'\<close>: the same, or with a higher version.\<close>

definition versions_grow :: "repo \<Rightarrow> repo \<Rightarrow> bool" where
  "versions_grow r r' \<longleftrightarrow> (\<forall>k m. dget (memberships r) k = Some m \<longrightarrow>
     (\<exists>m'. dget (memberships r') k = Some m' \<and> (m' = m \<or> mb_version m < mb_version m')))"

lemma versions_grow_refl [simp]: "versions_grow r r"
  by (simp add: versions_grow_def)

lemma versions_grow_same: "memberships r' = memberships r \<Longrightarrow> versions_grow r r'"
  by (simp add: versions_grow_def)

lemma versions_growD:
  assumes "versions_grow r r'" "dget (memberships r) k = Some m"
  obtains m' where "dget (memberships r') k = Some m'" "m' = m \<or> mb_version m < mb_version m'"
  using assms unfolding versions_grow_def by blast

lemma versions_grow_trans:
  assumes "versions_grow r r'" "versions_grow r' r''"
  shows "versions_grow r r''"
  unfolding versions_grow_def
proof (intro allI impI)
  fix k m assume m: "dget (memberships r) k = Some m"
  obtain m' where m': "dget (memberships r') k = Some m'" "m' = m \<or> mb_version m < mb_version m'"
    using versions_growD [OF assms(1) m] .
  obtain m'' where "dget (memberships r'') k = Some m''" "m'' = m' \<or> mb_version m' < mb_version m''"
    using versions_growD [OF assms(2) m'(1)] .
  with m'(2) show "\<exists>m''. dget (memberships r'') k = Some m'' \<and> (m'' = m \<or> mb_version m < mb_version m'')"
    by auto
qed

lemma versions_grow_save:
  "(\<And>p. dget (memberships r) (mb_tenant_id m, mb_user_id m) = Some p \<Longrightarrow> mb_version p < mb_version m) \<Longrightarrow>
     versions_grow r (save_membership m r)"
  by (auto simp: versions_grow_def save_membership_def dget_dset)

text \<open>The calls a member can make on memberships, and what a sequence of them leaves.\<close>

datatype member_op = Add string "role list" | Change string "role list" | Revoke string

fun member_call :: "tenant_context \<Rightarrow> member_op \<Rightarrow> unit svc" where
  "member_call ctx (Add email roles) = void (add_member ctx email roles)"
| "member_call ctx (Change user roles) = change_member_roles ctx user roles"
| "member_call ctx (Revoke user) = revoke_member ctx user"

fun run_member_calls :: "(tenant_context \<times> member_op) list \<Rightarrow> world \<Rightarrow> world" where
  "run_member_calls [] s = s"
| "run_member_calls ((ctx, c) # cs) s = run_member_calls cs (snd (member_call ctx c s))"

lemma require_run: "require ctx c s = (fst (require ctx c s), s)"
  by (simp add: require_def membership_of_def op_simps split: sum.splits prod.splits)

lemma require_ok:
  "require ctx c s = (Inr (), s') \<longleftrightarrow> s' = s \<and>
     (\<exists>m. dget (memberships (db s)) (ctx_tenant_id ctx, ctx_user_id ctx) = Some m \<and> mb_active m
        \<and> mb_version m = ctx_membership_version ctx \<and> c \<in> member_capabilities m)"
  by (auto simp: require_def membership_of_def svc_ok get_membership_def split: option.splits)

lemma change_member_roles_ok:
  assumes "change_member_roles ctx user roles s = (Inr (), s')"
  shows "\<exists>m. dget (memberships (db s)) (ctx_tenant_id ctx, user) = Some m \<and> Role_MASTER \<notin> mb_roles m
     \<and> set roles \<noteq> {} \<and> Role_MASTER \<notin> set roles
     \<and> memberships (db s') = dset (mb_tenant_id m, mb_user_id m)
          (m\<lparr>mb_roles := set roles, mb_version := mb_version m + 1\<rparr>) (memberships (db s))"
  using assms
  by (auto simp: change_member_roles_def Let_def svc_ok audit_ok require_ok get_membership_def
      save_membership_def split: option.splits)

lemma revoke_member_ok:
  assumes "revoke_member ctx user s = (Inr (), s')"
  shows "\<exists>m. dget (memberships (db s)) (ctx_tenant_id ctx, user) = Some m \<and> Role_MASTER \<notin> mb_roles m
     \<and> memberships (db s') = dset (mb_tenant_id m, mb_user_id m)
          (m\<lparr>mb_active := False, mb_version := mb_version m + 1\<rparr>) (memberships (db s))"
  using assms
  by (auto simp: revoke_member_def svc_ok audit_ok require_ok get_membership_def
      save_membership_def split: option.splits)

lemma user_for_email_ok:
  "user_for_email n s = (Inr u, s') \<Longrightarrow> memberships (db s') = memberships (db s) \<and> us_email u = n"
  by (auto simp: user_for_email_def find_user_by_email_def add_user_def Let_def svc_ok dest: first_Some
      split: option.splits if_splits)

text \<open>A known address is resolved to its user without touching the tables.\<close>

lemma user_for_email_known:
  "find_user_by_email n (db s) = Some u \<Longrightarrow> user_for_email n s = (Inr u, s)"
  by (simp add: user_for_email_def op_simps)

lemma add_member_ok:
  assumes "add_member ctx email roles s = (Inr c, s')"
  shows "\<exists>(u :: user) v. c = \<lparr>ctx_tenant_id = ctx_tenant_id ctx, ctx_user_id = us_id u, ctx_membership_version = v\<rparr>
     \<and> us_email u = lower (strip email)
     \<and> v = (case dget (memberships (db s)) (ctx_tenant_id ctx, us_id u) of Some p \<Rightarrow> mb_version p + 1 | None \<Rightarrow> 1)
     \<and> set roles \<noteq> {} \<and> Role_MASTER \<notin> set roles \<and> length (active_members (ctx_tenant_id ctx) (db s)) < 3
     \<and> memberships (db s') = dset (ctx_tenant_id ctx, us_id u) \<lparr>mb_tenant_id = ctx_tenant_id ctx,
          mb_user_id = us_id u, mb_roles = set roles, mb_active = True, mb_version = v\<rparr> (memberships (db s))"
proof -
  obtain u w where u: "user_for_email (lower (strip email)) s = (Inr u, w)"
    and rest: "set roles \<noteq> {}" "Role_MASTER \<notin> set roles" "length (active_members (ctx_tenant_id ctx) (db s)) < 3"
      "c = \<lparr>ctx_tenant_id = ctx_tenant_id ctx, ctx_user_id = us_id u, ctx_membership_version =
        (case dget (memberships (db w)) (ctx_tenant_id ctx, us_id u) of Some p \<Rightarrow> mb_version p + 1 | None \<Rightarrow> 1)\<rparr>"
      "memberships (db s') = dset (ctx_tenant_id ctx, us_id u) \<lparr>mb_tenant_id = ctx_tenant_id ctx,
        mb_user_id = us_id u, mb_roles = set roles, mb_active = True, mb_version =
        (case dget (memberships (db w)) (ctx_tenant_id ctx, us_id u) of Some p \<Rightarrow> mb_version p + 1 | None \<Rightarrow> 1)\<rparr>
        (memberships (db w))"
    using assms by (auto simp: add_member_def Let_def svc_ok audit_ok require_ok save_membership_def)
  then show ?thesis
    using user_for_email_ok [OF u] by - (rule exI [of _ u], auto)
qed

lemma failed_member_call: "member_call ctx c s = (Inl e, s') \<Longrightarrow> db s' = db s"
  by (cases c)
    (auto simp: add_member_def change_member_roles_def revoke_member_def void_def bnd_run ret_run
      dest: transaction_atomic split: prod.splits sum.splits)

text \<open>Every membership call leaves the memberships alone or saves one row at a higher version.\<close>

lemma member_call_effect:
  assumes wf: "wf_repo (db s)" and run: "member_call ctx c s = (x, s')"
  shows "memberships (db s') = memberships (db s) \<or>
     (\<exists>u m. memberships (db s') = dset (ctx_tenant_id ctx, u) m (memberships (db s))
        \<and> (\<forall>p. dget (memberships (db s)) (ctx_tenant_id ctx, u) = Some p \<longrightarrow> mb_version p < mb_version m)
        \<and> (mb_active m \<longrightarrow> length (active_members (ctx_tenant_id ctx) (db s)) < 3 \<or>
             (\<exists>p. dget (memberships (db s)) (ctx_tenant_id ctx, u) = Some p \<and> mb_active p)))"
proof (cases x)
  case (Inl e)
  with run failed_member_call [of ctx c s e s'] show ?thesis by simp
next
  case (Inr y)
  have key: "mb_tenant_id m = ctx_tenant_id ctx \<and> mb_user_id m = u"
    if "dget (memberships (db s)) (ctx_tenant_id ctx, u) = Some m" for u m
    using keyed_dget [OF _ that] wf_tableD [OF wf, of T_memberships] by auto
  show ?thesis
  proof (cases c)
    case (Add email roles)
    with run Inr obtain c' where "add_member ctx email roles s = (Inr c', s')"
      by (auto simp: void_def svc_ok)
    from add_member_ok [OF this] obtain u :: user and v where
      "v = (case dget (memberships (db s)) (ctx_tenant_id ctx, us_id u) of Some p \<Rightarrow> mb_version p + 1 | None \<Rightarrow> 1)"
      "length (active_members (ctx_tenant_id ctx) (db s)) < 3"
      "memberships (db s') = dset (ctx_tenant_id ctx, us_id u) \<lparr>mb_tenant_id = ctx_tenant_id ctx,
          mb_user_id = us_id u, mb_roles = set roles, mb_active = True, mb_version = v\<rparr> (memberships (db s))"
      by blast
    then show ?thesis by (intro disjI2 exI conjI) (auto split: option.splits)
  next
    case (Change u roles)
    with run Inr have "change_member_roles ctx u roles s = (Inr (), s')" by simp
    from change_member_roles_ok [OF this] key show ?thesis by fastforce
  next
    case (Revoke u)
    with run Inr have "revoke_member ctx u s = (Inr (), s')" by simp
    from revoke_member_ok [OF this] key show ?thesis by fastforce
  qed
qed

lemma acts_member_call: "acts h (ctx_tenant_id ctx) member_tables (member_call ctx c) (\<lambda>_. True)"
  by (cases c) (auto intro: acts_void acts_add_member acts_change_member_roles acts_revoke_member)

lemma member_call_grows:
  assumes "wf_repo (db s)"
  shows "versions_grow (db s) (db (snd (member_call ctx c s)))"
  using member_call_effect [OF assms surjective_pairing, of ctx c]
  by (auto simp: versions_grow_def dget_dset split: option.splits)

lemma run_member_calls_grow:
  "wf_repo (db s) \<Longrightarrow> versions_grow (db s) (db (run_member_calls cs s))"
proof (induction cs s rule: run_member_calls.induct)
  case (2 ctx c cs s)
  have "wf_repo (db (snd (member_call ctx c s)))"
    by (rule actsD(2) [OF acts_member_call refl 2(2) surjective_pairing])
  with 2 member_call_grows show ?case using versions_grow_trans by fastforce
qed simp

text \<open>A world for the examples: identifiers \<open>u0, u1, ...\<close>, one second between clock readings.\<close>

definition demo_world :: world where
  "demo_world = \<lparr>db = empty_repo, uuid_src = (\<lambda>n. ''u'' @ show_nat n), uuid_ctr = 0,
     clock_src = (\<lambda>n. int n * 1000000), clock_ctr = 0, token_src = (\<lambda>n. ''token'' @ show_nat n),
     token_ctr = 0, sha256 = (\<lambda>x. replicate 64 CHR ''0'')\<rparr>"

definition demo_tenant :: world where
  "demo_tenant = snd (bootstrap_tenant ''Acme'' ''master@acme.test'' demo_world)"

definition demo_master :: tenant_context where
  "demo_master = \<lparr>ctx_tenant_id = ''u0'', ctx_user_id = ''u1'', ctx_membership_version = 1\<rparr>"

lemma demo_tenant_wf: "wf_repo (db demo_tenant)"
proof -
  have "wf_repo (db demo_world)" by (simp add: demo_world_def wf_empty)
  from bootstrap_writes [OF this surjective_pairing] show ?thesis by (simp add: demo_tenant_def)
qed

lemma show_nat_small [simp]:
  "show_nat 0 = ''0''" "show_nat (Suc 0) = ''1''" "show_nat 2 = ''2''" "show_nat 3 = ''3''" "show_nat 4 = ''4''"
  by code_simp+

lemma demo_tenant_tables:
  "users (db demo_tenant) = [(''u1'', \<lparr>us_id = ''u1'', us_email = ''master@acme.test'', us_created_at = 0\<rparr>)]"
  "memberships (db demo_tenant) = [((''u0'', ''u1''), new_membership ''u0'' ''u1'' {Role_MASTER})]"
  "uuid_src demo_tenant = uuid_src demo_world" "uuid_ctr demo_tenant = 4"
  by (simp_all add: demo_tenant_def bootstrap_tenant_def bootstrap_rows_def op_simps demo_world_def empty_repo_def
      add_tenant_def add_user_def find_user_by_email_def save_membership_def save_agent_status_def audit_run
      append_audit_def new_membership_def strip_printable printable_def lower_def to_lower_def)

lemma demo_tenant_more:
  "commands (db demo_tenant) = []" "approvals (db demo_tenant) = []"
  "command_idempotency (db demo_tenant) = []" "outbox (db demo_tenant) = []"
  "outbox_idempotency (db demo_tenant) = []" "inbox (db demo_tenant) = []" "manifests (db demo_tenant) = []"
  "approval_intents (db demo_tenant) = []" "execution_preparations (db demo_tenant) = []"
  "demo_controls (db demo_tenant) = []" "attempts (db demo_tenant) = []" "observations (db demo_tenant) = []"
  "normalized_payloads (db demo_tenant) = []" "poll_checkpoints (db demo_tenant) = []"
  "channel_orders (db demo_tenant) = []" "order_lines (db demo_tenant) = []"
  "routing_decisions (db demo_tenant) = []" "purchase_orders (db demo_tenant) = []"
  "purchase_lines (db demo_tenant) = []" "tracking_observations (db demo_tenant) = []"
  "claims (db demo_tenant) = []" "claim_status_observations (db demo_tenant) = []"
  "settlement_batches (db demo_tenant) = []" "settlement_lines (db demo_tenant) = []"
  "realized_profits (db demo_tenant) = []" "catalog_imports (db demo_tenant) = []"
  "catalog_snapshots (db demo_tenant) = []" "canonical_products (db demo_tenant) = []"
  "product_lineage (db demo_tenant) = []" "channel_offers (db demo_tenant) = []"
  "tool_commands (db demo_tenant) = []" "agent_runs (db demo_tenant) = []"
  "byok_references (db demo_tenant) = []" "budget_policies (db demo_tenant) = []"
  "budget_ledger (db demo_tenant) = []" "budget_requests (db demo_tenant) = []"
  "notification_preferences (db demo_tenant) = []" "notification_deliveries (db demo_tenant) = []"
  "incident_acknowledgements (db demo_tenant) = []" "stop_controls (db demo_tenant) = []"
  "backup_manifests (db demo_tenant) = []" "inventory_snapshots (db demo_tenant) = []"
  "price_projections (db demo_tenant) = []" "browser_sessions (db demo_tenant) = []"
  "approval_confirmation_nonces (db demo_tenant) = []"
  "clock_src demo_tenant = clock_src demo_world" "clock_ctr demo_tenant = 2" "sha256 demo_tenant = sha256 demo_world"
  by (simp_all add: demo_tenant_def bootstrap_tenant_def bootstrap_rows_def op_simps demo_world_def empty_repo_def
      add_tenant_def add_user_def find_user_by_email_def save_membership_def save_agent_status_def audit_run
      append_audit_def)

lemma demo_master_ok: "c = Cap_TENANT_ADMIN \<or> c = Cap_READ_AUDIT \<Longrightarrow> require demo_master c demo_tenant = (Inr (), demo_tenant)"
  by (auto simp: require_ok demo_master_def demo_tenant_tables new_membership_def member_capabilities_def)

subsection \<open>Properties\<close>

text \<open>
  C10: Revocation and role changes end every session of the member for good: once a member's
  roles are changed or the membership is revoked, a context that was accepted before is
  refused by \<open>require\<close> for every capability, whatever membership calls follow.
\<close>

theorem revocation_is_permanent:
  assumes wf: "wf_repo (db s)"
    and valid: "membership_of c s = (Inr m, s)"
    and op: "op \<in> {Revoke (ctx_user_id c), Change (ctx_user_id c) roles}"
    and same: "ctx_tenant_id ctx = ctx_tenant_id c"
    and run: "member_call ctx op s = (Inr (), s1)"
  shows "fst (require c cap (run_member_calls ops s1)) = Inl (AuthorizationError ''session is stale or revoked'')"
proof -
  let ?k = "(ctx_tenant_id c, ctx_user_id c)"
  from valid have m: "dget (memberships (db s)) ?k = Some m" "mb_version m = ctx_membership_version c"
    by (auto simp: membership_of_def svc_ok get_membership_def split: option.splits)
  have key: "mb_tenant_id m = fst ?k \<and> mb_user_id m = snd ?k"
    using keyed_dget [OF _ m(1)] wf_tableD [OF wf, of T_memberships] by auto
  obtain m' where m': "dget (memberships (db s1)) ?k = Some m'" "mb_version m' = mb_version m + 1"
    using op
  proof (elim insertE emptyE)
    assume "op = Revoke (ctx_user_id c)"
    with run have "revoke_member ctx (ctx_user_id c) s = (Inr (), s1)" by simp
    from revoke_member_ok [OF this] m key same that show thesis by auto
  next
    assume "op = Change (ctx_user_id c) roles"
    with run have "change_member_roles ctx (ctx_user_id c) roles s = (Inr (), s1)" by simp
    from change_member_roles_ok [OF this] m key same that show thesis by auto
  qed
  have "wf_repo (db s1)" by (rule actsD(2) [OF acts_member_call refl wf run])
  then obtain m'' where "dget (memberships (db (run_member_calls ops s1))) ?k = Some m''"
    "m'' = m' \<or> mb_version m' < mb_version m''"
    by (rule versions_growD [OF run_member_calls_grow m'(1)])
  with m(2) m'(2) show ?thesis
    by (auto simp add: require_def membership_of_def op_simps get_membership_def)
qed

definition demo_member :: tenant_context where
  "demo_member = \<lparr>ctx_tenant_id = ''u0'', ctx_user_id = ''u4'', ctx_membership_version = 1\<rparr>"

definition demo_two :: world where
  "demo_two = snd (add_member demo_master ''b@acme.test'' [Role_FUNDS] demo_tenant)"

lemma demo_two_wf: "wf_repo (db demo_two)"
  unfolding demo_two_def by (rule actsD(2) [OF acts_add_member refl demo_tenant_wf surjective_pairing])

lemma demo_two_memberships:
  "memberships (db demo_two) = [((''u0'', ''u1''), new_membership ''u0'' ''u1'' {Role_MASTER}),
     ((''u0'', ''u4''), new_membership ''u0'' ''u4'' {Role_FUNDS})]"
  using demo_master_ok [of Cap_TENANT_ADMIN]
  by (simp add: demo_two_def add_member_def user_for_email_def Let_def op_simps demo_tenant_tables demo_master_def
      find_user_by_email_def active_members_def tenant_memberships_def rows_def new_membership_def add_user_def
      demo_world_def save_membership_def audit_run strip_printable printable_def lower_def to_lower_def)

lemma demo_two_runs:
  "membership_of demo_member demo_two = (Inr (new_membership ''u0'' ''u4'' {Role_FUNDS}), demo_two)"
  "fst (member_call demo_master (Revoke ''u4'') demo_two) = Inr ()"
  by (simp_all add: membership_of_def revoke_member_def require_def op_simps get_membership_def demo_two_memberships
      demo_member_def demo_master_def new_membership_def member_capabilities_def audit_run)

theorem revocation_is_permanent_witness:
  "fst (require demo_member Cap_FUNDS (snd (member_call demo_master (Revoke ''u4'') demo_two)))
     = Inl (AuthorizationError ''session is stale or revoked'')"
proof -
  from revocation_is_permanent [OF demo_two_wf demo_two_runs(1), of "Revoke ''u4''" "[]" demo_master
      "snd (member_call demo_master (Revoke ''u4'') demo_two)" Cap_FUNDS "[]"] demo_two_runs(2)
  show ?thesis by (simp add: demo_member_def demo_master_def prod_eq_iff)
qed

lemma count_dset: "length (filter p (rows t (dset k v d))) \<le> length (filter p (rows t d)) + (if p v then 1 else 0)"
  by (induction d) (auto simp: rows_def)

lemma count_dset_kept:
  "dget d k = Some m \<Longrightarrow> p m \<or> \<not> p v \<Longrightarrow> length (filter p (rows t (dset k v d))) \<le> length (filter p (rows t d))"
  by (induction d) (auto simp: rows_def split: if_splits)

text \<open>
  C14: A tenant never has more than three active members, whatever membership calls its
  members make.
\<close>

theorem member_limit:
  assumes "wf_repo (db s)" "\<And>t. length (active_members t (db s)) \<le> 3"
  shows "length (active_members t (db (run_member_calls cs s))) \<le> 3"
  using assms
proof (induction cs s arbitrary: t rule: run_member_calls.induct)
  case (2 ctx c cs s)
  let ?s' = "snd (member_call ctx c s)" and ?d = "memberships (db s)"
  have wf: "wf_repo (db ?s')" by (rule actsD(2) [OF acts_member_call refl 2(2) surjective_pairing])
  have "length (active_members t' (db ?s')) \<le> 3" for t'
    using member_call_effect [OF 2(2) surjective_pairing, of ctx c]
  proof (elim disjE exE conjE)
    assume "memberships (db ?s') = ?d"
    then show ?thesis using 2(3) by (simp add: active_members_def tenant_memberships_def)
  next
    fix u m assume db': "memberships (db ?s') = dset (ctx_tenant_id ctx, u) m ?d"
      and act: "mb_active m \<longrightarrow> length (active_members (ctx_tenant_id ctx) (db s)) < 3 \<or>
             (\<exists>p. dget ?d (ctx_tenant_id ctx, u) = Some p \<and> mb_active p)"
    show ?thesis
    proof (cases "t' = ctx_tenant_id ctx")
      case True
      then show ?thesis
        using act 2(3) [of t'] count_dset [of mb_active t' "(ctx_tenant_id ctx, u)" m ?d]
          count_dset_kept [of ?d "(ctx_tenant_id ctx, u)" _ mb_active m t']
        by (fastforce simp: db' active_members_def tenant_memberships_def split: if_splits)
    next
      case False
      then show ?thesis
        using 2(3) [of t'] by (simp add: db' active_members_def tenant_memberships_def rows_slice slice_dset_other)
    qed
  qed
  then show ?case using 2(1) wf by simp
qed simp

theorem member_limit_witness:
  "length (active_members ''u0'' (db (run_member_calls [(demo_master, Add ''b@acme.test'' [Role_FUNDS])] demo_tenant))) \<le> 3"
proof (rule member_limit [OF demo_tenant_wf])
  show "length (active_members t (db demo_tenant)) \<le> 3" for t
    by (simp add: active_members_def tenant_memberships_def rows_def demo_tenant_tables)
qed

text \<open>
  C17: \<open>add_member\<close> does not refuse the address of the tenant's master: when it is called with
  that address it replaces the master's roles by the delegated ones, and the master, who was
  allowed to administrate before, can no longer.
\<close>

theorem add_member_demotes_master:
  assumes master: "find_user_by_email (lower (strip email)) (db s) = Some u" "us_id u = ctx_user_id ctx"
    and roles: "Role_MASTER \<notin> set roles"
    and run: "add_member ctx email roles s = (Inr c, s')"
  shows "fst (require ctx Cap_TENANT_ADMIN s) = Inr ()
    \<and> ctx_tenant_id c = ctx_tenant_id ctx \<and> ctx_user_id c = ctx_user_id ctx
    \<and> (\<forall>v. fst (require (ctx\<lparr>ctx_membership_version := v\<rparr>) Cap_TENANT_ADMIN s') \<noteq> Inr ())"
proof -
  let ?t = "ctx_tenant_id ctx"
  obtain v where eff: "c = \<lparr>ctx_tenant_id = ?t, ctx_user_id = us_id u, ctx_membership_version = v\<rparr>"
    "memberships (db s') = dset (?t, us_id u) \<lparr>mb_tenant_id = ?t, mb_user_id = us_id u,
        mb_roles = set roles, mb_active = True, mb_version = v\<rparr> (memberships (db s))"
    and req: "require ctx Cap_TENANT_ADMIN s = (Inr (), s)"
    using run user_for_email_known [OF master(1)]
    by (auto simp: add_member_def Let_def svc_ok audit_ok require_ok save_membership_def)
  have "Cap_TENANT_ADMIN \<notin> role_capabilities ro" if "ro \<in> set roles" for ro
  proof -
    have "ro \<noteq> Role_MASTER" using that roles by auto
    then show ?thesis by (cases ro) simp_all
  qed
  then have "\<not> Cap_TENANT_ADMIN \<in> \<Union> (role_capabilities ` set roles)" by blast
  then show ?thesis
    using eff req master(2)
    by (auto simp: require_def membership_of_def op_simps get_membership_def member_capabilities_def)
qed

theorem add_member_demotes_master_witness:
  "\<forall>v. fst (require (demo_master\<lparr>ctx_membership_version := v\<rparr>) Cap_TENANT_ADMIN
     (snd (add_member demo_master ''master@acme.test'' [Role_FUNDS] demo_tenant))) \<noteq> Inr ()"
proof -
  let ?r = "add_member demo_master ''master@acme.test'' [Role_FUNDS] demo_tenant"
  have user: "find_user_by_email (lower (strip ''master@acme.test'')) (db demo_tenant)
      = Some \<lparr>us_id = ''u1'', us_email = ''master@acme.test'', us_created_at = 0\<rparr>"
    by (simp add: find_user_by_email_def demo_tenant_tables strip_printable printable_def lower_def to_lower_def)
  have "\<exists>c. fst ?r = Inr c"
    using demo_master_ok [of Cap_TENANT_ADMIN] user_for_email_known [OF user]
    by (simp add: add_member_def Let_def op_simps active_members_def tenant_memberships_def rows_def
        demo_tenant_tables demo_master_def audit_run)
  then obtain c where "?r = (Inr c, snd ?r)" by (metis prod.collapse)
  from add_member_demotes_master [OF user _ _ this] show ?thesis by (simp add: demo_master_def)
qed

end
