(* ===== verification/Outbox.thy ===== *)
theory Outbox
  imports Identity
begin

section \<open>The outbox: leases, fencing tokens, retries\<close>

text \<open>
  The outbox methods of repository.py on the table \<open>outbox\<close> and its index
  \<open>outbox_idempotency\<close>, and the same methods of sqlite_repository.py on the rows of its
  table in rowid order (names \<open>sq_\<dots>\<close>).  A worker claims an event for a time, with a
  fencing token that grows at every claim; a checkpoint or a failure report must carry the
  token of the claim in force.
\<close>

subsection \<open>The in-memory adapter\<close>

definition put_event :: "outbox_event \<Rightarrow> repo \<Rightarrow> repo" where
  "put_event e r = r\<lparr>outbox := dset (ob_tenant_id e, ob_id e) e (outbox r)\<rparr>"

text \<open>Only the outbox changes.\<close>

lemma put_event_tables [simp]:
  "tenants (put_event e r) = tenants r" "users (put_event e r) = users r"
  "memberships (put_event e r) = memberships r" "commands (put_event e r) = commands r"
  "approvals (put_event e r) = approvals r" "command_idempotency (put_event e r) = command_idempotency r"
  "audit_events (put_event e r) = audit_events r" "outbox_idempotency (put_event e r) = outbox_idempotency r"
  "agent_status (put_event e r) = agent_status r" "inbox (put_event e r) = inbox r"
  "manifests (put_event e r) = manifests r" "approval_intents (put_event e r) = approval_intents r"
  "execution_preparations (put_event e r) = execution_preparations r"
  "demo_controls (put_event e r) = demo_controls r" "attempts (put_event e r) = attempts r"
  "observations (put_event e r) = observations r" "normalized_payloads (put_event e r) = normalized_payloads r"
  "poll_checkpoints (put_event e r) = poll_checkpoints r" "channel_orders (put_event e r) = channel_orders r"
  "order_lines (put_event e r) = order_lines r" "routing_decisions (put_event e r) = routing_decisions r"
  "purchase_orders (put_event e r) = purchase_orders r" "purchase_lines (put_event e r) = purchase_lines r"
  "tracking_observations (put_event e r) = tracking_observations r" "claims (put_event e r) = claims r"
  "claim_status_observations (put_event e r) = claim_status_observations r"
  "settlement_batches (put_event e r) = settlement_batches r"
  "settlement_lines (put_event e r) = settlement_lines r" "realized_profits (put_event e r) = realized_profits r"
  "catalog_imports (put_event e r) = catalog_imports r" "catalog_snapshots (put_event e r) = catalog_snapshots r"
  "canonical_products (put_event e r) = canonical_products r"
  "product_lineage (put_event e r) = product_lineage r" "channel_offers (put_event e r) = channel_offers r"
  "tool_commands (put_event e r) = tool_commands r" "agent_runs (put_event e r) = agent_runs r"
  "byok_references (put_event e r) = byok_references r" "budget_policies (put_event e r) = budget_policies r"
  "budget_ledger (put_event e r) = budget_ledger r" "budget_requests (put_event e r) = budget_requests r"
  "notification_preferences (put_event e r) = notification_preferences r"
  "notification_deliveries (put_event e r) = notification_deliveries r"
  "incident_acknowledgements (put_event e r) = incident_acknowledgements r"
  "stop_controls (put_event e r) = stop_controls r" "backup_manifests (put_event e r) = backup_manifests r"
  "inventory_snapshots (put_event e r) = inventory_snapshots r"
  "price_projections (put_event e r) = price_projections r"
  "browser_sessions (put_event e r) = browser_sessions r"
  "approval_confirmation_nonces (put_event e r) = approval_confirmation_nonces r"
  by (simp_all add: put_event_def)

definition append_outbox :: "outbox_event \<Rightarrow> repo \<Rightarrow> err + (unit \<times> repo)" where
  "append_outbox e r =
     (if dget (outbox_idempotency r) (ob_tenant_id e, ob_idempotency_key e) \<noteq> None
      then Inl (ConflictError ''outbox idempotency key already exists'')
      else Inr ((), (put_event e r)\<lparr>outbox_idempotency :=
             dset (ob_tenant_id e, ob_idempotency_key e) (ob_id e) (outbox_idempotency r)\<rparr>))"

definition outbox_for :: "string \<Rightarrow> repo \<Rightarrow> outbox_event list" where
  "outbox_for t r = rows t (outbox r)"

definition lease :: "string \<Rightarrow> time \<Rightarrow> outbox_event \<Rightarrow> outbox_event" where
  "lease worker until e = e\<lparr>ob_state := Obx_LEASED, ob_lease_owner := Some worker,
     ob_lease_until := Some until, ob_fencing_token := ob_fencing_token e + 1\<rparr>"

definition claim_outbox :: "string \<Rightarrow> string \<Rightarrow> string \<Rightarrow> time \<Rightarrow> time \<Rightarrow> repo \<Rightarrow>
    err + (outbox_event \<times> repo)" where
  "claim_outbox t i worker now until r = (case dget (outbox r) (t, i) of
     None \<Rightarrow> if list_ex (\<lambda>k. snd k = i) (map fst (outbox r))
         then Inl (TenantBoundaryError ''cross-tenant outbox access denied'')
         else Inl (NotFoundError ''outbox event not found'')
   | Some e \<Rightarrow>
       if ob_state e = Obx_COMPLETED then Inl (ConflictError ''outbox event already completed'')
       else if (case ob_lease_until e of None \<Rightarrow> False | Some u \<Rightarrow> u > now) \<and> ob_lease_owner e \<noteq> Some worker
       then Inl (ConflictError ''outbox event already leased'')
       else Inr (lease worker until e, put_event (lease worker until e) r))"

definition ready_event :: "time \<Rightarrow> outbox_event \<Rightarrow> bool" where
  "ready_event now e \<longleftrightarrow>
     (ob_state e \<in> {Obx_PENDING, Obx_RETRY}
       \<and> (case ob_available_at e of Some a \<Rightarrow> a | None \<Rightarrow> ob_created_at e) \<le> now)
     \<or> (ob_state e = Obx_LEASED \<and> (case ob_lease_until e of Some u \<Rightarrow> u \<le> now | None \<Rightarrow> False))"

definition terminal_event :: "outbox_event \<Rightarrow> bool" where
  "terminal_event e \<longleftrightarrow> ob_state e \<in> {Obx_COMPLETED, Obx_DEAD}"

text \<open>The loop of \<open>claim_next_outbox\<close> over the items, with its set of blocked aggregates.\<close>

fun next_claimable :: "string \<Rightarrow> time \<Rightarrow> string set \<Rightarrow> (string \<times> string, outbox_event) dict \<Rightarrow>
    outbox_event option" where
  "next_claimable t now blocked [] = None"
| "next_claimable t now blocked (((tid, i), e) # items) =
     (if tid \<noteq> t then next_claimable t now blocked items
      else if ready_event now e \<and> ob_aggregate_ref e \<notin> blocked then Some e
      else next_claimable t now
             (if terminal_event e then blocked else insert (ob_aggregate_ref e) blocked) items)"

definition claim_next_outbox :: "string \<Rightarrow> string \<Rightarrow> time \<Rightarrow> time \<Rightarrow> repo \<Rightarrow>
    err + (outbox_event option \<times> repo)" where
  "claim_next_outbox t worker now until r = (case next_claimable t now {} (outbox r) of
     None \<Rightarrow> Inr (None, r)
   | Some e \<Rightarrow> (case claim_outbox t (ob_id e) worker now until r of
         Inl x \<Rightarrow> Inl x | Inr (e', r') \<Rightarrow> Inr (Some e', r')))"

definition holds_lease :: "string \<Rightarrow> int \<Rightarrow> time \<Rightarrow> outbox_event \<Rightarrow> bool" where
  "holds_lease worker token now e \<longleftrightarrow> ob_state e = Obx_LEASED \<and> ob_lease_owner e = Some worker
     \<and> ob_fencing_token e = token \<and> (case ob_lease_until e of None \<Rightarrow> False | Some u \<Rightarrow> now < u)"

definition claimed_outbox :: "string \<Rightarrow> string \<Rightarrow> string \<Rightarrow> int \<Rightarrow> time \<Rightarrow> repo \<Rightarrow> err + outbox_event" where
  "claimed_outbox t i worker token now r =
     (case first (\<lambda>e. ob_id e = i) (outbox_for t r) of
        None \<Rightarrow> Inl (NotFoundError ''outbox event not found'')
      | Some e \<Rightarrow> if holds_lease worker token now e then Inr e
          else Inl (ConflictError ''stale or expired outbox lease''))"

definition fail_outbox :: "string \<Rightarrow> string \<Rightarrow> string \<Rightarrow> int \<Rightarrow> string \<Rightarrow> time \<Rightarrow> int \<Rightarrow> repo \<Rightarrow>
    err + (outbox_event \<times> repo)" where
  "fail_outbox t i worker token err now max_attempts r =
     (if max_attempts < 1 then Inl (ValueError ''max_attempts must be positive'')
      else case claimed_outbox t i worker token now r of
        Inl x \<Rightarrow> Inl x
      | Inr e \<Rightarrow>
          let st = (if ob_attempts e \<ge> max_attempts then Obx_DEAD else Obx_RETRY);
              e' = e\<lparr>ob_state := st,
                     ob_available_at := Some (if st = Obx_DEAD then now
                        else now + seconds (min (2 ^ nat (ob_attempts e)) 300)),
                     ob_last_error := Some (py_take 500 err),
                     ob_lease_owner := None, ob_lease_until := None\<rparr>
          in Inr (e', put_event e' r))"

definition checkpoint_outbox :: "string \<Rightarrow> string \<Rightarrow> string \<Rightarrow> int \<Rightarrow> json \<Rightarrow> time \<Rightarrow> bool \<Rightarrow> repo \<Rightarrow>
    err + (outbox_event \<times> repo)" where
  "checkpoint_outbox t i worker token checkpoint now completed r =
     (case claimed_outbox t i worker token now r of
        Inl x \<Rightarrow> Inl x
      | Inr e \<Rightarrow>
          let e1 = e\<lparr>ob_checkpoint := checkpoint\<rparr>;
              e' = (if completed then e1\<lparr>ob_state := Obx_COMPLETED, ob_completed_at := Some now,
                      ob_lease_owner := None, ob_lease_until := None\<rparr> else e1)
          in Inr (e', put_event e' r))"

subsection \<open>The SQLite adapter\<close>

text \<open>
  \<open>_SECRET.sub\<close>: scanning left to right, a secret word in any case, a separator and the
  value after it, which is replaced.
\<close>

definition ws_at :: "string \<Rightarrow> string option" where
  "ws_at s = find (\<lambda>w. take (length w) s = w) ws_tokens"

fun skip_space :: "nat \<Rightarrow> string \<Rightarrow> string \<times> string" where
  "skip_space 0 s = ([], s)"
| "skip_space (Suc n) s = (case ws_at s of None \<Rightarrow> ([], s)
     | Some w \<Rightarrow> (case skip_space n (drop (length w) s) of (u, v) \<Rightarrow> (w @ u, v)))"

fun secret_value :: "nat \<Rightarrow> string \<Rightarrow> string \<times> string" where
  "secret_value 0 s = ([], s)"
| "secret_value (Suc n) s = (case s of [] \<Rightarrow> ([], [])
     | c # cs \<Rightarrow> if ws_at s \<noteq> None \<or> c = CHR '','' \<or> c = CHR '';'' then ([], s)
         else (case secret_value n cs of (u, v) \<Rightarrow> (c # u, v)))"

definition secret_words :: "string list" where
  "secret_words = [''api_key'', ''api-key'', ''apikey'', ''authorization'', ''token'', ''password'', ''secret'']"

definition secret_match :: "string \<Rightarrow> (string \<times> string) option" where
  "secret_match s = (case find (\<lambda>w. lower (take (length w) s) = w) secret_words of
     None \<Rightarrow> None
   | Some w \<Rightarrow> (case skip_space (length s) (drop (length w) s) of (sp1, r1) \<Rightarrow>
       (case r1 of [] \<Rightarrow> None
        | c # cs \<Rightarrow> if c \<noteq> CHR '':'' \<and> c \<noteq> CHR ''='' then None
            else (case skip_space (length s) cs of (sp2, r2) \<Rightarrow>
              (case secret_value (length s) r2 of (val, rest) \<Rightarrow>
                 if val = [] then None
                 else Some (take (length w) s @ sp1 @ c # sp2 @ ''[REDACTED]'', rest))))))"

fun redact :: "nat \<Rightarrow> string \<Rightarrow> string" where
  "redact 0 s = s"
| "redact (Suc n) [] = []"
| "redact (Suc n) (c # cs) = (case secret_match (c # cs) of
     Some (out, rest) \<Rightarrow> out @ redact n rest
   | None \<Rightarrow> c # redact n cs)"

definition safe_error :: "string \<Rightarrow> string" where
  "safe_error s = py_take 500 (redact (length s) s)"

definition backoff_seconds :: "int \<Rightarrow> int" where
  "backoff_seconds n = min 3600 (30 * 2 ^ nat (max 0 (n - 1)))"

text \<open>The primary key, the unique key and the foreign key of the table.\<close>

definition sq_append_outbox :: "string list \<Rightarrow> outbox_event \<Rightarrow> outbox_event list \<Rightarrow>
    err + (unit \<times> outbox_event list)" where
  "sq_append_outbox tenant_ids e tbl =
     (if list_ex (\<lambda>x. ob_id x = ob_id e \<or> (ob_tenant_id x = ob_tenant_id e
            \<and> ob_idempotency_key x = ob_idempotency_key e)) tbl \<or> ob_tenant_id e \<notin> set tenant_ids
      then Inl (ConflictError ''outbox idempotency key already exists'')
      else Inr ((), tbl @ [e\<lparr>ob_available_at := Some (case ob_available_at e of Some a \<Rightarrow> a
                                 | None \<Rightarrow> ob_created_at e)\<rparr>]))"

definition sq_row :: "string \<Rightarrow> string \<Rightarrow> outbox_event list \<Rightarrow> outbox_event option" where
  "sq_row t i tbl = first (\<lambda>e. ob_tenant_id e = t \<and> ob_id e = i) tbl"

definition sq_put :: "outbox_event \<Rightarrow> outbox_event list \<Rightarrow> outbox_event list" where
  "sq_put e tbl = map (\<lambda>x. if ob_tenant_id x = ob_tenant_id e \<and> ob_id x = ob_id e then e else x) tbl"

definition sq_claim_outbox :: "string \<Rightarrow> string \<Rightarrow> string \<Rightarrow> time \<Rightarrow> time \<Rightarrow> outbox_event list \<Rightarrow>
    err + (outbox_event \<times> outbox_event list)" where
  "sq_claim_outbox t i worker now until tbl = (case sq_row t i tbl of
     None \<Rightarrow> if list_ex (\<lambda>e. ob_id e = i) tbl
         then Inl (TenantBoundaryError ''cross-tenant outbox access denied'')
         else Inl (NotFoundError ''outbox event not found'')
   | Some e \<Rightarrow>
       if ob_state e \<in> {Obx_COMPLETED, Obx_DEAD} then Inl (ConflictError ''outbox event is terminal'')
       else if ob_state e = Obx_RETRY \<and> (case ob_available_at e of None \<Rightarrow> False | Some a \<Rightarrow> a > now)
       then Inl (ConflictError ''outbox event is not available'')
       else if (case ob_lease_until e of None \<Rightarrow> False | Some u \<Rightarrow> u > now)
       then Inl (ConflictError ''outbox event already leased'')
       else let e' = (lease worker until e)\<lparr>ob_attempts := ob_attempts e + 1, ob_last_error := None\<rparr>
            in Inr (e', sq_put e' tbl))"

text \<open>The SELECT: a ready row with no unfinished earlier row of its tenant and aggregate.\<close>

fun sq_next :: "string \<Rightarrow> time \<Rightarrow> outbox_event list \<Rightarrow> outbox_event list \<Rightarrow> outbox_event option" where
  "sq_next t now prior [] = None"
| "sq_next t now prior (e # es) =
     (if ob_tenant_id e = t \<and> ready_event now e
         \<and> \<not> list_ex (\<lambda>p. ob_tenant_id p = t \<and> ob_aggregate_ref p = ob_aggregate_ref e
                 \<and> \<not> terminal_event p) prior
      then Some e else sq_next t now (prior @ [e]) es)"

definition sq_claim_next_outbox :: "string \<Rightarrow> string \<Rightarrow> time \<Rightarrow> time \<Rightarrow> outbox_event list \<Rightarrow>
    err + (outbox_event option \<times> outbox_event list)" where
  "sq_claim_next_outbox t worker now until tbl = (case sq_next t now [] tbl of
     None \<Rightarrow> Inr (None, tbl)
   | Some e \<Rightarrow> (case sq_claim_outbox t (ob_id e) worker now until tbl of
         Inl x \<Rightarrow> Inl x | Inr (e', tbl') \<Rightarrow> Inr (Some e', tbl')))"

definition sq_claimed :: "string \<Rightarrow> string \<Rightarrow> string \<Rightarrow> int \<Rightarrow> time \<Rightarrow> outbox_event list \<Rightarrow>
    err + outbox_event" where
  "sq_claimed t i worker token now tbl = (case sq_row t i tbl of
     None \<Rightarrow> Inl (NotFoundError ''outbox event not found'')
   | Some e \<Rightarrow> if holds_lease worker token now e then Inr e
       else Inl (ConflictError ''stale or expired outbox lease''))"

definition sq_checkpoint_outbox :: "string \<Rightarrow> string \<Rightarrow> string \<Rightarrow> int \<Rightarrow> json \<Rightarrow> time \<Rightarrow> bool \<Rightarrow>
    outbox_event list \<Rightarrow> err + (outbox_event \<times> outbox_event list)" where
  "sq_checkpoint_outbox t i worker token checkpoint now completed tbl =
     (case sq_claimed t i worker token now tbl of
        Inl x \<Rightarrow> Inl x
      | Inr e \<Rightarrow>
          let e1 = e\<lparr>ob_checkpoint := checkpoint\<rparr>;
              e' = (if completed then e1\<lparr>ob_state := Obx_COMPLETED, ob_completed_at := Some now,
                      ob_lease_owner := None, ob_lease_until := None\<rparr>
                    else e1\<lparr>ob_state := Obx_LEASED, ob_completed_at := None\<rparr>)
          in Inr (e', sq_put e' tbl))"

definition sq_fail_outbox :: "string \<Rightarrow> string \<Rightarrow> string \<Rightarrow> int \<Rightarrow> string \<Rightarrow> time \<Rightarrow> int \<Rightarrow>
    outbox_event list \<Rightarrow> err + (outbox_event \<times> outbox_event list)" where
  "sq_fail_outbox t i worker token err now max_attempts tbl =
     (if max_attempts < 1 then Inl (ValueError ''max_attempts must be positive'')
      else case sq_claimed t i worker token now tbl of
        Inl x \<Rightarrow> Inl x
      | Inr e \<Rightarrow>
          let st = (if ob_attempts e \<ge> max_attempts then Obx_DEAD else Obx_RETRY);
              e' = e\<lparr>ob_state := st,
                     ob_available_at := Some (if st = Obx_DEAD then now
                        else now + seconds (backoff_seconds (ob_attempts e))),
                     ob_last_error := Some (safe_error err),
                     ob_lease_owner := None, ob_lease_until := None\<rparr>
          in Inr (e', sq_put e' tbl))"

subsection \<open>Well-formed tables\<close>

definition outbox_wf :: "repo \<Rightarrow> bool" where
  "outbox_wf r \<longleftrightarrow> distinct (map fst (outbox r))
     \<and> (\<forall>t i e. ((t, i), e) \<in> set (outbox r) \<longrightarrow> ob_tenant_id e = t \<and> ob_id e = i)"

definition sq_wf :: "outbox_event list \<Rightarrow> bool" where
  "sq_wf tbl \<longleftrightarrow> distinct (map ob_id tbl)"

lemma outbox_wf_put: "outbox_wf r \<Longrightarrow> outbox_wf (put_event e r)"
  using set_dset_sub [of "(ob_tenant_id e, ob_id e)" e "outbox r"]
  by (auto simp: outbox_wf_def put_event_def distinct_dset)

lemma outbox_wf_dget:
  "outbox_wf r \<Longrightarrow> dget (outbox r) (t, i) = Some e \<Longrightarrow> ob_tenant_id e = t \<and> ob_id e = i"
  by (auto simp: outbox_wf_def dest: dget_in)

lemma find_in_rows:
  assumes "outbox_wf r"
  shows "first (\<lambda>e. ob_id e = i) (outbox_for t r) = dget (outbox r) (t, i)"
proof -
  have scan: "first (\<lambda>e. ob_id e = i) (rows t d) = dget d (t, i)"
    if "\<forall>u j e. ((u, j), e) \<in> set d \<longrightarrow> ob_tenant_id e = u \<and> ob_id e = j" for d
    using that
  proof (induction d)
    case (Cons x d)
    obtain u j e where x: "x = ((u, j), e)" by (metis surj_pair)
    with Cons.prems have "ob_id e = j" by auto
    moreover have "first (\<lambda>e. ob_id e = i) (rows t d) = dget d (t, i)"
      using Cons.prems by (intro Cons.IH) simp
    ultimately show ?case by (cases "u = t") (auto simp: rows_def x)
  qed (simp add: rows_def)
  from assms have "\<forall>u j e. ((u, j), e) \<in> set (outbox r) \<longrightarrow> ob_tenant_id e = u \<and> ob_id e = j"
    unfolding outbox_wf_def by blast
  then show ?thesis unfolding outbox_for_def by (rule scan)
qed

lemma claimed_outbox_ok:
  "outbox_wf r \<Longrightarrow> claimed_outbox t i w tok now r = Inr e \<longleftrightarrow>
     dget (outbox r) (t, i) = Some e \<and> holds_lease w tok now e"
  by (auto simp: claimed_outbox_def find_in_rows split: option.splits if_splits)

lemma sq_row_put:
  "sq_row u j (sq_put e tbl) = (if u = ob_tenant_id e \<and> j = ob_id e
     then map_option (\<lambda>_. e) (sq_row u j tbl) else sq_row u j tbl)"
  by (induction tbl) (auto simp: sq_row_def sq_put_def)

lemma sq_row_Some: "sq_row t i tbl = Some e \<Longrightarrow> ob_tenant_id e = t \<and> ob_id e = i"
  unfolding sq_row_def by (drule first_Some) simp

lemma sq_wf_put: "sq_wf (sq_put e tbl) = sq_wf tbl"
proof -
  have "map ob_id (sq_put e tbl) = map ob_id tbl" by (simp add: sq_put_def)
  then show ?thesis by (simp add: sq_wf_def)
qed

subsection \<open>The lease interface\<close>

datatype lease_call =
    LClaim string string string time time
  | LNext string string time time
  | LCheckpoint string string string int json time bool
  | LFail string string string int string time int

definition settle :: "'q \<Rightarrow> err + ('a \<times> 'q) \<Rightarrow> ('a \<Rightarrow> outbox_event option) \<Rightarrow> (err + outbox_event option) \<times> 'q" where
  "settle q res f = (case res of Inl x \<Rightarrow> (Inl x, q) | Inr (a, q') \<Rightarrow> (Inr (f a), q'))"

fun mem_call :: "lease_call \<Rightarrow> repo \<Rightarrow> (err + outbox_event option) \<times> repo" where
  "mem_call (LClaim t i w now until) r = settle r (claim_outbox t i w now until r) Some"
| "mem_call (LNext t w now until) r = settle r (claim_next_outbox t w now until r) (\<lambda>x. x)"
| "mem_call (LCheckpoint t i w tok c now d) r = settle r (checkpoint_outbox t i w tok c now d r) Some"
| "mem_call (LFail t i w tok err now k) r = settle r (fail_outbox t i w tok err now k r) Some"

fun sq_call :: "lease_call \<Rightarrow> outbox_event list \<Rightarrow> (err + outbox_event option) \<times> outbox_event list" where
  "sq_call (LClaim t i w now until) r = settle r (sq_claim_outbox t i w now until r) Some"
| "sq_call (LNext t w now until) r = settle r (sq_claim_next_outbox t w now until r) (\<lambda>x. x)"
| "sq_call (LCheckpoint t i w tok c now d) r = settle r (sq_checkpoint_outbox t i w tok c now d r) Some"
| "sq_call (LFail t i w tok err now k) r = settle r (sq_fail_outbox t i w tok err now k r) Some"

fun run_calls :: "(lease_call \<Rightarrow> 'q \<Rightarrow> (err + outbox_event option) \<times> 'q) \<Rightarrow> lease_call list \<Rightarrow> 'q \<Rightarrow> 'q" where
  "run_calls step [] q = q"
| "run_calls step (c # cs) q = run_calls step cs (snd (step c q))"

definition mem_find :: "repo \<Rightarrow> string \<Rightarrow> string \<Rightarrow> outbox_event option" where
  "mem_find r t i = dget (outbox r) (t, i)"

definition sq_find :: "outbox_event list \<Rightarrow> string \<Rightarrow> string \<Rightarrow> outbox_event option" where
  "sq_find tbl t i = sq_row t i tbl"

text \<open>
  What a worker relies on: a claim raises the token by one and is the lease in force, no call
  ever lowers a token or loses an event, and a report is accepted only from the lease in force.
\<close>

locale leased_queue =
  fixes step :: "lease_call \<Rightarrow> 'q \<Rightarrow> (err + outbox_event option) \<times> 'q"
    and find_event :: "'q \<Rightarrow> string \<Rightarrow> string \<Rightarrow> outbox_event option"
    and wf :: "'q \<Rightarrow> bool"
  assumes wf_step: "wf q \<Longrightarrow> wf (snd (step c q))"
    and claim_law: "wf q \<Longrightarrow> step (LClaim t i w now until) q = (Inr (Some e), q') \<Longrightarrow>
      \<exists>e0. find_event q t i = Some e0 \<and> find_event q' t i = Some e
         \<and> ob_fencing_token e = ob_fencing_token e0 + 1 \<and> ob_state e = Obx_LEASED \<and> ob_lease_owner e = Some w"
    and token_law: "wf q \<Longrightarrow> find_event q t i = Some e \<Longrightarrow>
      \<exists>e'. find_event (snd (step c q)) t i = Some e' \<and> ob_fencing_token e \<le> ob_fencing_token e'"
    and checkpoint_law: "wf q \<Longrightarrow> step (LCheckpoint t i w tok p now d) q = (Inr x, q') \<Longrightarrow>
      \<exists>e. find_event q t i = Some e \<and> holds_lease w tok now e"
    and fail_law: "wf q \<Longrightarrow> step (LFail t i w tok err now k) q = (Inr x, q') \<Longrightarrow>
      \<exists>e. find_event q t i = Some e \<and> holds_lease w tok now e"
begin

lemma run_wf: "wf q \<Longrightarrow> wf (run_calls step cs q)"
  by (induction cs arbitrary: q) (auto intro: wf_step)

lemma run_token:
  "wf q \<Longrightarrow> find_event q t i = Some e \<Longrightarrow>
     \<exists>e'. find_event (run_calls step cs q) t i = Some e' \<and> ob_fencing_token e \<le> ob_fencing_token e'"
proof (induction cs arbitrary: q e)
  case (Cons c cs)
  obtain e1 where e1: "find_event (snd (step c q)) t i = Some e1" "ob_fencing_token e \<le> ob_fencing_token e1"
    using token_law [OF Cons.prems] by blast
  from Cons.IH [OF wf_step [OF Cons.prems(1)] e1(1)] e1(2) show ?case by fastforce
qed auto

text \<open>Once another claim has succeeded, whatever happens between, the old token is refused.\<close>

lemma stale_token_refused:
  assumes "wf q"
    and c1: "step (LClaim t i w1 now1 until1) q = (Inr (Some e1), q1)"
    and c2: "step (LClaim t i w2 now2 until2) (run_calls step cs q1) = (Inr (Some e2), q2)"
  shows "\<exists>x. fst (step (LCheckpoint t i w1 (ob_fencing_token e1) p now d) (run_calls step ds q2)) = Inl x"
    and "\<exists>x. fst (step (LFail t i w1 (ob_fencing_token e1) err now k) (run_calls step ds q2)) = Inl x"
proof -
  have wf1: "wf q1" using wf_step [OF assms(1), of "LClaim t i w1 now1 until1"] c1 by simp
  have wf2: "wf (run_calls step cs q1)" by (rule run_wf [OF wf1])
  have wf3: "wf q2" using wf_step [OF wf2, of "LClaim t i w2 now2 until2"] c2 by simp
  obtain e where e: "find_event (run_calls step cs q1) t i = Some e" "ob_fencing_token e1 \<le> ob_fencing_token e"
    using claim_law [OF assms(1) c1] run_token [OF wf1] by blast
  obtain e3 where "find_event (run_calls step ds q2) t i = Some e3" "ob_fencing_token e1 < ob_fencing_token e3"
    using claim_law [OF wf2 c2] e run_token [OF wf3, of t i e2 ds] by auto
  then have no: "\<not> (\<exists>e. find_event (run_calls step ds q2) t i = Some e \<and> holds_lease w1 (ob_fencing_token e1) now e)"
    by (auto simp: holds_lease_def)
  show "\<exists>x. fst (step (LCheckpoint t i w1 (ob_fencing_token e1) p now d) (run_calls step ds q2)) = Inl x"
    using checkpoint_law [OF run_wf [OF wf3]] no by (metis eq_fst_iff sum.exhaust)
  show "\<exists>x. fst (step (LFail t i w1 (ob_fencing_token e1) err now k) (run_calls step ds q2)) = Inl x"
    using fail_law [OF run_wf [OF wf3]] no by (metis eq_fst_iff sum.exhaust)
qed

end

subsection \<open>Both adapters implement it\<close>

lemma claim_outbox_ok:
  "claim_outbox t i w now until r = Inr (e, r') \<Longrightarrow>
     \<exists>e0. dget (outbox r) (t, i) = Some e0 \<and> e = lease w until e0 \<and> r' = put_event e r \<and> ob_state e0 \<noteq> Obx_COMPLETED"
  by (auto simp: claim_outbox_def split: option.splits if_splits)

definition advances :: "outbox_event \<Rightarrow> outbox_event \<Rightarrow> bool" where
  "advances e0 e \<longleftrightarrow> ob_tenant_id e = ob_tenant_id e0 \<and> ob_id e = ob_id e0 \<and> ob_fencing_token e0 \<le> ob_fencing_token e"

lemma advances_lease: "advances e (lease w until e)"
  by (simp add: advances_def lease_def)

lemma advances_fields:
  "advances e (e\<lparr>ob_checkpoint := c\<rparr>)"
  "advances e (e\<lparr>ob_checkpoint := c, ob_state := st, ob_completed_at := ca\<rparr>)"
  "advances e (e\<lparr>ob_checkpoint := c, ob_state := st, ob_completed_at := ca, ob_lease_owner := lo, ob_lease_until := lu\<rparr>)"
  "advances e (e\<lparr>ob_state := st, ob_available_at := av, ob_last_error := le, ob_lease_owner := lo, ob_lease_until := lu\<rparr>)"
  by (simp_all add: advances_def)

text \<open>Every call leaves the table alone or replaces one event by one that advances it.\<close>

definition one_event :: "('q \<Rightarrow> outbox_event \<Rightarrow> bool) \<Rightarrow> (outbox_event \<Rightarrow> 'q \<Rightarrow> 'q) \<Rightarrow> 'q \<Rightarrow> 'q \<Rightarrow> bool" where
  "one_event stored put q q' \<longleftrightarrow> q' = q \<or> (\<exists>e0 e. stored q e0 \<and> q' = put e q \<and> advances e0 e)"

lemma one_event_refl [simp]: "one_event stored put q q"
  by (simp add: one_event_def)

lemma one_event_put: "stored q e0 \<Longrightarrow> advances e0 e \<Longrightarrow> one_event stored put q (put e q)"
  by (auto simp: one_event_def)

abbreviation mem_stored :: "repo \<Rightarrow> outbox_event \<Rightarrow> bool" where
  "mem_stored r e \<equiv> dget (outbox r) (ob_tenant_id e, ob_id e) = Some e"

abbreviation sq_stored :: "outbox_event list \<Rightarrow> outbox_event \<Rightarrow> bool" where
  "sq_stored tbl e \<equiv> sq_row (ob_tenant_id e) (ob_id e) tbl = Some e"

lemma mem_stored_dget: "outbox_wf r \<Longrightarrow> dget (outbox r) (t, i) = Some e \<Longrightarrow> mem_stored r e"
  using outbox_wf_dget by fastforce

lemma mem_changes:
  assumes "outbox_wf r"
  shows "one_event mem_stored put_event r (snd (mem_call c r))"
proof (cases c)
  case (LClaim t i w now until)
  then show ?thesis
    by (auto simp: settle_def intro: one_event_put mem_stored_dget [OF assms] advances_lease
        split: sum.splits dest!: claim_outbox_ok)
next
  case (LNext t w now until)
  then show ?thesis
    by (auto simp: settle_def claim_next_outbox_def split: sum.splits option.splits
        intro: one_event_put mem_stored_dget [OF assms] advances_lease dest!: claim_outbox_ok)
next
  case (LCheckpoint t i w tok p now d)
  then show ?thesis
    by (auto simp: settle_def checkpoint_outbox_def Let_def claimed_outbox_ok [OF assms] split: sum.splits
        intro: one_event_put mem_stored_dget [OF assms] advances_fields)
next
  case (LFail t i w tok err now k)
  then show ?thesis
    by (auto simp: settle_def fail_outbox_def Let_def claimed_outbox_ok [OF assms] split: sum.splits if_splits
        intro: one_event_put mem_stored_dget [OF assms] advances_fields)
qed

lemma sq_claim_ok:
  "sq_claim_outbox t i w now until tbl = Inr (e, tbl') \<Longrightarrow>
     \<exists>e0. sq_row t i tbl = Some e0 \<and> e = (lease w until e0)\<lparr>ob_attempts := ob_attempts e0 + 1, ob_last_error := None\<rparr>
        \<and> tbl' = sq_put e tbl \<and> \<not> terminal_event e0 \<and> (\<forall>u. ob_lease_until e0 = Some u \<longrightarrow> u \<le> now)"
  by (auto simp: sq_claim_outbox_def terminal_event_def Let_def split: option.splits if_splits)

lemma sq_claimed_ok:
  "sq_claimed t i w tok now tbl = Inr e \<longleftrightarrow> sq_row t i tbl = Some e \<and> holds_lease w tok now e"
  by (auto simp: sq_claimed_def split: option.splits if_splits)

lemma advances_sq_claim:
  "advances e ((lease w until e)\<lparr>ob_attempts := n, ob_last_error := le\<rparr>)"
  by (simp add: advances_def lease_def)

lemma sq_stored_row: "sq_row t i tbl = Some e \<Longrightarrow> sq_stored tbl e"
  using sq_row_Some by fastforce

lemma sq_changes: "one_event sq_stored sq_put tbl (snd (sq_call c tbl))"
proof (cases c)
  case (LClaim t i w now until)
  then show ?thesis
    by (auto simp: settle_def intro: one_event_put sq_stored_row advances_sq_claim split: sum.splits
        dest!: sq_claim_ok)
next
  case (LNext t w now until)
  then show ?thesis
    by (auto simp: settle_def sq_claim_next_outbox_def split: sum.splits option.splits
        intro: one_event_put sq_stored_row advances_sq_claim dest!: sq_claim_ok)
next
  case (LCheckpoint t i w tok p now d)
  then show ?thesis
    by (auto simp: settle_def sq_checkpoint_outbox_def Let_def sq_claimed_ok split: sum.splits
        intro: one_event_put sq_stored_row advances_fields)
next
  case (LFail t i w tok err now k)
  then show ?thesis
    by (auto simp: settle_def sq_fail_outbox_def Let_def sq_claimed_ok split: sum.splits if_splits
        intro: one_event_put sq_stored_row advances_fields)
qed

interpretation mem_queue: leased_queue mem_call mem_find outbox_wf
proof
  fix q c t i e assume wf: "outbox_wf q"
  show "outbox_wf (snd (mem_call c q))"
    using mem_changes [OF wf, of c] outbox_wf_put [OF wf] wf by (auto simp: one_event_def)
  assume e: "mem_find q t i = Some e"
  show "\<exists>e'. mem_find (snd (mem_call c q)) t i = Some e' \<and> ob_fencing_token e \<le> ob_fencing_token e'"
    using mem_changes [OF wf, of c] e
    by (auto simp: one_event_def advances_def mem_find_def put_event_def dget_dset)
next
  fix q t i w now until e q' assume "outbox_wf q" "mem_call (LClaim t i w now until) q = (Inr (Some e), q')"
  then show "\<exists>e0. mem_find q t i = Some e0 \<and> mem_find q' t i = Some e \<and> ob_fencing_token e = ob_fencing_token e0 + 1
      \<and> ob_state e = Obx_LEASED \<and> ob_lease_owner e = Some w"
    using outbox_wf_dget [of q t i]
    by (auto simp: settle_def mem_find_def put_event_def dget_dset lease_def split: sum.splits dest!: claim_outbox_ok)
next
  fix q t i w tok p now d x q' assume "outbox_wf q" "mem_call (LCheckpoint t i w tok p now d) q = (Inr x, q')"
  then show "\<exists>e. mem_find q t i = Some e \<and> holds_lease w tok now e"
    by (auto simp: settle_def checkpoint_outbox_def mem_find_def claimed_outbox_ok split: sum.splits)
next
  fix q t i w tok err now k x q' assume "outbox_wf q" "mem_call (LFail t i w tok err now k) q = (Inr x, q')"
  then show "\<exists>e. mem_find q t i = Some e \<and> holds_lease w tok now e"
    by (auto simp: settle_def fail_outbox_def mem_find_def claimed_outbox_ok split: sum.splits if_splits)
qed

interpretation sq_queue: leased_queue sq_call sq_find sq_wf
proof
  fix q c t i e assume wf: "sq_wf q"
  show "sq_wf (snd (sq_call c q))"
    using sq_changes [of q c] wf by (auto simp: one_event_def sq_wf_put)
  assume e: "sq_find q t i = Some e"
  show "\<exists>e'. sq_find (snd (sq_call c q)) t i = Some e' \<and> ob_fencing_token e \<le> ob_fencing_token e'"
    using sq_changes [of q c] e by (auto simp: one_event_def advances_def sq_find_def sq_row_put)
next
  fix q t i w now until e q' assume "sq_wf q" "sq_call (LClaim t i w now until) q = (Inr (Some e), q')"
  then show "\<exists>e0. sq_find q t i = Some e0 \<and> sq_find q' t i = Some e \<and> ob_fencing_token e = ob_fencing_token e0 + 1
      \<and> ob_state e = Obx_LEASED \<and> ob_lease_owner e = Some w"
    by (auto simp: settle_def sq_find_def sq_row_put lease_def split: sum.splits dest!: sq_claim_ok dest: sq_row_Some)
next
  fix q t i w tok p now d x q' assume "sq_wf q" "sq_call (LCheckpoint t i w tok p now d) q = (Inr x, q')"
  then show "\<exists>e. sq_find q t i = Some e \<and> holds_lease w tok now e"
    by (auto simp: settle_def sq_checkpoint_outbox_def sq_find_def sq_claimed_ok split: sum.splits)
next
  fix q t i w tok err now k x q' assume "sq_wf q" "sq_call (LFail t i w tok err now k) q = (Inr x, q')"
  then show "\<exists>e. sq_find q t i = Some e \<and> holds_lease w tok now e"
    by (auto simp: settle_def sq_fail_outbox_def sq_find_def sq_claimed_ok split: sum.splits if_splits)
qed

subsection \<open>Fencing\<close>

text \<open>
  C11: In the in-memory adapter, once a second claim of an event has succeeded, no checkpoint
  and no failure report that carries the first claim's fencing token is accepted, whatever
  calls run before, between and after.
\<close>

theorem outbox_fencing:
  assumes "outbox_wf r"
    and "mem_call (LClaim t i w1 now1 until1) r = (Inr (Some e1), r1)"
    and "mem_call (LClaim t i w2 now2 until2) (run_calls mem_call cs r1) = (Inr (Some e2), r2)"
  shows "(\<exists>x. fst (mem_call (LCheckpoint t i w1 (ob_fencing_token e1) p now d) (run_calls mem_call ds r2)) = Inl x)
       \<and> (\<exists>x. fst (mem_call (LFail t i w1 (ob_fencing_token e1) err now k) (run_calls mem_call ds r2)) = Inl x)"
  using mem_queue.stale_token_refused [OF assms] by blast

definition demo_event :: outbox_event where
  "demo_event = new_outbox_event ''e'' ''t'' ''topic'' ''a'' (JObj []) ''k'' Obx_PENDING 0"

definition demo_outbox :: repo where
  "demo_outbox = put_event demo_event empty_repo"

theorem outbox_fencing_witness:
  "(\<exists>x. fst (mem_call (LCheckpoint ''t'' ''e'' ''w1'' 1 (JObj []) 30 True)
      (snd (mem_call (LClaim ''t'' ''e'' ''w2'' 20 40) (snd (mem_call (LClaim ''t'' ''e'' ''w1'' 0 10) demo_outbox))))) = Inl x)"
proof -
  have wf: "outbox_wf demo_outbox"
    by (simp add: outbox_wf_def demo_outbox_def demo_event_def put_event_def empty_repo_def new_outbox_event_def)
  have c1: "mem_call (LClaim ''t'' ''e'' ''w1'' 0 10) demo_outbox =
      (Inr (Some (lease ''w1'' 10 demo_event)), put_event (lease ''w1'' 10 demo_event) demo_outbox)"
    by (simp add: demo_outbox_def demo_event_def put_event_def empty_repo_def new_outbox_event_def
        settle_def claim_outbox_def)
  have c2: "mem_call (LClaim ''t'' ''e'' ''w2'' 20 40) (put_event (lease ''w1'' 10 demo_event) demo_outbox) =
      (Inr (Some (lease ''w2'' 40 (lease ''w1'' 10 demo_event))),
       put_event (lease ''w2'' 40 (lease ''w1'' 10 demo_event)) (put_event (lease ''w1'' 10 demo_event) demo_outbox))"
    by (simp add: demo_outbox_def demo_event_def put_event_def empty_repo_def new_outbox_event_def
        settle_def claim_outbox_def lease_def)
  have "ob_fencing_token (lease ''w1'' 10 demo_event) = 1"
    by (simp add: lease_def demo_event_def new_outbox_event_def)
  with outbox_fencing [OF wf c1, of "''w2''" 20 40 "[]" _ _ "JObj []" 30 True "[]" "[]" 0] c1 c2
  show ?thesis by simp
qed

text \<open>
  The SQLite adapter fences in the same way.
\<close>

theorem sq_outbox_fencing:
  assumes "sq_wf tbl"
    and "sq_call (LClaim t i w1 now1 until1) tbl = (Inr (Some e1), tbl1)"
    and "sq_call (LClaim t i w2 now2 until2) (run_calls sq_call cs tbl1) = (Inr (Some e2), tbl2)"
  shows "(\<exists>x. fst (sq_call (LCheckpoint t i w1 (ob_fencing_token e1) p now d) (run_calls sq_call ds tbl2)) = Inl x)
       \<and> (\<exists>x. fst (sq_call (LFail t i w1 (ob_fencing_token e1) err now k) (run_calls sq_call ds tbl2)) = Inl x)"
  using sq_queue.stale_token_refused [OF assms] by blast

theorem sq_outbox_fencing_witness:
  "\<exists>x. fst (sq_call (LFail ''t'' ''e'' ''w1'' 1 ''boom'' 30 5)
      (snd (sq_call (LClaim ''t'' ''e'' ''w2'' 20 40) (snd (sq_call (LClaim ''t'' ''e'' ''w1'' 0 10) [demo_event]))))) = Inl x"
proof -
  let ?e1 = "(lease ''w1'' 10 demo_event)\<lparr>ob_attempts := 1, ob_last_error := None\<rparr>"
  let ?e2 = "(lease ''w2'' 40 ?e1)\<lparr>ob_attempts := 2, ob_last_error := None\<rparr>"
  have wf: "sq_wf [demo_event]" by (simp add: sq_wf_def)
  have c1: "sq_call (LClaim ''t'' ''e'' ''w1'' 0 10) [demo_event] = (Inr (Some ?e1), [?e1])"
    by (simp add: settle_def sq_claim_outbox_def sq_row_def sq_put_def demo_event_def new_outbox_event_def lease_def Let_def)
  have c2: "sq_call (LClaim ''t'' ''e'' ''w2'' 20 40) [?e1] = (Inr (Some ?e2), [?e2])"
    by (simp add: settle_def sq_claim_outbox_def sq_row_def sq_put_def demo_event_def new_outbox_event_def lease_def Let_def)
  have "ob_fencing_token ?e1 = 1" by (simp add: lease_def demo_event_def new_outbox_event_def)
  with sq_outbox_fencing [OF wf c1, of "''w2''" 20 40 "[]" ?e2 "[?e2]" "JObj []" 30 True "[]" "''boom''" 5] c1 c2
  show ?thesis by simp
qed

subsection \<open>Order and progress of claim_next_outbox\<close>

definition eligible :: "string \<Rightarrow> time \<Rightarrow> (string \<times> string, outbox_event) dict \<Rightarrow> outbox_event \<Rightarrow> bool" where
  "eligible t now items e \<longleftrightarrow> (\<exists>pre i post. items = pre @ ((t, i), e) # post \<and> ready_event now e
     \<and> (\<forall>k p. (k, p) \<in> set pre \<longrightarrow> fst k = t \<longrightarrow> ob_aggregate_ref p = ob_aggregate_ref e \<longrightarrow> terminal_event p))"

lemma next_claimable_Some:
  "next_claimable t now blocked items = Some e \<Longrightarrow> eligible t now items e \<and> ob_aggregate_ref e \<notin> blocked"
proof (induction t now blocked items rule: next_claimable.induct)
  case (2 t now blocked tid i e0 items)
  show ?case
  proof (cases "tid = t \<and> ready_event now e0 \<and> ob_aggregate_ref e0 \<notin> blocked")
    case True
    with 2 have "e0 = e" by simp
    with True show ?thesis
      unfolding eligible_def by (intro conjI exI [of _ "[]"] exI [of _ i] exI [of _ items]) auto
  next
    case False
    then obtain blocked' where rec: "next_claimable t now blocked' items = Some e"
      and el: "eligible t now items e" and b': "ob_aggregate_ref e \<notin> blocked'"
      and blocked': "blocked' = (if tid = t \<and> \<not> terminal_event e0 then insert (ob_aggregate_ref e0) blocked else blocked)"
      using 2 by (cases "tid = t") (auto split: if_splits)
    from el obtain pre j post where split: "items = pre @ ((t, j), e) # post" "ready_event now e"
      "\<forall>k p. (k, p) \<in> set pre \<longrightarrow> fst k = t \<longrightarrow> ob_aggregate_ref p = ob_aggregate_ref e \<longrightarrow> terminal_event p"
      unfolding eligible_def by blast
    have "eligible t now (((tid, i), e0) # items) e"
      unfolding eligible_def
      using split b' blocked' by (intro exI [of _ "((tid, i), e0) # pre"] exI [of _ j] exI [of _ post]) (auto split: if_splits)
    with b' blocked' show ?thesis by (auto split: if_splits)
  qed
qed simp

lemma next_claimable_None:
  "next_claimable t now blocked items = None \<Longrightarrow> eligible t now items e \<Longrightarrow> ob_aggregate_ref e \<in> blocked"
proof (induction t now blocked items rule: next_claimable.induct)
  case (2 t now blocked tid i e0 items)
  from 2(4) obtain pre j post where split: "((tid, i), e0) # items = pre @ ((t, j), e) # post" "ready_event now e"
    "\<forall>k p. (k, p) \<in> set pre \<longrightarrow> fst k = t \<longrightarrow> ob_aggregate_ref p = ob_aggregate_ref e \<longrightarrow> terminal_event p"
    unfolding eligible_def by blast
  show ?case
  proof (cases pre)
    case Nil
    with split 2(3) show ?thesis by (auto split: if_splits)
  next
    case (Cons x pre')
    with split have el: "eligible t now items e" unfolding eligible_def by auto
    from Cons split have x: "x = ((tid, i), e0)"
      "tid = t \<Longrightarrow> ob_aggregate_ref e0 = ob_aggregate_ref e \<Longrightarrow> terminal_event e0" by auto
    show ?thesis
    proof (cases "tid = t")
      case False
      with 2 el show ?thesis by simp
    next
      case True
      with 2 el x(2) show ?thesis by (auto split: if_splits)
    qed
  qed
qed (simp add: eligible_def)

text \<open>Only a leased event carries a lease: what keeps a ready event claimable.\<close>

definition leases_wf :: "repo \<Rightarrow> bool" where
  "leases_wf r \<longleftrightarrow> (\<forall>k e. (k, e) \<in> set (outbox r) \<longrightarrow> ob_state e \<noteq> Obx_LEASED \<longrightarrow> ob_lease_until e = None)"

lemma claim_ready:
  assumes "outbox_wf r" "leases_wf r" "dget (outbox r) (t, i) = Some e" "ready_event now e"
  shows "claim_outbox t i w now until r = Inr (lease w until e, put_event (lease w until e) r)"
proof -
  have "ob_state e \<noteq> Obx_LEASED \<Longrightarrow> ob_lease_until e = None"
    using assms(2) dget_in [OF assms(3)] unfolding leases_wf_def by blast
  with assms(3,4) show ?thesis
    by (auto simp: claim_outbox_def ready_event_def split: option.splits)
qed

text \<open>
  C13: \<open>claim_next_outbox\<close> claims in order and never starves: it leases an event that is ready
  and all of whose earlier events of the same aggregate are finished, and it returns nothing
  only when the tenant has no such event.
\<close>

theorem claim_next_order:
  assumes "outbox_wf r" "leases_wf r"
  shows "(\<exists>e. claim_next_outbox t w now until r = Inr (Some (lease w until e), put_event (lease w until e) r)
              \<and> eligible t now (outbox r) e)
       \<or> (claim_next_outbox t w now until r = Inr (None, r) \<and> \<not> (\<exists>e. eligible t now (outbox r) e))"
proof (cases "next_claimable t now {} (outbox r)")
  case None
  then show ?thesis using next_claimable_None [OF None] by (auto simp: claim_next_outbox_def)
next
  case (Some e)
  then have el: "eligible t now (outbox r) e" using next_claimable_Some by blast
  then obtain pre i post where split: "outbox r = pre @ ((t, i), e) # post" and ready: "ready_event now e"
    unfolding eligible_def by blast
  have "((t, i), e) \<in> set (outbox r)" by (simp add: split)
  then have "dget (outbox r) (t, ob_id e) = Some e"
    using assms(1) by (auto simp: outbox_wf_def)
  from claim_ready [OF assms this ready] show ?thesis
    using Some el by (auto simp: claim_next_outbox_def)
qed

theorem claim_next_order_witness:
  "(\<exists>e. claim_next_outbox ''t'' ''w'' 5 9 demo_outbox = Inr (Some (lease ''w'' 9 e), put_event (lease ''w'' 9 e) demo_outbox)
        \<and> eligible ''t'' 5 (outbox demo_outbox) e)
   \<or> (claim_next_outbox ''t'' ''w'' 5 9 demo_outbox = Inr (None, demo_outbox) \<and> \<not> (\<exists>e. eligible ''t'' 5 (outbox demo_outbox) e))"
  by (rule claim_next_order)
    (simp_all add: outbox_wf_def leases_wf_def demo_outbox_def demo_event_def put_event_def empty_repo_def new_outbox_event_def)

subsection \<open>Appending events\<close>

text \<open>The pattern \<open>repo.append_outbox(OutboxEvent(str(uuid4()), ..., OutboxState.PENDING, now))\<close>.\<close>

definition enqueue :: "string \<Rightarrow> string \<Rightarrow> string \<Rightarrow> json \<Rightarrow> string \<Rightarrow> time \<Rightarrow> unit svc" where
  "enqueue t topic aggregate payload key now =
     bnd uuid4 (\<lambda>i. mutate (append_outbox (new_outbox_event i t topic aggregate payload key Obx_PENDING now)))"

lemma writes_append_outbox:
  "append_outbox e r = Inr ((), r') \<Longrightarrow> T_outbox \<in> L \<Longrightarrow> writes h (ob_tenant_id e) L r r'"
  by (auto simp: append_outbox_def put_event_def split: if_splits intro!: writes_one W_outbox)

lemma acts_enqueue [acts_rules]:
  "T_outbox \<in> L \<Longrightarrow> acts h t L (enqueue t topic aggregate payload key now) (\<lambda>_. True)"
  unfolding enqueue_def
proof (rule acts_bnd_any [OF acts_env(1)], rule acts_mutate)
  fix i r a r'
  let ?e = "new_outbox_event i t topic aggregate payload key Obx_PENDING now"
  assume "T_outbox \<in> L" "append_outbox ?e r = Inr (a, r')"
  with writes_append_outbox [of ?e r r' L h] show "writes h t L r r' \<and> True"
    by (simp add: new_outbox_event_def)
qed

lemma enqueue_ok:
  "enqueue t topic aggregate payload key now s = (Inr (), s') \<longleftrightarrow>
     dget (outbox_idempotency (db s)) (t, key) = None \<and>
     (let e = new_outbox_event (uuid_src s (uuid_ctr s)) t topic aggregate payload key Obx_PENDING now in
      s' = s\<lparr>uuid_ctr := Suc (uuid_ctr s), db := (put_event e (db s))\<lparr>outbox_idempotency :=
             dset (t, key) (ob_id e) (outbox_idempotency (db s))\<rparr>\<rparr>)"
  by (auto simp: enqueue_def svc_ok append_outbox_def new_outbox_event_def Let_def)

lemma enqueue_fails:
  "enqueue t topic aggregate payload key now s = (Inl e, s') \<Longrightarrow> db s' = db s"
  by (auto simp: enqueue_def op_simps append_outbox_def split: if_splits)

text \<open>A worker's call on the in-memory outbox, and whose rows it may write.\<close>

fun call_tenant :: "lease_call \<Rightarrow> string" where
  "call_tenant (LClaim t i w now until) = t"
| "call_tenant (LNext t w now until) = t"
| "call_tenant (LCheckpoint t i w tok c now d) = t"
| "call_tenant (LFail t i w tok err now k) = t"

definition worker_call :: "lease_call \<Rightarrow> outbox_event option svc" where
  "worker_call c s = (fst (mem_call c (db s)), s\<lparr>db := snd (mem_call c (db s))\<rparr>)"

lemma wf_outbox: "wf_repo r \<Longrightarrow> outbox_wf r"
  using wf_tableD [of r T_outbox] by (auto simp: outbox_wf_def keyed_def)

lemma writes_put_event:
  assumes "wf_repo r" "dget (outbox r) (t, i) = Some e0" "ob_tenant_id e = ob_tenant_id e0"
    "ob_id e = ob_id e0" "ob_idempotency_key e = ob_idempotency_key e0"
  shows "writes h t {T_outbox} r (put_event e r)"
proof -
  have "ob_tenant_id e = t" "ob_id e = i"
    using outbox_wf_dget [OF wf_outbox [OF assms(1)] assms(2)] assms(3,4) by simp_all
  then show ?thesis
    using W_outbox_update [of e t r e0 h] assms(2,5) by (auto simp: put_event_def intro: writes_one)
qed

lemma mem_call_writes:
  assumes "wf_repo r"
  shows "writes h (call_tenant c) {T_outbox} r (snd (mem_call c r))"
proof -
  note put = writes_put_event [OF assms, where h = h] and claimed = claimed_outbox_ok [OF wf_outbox [OF assms]]
  show ?thesis
  proof (cases c)
    case (LClaim t i w now until)
    then show ?thesis
      by (auto simp: settle_def lease_def intro: put split: sum.splits dest!: claim_outbox_ok)
  next
    case (LNext t w now until)
    then show ?thesis
      by (auto simp: settle_def lease_def claim_next_outbox_def intro: put split: sum.splits option.splits
          dest!: claim_outbox_ok)
  next
    case (LCheckpoint t i w tok p now d)
    then show ?thesis
      by (auto simp: settle_def checkpoint_outbox_def Let_def claimed intro: put split: sum.splits)
  next
    case (LFail t i w tok err now k)
    then show ?thesis
      by (auto simp: settle_def fail_outbox_def Let_def claimed intro: put split: sum.splits if_splits)
  qed
qed

lemma acts_worker_call: "acts h (call_tenant c) {T_outbox} (worker_call c) (\<lambda>_. True)"
  by (rule actsI) (auto simp: worker_call_def mem_call_writes)

end
