(* ===== verification/Approvals.thy ===== *)
theory Approvals
  imports Outbox
begin

section \<open>Commands, approvals, intents, preparations\<close>

text \<open>
  The command and approval tables of repository.py, the approval state machine of
  \<open>StoreControlPlane\<close> (\<open>create_command\<close>, \<open>_decide\<close>, \<open>supersede\<close>,
  \<open>request_approval\<close>, \<open>prepare_execution\<close>) and the expiry worker of approvals.py.  A command
  and its approval are stored under the same key and move together.
\<close>

subsection \<open>Repository methods\<close>

definition save_command :: "command \<Rightarrow> repo \<Rightarrow> repo" where
  "save_command c r = r\<lparr>commands := dset (cmd_tenant_id c, cmd_id c) c (commands r)\<rparr>"

definition save_approval :: "approval \<Rightarrow> repo \<Rightarrow> repo" where
  "save_approval a r = r\<lparr>approvals := dset (ap_tenant_id a, ap_command_id a) a (approvals r)\<rparr>"

definition command_id_for_key :: "string \<Rightarrow> string \<Rightarrow> repo \<Rightarrow> string option" where
  "command_id_for_key t key r = dget (command_idempotency r) (t, key)"

definition bind_command_key :: "string \<Rightarrow> string \<Rightarrow> string \<Rightarrow> repo \<Rightarrow> repo" where
  "bind_command_key t key cid r = r\<lparr>command_idempotency := dset (t, key) cid (command_idempotency r)\<rparr>"

definition get_command :: "string \<Rightarrow> string \<Rightarrow> repo \<Rightarrow> err + command" where
  "get_command t cid r = (case dget (commands r) (t, cid) of
     Some c \<Rightarrow> Inr c
   | None \<Rightarrow> if list_ex (\<lambda>k. snd k = cid) (map fst (commands r))
       then Inl (TenantBoundaryError ''cross-tenant command access denied'')
       else Inl (NotFoundError ''command not found''))"

definition get_approval_for_command :: "string \<Rightarrow> string \<Rightarrow> repo \<Rightarrow> err + approval" where
  "get_approval_for_command t cid r = (case get_command t cid r of
     Inl e \<Rightarrow> Inl e
   | Inr c \<Rightarrow> (case dget (approvals r) (t, cmd_id c) of
         None \<Rightarrow> Inl (NotFoundError ''approval not found'') | Some a \<Rightarrow> Inr a))"

definition approvals_for :: "string \<Rightarrow> repo \<Rightarrow> approval list" where
  "approvals_for t r = rows t (approvals r)"

definition due_approvals :: "string \<Rightarrow> time \<Rightarrow> int \<Rightarrow> repo \<Rightarrow> approval list" where
  "due_approvals t now limit r = take (nat limit) (sort_key (\<lambda>a. (ap_expires_at a, ap_id a))
     (filter (\<lambda>a. ap_state a = Apr_PENDING \<and> ap_expires_at a \<le> now) (rows t (approvals r))))"

definition mark_approval_expired :: "string \<Rightarrow> string \<Rightarrow> string \<Rightarrow> time \<Rightarrow> repo \<Rightarrow> err + (bool \<times> repo)" where
  "mark_approval_expired t aid cid now r =
     (case (dget (approvals r) (t, cid), dget (commands r) (t, cid)) of
        (Some a, Some c) \<Rightarrow>
          if ap_id a \<noteq> aid \<or> ap_command_id a \<noteq> cid \<or> ap_state a \<noteq> Apr_PENDING \<or> ap_expires_at a > now
          then Inr (False, r)
          else if cmd_state c \<noteq> Cmd_AWAITING_APPROVAL
          then Inl (ConflictError ''linked command is not awaiting approval'')
          else Inr (True, r\<lparr>approvals := dset (t, cid) (a\<lparr>ap_state := Apr_EXPIRED\<rparr>) (approvals r),
                 commands := dset (t, cid) (c\<lparr>cmd_state := Cmd_EXPIRED\<rparr>) (commands r)\<rparr>)
      | _ \<Rightarrow> Inr (False, r))"

definition get_approval :: "string \<Rightarrow> string \<Rightarrow> repo \<Rightarrow> err + approval" where
  "get_approval t aid r = (case first (\<lambda>a. ap_id a = aid) (rows t (approvals r)) of
     None \<Rightarrow> Inl (NotFoundError ''approval not found'') | Some a \<Rightarrow> Inr a)"

definition save_approval_intent :: "approval_intent \<Rightarrow> repo \<Rightarrow> err + (unit \<times> repo)" where
  "save_approval_intent v r = (case get_command (ai_tenant_id v) (ai_command_id v) r of
     Inl e \<Rightarrow> Inl e
   | Inr _ \<Rightarrow> if dget (approval_intents r) (ai_tenant_id v, ai_command_id v) \<noteq> None
       then Inl (ConflictError ''approval intent already exists'')
       else Inr ((), r\<lparr>approval_intents := dset (ai_tenant_id v, ai_command_id v) v (approval_intents r)\<rparr>))"

definition get_approval_intent :: "string \<Rightarrow> string \<Rightarrow> repo \<Rightarrow> approval_intent option" where
  "get_approval_intent t cid r = dget (approval_intents r) (t, cid)"

definition save_execution_preparation :: "execution_preparation \<Rightarrow> repo \<Rightarrow> err + (unit \<times> repo)" where
  "save_execution_preparation v r =
     (if dget (approval_intents r) (ep_tenant_id v, ep_command_id v) = None
      then Inl (NotFoundError ''approval intent not found'')
      else if dget (execution_preparations r) (ep_tenant_id v, ep_command_id v) \<noteq> None
      then Inl (ConflictError ''execution already prepared'')
      else Inr ((), r\<lparr>execution_preparations :=
        dset (ep_tenant_id v, ep_command_id v) v (execution_preparations r)\<rparr>))"

definition get_execution_preparation :: "string \<Rightarrow> string \<Rightarrow> repo \<Rightarrow> execution_preparation option" where
  "get_execution_preparation t cid r = dget (execution_preparations r) (t, cid)"

subsection \<open>Intent digests\<close>

text \<open>\<open>_strict_intent_digest\<close>: only finite JSON is digested.\<close>

definition strict_intent_digest :: "json \<Rightarrow> string svc" where
  "strict_intent_digest v =
     ensure (finite_json v) (ConflictError ''intent must contain finite JSON values with string keys'') (digest v)"

definition intent_material :: "approval_kind \<Rightarrow> string \<Rightarrow> json \<Rightarrow> json list \<Rightarrow> time \<Rightarrow> int \<Rightarrow> int \<Rightarrow> json" where
  "intent_material kind target payload evidence expires policy tv = JObj
     [(''kind'', JStr (approval_kind_value kind)), (''target_ref'', JStr target), (''payload'', payload),
      (''evidence'', JList evidence), (''expires_at'', JStr (isoformat expires)),
      (''policy_version'', JInt policy), (''target_version'', JInt tv)]"

definition intent_digest :: "command \<Rightarrow> approval \<Rightarrow> int \<Rightarrow> int \<Rightarrow> string svc" where
  "intent_digest c a policy tv = strict_intent_digest
     (intent_material (cmd_kind c) (cmd_target_ref c) (cmd_payload c) (ap_evidence a) (ap_expires_at a) policy tv)"

definition check_intent :: "command \<Rightarrow> approval \<Rightarrow> approval_intent \<Rightarrow> unit svc" where
  "check_intent c a i =
     bnd (intent_digest c a (ai_policy_version i) (ai_target_version i)) (\<lambda>d.
     ensure (d = ai_canonical_digest i) (ConflictError ''approval intent changed; new approval required'') (ret ()))"

subsection \<open>Creating a command\<close>

definition command_material :: "approval_kind \<Rightarrow> string \<Rightarrow> json \<Rightarrow> json" where
  "command_material kind target payload = JObj [(''kind'', JStr (approval_kind_value kind)),
     (''target_ref'', JStr target), (''payload'', payload)]"

definition create_command :: "tenant_context \<Rightarrow> approval_kind \<Rightarrow> string \<Rightarrow> json \<Rightarrow> string \<Rightarrow> json list \<Rightarrow>
    (command \<times> approval) svc" where
  "create_command ctx kind target payload key evidence = transaction (
     let t = ctx_tenant_id ctx in
     seq (require ctx (approval_capability kind)) (
     ensure (\<not> blank key) (ConflictError ''idempotency key is required'') (
     bnd (digest (command_material kind target payload)) (\<lambda>dg.
     bnd (reads (command_id_for_key t key)) (\<lambda>existing_id.
     case existing_id of
       Some cid \<Rightarrow>
         bnd (query (get_command t cid)) (\<lambda>existing.
         ensure (cmd_payload_digest existing = dg) (ConflictError ''idempotency key reused for different command'') (
         bnd (query (get_approval_for_command t (cmd_id existing))) (\<lambda>a.
         ret (existing, a))))
     | None \<Rightarrow>
         bnd clock (\<lambda>now. bnd uuid4 (\<lambda>cid. bnd uuid4 (\<lambda>aid.
         let c = new_command cid t kind target payload dg key Cmd_AWAITING_APPROVAL now;
             a = new_approval aid t cid kind Apr_PENDING now (now + hours 24) evidence in
         seq (modify (save_command c)) (
         seq (modify (save_approval a)) (
         seq (modify (bind_command_key t key cid)) (
         seq (audit t (ctx_user_id ctx) ''command.create'' cid ''accepted'' (JObj [(''payload_digest'', JStr dg)])) (
         seq (enqueue t ''approval.requested'' cid
               (JObj [(''command_id'', JStr cid), (''approval_id'', JStr aid)])
               (''approval.requested:'' @ cid) now) (
         ret (c, a))))))))))))))"

subsection \<open>Deciding\<close>

definition decision_event :: "command \<Rightarrow> approval \<Rightarrow> json" where
  "decision_event c a = JObj [(''command_id'', JStr (cmd_id c)), (''approval_id'', JStr (ap_id a)),
     (''decision'', JStr (approval_state_value (ap_state a)))]"

text \<open>\<open>_decide\<close>: the decision and whether the approval had expired.\<close>

definition decide_in :: "tenant_context \<Rightarrow> string \<Rightarrow> bool \<Rightarrow> string \<Rightarrow> (approval \<times> bool) svc" where
  "decide_in ctx cid approve reason = (let t = ctx_tenant_id ctx; u = ctx_user_id ctx in
     ensure (\<not> blank reason \<and> py_len reason \<le> 1000)
       (ConflictError ''Boolean approval decision and bounded reason are required'') (
     bnd (query (get_command t cid)) (\<lambda>c.
     bnd (query (get_approval_for_command t cid)) (\<lambda>a.
     seq (require ctx (approval_capability (cmd_kind c))) (
     bnd (reads (get_approval_intent t cid)) (\<lambda>intent.
     seq (case intent of Some i \<Rightarrow> check_intent c a i | None \<Rightarrow> ret ()) (
     ensure (ap_state a = Apr_PENDING) (ConflictError ''approval is no longer pending'') (
     bnd clock (\<lambda>now.
     if now \<ge> ap_expires_at a then
       let a' = a\<lparr>ap_state := Apr_EXPIRED\<rparr>; c' = c\<lparr>cmd_state := Cmd_EXPIRED\<rparr> in
       seq (audit t u ''approval.expire'' (ap_id a) ''blocked'' (JObj [])) (
       seq (modify (save_approval a')) (
       seq (modify (save_command c')) (
       seq (enqueue t ''approval.expired'' (cmd_id c)
              (JObj [(''command_id'', JStr (cmd_id c)), (''approval_id'', JStr (ap_id a))])
              (''approval.expired:'' @ ap_id a) now) (
       ret (a', True)))))
     else
       let a' = a\<lparr>ap_state := (if approve then Apr_APPROVED else Apr_REJECTED),
                  ap_decided_by := Some u, ap_decision_reason := Some reason\<rparr>;
           c' = c\<lparr>cmd_state := (if approve then Cmd_APPROVED else Cmd_REJECTED)\<rparr> in
       seq (modify (save_approval a')) (
       seq (modify (save_command c')) (
       seq (audit t u ''approval.decide'' (ap_id a) ''succeeded''
              (JObj [(''decision'', JStr (approval_state_value (ap_state a')))])) (
       seq (enqueue t ''approval.decided'' (cmd_id c) (decision_event c a')
              (''approval.decided:'' @ ap_id a) now) (
       ret (a', False))))))))))))))"

text \<open>
  \<open>decide\<close> for a command that no purchase order is linked to; the linked ones go through the
  purchase order (theory \<open>Purchasing\<close>).  An expiry is committed before it is reported.
\<close>

definition decide_unlinked :: "tenant_context \<Rightarrow> string \<Rightarrow> bool \<Rightarrow> string \<Rightarrow> approval svc" where
  "decide_unlinked ctx cid approve reason =
     bnd (transaction (decide_in ctx cid approve reason)) (\<lambda>(a, expired).
     ensure (\<not> expired) (ConflictError ''approval expired'') (ret a))"

definition supersede :: "tenant_context \<Rightarrow> string \<Rightarrow> json \<Rightarrow> string \<Rightarrow> (command \<times> approval) svc" where
  "supersede ctx cid payload key = transaction (let t = ctx_tenant_id ctx in
     bnd (query (get_command t cid)) (\<lambda>old.
     bnd (query (get_approval_for_command t cid)) (\<lambda>oa.
     bnd (digest (command_material (cmd_kind old) (cmd_target_ref old) payload)) (\<lambda>changed.
     ensure (changed \<noteq> cmd_payload_digest old) (ConflictError ''no material change'') (
     ensure (ap_state oa \<in> {Apr_PENDING, Apr_APPROVED}) (ConflictError ''command cannot be superseded'') (
     seq (modify (save_approval (oa\<lparr>ap_state := Apr_SUPERSEDED\<rparr>))) (
     seq (modify (save_command (old\<lparr>cmd_state := Cmd_SUPERSEDED\<rparr>))) (
     bnd (create_command ctx (cmd_kind old) (cmd_target_ref old) payload key (ap_evidence oa)) (\<lambda>(c, a).
     let c' = c\<lparr>cmd_supersedes_id := Some (cmd_id old)\<rparr> in
     seq (modify (save_command c')) (
     seq (audit t (ctx_user_id ctx) ''command.supersede'' (cmd_id old) ''succeeded''
            (JObj [(''replacement'', JStr (cmd_id c'))])) (
     ret (c', a))))))))))))"

subsection \<open>Requesting and preparing\<close>

definition request_approval :: "tenant_context \<Rightarrow> approval_kind \<Rightarrow> string \<Rightarrow> json \<Rightarrow> string \<Rightarrow> int \<Rightarrow> int \<Rightarrow>
    json list \<Rightarrow> (command \<times> approval) svc" where
  "request_approval ctx kind target payload key policy tv evidence = transaction (let t = ctx_tenant_id ctx in
     ensure (1 \<le> policy \<and> 1 \<le> tv) (ConflictError ''positive policy and target versions required'') (
     seq (void (strict_intent_digest (JObj [(''payload'', payload), (''evidence'', JList evidence),
                 (''target_ref'', JStr target)]))) (
     bnd (create_command ctx kind target payload key evidence) (\<lambda>(c, a).
     bnd (strict_intent_digest (intent_material kind target payload evidence (ap_expires_at a) policy tv)) (\<lambda>dg.
     bnd (reads (get_approval_intent t (cmd_id c))) (\<lambda>prior.
     case prior of
       Some p \<Rightarrow>
         ensure (ai_canonical_digest p = dg) (ConflictError ''idempotent approval intent mismatch'') (
         seq (check_intent c a p) (ret (c, a)))
     | None \<Rightarrow>
         bnd (if ap_state a \<noteq> Apr_PENDING then ret True
              else bnd (intent_digest c a policy tv) (\<lambda>d. ret (d \<noteq> dg))) (\<lambda>changed.
         ensure (\<not> changed) (ConflictError ''cannot attach changed intent to existing approval'') (
         bnd clock (\<lambda>now.
         seq (mutate (save_approval_intent \<lparr>ai_tenant_id = t, ai_command_id = cmd_id c,
                ai_canonical_digest = dg, ai_policy_version = policy, ai_target_version = tv,
                ai_created_at = now\<rparr>)) (
         ret (c, a)))))))))))"

definition prepare_execution :: "tenant_context \<Rightarrow> string \<Rightarrow> int \<Rightarrow> int \<Rightarrow> (execution_preparation \<times> bool) svc" where
  "prepare_execution ctx cid policy tv = transaction (let t = ctx_tenant_id ctx in
     seq (void (membership_of ctx)) (
     bnd (query (get_command t cid)) (\<lambda>c.
     seq (require ctx (approval_capability (cmd_kind c))) (
     bnd (query (get_approval_for_command t cid)) (\<lambda>a.
     bnd (reads (get_approval_intent t cid)) (\<lambda>intent.
     case intent of None \<Rightarrow> throw (ConflictError ''immutable approval intent required'')
     | Some i \<Rightarrow>
     ensure (cmd_state c = Cmd_APPROVED \<and> ap_state a = Apr_APPROVED) (ConflictError ''approval is not executable'') (
     bnd clock (\<lambda>now.
     ensure (now < ap_expires_at a) (ConflictError ''approval expired'') (
     ensure (1 \<le> policy \<and> 1 \<le> tv \<and> policy = ai_policy_version i \<and> tv = ai_target_version i)
       (ConflictError ''policy/target version changed; new approval required'') (
     seq (check_intent c a i) (
     case ap_decided_by a of None \<Rightarrow> throw (ConflictError ''approval has no deciding member'')
     | Some by \<Rightarrow>
     ensure (by \<noteq> []) (ConflictError ''approval has no deciding member'') (
     bnd (context_for t by) (\<lambda>approver.
     seq (require approver (approval_capability (cmd_kind c))) (
     bnd (reads (get_execution_preparation t cid)) (\<lambda>prior.
     case prior of Some p \<Rightarrow> ret (p, True)
     | None \<Rightarrow>
     bnd uuid4 (\<lambda>pid.
     let p = \<lparr>ep_id = pid, ep_tenant_id = t, ep_command_id = cid,
              ep_canonical_digest = ai_canonical_digest i, ep_prepared_by = ctx_user_id ctx,
              ep_prepared_at = now\<rparr> in
     seq (mutate (save_execution_preparation p)) (
     seq (audit t (ctx_user_id ctx) ''execution.prepared'' cid ''accepted''
            (JObj [(''intent_digest'', JStr (ai_canonical_digest i))])) (
     seq (enqueue t ''execution.prepared'' cid
            (JObj [(''command_id'', JStr cid), (''preparation_id'', JStr pid),
                   (''intent_digest'', JStr (ai_canonical_digest i))])
            (''execution.prepared:'' @ cid) now) (
     ret (p, False))))))))))))))))))))"

subsection \<open>The expiry worker\<close>

definition expire_one :: "string \<Rightarrow> time \<Rightarrow> string list \<Rightarrow> approval \<Rightarrow> string list svc" where
  "expire_one t now expired a =
     bnd (mutate (mark_approval_expired t (ap_id a) (ap_command_id a) now)) (\<lambda>marked.
     if \<not> marked then ret expired else
     bnd (query (get_command t (ap_command_id a))) (\<lambda>c.
     seq (audit t ''system:approval-expiry'' ''approval.expire'' (ap_id a) ''blocked'' (JObj [])) (
     seq (enqueue t ''approval.expired'' (cmd_id c)
            (JObj [(''approval_id'', JStr (ap_id a)), (''command_id'', JStr (cmd_id c))])
            (''approval.expired:'' @ ap_id a) now) (
     ret (expired @ [ap_id a])))))"

definition expire_due_approvals :: "string \<Rightarrow> int \<Rightarrow> (string list \<times> time) svc" where
  "expire_due_approvals t limit =
     ensure (opaque_colon t) (ValueError ''valid tenant id is required'') (
     ensure (1 \<le> limit \<and> limit \<le> 1000) (ValueError ''limit must be an integer between 1 and 1000'') (
     bnd clock (\<lambda>now.
     bnd (transaction (
       bnd (reads (due_approvals t now limit)) (\<lambda>due. foldM (expire_one t now) [] due))) (\<lambda>ids.
     ret (ids, now)))))"

subsection \<open>What the operations write\<close>

lemma get_command_ok: "get_command t cid r = Inr c \<longleftrightarrow> dget (commands r) (t, cid) = Some c"
  by (auto simp: get_command_def split: option.splits if_splits)

lemma get_command_keys: "wf_repo r \<Longrightarrow> get_command t cid r = Inr c \<Longrightarrow> cmd_tenant_id c = t \<and> cmd_id c = cid"
  using keyed_dget [where d = "commands r"] wf_tableD [of r T_commands] by (fastforce simp: get_command_ok)

lemma get_approval_for_command_keys:
  "wf_repo r \<Longrightarrow> get_approval_for_command t cid r = Inr a \<Longrightarrow>
     dget (approvals r) (t, cid) = Some a \<and> ap_tenant_id a = t \<and> ap_command_id a = cid"
  using keyed_dget [where d = "approvals r"] wf_tableD [of r T_approvals] get_command_keys [of r t cid]
  by (fastforce simp: get_approval_for_command_def split: sum.splits option.splits)

lemma acts_get_command:
  "acts h t L (query (get_command i cid)) (\<lambda>c. cmd_tenant_id c = i \<and> cmd_id c = cid)"
  by (rule acts_query) (rule get_command_keys)

lemma acts_get_approval_for_command:
  "acts h t L (query (get_approval_for_command i cid)) (\<lambda>a. ap_tenant_id a = i \<and> ap_command_id a = cid)"
  by (rule acts_query) (use get_approval_for_command_keys in blast)

lemma acts_save_command [acts_rules]:
  "cmd_tenant_id c = t \<Longrightarrow> T_commands \<in> L \<Longrightarrow> acts h t L (modify (save_command c)) (\<lambda>_. True)"
  by (rule acts_modify) (auto simp: save_command_def intro!: writes_one W_commands)

lemma acts_save_approval [acts_rules]:
  "ap_tenant_id a = t \<Longrightarrow> T_approvals \<in> L \<Longrightarrow> acts h t L (modify (save_approval a)) (\<lambda>_. True)"
  by (rule acts_modify) (auto simp: save_approval_def intro!: writes_one W_approvals)

lemma acts_bind_command_key [acts_rules]:
  "T_command_idempotency \<in> L \<Longrightarrow> acts h t L (modify (bind_command_key t key cid)) (\<lambda>_. True)"
  by (rule acts_modify) (auto simp: bind_command_key_def intro!: writes_one W_command_idempotency)

lemma acts_save_approval_intent [acts_rules]:
  "ai_tenant_id v = t \<Longrightarrow> T_approval_intents \<in> L \<Longrightarrow> acts h t L (mutate (save_approval_intent v)) (\<lambda>_. True)"
  by (rule acts_mutate)
    (auto simp: save_approval_intent_def split: sum.splits if_splits intro!: writes_one W_approval_intents)

lemma acts_save_execution_preparation [acts_rules]:
  "ep_tenant_id v = t \<Longrightarrow> T_execution_preparations \<in> L \<Longrightarrow>
     acts h t L (mutate (save_execution_preparation v)) (\<lambda>_. True)"
  by (rule acts_mutate)
    (auto simp: save_execution_preparation_def split: if_splits intro!: writes_one W_execution_preparations)

lemma acts_intents [acts_rules]:
  "acts h t L (strict_intent_digest v) (\<lambda>_. True)" "acts h t L (intent_digest c a p q) (\<lambda>_. True)"
  "acts h t L (check_intent c a i) (\<lambda>_. True)"
  unfolding check_intent_def intent_digest_def strict_intent_digest_def
  by (rule acts_rules TrueI)+

abbreviation approval_tables :: "table set" where
  "approval_tables \<equiv> {T_commands, T_approvals, T_command_idempotency, T_audit_events, T_outbox}"

lemma acts_create_command:
  "approval_tables \<subseteq> L \<Longrightarrow> acts h (ctx_tenant_id ctx) L (create_command ctx kind target payload key evidence)
     (\<lambda>(c, a). cmd_tenant_id c = ctx_tenant_id ctx \<and> ap_tenant_id a = ctx_tenant_id ctx \<and> ap_command_id a = cmd_id c)"
  unfolding create_command_def Let_def
  by (rule acts_bnd [OF acts_get_command] acts_bnd [OF acts_get_approval_for_command] acts_rules
      | simp add: new_command_def new_approval_def)+

lemma acts_decide_in:
  "approval_tables \<subseteq> L \<Longrightarrow> acts h (ctx_tenant_id ctx) L (decide_in ctx cid approve reason) (\<lambda>_. True)"
  unfolding decide_in_def Let_def
  by (rule acts_bnd [OF acts_get_command] acts_bnd [OF acts_get_approval_for_command] acts_rules | simp)+

lemma acts_decide_unlinked:
  "approval_tables \<subseteq> L \<Longrightarrow> acts h (ctx_tenant_id ctx) L (decide_unlinked ctx cid approve reason) (\<lambda>_. True)"
  unfolding decide_unlinked_def by (rule acts_decide_in acts_rules TrueI | assumption)+

lemma acts_supersede:
  "approval_tables \<subseteq> L \<Longrightarrow> acts h (ctx_tenant_id ctx) L (supersede ctx cid payload key) (\<lambda>_. True)"
  unfolding supersede_def Let_def
  by (rule acts_bnd [OF acts_get_command] acts_bnd [OF acts_get_approval_for_command]
      acts_bnd [OF acts_create_command] acts_rules | simp)+

lemma acts_request_approval:
  "approval_tables \<subseteq> L \<Longrightarrow> T_approval_intents \<in> L \<Longrightarrow>
     acts h (ctx_tenant_id ctx) L (request_approval ctx kind target payload key policy tv evidence)
     (\<lambda>(c, a). cmd_tenant_id c = ctx_tenant_id ctx \<and> ap_tenant_id a = ctx_tenant_id ctx \<and> ap_command_id a = cmd_id c)"
  unfolding request_approval_def Let_def
  by (rule acts_bnd [OF acts_create_command] acts_rules | simp)+

lemma acts_prepare_execution:
  "{T_execution_preparations, T_audit_events, T_outbox} \<subseteq> L \<Longrightarrow>
     acts h (ctx_tenant_id ctx) L (prepare_execution ctx cid policy tv) (\<lambda>_. True)"
  unfolding prepare_execution_def Let_def
  by (rule acts_rules | simp)+

lemma mark_approval_expired_ok:
  "mark_approval_expired t aid cid now r = Inr (b, r') \<Longrightarrow> (b = False \<and> r' = r) \<or>
     (\<exists>a c. b = True \<and> dget (approvals r) (t, cid) = Some a \<and> dget (commands r) (t, cid) = Some c
        \<and> ap_id a = aid \<and> ap_state a = Apr_PENDING \<and> ap_expires_at a \<le> now \<and> cmd_state c = Cmd_AWAITING_APPROVAL
        \<and> r' = r\<lparr>approvals := dset (t, cid) (a\<lparr>ap_state := Apr_EXPIRED\<rparr>) (approvals r),
                commands := dset (t, cid) (c\<lparr>cmd_state := Cmd_EXPIRED\<rparr>) (commands r)\<rparr>)"
  by (auto simp: mark_approval_expired_def split: option.splits if_splits)

lemma writes_mark:
  assumes L: "T_approvals \<in> L" "T_commands \<in> L" and wf: "wf_repo r"
    and m: "mark_approval_expired t aid cid now r = Inr (b, r')"
  shows "writes h t L r r'"
proof -
  have key: "dget (approvals r) (t, cid) = Some a \<Longrightarrow> ap_tenant_id a = t \<and> ap_command_id a = cid"
    "dget (commands r) (t, cid) = Some c \<Longrightarrow> cmd_tenant_id c = t \<and> cmd_id c = cid" for a c
    using keyed_dget wf_tableD [OF wf, of T_approvals] wf_tableD [OF wf, of T_commands] by fastforce+
  from mark_approval_expired_ok [OF m] show ?thesis
  proof (elim disjE exE conjE)
    fix a c assume a: "dget (approvals r) (t, cid) = Some a" and c: "dget (commands r) (t, cid) = Some c"
      and r': "r' = r\<lparr>approvals := dset (t, cid) (a\<lparr>ap_state := Apr_EXPIRED\<rparr>) (approvals r),
                commands := dset (t, cid) (c\<lparr>cmd_state := Cmd_EXPIRED\<rparr>) (commands r)\<rparr>"
    let ?r = "r\<lparr>approvals := dset (t, cid) (a\<lparr>ap_state := Apr_EXPIRED\<rparr>) (approvals r)\<rparr>"
    have "writes h t L r ?r"
      using W_approvals [of "a\<lparr>ap_state := Apr_EXPIRED\<rparr>" t h r] key(1) [OF a] L(1) by (auto intro: writes_one)
    then show ?thesis
      using W_commands [of "c\<lparr>cmd_state := Cmd_EXPIRED\<rparr>" t h ?r] key(2) [OF c] L(2) r'
      by (auto intro: writes_then)
  qed simp
qed

lemma acts_mark_approval_expired [acts_rules]:
  "T_approvals \<in> L \<Longrightarrow> T_commands \<in> L \<Longrightarrow> acts h t L (mutate (mark_approval_expired t aid cid now)) (\<lambda>_. True)"
  by (rule acts_mutate) (simp add: writes_mark)

lemma acts_expire_due_approvals:
  "{T_commands, T_approvals, T_audit_events, T_outbox} \<subseteq> L \<Longrightarrow>
     acts h t L (expire_due_approvals t limit) (\<lambda>_. True)"
  unfolding expire_due_approvals_def
proof (rule acts_rules)+
  assume L: "{T_commands, T_approvals, T_audit_events, T_outbox} \<subseteq> L"
  have one: "acts h t L (expire_one t now b a) (\<lambda>_. True)" for now b a
    unfolding expire_one_def using L by - (rule acts_rules | simp)+
  show "acts h t L (foldM (expire_one t now) [] due) (\<lambda>_. True)" for now due
    by (rule acts_foldM) (simp_all add: one)
qed (rule acts_rules TrueI)+

subsection \<open>What the operations do when they return\<close>

lemma digest_ok: "digest v s = (Inr d, s') \<longleftrightarrow> d = sha256 s (canonical v) \<and> s' = s"
  by (auto simp: digest_def svc_ok)

lemma strict_intent_digest_ok:
  "strict_intent_digest v s = (Inr d, s') \<longleftrightarrow> finite_json v \<and> d = sha256 s (canonical v) \<and> s' = s"
  by (auto simp: strict_intent_digest_def svc_ok digest_ok)

lemma void_ok: "void m s = (Inr x, s') \<longleftrightarrow> (\<exists>a. m s = (Inr a, s'))"
  by (auto simp: void_def svc_ok)

text \<open>\<open>intent_matches h c a i\<close>: the intent's digest is that of the command and approval as they are.\<close>

definition intent_matches :: "(string \<Rightarrow> string) \<Rightarrow> command \<Rightarrow> approval \<Rightarrow> approval_intent \<Rightarrow> bool" where
  "intent_matches h c a i \<longleftrightarrow> (let m = intent_material (cmd_kind c) (cmd_target_ref c) (cmd_payload c) (ap_evidence a)
       (ap_expires_at a) (ai_policy_version i) (ai_target_version i)
     in finite_json m \<and> ai_canonical_digest i = h (canonical m))"

lemma check_intent_ok:
  "check_intent c a i s = (Inr u, s') \<longleftrightarrow> s' = s \<and> intent_matches (sha256 s) c a i"
  by (auto simp: check_intent_def intent_digest_def strict_intent_digest_ok svc_ok intent_matches_def Let_def)

lemma option_ok:
  "(case x of None \<Rightarrow> m | Some a \<Rightarrow> f a) s = (Inr b, t) \<longleftrightarrow>
     (x = None \<and> m s = (Inr b, t)) \<or> (\<exists>a. x = Some a \<and> f a s = (Inr b, t))"
  by (cases x) simp_all

lemma branch_ok:
  "(if c then m else k) s = (Inr b, t) \<longleftrightarrow> (c \<and> m s = (Inr b, t)) \<or> (\<not> c \<and> k s = (Inr b, t))"
  by simp

lemma membership_of_ok:
  "membership_of ctx s = (Inr m, s') \<longleftrightarrow> s' = s \<and>
     dget (memberships (db s)) (ctx_tenant_id ctx, ctx_user_id ctx) = Some m \<and> mb_active m
     \<and> mb_version m = ctx_membership_version ctx"
  by (auto simp: membership_of_def svc_ok get_membership_def split: option.splits)

lemma context_for_ok:
  "context_for t u s = (Inr v, s') \<longleftrightarrow> s' = s \<and> (\<exists>m. dget (memberships (db s)) (t, u) = Some m \<and> mb_active m
     \<and> v = \<lparr>ctx_tenant_id = t, ctx_user_id = u, ctx_membership_version = mb_version m\<rparr>)"
  by (auto simp: context_for_def svc_ok get_membership_def split: option.splits)

lemmas call_ok = membership_of_ok context_for_ok option_ok branch_ok svc_ok audit_ok enqueue_ok require_ok void_ok digest_ok strict_intent_digest_ok check_intent_ok

text \<open>Each writer leaves the other tables of the component as they are.\<close>

lemma other_tables [simp]:
  "approvals (save_command c r) = approvals r" "command_idempotency (save_command c r) = command_idempotency r"
  "approval_intents (save_command c r) = approval_intents r" "memberships (save_command c r) = memberships r"
  "execution_preparations (save_command c r) = execution_preparations r"
  "outbox_idempotency (save_command c r) = outbox_idempotency r" "outbox (save_command c r) = outbox r"
  "audit_events (save_command c r) = audit_events r"
  "commands (save_approval a r) = commands r" "command_idempotency (save_approval a r) = command_idempotency r"
  "approval_intents (save_approval a r) = approval_intents r" "memberships (save_approval a r) = memberships r"
  "execution_preparations (save_approval a r) = execution_preparations r"
  "outbox_idempotency (save_approval a r) = outbox_idempotency r" "outbox (save_approval a r) = outbox r"
  "audit_events (save_approval a r) = audit_events r"
  "commands (bind_command_key t k cid r) = commands r" "approvals (bind_command_key t k cid r) = approvals r"
  "approval_intents (bind_command_key t k cid r) = approval_intents r"
  "memberships (bind_command_key t k cid r) = memberships r"
  "execution_preparations (bind_command_key t k cid r) = execution_preparations r"
  "outbox_idempotency (bind_command_key t k cid r) = outbox_idempotency r"
  "outbox (bind_command_key t k cid r) = outbox r" "audit_events (bind_command_key t k cid r) = audit_events r"
  by (simp_all add: save_command_def save_approval_def bind_command_key_def)

lemma own_table [simp]:
  "commands (save_command c r) = dset (cmd_tenant_id c, cmd_id c) c (commands r)"
  "approvals (save_approval a r) = dset (ap_tenant_id a, ap_command_id a) a (approvals r)"
  "command_idempotency (bind_command_key t k cid r) = dset (t, k) cid (command_idempotency r)"
  by (simp_all add: save_command_def save_approval_def bind_command_key_def)

text \<open>\<open>create_command\<close> returns the command bound to the key, or makes one that waits for approval.\<close>

lemma create_command_ok:
  assumes "create_command ctx kind target payload key evidence s = (Inr (c, a), s')"
  shows "require ctx (approval_capability kind) s = (Inr (), s) \<and> \<not> blank key
     \<and> cmd_payload_digest c = sha256 s (canonical (command_material kind target payload))
     \<and> memberships (db s') = memberships (db s) \<and> sha256 s' = sha256 s \<and>
     ((s' = s \<and> (\<exists>cid. dget (command_idempotency (db s)) (ctx_tenant_id ctx, key) = Some cid
          \<and> dget (commands (db s)) (ctx_tenant_id ctx, cid) = Some c
          \<and> get_approval_for_command (ctx_tenant_id ctx) (cmd_id c) (db s) = Inr a))
      \<or> (dget (command_idempotency (db s)) (ctx_tenant_id ctx, key) = None
          \<and> cmd_tenant_id c = ctx_tenant_id ctx \<and> cmd_state c = Cmd_AWAITING_APPROVAL
          \<and> ap_tenant_id a = ctx_tenant_id ctx \<and> ap_command_id a = cmd_id c \<and> ap_state a = Apr_PENDING
          \<and> commands (db s') = dset (ctx_tenant_id ctx, cmd_id c) c (commands (db s))
          \<and> approvals (db s') = dset (ctx_tenant_id ctx, cmd_id c) a (approvals (db s))
          \<and> command_idempotency (db s') = dset (ctx_tenant_id ctx, key) (cmd_id c) (command_idempotency (db s))))"
  using assms
  by (auto simp: create_command_def Let_def call_ok get_command_ok new_command_def new_approval_def
      command_id_for_key_def)

lemma get_approval_for_command_ok:
  "get_approval_for_command t cid r = Inr a \<longleftrightarrow>
     (\<exists>c. dget (commands r) (t, cid) = Some c \<and> dget (approvals r) (t, cmd_id c) = Some a)"
  by (auto simp: get_approval_for_command_def get_command_def split: option.splits if_splits)

text \<open>A decision that returns: who may take it, on what, and what it leaves.\<close>

lemma decide_in_ok:
  assumes "decide_in ctx cid approve reason s = (Inr (a', expired), s')"
  shows "\<exists>c a. dget (commands (db s)) (ctx_tenant_id ctx, cid) = Some c
     \<and> dget (approvals (db s)) (ctx_tenant_id ctx, cmd_id c) = Some a
     \<and> require ctx (approval_capability (cmd_kind c)) s = (Inr (), s)
     \<and> (\<forall>i. get_approval_intent (ctx_tenant_id ctx) cid (db s) = Some i \<longrightarrow> intent_matches (sha256 s) c a i)
     \<and> ap_state a = Apr_PENDING
     \<and> expired = (ap_expires_at a \<le> clock_src s (clock_ctr s))
     \<and> a' = (if expired then a\<lparr>ap_state := Apr_EXPIRED\<rparr>
             else a\<lparr>ap_state := (if approve then Apr_APPROVED else Apr_REJECTED),
                    ap_decided_by := Some (ctx_user_id ctx), ap_decision_reason := Some reason\<rparr>)
     \<and> approvals (db s') = dset (ap_tenant_id a, ap_command_id a) a' (approvals (db s))
     \<and> commands (db s') = dset (cmd_tenant_id c, cmd_id c) (c\<lparr>cmd_state := (if expired then Cmd_EXPIRED
             else if approve then Cmd_APPROVED else Cmd_REJECTED)\<rparr>) (commands (db s))"
  using assms
  by (auto simp: decide_in_def Let_def call_ok get_command_ok get_approval_for_command_ok)

lemma supersede_ok:
  assumes "supersede ctx cid payload key s = (Inr (c', a'), s')"
  shows "\<exists>old oa c v. dget (commands (db s)) (ctx_tenant_id ctx, cid) = Some old
     \<and> dget (approvals (db s)) (ctx_tenant_id ctx, cmd_id old) = Some oa
     \<and> ap_state oa \<in> {Apr_PENDING, Apr_APPROVED}
     \<and> cmd_payload_digest old \<noteq> sha256 s (canonical (command_material (cmd_kind old) (cmd_target_ref old) payload))
     \<and> c' = c\<lparr>cmd_supersedes_id := Some (cmd_id old)\<rparr>
     \<and> create_command ctx (cmd_kind old) (cmd_target_ref old) payload key (ap_evidence oa)
         (s\<lparr>db := save_command (old\<lparr>cmd_state := Cmd_SUPERSEDED\<rparr>)
             (save_approval (oa\<lparr>ap_state := Apr_SUPERSEDED\<rparr>) (db s))\<rparr>) = (Inr (c, a'), v)
     \<and> commands (db s') = commands (save_command c' (db v))
     \<and> approvals (db s') = approvals (save_command c' (db v))"
  using assms
  by (auto simp: supersede_def Let_def call_ok get_command_ok get_approval_for_command_ok)

lemma save_approval_intent_ok:
  "save_approval_intent v r = Inr (u, r') \<longleftrightarrow> (\<exists>c. dget (commands r) (ai_tenant_id v, ai_command_id v) = Some c)
     \<and> dget (approval_intents r) (ai_tenant_id v, ai_command_id v) = None
     \<and> r' = r\<lparr>approval_intents := dset (ai_tenant_id v, ai_command_id v) v (approval_intents r)\<rparr>"
  by (auto simp: save_approval_intent_def get_command_def split: option.splits)

lemma request_approval_ok:
  assumes "request_approval ctx kind target payload key policy tv evidence s = (Inr (c, a), s')"
  shows "\<exists>u i. create_command ctx kind target payload key evidence s = (Inr (c, a), u)
     \<and> commands (db s') = commands (db u) \<and> approvals (db s') = approvals (db u)
     \<and> get_approval_intent (ctx_tenant_id ctx) (cmd_id c) (db s') = Some i
     \<and> intent_matches (sha256 u) c a i
     \<and> (get_approval_intent (ctx_tenant_id ctx) (cmd_id c) (db u) = None \<longrightarrow>
          ap_state a = Apr_PENDING \<and> ai_policy_version i = policy \<and> ai_target_version i = tv)"
  using assms
  unfolding request_approval_def Let_def call_ok prod.case intent_digest_def
  apply (elim exE conjE disjE)
  apply (simp_all add: save_approval_intent_ok intent_matches_def split: prod.splits)
  apply (auto simp: intent_matches_def get_approval_intent_def Let_def call_ok save_approval_intent_ok dest!: sym [of "Some _"])
  done

lemma prepare_execution_ok:
  assumes "prepare_execution ctx cid policy tv s = (Inr (p, replay), s')"
  shows "\<exists>c a i by. dget (commands (db s)) (ctx_tenant_id ctx, cid) = Some c
     \<and> dget (approvals (db s)) (ctx_tenant_id ctx, cmd_id c) = Some a
     \<and> get_approval_intent (ctx_tenant_id ctx) cid (db s) = Some i
     \<and> require ctx (approval_capability (cmd_kind c)) s = (Inr (), s)
     \<and> cmd_state c = Cmd_APPROVED \<and> ap_state a = Apr_APPROVED
     \<and> clock_src s (clock_ctr s) < ap_expires_at a
     \<and> policy = ai_policy_version i \<and> tv = ai_target_version i \<and> intent_matches (sha256 s) c a i
     \<and> ap_decided_by a = Some by
     \<and> (\<exists>m. dget (memberships (db s)) (ctx_tenant_id ctx, by) = Some m \<and> mb_active m
          \<and> approval_capability (cmd_kind c) \<in> member_capabilities m)
     \<and> commands (db s') = commands (db s) \<and> approvals (db s') = approvals (db s)
     \<and> approval_intents (db s') = approval_intents (db s) \<and> memberships (db s') = memberships (db s)
     \<and> sha256 s' = sha256 s
     \<and> ((replay \<and> db s' = db s \<and> dget (execution_preparations (db s)) (ctx_tenant_id ctx, cid) = Some p)
        \<or> (\<not> replay \<and> dget (execution_preparations (db s)) (ctx_tenant_id ctx, cid) = None
          \<and> execution_preparations (db s') = dset (ctx_tenant_id ctx, cid) p (execution_preparations (db s))
          \<and> ep_canonical_digest p = ai_canonical_digest i))"
  using assms
  unfolding prepare_execution_def Let_def call_ok prod.case
  apply (elim exE conjE disjE)
  apply (simp_all add: get_command_ok get_approval_for_command_ok get_execution_preparation_def
      save_execution_preparation_def split: if_splits)
  by (auto dest!: sym [of "Some _"])

subsection \<open>A command and its approval move together\<close>

fun agrees :: "approval_state \<Rightarrow> command_state \<Rightarrow> bool" where
  "agrees Apr_PENDING st = (st = Cmd_AWAITING_APPROVAL)"
| "agrees Apr_APPROVED st = (st = Cmd_APPROVED)"
| "agrees Apr_REJECTED st = (st = Cmd_REJECTED)"
| "agrees Apr_EXPIRED st = (st = Cmd_EXPIRED)"
| "agrees Apr_SUPERSEDED st = (st = Cmd_SUPERSEDED)"

fun paired :: "command option \<Rightarrow> approval option \<Rightarrow> bool" where
  "paired None None = True"
| "paired (Some c) (Some a) = agrees (ap_state a) (cmd_state c)"
| "paired _ _ = False"

definition in_step :: "repo \<Rightarrow> bool" where
  "in_step r \<longleftrightarrow> (\<forall>k. paired (dget (commands r) k) (dget (approvals r) k))"

lemma in_step_cong: "commands r' = commands r \<Longrightarrow> approvals r' = approvals r \<Longrightarrow> in_step r' = in_step r"
  by (simp add: in_step_def)

lemma in_step_pair:
  "in_step r \<Longrightarrow> commands r' = dset k c (commands r) \<Longrightarrow> approvals r' = dset k a (approvals r) \<Longrightarrow>
     agrees (ap_state a) (cmd_state c) \<Longrightarrow> in_step r'"
  by (simp add: in_step_def dget_dset)

lemma in_stepD:
  "in_step r \<Longrightarrow> dget (commands r) k = Some c \<Longrightarrow> \<exists>a. dget (approvals r) k = Some a \<and> agrees (ap_state a) (cmd_state c)"
  unfolding in_step_def by (drule spec [of _ k]) (cases "dget (approvals r) k", simp_all)

lemma in_step_resave:
  assumes "in_step r" "dget (commands r) k = Some c0" "cmd_state c = cmd_state c0"
    "commands r' = dset k c (commands r)" "approvals r' = approvals r"
  shows "in_step r'"
  using assms in_stepD [OF assms(1,2)] by (auto simp: in_step_def dget_dset)

lemma create_command_stored:
  assumes "create_command ctx kind target payload key evidence s = (Inr (c, a), s')" "wf_repo (db s)"
  shows "cmd_tenant_id c = ctx_tenant_id ctx \<and> dget (commands (db s')) (ctx_tenant_id ctx, cmd_id c) = Some c
     \<and> dget (approvals (db s')) (ctx_tenant_id ctx, cmd_id c) = Some a"
  using create_command_ok [OF assms(1)]
proof (elim conjE disjE exE)
  fix cid assume "s' = s" and c: "dget (commands (db s)) (ctx_tenant_id ctx, cid) = Some c"
    and a: "get_approval_for_command (ctx_tenant_id ctx) (cmd_id c) (db s) = Inr a"
  moreover have "cmd_tenant_id c = ctx_tenant_id ctx" "cmd_id c = cid"
    using keyed_dget [OF _ c] wf_tableD [OF assms(2), of T_commands] by auto
  ultimately show ?thesis by (auto simp: get_approval_for_command_ok)
qed simp

lemma create_command_in_step:
  "create_command ctx kind target payload key evidence s = (Inr (c, a), s') \<Longrightarrow> in_step (db s) \<Longrightarrow> in_step (db s')"
  by (drule create_command_ok) (auto intro: in_step_pair)

lemma decide_in_in_step:
  assumes run: "decide_in ctx cid approve reason s = (Inr (a', expired), s')"
    and wf: "wf_repo (db s)" and ok: "in_step (db s)"
  shows "in_step (db s')"
proof -
  obtain c a where c: "dget (commands (db s)) (ctx_tenant_id ctx, cid) = Some c"
    and a: "dget (approvals (db s)) (ctx_tenant_id ctx, cmd_id c) = Some a"
    and eff: "a' = (if expired then a\<lparr>ap_state := Apr_EXPIRED\<rparr>
             else a\<lparr>ap_state := (if approve then Apr_APPROVED else Apr_REJECTED),
                    ap_decided_by := Some (ctx_user_id ctx), ap_decision_reason := Some reason\<rparr>)"
      "approvals (db s') = dset (ap_tenant_id a, ap_command_id a) a' (approvals (db s))"
      "commands (db s') = dset (cmd_tenant_id c, cmd_id c) (c\<lparr>cmd_state := (if expired then Cmd_EXPIRED
             else if approve then Cmd_APPROVED else Cmd_REJECTED)\<rparr>) (commands (db s))"
    using decide_in_ok [OF run] by blast
  have "cmd_tenant_id c = ctx_tenant_id ctx" "cmd_id c = cid" "ap_tenant_id a = ctx_tenant_id ctx" "ap_command_id a = cmd_id c"
    using keyed_dget [OF _ c] keyed_dget [OF _ a] wf_tableD [OF wf, of T_commands] wf_tableD [OF wf, of T_approvals]
    by auto
  with eff show ?thesis by (intro in_step_pair [OF ok]) auto
qed

lemma supersede_in_step:
  assumes run: "supersede ctx cid payload key s = (Inr (c', a'), s')"
    and wf: "wf_repo (db s)" and ok: "in_step (db s)"
  shows "in_step (db s')"
proof -
  let ?t = "ctx_tenant_id ctx"
  obtain old oa c v where old: "dget (commands (db s)) (?t, cid) = Some old"
    and oa: "dget (approvals (db s)) (?t, cmd_id old) = Some oa"
    and c': "c' = c\<lparr>cmd_supersedes_id := Some (cmd_id old)\<rparr>"
    and create: "create_command ctx (cmd_kind old) (cmd_target_ref old) payload key (ap_evidence oa)
         (s\<lparr>db := save_command (old\<lparr>cmd_state := Cmd_SUPERSEDED\<rparr>)
             (save_approval (oa\<lparr>ap_state := Apr_SUPERSEDED\<rparr>) (db s))\<rparr>) = (Inr (c, a'), v)"
    and eff: "commands (db s') = commands (save_command c' (db v))" "approvals (db s') = approvals (save_command c' (db v))"
    using supersede_ok [OF run] by blast
  let ?r = "save_command (old\<lparr>cmd_state := Cmd_SUPERSEDED\<rparr>) (save_approval (oa\<lparr>ap_state := Apr_SUPERSEDED\<rparr>) (db s))"
  have key: "cmd_tenant_id old = ?t" "cmd_id old = cid" "ap_tenant_id oa = ?t" "ap_command_id oa = cid"
    using keyed_dget [OF _ old] keyed_dget [OF _ oa] wf_tableD [OF wf, of T_commands] wf_tableD [OF wf, of T_approvals]
    by auto
  have r: "in_step ?r"
    by (rule in_step_pair [OF ok, where k = "(?t, cid)"]) (auto simp: save_command_def save_approval_def key)
  have v: "in_step (db v)" using create_command_in_step [OF create] r by simp
  have "wf_repo ?r"
    using wf_write [OF W_commands [of "old\<lparr>cmd_state := Cmd_SUPERSEDED\<rparr>" ?t "sha256 s"]
        wf_write [OF W_approvals [of "oa\<lparr>ap_state := Apr_SUPERSEDED\<rparr>" ?t "sha256 s"] wf]]
    by (simp add: save_command_def save_approval_def key)
  then have "dget (commands (db v)) (cmd_tenant_id c, cmd_id c) = Some c"
    using create_command_stored [OF create] by simp
  then show ?thesis
    by (rule in_step_resave [OF v]) (simp_all add: eff c' save_command_def)
qed

end
