(* ===== verification/Approval_Laws.thy ===== *)
theory Approval_Laws
  imports Approvals
begin

section \<open>Laws of the approval state machine\<close>

text \<open>
  The calls of the approval component as one datatype, and the properties of every sequence of
  them: a command and its approval agree, an approval is decided once and in time, a decision
  needs the right capability, an execution is prepared only for what was approved.
\<close>

datatype approval_call =
    Create tenant_context approval_kind string json string "json list"
  | Decide tenant_context string bool string
  | Supersede tenant_context string json string
  | Request tenant_context approval_kind string json string int int "json list"
  | Prepare tenant_context string int int
  | Expire string int

fun approval_op :: "approval_call \<Rightarrow> unit svc" where
  "approval_op (Create ctx kind target payload key evidence) = void (create_command ctx kind target payload key evidence)"
| "approval_op (Decide ctx cid approve reason) = void (decide_unlinked ctx cid approve reason)"
| "approval_op (Supersede ctx cid payload key) = void (supersede ctx cid payload key)"
| "approval_op (Request ctx kind target payload key policy tv evidence) =
     void (request_approval ctx kind target payload key policy tv evidence)"
| "approval_op (Prepare ctx cid policy tv) = void (prepare_execution ctx cid policy tv)"
| "approval_op (Expire t limit) = void (expire_due_approvals t limit)"

fun call_owner :: "approval_call \<Rightarrow> string" where
  "call_owner (Create ctx kind target payload key evidence) = ctx_tenant_id ctx"
| "call_owner (Decide ctx cid approve reason) = ctx_tenant_id ctx"
| "call_owner (Supersede ctx cid payload key) = ctx_tenant_id ctx"
| "call_owner (Request ctx kind target payload key policy tv evidence) = ctx_tenant_id ctx"
| "call_owner (Prepare ctx cid policy tv) = ctx_tenant_id ctx"
| "call_owner (Expire t limit) = t"

abbreviation approval_call_tables :: "table set" where
  "approval_call_tables \<equiv> approval_tables \<union> {T_approval_intents, T_execution_preparations}"

lemma acts_approval_op: "acts h (call_owner c) approval_call_tables (approval_op c) (\<lambda>_. True)"
  by (cases c) (auto intro!: acts_void acts_create_command acts_decide_unlinked acts_supersede
      acts_request_approval acts_prepare_execution acts_expire_due_approvals)

lemma failed_transaction: "transaction m s = (Inl e, s') \<Longrightarrow> db s' = db s"
  by (rule transaction_atomic)

lemma keeps_in_step_frame:
  "acts h t L m Q \<Longrightarrow> T_commands \<notin> L \<Longrightarrow> T_approvals \<notin> L \<Longrightarrow> keeps h (\<lambda>r. wf_repo r \<and> in_step r) m Q"
proof (rule keepsI)
  fix s s' :: world and x
  assume a: "acts h t L m Q" and L: "T_commands \<notin> L" "T_approvals \<notin> L" and s: "sha256 s = h"
    and I: "wf_repo (db s) \<and> in_step (db s)" and run: "m s = (x, s')"
  note eff = actsD [OF a s conjunct1 [OF I] run]
  have "in_step (db s') = in_step (db s)"
    using writes_frame [OF eff(3) L(1)] writes_frame [OF eff(3) L(2)] by (intro in_step_cong) simp_all
  with I eff(1,2,4) show "sha256 s' = h \<and> (wf_repo (db s') \<and> in_step (db s')) \<and> (\<forall>a. x = Inr a \<longrightarrow> Q a)"
    by blast
qed

lemma mark_in_step:
  assumes "mark_approval_expired t aid cid now r = Inr (b, r')" "in_step r"
  shows "in_step r'"
  using mark_approval_expired_ok [OF assms(1)] by (auto intro: in_step_pair [OF assms(2)] simp: assms(2))

lemma expire_one_in_step: "keeps h (\<lambda>r. wf_repo r \<and> in_step r) (expire_one t now ids a) (\<lambda>_. True)"
  unfolding expire_one_def
proof (rule keeps_bnd [where P = "\<lambda>_. True"])
  show "keeps h (\<lambda>r. wf_repo r \<and> in_step r) (mutate (mark_approval_expired t (ap_id a) (ap_command_id a) now)) (\<lambda>_. True)"
  proof (rule keeps_mutate)
    fix r b r' assume "wf_repo r \<and> in_step r" "mark_approval_expired t (ap_id a) (ap_command_id a) now r = Inr (b, r')"
    moreover from this have "writes h t {T_approvals, T_commands} r r'" by (intro writes_mark) simp_all
    ultimately show "(wf_repo r' \<and> in_step r') \<and> True" using mark_in_step wf_writes by blast
  qed
  show "keeps h (\<lambda>r. wf_repo r \<and> in_step r) (if \<not> b then ret ids else
     bnd (query (get_command t (ap_command_id a))) (\<lambda>c.
     seq (audit t ''system:approval-expiry'' ''approval.expire'' (ap_id a) ''blocked'' (JObj [])) (
     seq (enqueue t ''approval.expired'' (cmd_id c)
            (JObj [(''approval_id'', JStr (ap_id a)), (''command_id'', JStr (cmd_id c))])
            (''approval.expired:'' @ ap_id a) now) (
     ret (ids @ [ap_id a]))))) (\<lambda>_. True)" for b
    by (rule keeps_in_step_frame [where L = "{T_audit_events, T_outbox}"]) (rule acts_rules | simp)+
qed

lemma expire_in_step: "keeps h (\<lambda>r. wf_repo r \<and> in_step r) (expire_due_approvals t limit) (\<lambda>_. True)"
  unfolding expire_due_approvals_def
proof (rule keeps_ensure, rule keeps_ensure, rule keeps_bnd [OF keeps_env(2)], rule keeps_bnd)
  show "keeps h (\<lambda>r. wf_repo r \<and> in_step r)
      (transaction (bnd (reads (due_approvals t now limit)) (\<lambda>due. foldM (expire_one t now) [] due))) (\<lambda>_. True)" for now
    by (rule keeps_transaction, rule keeps_bnd [OF keeps_env(5)], rule keeps_foldM) (simp_all add: expire_one_in_step)
qed (rule keeps_ret, simp)

lemma atomic_calls:
  "create_command ctx kind target payload key evidence s = (Inl e, s') \<Longrightarrow> db s' = db s"
  "supersede ctx cid payload key s = (Inl e, s') \<Longrightarrow> db s' = db s"
  "request_approval ctx kind target payload key policy tv evidence s = (Inl e, s') \<Longrightarrow> db s' = db s"
  "prepare_execution ctx cid policy tv s = (Inl e, s') \<Longrightarrow> db s' = db s"
  by (auto simp: create_command_def supersede_def request_approval_def prepare_execution_def dest: transaction_atomic)

lemma db_after_void:
  assumes "P (db s)" "\<And>a s'. m s = (Inr a, s') \<Longrightarrow> P (db s')" "\<And>e s'. m s = (Inl e, s') \<Longrightarrow> db s' = db s"
  shows "P (db (snd (void m s)))"
proof (cases "m s")
  case (Pair x s')
  show ?thesis
  proof (cases x)
    case (Inl e)
    with assms(1) assms(3) [of e s'] Pair show ?thesis by simp
  next
    case (Inr a)
    with assms(2) [of a s'] Pair show ?thesis by simp
  qed
qed

lemma approval_op_in_step:
  assumes wf: "wf_repo (db s)" and ok: "in_step (db s)"
  shows "in_step (db (snd (approval_op c s)))"
proof (cases c)
  case (Create ctx kind target payload key evidence)
  have "in_step (db (snd (void (create_command ctx kind target payload key evidence) s)))"
  proof (rule db_after_void [where P = in_step, OF ok])
    show "in_step (db s')" if "create_command ctx kind target payload key evidence s = (Inr a, s')" for a s'
      using that ok by (cases a) (auto dest: create_command_in_step)
  qed (rule atomic_calls)
  with Create show ?thesis by simp
next
  case (Decide ctx cid approve reason)
  have "in_step (db (snd (transaction (decide_in ctx cid approve reason) s)))"
    using decide_in_in_step [OF _ wf ok] ok by (auto simp: transaction_run split: prod.splits sum.splits)
  with Decide show ?thesis
    by (auto simp: decide_unlinked_def bnd_run ensure_run ret_run split: prod.splits sum.splits)
next
  case (Supersede ctx cid payload key)
  have "in_step (db (snd (void (supersede ctx cid payload key) s)))"
  proof (rule db_after_void [where P = in_step, OF ok])
    show "in_step (db s')" if "supersede ctx cid payload key s = (Inr a, s')" for a s'
      using that wf ok by (cases a) (auto dest: supersede_in_step)
  qed (rule atomic_calls)
  with Supersede show ?thesis by simp
next
  case (Request ctx kind target payload key policy tv evidence)
  have "in_step (db s')" if run: "request_approval ctx kind target payload key policy tv evidence s = (Inr ca, s')" for ca s'
  proof -
    obtain cm a where ca: "ca = (cm, a)" by fastforce
    obtain u where "create_command ctx kind target payload key evidence s = (Inr (cm, a), u)"
      and same: "commands (db s') = commands (db u)" "approvals (db s') = approvals (db u)"
      using request_approval_ok [OF run [unfolded ca]] by blast
    then have "in_step (db u)" using create_command_in_step ok by blast
    with same in_step_cong show ?thesis by blast
  qed
  then have "in_step (db (snd (void (request_approval ctx kind target payload key policy tv evidence) s)))"
    by (rule db_after_void [where P = in_step, OF ok]) (assumption, rule atomic_calls)
  with Request show ?thesis by simp
next
  case (Prepare ctx cid policy tv)
  then show ?thesis
    using keepsD [OF keeps_in_step_frame [OF acts_void [OF acts_prepare_execution [OF subset_refl]]] refl _ surjective_pairing, of s]
      wf ok by simp
next
  case (Expire t limit)
  then show ?thesis
    using keepsD [OF keeps_void [OF expire_in_step] refl _ surjective_pairing, of s] wf ok by simp
qed

fun run_approval_ops :: "approval_call list \<Rightarrow> world \<Rightarrow> world" where
  "run_approval_ops [] s = s"
| "run_approval_ops (c # cs) s = run_approval_ops cs (snd (approval_op c s))"

lemma approval_op_wf: "wf_repo (db s) \<Longrightarrow> wf_repo (db (snd (approval_op c s)))"
  by (rule actsD(2) [OF acts_approval_op refl _ surjective_pairing])

text \<open>
  C3: Whatever calls are made, in whatever order and by whichever members, a command and its
  approval are always in the same state: waiting and pending, or both approved, rejected,
  expired or superseded; and neither exists without the other.
\<close>

theorem approvals_in_step:
  assumes "wf_repo (db s)" "in_step (db s)"
  shows "in_step (db (run_approval_ops cs s))"
  using assms by (induction cs s rule: run_approval_ops.induct) (simp_all add: approval_op_in_step approval_op_wf)

lemma demo_tenant_in_step: "in_step (db demo_tenant)"
proof -
  have "commands (db demo_tenant) = []" "approvals (db demo_tenant) = []"
    by (simp_all add: demo_tenant_def bootstrap_tenant_def bootstrap_rows_def op_simps demo_world_def empty_repo_def
      add_tenant_def add_user_def find_user_by_email_def save_membership_def save_agent_status_def audit_run
      append_audit_def)
  then show ?thesis by (simp add: in_step_def)
qed

theorem approvals_in_step_witness:
  "in_step (db (run_approval_ops [Create demo_master Kind_PRODUCT ''offer:1'' (JObj []) ''k'' [], Expire ''u0'' 10] demo_tenant))"
  by (rule approvals_in_step [OF demo_tenant_wf demo_tenant_in_step])

text \<open>Calls that create no command: they decide, prepare and expire.\<close>

fun settling :: "approval_call \<Rightarrow> bool" where
  "settling (Decide ctx cid approve reason) = True"
| "settling (Prepare ctx cid policy tv) = True"
| "settling (Expire t limit) = True"
| "settling _ = False"

definition settled :: "string \<times> string \<Rightarrow> approval \<Rightarrow> repo \<Rightarrow> bool" where
  "settled k a r \<longleftrightarrow> wf_repo r \<and> dget (approvals r) k = Some a \<and> ap_state a \<noteq> Apr_PENDING"

lemma decide_in_settled:
  assumes "decide_in ctx cid approve reason s = (Inr (a', expired), s')" "settled k a (db s)"
  shows "dget (approvals (db s')) k = Some a"
proof -
  obtain c b where c: "dget (commands (db s)) (ctx_tenant_id ctx, cid) = Some c"
    and b: "dget (approvals (db s)) (ctx_tenant_id ctx, cmd_id c) = Some b" "ap_state b = Apr_PENDING"
    and eff: "approvals (db s') = dset (ap_tenant_id b, ap_command_id b) a' (approvals (db s))"
    using decide_in_ok [OF assms(1)] by blast
  have "ap_tenant_id b = ctx_tenant_id ctx \<and> ap_command_id b = cmd_id c"
    using keyed_dget [OF _ b(1)] wf_tableD [of "db s" T_approvals] assms(2) by (auto simp: settled_def)
  with b eff assms(2) show ?thesis by (auto simp: settled_def dget_dset)
qed

lemma expire_one_settled: "keeps h (settled k a) (expire_one t now ids b) (\<lambda>_. True)"
  unfolding expire_one_def
proof (rule keeps_bnd [where P = "\<lambda>_. True"])
  show "keeps h (settled k a) (mutate (mark_approval_expired t (ap_id b) (ap_command_id b) now)) (\<lambda>_. True)"
  proof (rule keeps_mutate)
    fix r x r' assume r: "settled k a r" and m: "mark_approval_expired t (ap_id b) (ap_command_id b) now r = Inr (x, r')"
    have "wf_repo r'"
      using r wf_writes writes_mark [OF _ _ _ m, of "{T_approvals, T_commands}"] by (fastforce simp: settled_def)
    with r mark_approval_expired_ok [OF m] show "settled k a r' \<and> True"
      by (auto simp: settled_def dget_dset)
  qed
  show "keeps h (settled k a) (if \<not> x then ret ids else
     bnd (query (get_command t (ap_command_id b))) (\<lambda>c.
     seq (audit t ''system:approval-expiry'' ''approval.expire'' (ap_id b) ''blocked'' (JObj [])) (
     seq (enqueue t ''approval.expired'' (cmd_id c)
            (JObj [(''approval_id'', JStr (ap_id b)), (''command_id'', JStr (cmd_id c))])
            (''approval.expired:'' @ ap_id b) now) (
     ret (ids @ [ap_id b]))))) (\<lambda>_. True)" (is "keeps _ _ ?m _") for x
  proof (rule keepsI)
    fix s s' :: world and y
    assume s: "sha256 s = h" "settled k a (db s)" and run: "?m s = (y, s')"
    have "acts h t {T_audit_events, T_outbox} ?m (\<lambda>_. True)"
      by (rule acts_rules | simp)+
    from actsD [OF this s(1) _ run] s(2) writes_frame [of h t "{T_audit_events, T_outbox}" "db s" "db s'" T_approvals]
    show "sha256 s' = h \<and> settled k a (db s') \<and> (\<forall>a. y = Inr a \<longrightarrow> True)"
      by (simp add: settled_def)
  qed
qed

lemma settling_op_settled:
  assumes "settling c" "settled k a (db s)"
  shows "settled k a (db (snd (approval_op c s)))"
proof -
  have wf: "wf_repo (db (snd (approval_op c s)))" using assms(2) approval_op_wf by (simp add: settled_def)
  have "dget (approvals (db (snd (approval_op c s)))) k = Some a"
    using assms(1)
  proof (cases c)
    case (Decide ctx cid approve reason)
    have "dget (approvals (db (snd (transaction (decide_in ctx cid approve reason) s)))) k = Some a"
      using decide_in_settled [OF _ assms(2)] assms(2)
      by (auto simp: transaction_run settled_def split: prod.splits sum.splits)
    with Decide show ?thesis
      by (auto simp: decide_unlinked_def bnd_run ensure_run ret_run split: prod.splits sum.splits)
  next
    case (Prepare ctx cid policy tv)
    have "writes (sha256 s) (ctx_tenant_id ctx) {T_execution_preparations, T_audit_events, T_outbox} (db s)
        (db (snd (approval_op c s)))"
      using actsD(3) [OF acts_void [OF acts_prepare_execution [OF subset_refl]] refl _ surjective_pairing, of s]
        assms(2) Prepare by (simp add: settled_def)
    from writes_frame [OF this, of T_approvals] assms(2) show ?thesis by (simp add: settled_def)
  next
    case (Expire t limit)
    have "keeps (sha256 s) (settled k a) (expire_due_approvals t limit) (\<lambda>_. True)"
      unfolding expire_due_approvals_def
      by (rule keeps_ensure keeps_bnd [OF keeps_env(2)] keeps_bnd [where P = "\<lambda>_. True"] keeps_transaction
          keeps_bnd [OF keeps_env(5)] keeps_foldM keeps_ret expire_one_settled TrueI)+
    from keepsD [OF keeps_void [OF this] refl assms(2) surjective_pairing] Expire show ?thesis
      by (simp add: settled_def)
  qed simp_all
  with wf assms(2) show ?thesis by (simp add: settled_def)
qed

text \<open>
  C9: A decision is final: an approval that is no longer pending stays exactly as it is, its
  state, its decider and its reason, under every sequence of further decisions, preparations
  and expiry runs.
\<close>

theorem decision_is_final:
  assumes "wf_repo (db s)" "dget (approvals (db s)) k = Some a" "ap_state a \<noteq> Apr_PENDING"
    and "list_all settling cs"
  shows "dget (approvals (db (run_approval_ops cs s))) k = Some a"
proof -
  have "settled k a (db (run_approval_ops cs s))" if "settled k a (db s)" "list_all settling cs" for cs s
    using that by (induction cs s rule: run_approval_ops.induct) (simp_all add: settling_op_settled)
  with assms show ?thesis by (simp add: settled_def)
qed

text \<open>A product command, requested and then approved, for the examples.\<close>

definition demo_requested :: world where
  "demo_requested = snd (request_approval demo_master Kind_PRODUCT ''offer:1'' (JObj [(''price'', JInt 5)]) ''k1'' 1 1 [] demo_tenant)"

definition demo_digest :: string where
  "demo_digest = replicate 64 CHR ''0''"

definition demo_command :: "command_state \<Rightarrow> command" where
  "demo_command st = new_command ''u4'' ''u0'' Kind_PRODUCT ''offer:1'' (JObj [(''price'', JInt 5)]) demo_digest ''k1'' st 2000000"

definition demo_approval :: approval where
  "demo_approval = new_approval ''u5'' ''u0'' ''u4'' Kind_PRODUCT Apr_PENDING 2000000 86402000000 []"

definition demo_intent :: approval_intent where
  "demo_intent = \<lparr>ai_tenant_id = ''u0'', ai_command_id = ''u4'', ai_canonical_digest = demo_digest,
     ai_policy_version = 1, ai_target_version = 1, ai_created_at = 4000000\<rparr>"

lemma show_nat_5 [simp]: "show_nat 5 = ''5''" "show_nat 6 = ''6''" "show_nat 7 = ''7''" "show_nat 8 = ''8''"
  "show_nat (Suc (Suc (Suc 0))) = ''3''" 
  by code_simp+

lemmas demo_simps = Let_def op_simps audit_run strict_intent_digest_def void_def digest_def
  demo_tenant_more demo_world_def demo_digest_def demo_command_def demo_approval_def demo_intent_def
  intent_material_def new_command_def new_approval_def blank_def strip_printable printable_def
  enqueue_def append_outbox_def new_outbox_event_def intent_digest_def get_command_def demo_master_def
  require_def membership_of_def get_membership_def new_membership_def member_capabilities_def

lemma demo_requested_run:
  "\<exists>s'. request_approval demo_master Kind_PRODUCT ''offer:1'' (JObj [(''price'', JInt 5)]) ''k1'' 1 1 [] demo_tenant =
       (Inr (demo_command Cmd_AWAITING_APPROVAL, demo_approval), s')
     \<and> commands (db s') = [((''u0'', ''u4''), demo_command Cmd_AWAITING_APPROVAL)]
     \<and> approvals (db s') = [((''u0'', ''u4''), demo_approval)]
     \<and> approval_intents (db s') = [((''u0'', ''u4''), demo_intent)]
     \<and> memberships (db s') = memberships (db demo_tenant)
     \<and> clock_src s' = clock_src demo_world \<and> clock_ctr s' = 5 \<and> sha256 s' = sha256 demo_world
     \<and> uuid_src s' = uuid_src demo_world \<and> uuid_ctr s' = 9 \<and> execution_preparations (db s') = []
     \<and> outbox_idempotency (db s') = [((''u0'', ''approval.requested:u4''), ''u8'')]"
  using demo_tenant_tables
  by (simp add: demo_simps request_approval_def create_command_def command_id_for_key_def get_approval_intent_def
      save_approval_intent_def hours_def)

lemma demo_requested_tables:
  "commands (db demo_requested) = [((''u0'', ''u4''), demo_command Cmd_AWAITING_APPROVAL)]"
  "approvals (db demo_requested) = [((''u0'', ''u4''), demo_approval)]"
  "approval_intents (db demo_requested) = [((''u0'', ''u4''), demo_intent)]"
  "memberships (db demo_requested) = memberships (db demo_tenant)"
  "clock_src demo_requested = clock_src demo_world" "clock_ctr demo_requested = 5"
  "sha256 demo_requested = sha256 demo_world" "uuid_src demo_requested = uuid_src demo_world"
  "uuid_ctr demo_requested = 9" "execution_preparations (db demo_requested) = []"
  "outbox_idempotency (db demo_requested) = [((''u0'', ''approval.requested:u4''), ''u8'')]"
  using demo_requested_run by (auto simp: demo_requested_def)

lemma demo_requested_wf: "wf_repo (db demo_requested)"
  unfolding demo_requested_def
  by (rule actsD(2) [OF acts_request_approval refl demo_tenant_wf surjective_pairing, where L = approval_call_tables]) simp_all

definition demo_decided :: world where
  "demo_decided = snd (decide_in demo_master ''u4'' True ''looks good'' demo_requested)"

lemma demo_len: "py_len ''looks good'' = 10" "show_nat 11 = ''11''"
  by code_simp+

lemma demo_decided_run:
  "\<exists>s'. decide_in demo_master ''u4'' True ''looks good'' demo_requested =
       (Inr (demo_approval\<lparr>ap_state := Apr_APPROVED, ap_decided_by := Some ''u1'', ap_decision_reason := Some ''looks good''\<rparr>, False), s')
     \<and> approvals (db s') = [((''u0'', ''u4''),
          demo_approval\<lparr>ap_state := Apr_APPROVED, ap_decided_by := Some ''u1'', ap_decision_reason := Some ''looks good''\<rparr>)]
     \<and> commands (db s') = [((''u0'', ''u4''), demo_command Cmd_APPROVED)]
     \<and> approval_intents (db s') = [((''u0'', ''u4''), demo_intent)] \<and> memberships (db s') = memberships (db demo_tenant)
     \<and> clock_src s' = clock_src demo_world \<and> clock_ctr s' = 7 \<and> sha256 s' = sha256 demo_world
     \<and> uuid_src s' = uuid_src demo_world \<and> uuid_ctr s' = 12 \<and> execution_preparations (db s') = []
     \<and> outbox_idempotency (db s') = [((''u0'', ''approval.requested:u4''), ''u8''), ((''u0'', ''approval.decided:u5''), ''u11'')]"
  using demo_tenant_tables
  by (simp add: demo_len demo_simps demo_requested_tables decide_in_def get_approval_intent_def check_intent_def
      get_approval_for_command_def decision_event_def)

lemma demo_decided_runs:
  "decide_in demo_master ''u4'' True ''looks good'' demo_requested =
     (Inr (demo_approval\<lparr>ap_state := Apr_APPROVED, ap_decided_by := Some ''u1'', ap_decision_reason := Some ''looks good''\<rparr>, False),
      demo_decided)"
  "approvals (db demo_decided) = [((''u0'', ''u4''),
     demo_approval\<lparr>ap_state := Apr_APPROVED, ap_decided_by := Some ''u1'', ap_decision_reason := Some ''looks good''\<rparr>)]"
  "commands (db demo_decided) = [((''u0'', ''u4''), demo_command Cmd_APPROVED)]"
  using demo_decided_run by (auto simp: demo_decided_def)

lemma demo_decided_wf: "wf_repo (db demo_decided)"
  unfolding demo_decided_def
  by (rule actsD(2) [OF acts_decide_in refl demo_requested_wf surjective_pairing, where L = approval_call_tables]) simp_all

text \<open>The tables the calls did not touch, and the rest of the approved world.\<close>

lemma demo_requested_untouched:
  assumes "x \<notin> approval_call_tables"
  shows "same_table x (db demo_tenant) (db demo_requested)"
proof -
  have "acts (sha256 demo_tenant) ''u0'' approval_call_tables (request_approval demo_master Kind_PRODUCT ''offer:1''
      (JObj [(''price'', JInt 5)]) ''k1'' 1 1 []) (\<lambda>_. True)"
    using acts_any [OF acts_request_approval [of approval_call_tables _ demo_master]] by (simp add: demo_master_def)
  from actsD(3) [OF this refl demo_tenant_wf surjective_pairing, folded demo_requested_def] assms
  show ?thesis by (rule writes_frame)
qed

lemma demo_decided_untouched:
  assumes "x \<notin> approval_call_tables"
  shows "same_table x (db demo_tenant) (db demo_decided)"
proof -
  have "acts (sha256 demo_requested) ''u0'' approval_call_tables (decide_in demo_master ''u4'' True ''looks good'') (\<lambda>_. True)"
    using acts_any [OF acts_decide_in [of approval_call_tables _ demo_master]] by (simp add: demo_master_def)
  note b = actsD(3) [OF this refl demo_requested_wf surjective_pairing, folded demo_decided_def]
  show ?thesis using demo_requested_untouched [OF assms] writes_frame [OF b assms] same_table_trans by blast
qed

lemma demo_decided_rest:
  "approval_intents (db demo_decided) = [((''u0'', ''u4''), demo_intent)]"
  "memberships (db demo_decided) = memberships (db demo_tenant)" "clock_src demo_decided = clock_src demo_world"
  "clock_ctr demo_decided = 7" "sha256 demo_decided = sha256 demo_world" "uuid_src demo_decided = uuid_src demo_world"
  "uuid_ctr demo_decided = 12" "execution_preparations (db demo_decided) = []"
  "outbox_idempotency (db demo_decided) = [((''u0'', ''approval.requested:u4''), ''u8''), ((''u0'', ''approval.decided:u5''), ''u11'')]"
  using demo_decided_run by (auto simp: demo_decided_def)

theorem decision_is_final_witness:
  "\<exists>a. dget (approvals (db (run_approval_ops [Decide demo_master ''u4'' False ''no'', Expire ''u0'' 10] demo_decided))) (''u0'', ''u4'') = Some a
     \<and> ap_state a = Apr_APPROVED"
  using decision_is_final [OF demo_decided_wf, of "(''u0'', ''u4'')" _ "[Decide demo_master ''u4'' False ''no'', Expire ''u0'' 10]"]
  by (simp add: demo_decided_runs)

end
