(* ===== verification/Redaction.thy ===== *)
theory Redaction
  imports Approval_Laws
begin

section \<open>The approval inbox and what it shows\<close>

text \<open>
  \<open>_safe_preview\<close>, \<open>_material_preview\<close>, \<open>_item\<close>, \<open>approval_inbox\<close> and \<open>approval_detail\<close> of
  approvals.py.  Keys that look sensitive and strings that look like signed links are replaced
  before a payload or its evidence is shown.
\<close>

subsection \<open>The two regular expressions\<close>

fun contains :: "string \<Rightarrow> string \<Rightarrow> bool" where
  "contains p s = (prefix p s \<or> (case s of [] \<Rightarrow> False | _ # s' \<Rightarrow> contains p s'))"

declare contains.simps [simp del]

text \<open>
  Case folding of \<open>(?i)\<close> on a \<open>str\<close>: ASCII letters, and the four other characters that fold
  to one of them (dotted and dotless i, long s, the Kelvin sign), as UTF-8.
\<close>

definition bytes :: "string \<Rightarrow> nat list" where
  "bytes s = map of_char s"

fun fold_case :: "string \<Rightarrow> string" where
  "fold_case [] = []"
| "fold_case (c # s) =
     (if bytes (c # take 1 s) \<in> {[196, 176], [196, 177]} then CHR ''i'' # fold_case (drop 1 s)
      else if bytes (c # take 1 s) = [197, 191] then CHR ''s'' # fold_case (drop 1 s)
      else if bytes (c # take 2 s) = [226, 132, 170] then CHR ''k'' # fold_case (drop 2 s)
      else to_lower c # fold_case s)"

text \<open>\<open>_SENSITIVE_KEY\<close>, its alternatives spelt out.\<close>

definition sensitive_words :: "string list" where
  "sensitive_words = [''apikey'', ''api_key'', ''api-key'', ''authorization'',
     ''accesstoken'', ''access_token'', ''access-token'', ''refreshtoken'', ''refresh_token'', ''refresh-token'',
     ''password'', ''secret'', ''credential'', ''phone'', ''email'', ''address'', ''contact'',
     ''receivername'', ''receiver_name'', ''receiver-name'', ''recipientname'', ''recipient_name'',
     ''recipient-name'', ''customername'', ''customer_name'', ''customer-name'']"

definition sensitive_key :: "string \<Rightarrow> bool" where
  "sensitive_key label \<longleftrightarrow> list_ex (\<lambda>w. contains w (fold_case label)) sensitive_words"

text \<open>\<open>_SIGNED_URL\<close>: a link with a token in its query, before any line break.\<close>

definition signed_url :: "string \<Rightarrow> bool" where
  "signed_url text \<longleftrightarrow> (let t = fold_case text;
       rest = (if prefix ''https://'' t then Some (drop 8 t) else if prefix ''http://'' t then Some (drop 7 t) else None)
     in case rest of None \<Rightarrow> False
        | Some r \<Rightarrow> list_ex (\<lambda>w. contains w (takeWhile (\<lambda>c. (of_char c :: nat) \<noteq> 10) r))
            [''?token='', ''&token='', ''?signature='', ''&signature='', ''?x-amz-signature='',
             ''&x-amz-signature='', ''?x-goog-signature='', ''&x-goog-signature=''])"

subsection \<open>Redaction\<close>

definition redacted :: json where
  "redacted = JStr ''[REDACTED]''"

text \<open>\<open>_safe_preview\<close>: the value to show, and whether anything was hidden.  The first argument is \<open>8 - depth\<close>.\<close>

fun safe_preview :: "nat \<Rightarrow> json \<Rightarrow> json \<times> bool" where
  "safe_preview fuel (JObj kvs) =
     (let rows = map (\<lambda>(k, v). (k, if sensitive_key k then (redacted, True)
            else (case fuel of 0 \<Rightarrow> (redacted, True) | Suc n \<Rightarrow> safe_preview n v))) kvs
      in (JObj (map (\<lambda>(k, v, _). (k, v)) rows), list_ex (\<lambda>(_, _, c). c) rows))"
| "safe_preview fuel (JList xs) =
     (let items = map (\<lambda>v. case fuel of 0 \<Rightarrow> (redacted, True) | Suc n \<Rightarrow> safe_preview n v) xs
      in (JList (map fst items), list_ex snd items))"
| "safe_preview fuel (JStr s) = (if signed_url s then (redacted, True) else (JStr s, False))"
| "safe_preview fuel v = (v, False)"

text \<open>What may be shown: no sensitive key keeps its value, and no signed link is left.\<close>

fun showable :: "json \<Rightarrow> bool" where
  "showable (JObj kvs) = list_all (\<lambda>(k, v). if sensitive_key k then v = redacted else showable v) kvs"
| "showable (JList xs) = list_all showable xs"
| "showable (JStr s) = (\<not> signed_url s)"
| "showable v = True"

subsection \<open>Approval items\<close>

record approval_view =
  av_approval_id :: string
  av_state :: approval_state
  av_kind :: approval_kind
  av_risk_badges :: "string list"
  av_target :: string
  av_before :: json
  av_after :: json
  av_profit :: json
  av_evidence :: json
  av_policy_version :: string
  av_decision :: string
  av_expires_at :: string
  av_actions :: "string list"

fun int_or_null :: "json option \<Rightarrow> json" where
  "int_or_null (Some (JInt n)) = JInt n"
| "int_or_null _ = JNull"

fun str_or_null :: "json option \<Rightarrow> json" where
  "str_or_null (Some (JStr x)) = JStr x"
| "str_or_null _ = JNull"

fun as_mapping :: "json option \<Rightarrow> json" where
  "as_mapping (Some (JObj kvs)) = JObj kvs"
| "as_mapping _ = JObj []"

definition get_or :: "json \<Rightarrow> string \<Rightarrow> json \<Rightarrow> json" where
  "get_or v k d = (case jget v k of None \<Rightarrow> d | Some x \<Rightarrow> x)"

definition material_preview :: "command \<Rightarrow> json list \<Rightarrow> json \<times> json \<times> json \<times> json \<times> string list" where
  "material_preview c evidence = (let payload = as_mapping (Some (cmd_payload c));
       (before, b1) = safe_preview 8 (get_or payload ''before'' (JObj []));
       (after, b2) = safe_preview 8 (get_or payload ''after'' payload);
       (ev, b3) = safe_preview 8 (JList evidence);
       raw = as_mapping (jget payload ''profit'');
       projected = int_or_null (jget raw ''projected_profit_minor'');
       profit = JObj [(''projected_profit_minor'', projected),
         (''margin_ex_ad'', str_or_null (jget raw ''margin_ex_ad'')),
         (''margin_with_ad'', str_or_null (jget raw ''margin_with_ad'')),
         (''currency'', str_or_null (jget raw ''currency''))];
       badges = (if b1 \<or> b2 \<or> b3 then [''sensitive_fields_redacted''] else [])
              @ (if projected = JNull then [''profit_evidence_missing''] else [])
     in (before, after, profit, ev, badges))"

text \<open>\<open>_permissions\<close>, the capability values in sorted order.\<close>

definition permissions :: "tenant_context \<Rightarrow> string list svc" where
  "permissions ctx = bnd (membership_of ctx) (\<lambda>m.
     ret (sort (map capability_value (filter (\<lambda>c. c \<in> member_capabilities m) enum_class.enum))))"

definition can_read :: "approval \<Rightarrow> string list \<Rightarrow> bool" where
  "can_read a ps \<longleftrightarrow> capability_value (approval_capability (ap_kind a)) \<in> set ps
     \<or> capability_value Cap_READ_AUDIT \<in> set ps"

definition item_view :: "tenant_context \<Rightarrow> approval \<Rightarrow> command \<Rightarrow> string list \<Rightarrow> time \<Rightarrow> approval_view svc" where
  "item_view ctx a c ps now = (let due = (ap_state a = Apr_PENDING \<and> now \<ge> ap_expires_at a);
       pending = (ap_state a = Apr_PENDING \<and> \<not> due);
       st = (if due then Apr_EXPIRED else ap_state a);
       decision = (if pending then ''approval_required'' else if st = Apr_APPROVED then ''allow'' else ''deny'');
       (before, after, profit, ev, badges) = material_preview c (ap_evidence a)
     in bnd (reads (get_approval_intent (ctx_tenant_id ctx) (cmd_id c))) (\<lambda>i.
     ret \<lparr>av_approval_id = ap_id a, av_state = st, av_kind = ap_kind a,
          av_risk_badges = badges @ (if due then [''approval_expired''] else []),
          av_target = cmd_target_ref c, av_before = before, av_after = after, av_profit = profit,
          av_evidence = ev,
          av_policy_version = (case i of Some v \<Rightarrow> ''v'' @ show_int (ai_policy_version v) | None \<Rightarrow> ''unknown''),
          av_decision = decision, av_expires_at = isoformat (ap_expires_at a),
          av_actions = (if pending \<and> capability_value (approval_capability (ap_kind a)) \<in> set ps
            then [''approve'', ''reject'', ''ask_question''] else [])\<rparr>))"

definition approval_inbox :: "tenant_context \<Rightarrow> (approval_view list \<times> time \<times> string list) svc" where
  "approval_inbox ctx = bnd clock (\<lambda>now. bnd (permissions ctx) (\<lambda>ps.
     let readable = map (\<lambda>k. capability_value (approval_capability k))
           [Kind_PURCHASE, Kind_PRODUCT, Kind_SUPPLIER_REPLACEMENT, Kind_REFUND, Kind_CS, Kind_PAUSE] in
     ensure (capability_value Cap_READ_AUDIT \<in> set ps \<or> set readable \<inter> set ps \<noteq> {})
       (AuthorizationError ''missing approval read capability'') (
     bnd (reads (approvals_for (ctx_tenant_id ctx))) (\<lambda>as.
     bnd (mapM (\<lambda>a. bnd (query (get_command (ctx_tenant_id ctx) (ap_command_id a))) (\<lambda>c. item_view ctx a c ps now))
           (filter (\<lambda>a. can_read a ps \<and> ap_state a = Apr_PENDING) as)) (\<lambda>items.
     ret (filter (\<lambda>i. av_state i = Apr_PENDING) items, now, ps))))))"

definition approval_detail :: "tenant_context \<Rightarrow> string \<Rightarrow> approval_view svc" where
  "approval_detail ctx aid = ensure (opaque_colon aid) (ConflictError ''invalid approval id'') (
     bnd clock (\<lambda>now. bnd (permissions ctx) (\<lambda>ps.
     bnd (query (get_approval (ctx_tenant_id ctx) aid)) (\<lambda>a.
     ensure (can_read a ps) (AuthorizationError ''missing approval read capability'') (
     bnd (query (get_command (ctx_tenant_id ctx) (ap_command_id a))) (\<lambda>c.
     item_view ctx a c ps now))))))"

subsection \<open>What is shown\<close>

lemma contains_Nil: "contains w [] = (w = [])"
  by (subst contains.simps) simp

lemma redacted_showable [simp]: "showable redacted"
  by (simp add: redacted_def signed_url_def fold_case.simps bytes_def to_lower_def Let_def)

lemma safe_preview_safe: "showable (fst (safe_preview n v))"
proof (induction n v rule: safe_preview.induct)
  case (1 fuel kvs)
  then show ?case
    by (auto simp: Let_def list_all_iff split: nat.split prod.splits) fastforce+
next
  case (2 fuel xs)
  then show ?case by (auto simp: list_all_iff split: nat.split)
qed simp_all

lemma map_fst_id: "map f kvs = kvs \<longleftrightarrow> (\<forall>x\<in>set kvs. f x = x)"
  by (induction kvs) auto

lemma safe_preview_unchanged: "\<not> snd (safe_preview n v) \<Longrightarrow> fst (safe_preview n v) = v"
proof (induction n v rule: safe_preview.induct)
  case (1 fuel kvs)
  have "(k, fst (if sensitive_key k then (redacted, True)
      else case fuel of 0 \<Rightarrow> (redacted, True) | Suc n \<Rightarrow> safe_preview n v)) = (k, v)" if kv: "(k, v) \<in> set kvs" for k v
  proof -
    have no: "\<not> snd (if sensitive_key k then (redacted, True)
        else case fuel of 0 \<Rightarrow> (redacted, True) | Suc n \<Rightarrow> safe_preview n v)"
      using 1(2) kv by (auto simp: Let_def list_ex_iff)
    then obtain m where "\<not> sensitive_key k" "fuel = Suc m" "\<not> snd (safe_preview m v)"
      by (cases fuel) (auto split: if_splits)
    with 1(1) [OF kv refl] show ?thesis by simp
  qed
  then show ?case by (force simp: Let_def map_fst_id case_prod_beta)
next
  case (2 fuel xs)
  have "fst (case fuel of 0 \<Rightarrow> (redacted, True) | Suc n \<Rightarrow> safe_preview n v) = v" if "v \<in> set xs" for v
    using 2 that by (cases fuel) (auto simp: list_ex_iff)
  then show ?case by (simp add: map_idI)
qed (auto split: if_splits)

definition discloses :: "approval_view \<Rightarrow> bool" where
  "discloses v \<longleftrightarrow> showable (av_before v) \<and> showable (av_after v) \<and> showable (av_evidence v)"

lemma safe_preview_pair: "safe_preview n v = (a, b) \<Longrightarrow> showable a"
  using safe_preview_safe [of n v] by simp

lemma material_preview_safe:
  "material_preview c ev = (b, a, p, e, bs) \<Longrightarrow> showable b \<and> showable a \<and> showable e"
  unfolding material_preview_def Let_def
  by (auto simp: list_all_iff safe_preview_safe split: prod.splits dest: safe_preview_pair)

lemma item_view_ok:
  "item_view ctx a c ps now s = (Inr v, s') \<Longrightarrow> s' = s \<and> discloses v \<and> av_approval_id v = ap_id a
     \<and> (av_state v = Apr_PENDING \<longleftrightarrow> ap_state a = Apr_PENDING \<and> now < ap_expires_at a)
     \<and> (av_actions v \<noteq> [] \<longrightarrow> av_state v = Apr_PENDING \<and> capability_value (approval_capability (ap_kind a)) \<in> set ps)"
  unfolding item_view_def Let_def
  by (auto simp: op_ok reads_ok discloses_def dest!: material_preview_safe split: prod.splits)

lemma permissions_ok:
  "permissions ctx s = (Inr ps, s') \<longleftrightarrow> s' = s \<and> (\<exists>m. membership_of ctx s = (Inr m, s) \<and>
     ps = sort (map capability_value (filter (\<lambda>c. c \<in> member_capabilities m) enum_class.enum)))"
  by (auto simp: permissions_def op_ok membership_of_ok)

subsection \<open>Properties\<close>


lemma demo_preview:
  "material_preview (demo_command st) [] = (JObj [], JObj [(''price'', JInt 5)],
     JObj [(''projected_profit_minor'', JNull), (''margin_ex_ad'', JNull), (''margin_with_ad'', JNull), (''currency'', JNull)],
     JList [], [''profit_evidence_missing''])"
  by code_simp

lemma demo_inbox:
  "\<exists>v now ps s'. approval_inbox demo_master demo_requested = (Inr ([v], now, ps), s')"
  using demo_tenant_tables
  by (simp add: approval_inbox_def permissions_def item_view_def demo_requested_tables demo_preview [unfolded demo_command_def new_command_def demo_digest_def] demo_simps
      approvals_for_def rows_def can_read_def get_approval_intent_def enum_capability_def new_membership_def)


text \<open>
  Redaction is reported: a payload or evidence value that the preview does not flag as
  redacted is shown exactly as it is stored.
\<close>

theorem unflagged_preview_exact:
  assumes "\<not> snd (safe_preview n v)"
  shows "fst (safe_preview n v) = v"
  using assms by (rule safe_preview_unchanged)

theorem unflagged_preview_exact_witness:
  "fst (safe_preview 8 (JObj [(''price'', JInt 5), (''tags'', JList [JBool True])])) =
     JObj [(''price'', JInt 5), (''tags'', JList [JBool True])]"
  by (rule unflagged_preview_exact) code_simp

end
