(* ===== verification/Json.thy ===== *)
theory Json
  imports Domain
begin

section \<open>Reading JSON back\<close>

text \<open>
  \<open>json.loads\<close> on the texts the repository stores, by recursive descent with fuel; the length
  of the text is fuel enough for every text \<open>dumps\<close> prints (\<open>loads_dumps\<close>), so the digest of a
  canonical text determines its value up to the order of keys.
\<close>

definition is_ws :: "char \<Rightarrow> bool" where
  "is_ws c \<longleftrightarrow> c \<in> {CHR '' '', CHR 0x0A, CHR 0x0D, CHR 0x09}"

definition skip_ws :: "string \<Rightarrow> string" where
  "skip_ws = dropWhile is_ws"

definition hex_val :: "char \<Rightarrow> nat option" where
  "hex_val c = (let n = (of_char c :: nat) in
     if 48 \<le> n \<and> n \<le> 57 then Some (n - 48)
     else if 97 \<le> n \<and> n \<le> 102 then Some (n - 87)
     else if 65 \<le> n \<and> n \<le> 70 then Some (n - 55) else None)"

definition utf8 :: "nat \<Rightarrow> string" where
  "utf8 n = map char_of (if n < 128 then [n]
     else if n < 2048 then [192 + n div 64, 128 + n mod 64]
     else [224 + n div 4096, 128 + n div 64 mod 64, 128 + n mod 64])"

fun unescape :: "char \<Rightarrow> char option" where
  "unescape c = (let n = (of_char c :: nat) in
     if n = 34 then Some (char_of (34::nat)) else if n = 92 then Some (char_of (92::nat))
     else if n = 47 then Some (char_of (47::nat)) else if n = 110 then Some (char_of (10::nat))
     else if n = 114 then Some (char_of (13::nat)) else if n = 116 then Some (char_of (9::nat))
     else if n = 98 then Some (char_of (8::nat)) else if n = 102 then Some (char_of (12::nat)) else None)"

text \<open>The characters of a string after its opening quote.\<close>

fun scan_string :: "string \<Rightarrow> (string \<times> string) option" where
  "scan_string [] = None"
| "scan_string (c # cs) =
     (if of_char c = (34::nat) then Some ([], cs)
      else if of_char c = (92::nat) then
        (case cs of
           [] \<Rightarrow> None
         | d # ds \<Rightarrow>
             (if d = CHR ''u'' then
                (case ds of a # b # e # f # rest \<Rightarrow>
                   (case (hex_val a, hex_val b, hex_val e, hex_val f) of
                      (Some x, Some y, Some z, Some w) \<Rightarrow>
                        map_option (\<lambda>(t, r). (utf8 (((x * 16 + y) * 16 + z) * 16 + w) @ t, r)) (scan_string rest)
                    | _ \<Rightarrow> None)
                 | _ \<Rightarrow> None)
              else (case unescape d of None \<Rightarrow> None
                    | Some x \<Rightarrow> map_option (\<lambda>(t, r). (x # t, r)) (scan_string ds))))
      else if of_char c < (32::nat) then None
      else map_option (\<lambda>(t, r). (c # t, r)) (scan_string cs))"

definition num_chars :: "char set" where
  "num_chars = set ''+-0123456789.eE''"

fun read_nat :: "nat \<Rightarrow> string \<Rightarrow> nat" where
  "read_nat acc [] = acc"
| "read_nat acc (c # cs) = read_nat (acc * 10 + (of_char c - 48)) cs"

definition number_of_token :: "string \<Rightarrow> json option" where
  "number_of_token tok =
     (if list_ex (\<lambda>c. c \<in> set ''.eE'') tok then Some (JFloat tok)
      else (case tok of [] \<Rightarrow> None
        | c # cs \<Rightarrow> if c = CHR ''-'' then (if cs \<noteq> [] \<and> list_all is_digit cs then Some (JInt (- int (read_nat 0 cs))) else None)
            else if list_all is_digit tok then Some (JInt (int (read_nat 0 tok))) else None))"

definition take_word :: "string \<Rightarrow> json \<Rightarrow> string \<Rightarrow> (json \<times> string) option" where
  "take_word w v s = (if take (length w) s = w then Some (v, drop (length w) s) else None)"

fun parse_value :: "nat \<Rightarrow> string \<Rightarrow> (json \<times> string) option"
  and parse_items :: "nat \<Rightarrow> string \<Rightarrow> (json list \<times> string) option"
  and parse_members :: "nat \<Rightarrow> string \<Rightarrow> ((string \<times> json) list \<times> string) option"
where
  "parse_value 0 s = None"
| "parse_value (Suc n) s = (case skip_ws s of
     [] \<Rightarrow> None
   | c # cs \<Rightarrow>
       if of_char c = (34::nat) then map_option (\<lambda>(t, r). (JStr t, r)) (scan_string cs)
       else if c = CHR ''['' then
         (case skip_ws cs of
            [] \<Rightarrow> None
          | d # ds \<Rightarrow> if d = CHR '']'' then Some (JList [], ds)
              else map_option (\<lambda>(xs, r). (JList xs, r)) (parse_items n (d # ds)))
       else if c = CHR ''{'' then
         (case skip_ws cs of
            [] \<Rightarrow> None
          | d # ds \<Rightarrow> if d = CHR ''}'' then Some (JObj [], ds)
              else map_option (\<lambda>(xs, r). (JObj (foldl (\<lambda>m (k, v). dset k v m) [] xs), r)) (parse_members n (d # ds)))
       else if c = CHR ''n'' then take_word ''null'' JNull (c # cs)
       else if c = CHR ''t'' then take_word ''true'' (JBool True) (c # cs)
       else if c = CHR ''f'' then take_word ''false'' (JBool False) (c # cs)
       else map_option (\<lambda>v. (v, dropWhile (\<lambda>x. x \<in> num_chars) (c # cs)))
              (number_of_token (takeWhile (\<lambda>x. x \<in> num_chars) (c # cs))))"
| "parse_items 0 s = None"
| "parse_items (Suc n) s = (case parse_value n s of
     None \<Rightarrow> None
   | Some (v, r) \<Rightarrow> (case skip_ws r of
         [] \<Rightarrow> None
       | c # cs \<Rightarrow> if c = CHR '']'' then Some ([v], cs)
           else if c = CHR '','' then map_option (\<lambda>(vs, r'). (v # vs, r')) (parse_items n cs)
           else None))"
| "parse_members 0 s = None"
| "parse_members (Suc n) s = (case skip_ws s of
     [] \<Rightarrow> None
   | q # qs \<Rightarrow> if of_char q \<noteq> (34::nat) then None else
       (case scan_string qs of
          None \<Rightarrow> None
        | Some (k, r0) \<Rightarrow> (case skip_ws r0 of
            [] \<Rightarrow> None
          | col # r1 \<Rightarrow> if col \<noteq> CHR '':'' then None else
             (case parse_value n r1 of
                None \<Rightarrow> None
              | Some (v, r) \<Rightarrow> (case skip_ws r of
                    [] \<Rightarrow> None
                  | c # cs \<Rightarrow> if c = CHR ''}'' then Some ([(k, v)], cs)
                      else if c = CHR '','' then map_option (\<lambda>(vs, r'). ((k, v) # vs, r')) (parse_members n cs)
                      else None)))))"

text \<open>A text is one value and white space; anything else is the decoder's ValueError.\<close>

definition loads :: "string \<Rightarrow> json option" where
  "loads s = (case parse_value (2 * length s + 2) s of
     None \<Rightarrow> None | Some (v, r) \<Rightarrow> if skip_ws r = [] then Some v else None)"

lemma loads_examples:
  "loads ''{}'' = Some (JObj [])"
  "loads (dumps (JObj [(''b'', JList [JInt (-12), JNull]), (''a'', JStr ''x'')])) =
     Some (JObj [(''a'', JStr ''x''), (''b'', JList [JInt (-12), JNull])])"
  by code_simp+

subsection \<open>Strings and numbers read back\<close>

lemma hex_val_digit: "m < 16 \<Longrightarrow> hex_val (hex_digit m) = Some m"
  by (auto simp: hex_val_def)

lemma scan_backslash:
  "scan_string (char_of (92::nat) # d # ds) =
     (if d = CHR ''u'' then
        (case ds of a # b # e # f # rest \<Rightarrow>
           (case (hex_val a, hex_val b, hex_val e, hex_val f) of
              (Some x, Some y, Some z, Some w) \<Rightarrow>
                map_option (\<lambda>(t, r). (utf8 (((x * 16 + y) * 16 + z) * 16 + w) @ t, r)) (scan_string rest)
            | _ \<Rightarrow> None)
         | _ \<Rightarrow> None)
      else (case unescape d of None \<Rightarrow> None
            | Some x \<Rightarrow> map_option (\<lambda>(t, r). (x # t, r)) (scan_string ds)))"
  by (subst scan_string.simps) simp

declare scan_string.simps(2) [simp del]

lemma scan_u:
  "n < 128 \<Longrightarrow> scan_string ([char_of (92::nat), CHR ''u'', CHR ''0'', CHR ''0'', hex_digit (n div 16), hex_digit (n mod 16)] @ cs)
     = map_option (\<lambda>(t, r). (char_of n # t, r)) (scan_string cs)"
proof -
  assume n: "n < 128"
  have z: "hex_val (CHR ''0'') = Some 0" by (simp add: hex_val_def)
  have "n div 16 < 16" "n mod 16 < 16" using n by auto
  note h = this [THEN hex_val_digit]
  show ?thesis
    using n by (simp add: scan_backslash z h utf8_def del: hex_digit.simps)
qed

lemma scan_short:
  assumes "unescape d = Some c" "d \<noteq> CHR ''u''"
  shows "scan_string ([char_of (92::nat), d] @ cs) = map_option (\<lambda>(t, r). (c # t, r)) (scan_string cs)"
  using assms by (simp add: scan_backslash del: unescape.simps)

lemma not_u: "char_of (34::nat) \<noteq> CHR ''u''" "char_of (92::nat) \<noteq> CHR ''u''"
  by code_simp+

lemma scan_plain:
  assumes "(of_char c :: nat) \<noteq> 34" "(of_char c :: nat) \<noteq> 92" "\<not> (of_char c :: nat) < 32"
  shows "scan_string (c # cs) = map_option (\<lambda>(t, r). (c # t, r)) (scan_string cs)"
  using assms by (subst scan_string.simps) simp

lemma scan_escape: "scan_string (escape_char c @ cs) = map_option (\<lambda>(t, r). (c # t, r)) (scan_string cs)"
proof -
  define n where "n = (of_char c :: nat)"
  have c: "c = char_of n" by (simp add: n_def)
  consider "n = 34" | "n = 92" | "n = 10" | "n = 13" | "n = 9" | "n = 8" | "n = 12"
    | (ctl) "n < 32" "n \<notin> {34, 92, 10, 13, 9, 8, 12}"
    | (plain) "\<not> n < 32" "n \<noteq> 34" "n \<noteq> 92" by blast
  then show ?thesis
  proof cases
    case ctl
    then have "escape_char c = [char_of (92::nat), CHR ''u'', CHR ''0'', CHR ''0'', hex_digit (n div 16), hex_digit (n mod 16)]"
      by (simp add: escape_char_def n_def Let_def del: hex_digit.simps)
    with ctl scan_u [of n cs] show ?thesis by (simp add: c del: hex_digit.simps)
  next
    case plain
    then show ?thesis
      using scan_plain [of c cs] by (simp add: escape_char_def n_def)
  qed (simp_all add: c escape_char_def scan_short not_u del: append.simps)
qed

lemma scan_quote: "scan_string (concat (map escape_char s) @ char_of (34::nat) # r) = Some (s, r)"
  by (induction s) (simp_all add: scan_escape scan_string.simps)


text \<open>What a JSON value of a Python program is: distinct keys, floats that print as floats.\<close>

fun wf_json :: "json \<Rightarrow> bool" where
  "wf_json (JFloat r) = (set r \<subseteq> num_chars \<and> list_ex (\<lambda>c. c \<in> set ''.eE'') r)"
| "wf_json (JList xs) = list_all wf_json xs"
| "wf_json (JObj kvs) = (distinct (map fst kvs) \<and> list_all (\<lambda>(k, v). wf_json v) kvs)"
| "wf_json _ = True"

text \<open>The order of keys is not part of the text: \<open>norm\<close> sorts them.\<close>

fun norm :: "json \<Rightarrow> json" where
  "norm (JList xs) = JList (map norm xs)"
| "norm (JObj kvs) = JObj (sort_key fst (map (\<lambda>(k, v). (k, norm v)) kvs))"
| "norm j = j"

definition delim :: "string \<Rightarrow> bool" where
  "delim r \<longleftrightarrow> (case r of [] \<Rightarrow> True | c # _ \<Rightarrow> c \<notin> num_chars)"

lemma show_nat_digits: "list_all is_digit (show_nat n) \<and> show_nat n \<noteq> []"
proof (induction n rule: show_nat.induct)
  case (1 n)
  have d: "m < 10 \<Longrightarrow> is_digit (char_of (48 + m))" for m :: nat
    by (simp add: is_digit_def Let_def)
  show ?case using 1 d by (subst (1 2) show_nat.simps) auto
qed

lemma read_nat_append: "read_nat a (xs @ ys) = read_nat (read_nat a xs) ys"
  by (induction xs arbitrary: a) auto

lemma read_show_nat: "read_nat 0 (show_nat n) = n"
proof (induction n rule: show_nat.induct)
  case (1 n)
  show ?case
  proof (cases "n < 10")
    case True
    then show ?thesis by (subst show_nat.simps) simp
  next
    case False
    with 1 show ?thesis by (subst show_nat.simps) (simp add: read_nat_append)
  qed
qed

lemma digit_num: "is_digit c \<Longrightarrow> c \<in> num_chars \<and> c \<notin> set ''.eE'' \<and> c \<noteq> CHR ''-''"
proof -
  assume "is_digit c"
  then have n: "48 \<le> (of_char c :: nat)" "(of_char c :: nat) \<le> 57" by (auto simp: is_digit_def Let_def)
  then have "(of_char c :: nat) \<in> set [48..<58]" by (simp only: set_upt atLeastLessThan_iff) arith
  then have "c \<in> set (map char_of [48..<58::nat])"
    by (metis char_of_char image_eqI list.set_map)
  also have "map char_of [48..<58::nat] = ''0123456789''" by code_simp
  finally show ?thesis by (auto simp: num_chars_def)
qed

lemma number_show_int: "number_of_token (show_int i) = Some (JInt i)"
proof -
  have no_float: "\<not> list_ex (\<lambda>c. c \<in> set ''.eE'') (show_nat n)" for n
    using show_nat_digits [of n] digit_num by (auto simp: list_ex_iff list_all_iff)
  obtain c cs where nz: "show_nat (nat i) = c # cs" using show_nat_digits by (metis neq_Nil_conv)
  have "c \<noteq> CHR ''-''" using show_nat_digits [of "nat i"] digit_num by (auto simp: nz)
  with nz show ?thesis
    using show_nat_digits [of "nat i"] show_nat_digits [of "nat (- i)"] no_float [of "nat i"]
      no_float [of "nat (- i)"] read_show_nat [of "nat i"] read_show_nat [of "nat (- i)"]
    by (auto simp: number_of_token_def show_int_def simp del: read_nat.simps)
qed


subsection \<open>Values read back\<close>

lemma insort_key_map: "insort_key f (g x) (map g xs) = map g (insort_key (\<lambda>y. f (g y)) x xs)"
  by (induction xs) auto

lemma sort_key_map: "sort_key f (map g xs) = map g (sort_key (\<lambda>y. f (g y)) xs)"
  by (induction xs) (simp_all add: insort_key_map)

lemma num_dispatch:
  "c \<in> num_chars \<Longrightarrow> of_char c \<noteq> (34::nat) \<and> c \<noteq> CHR ''['' \<and> c \<noteq> CHR ''{'' \<and> c \<noteq> CHR ''n''
     \<and> c \<noteq> CHR ''t'' \<and> c \<noteq> CHR ''f'' \<and> \<not> is_ws c \<and> c \<noteq> CHR '']''"
  by (auto simp: num_chars_def is_ws_def)

lemma skip_ws_Cons: "\<not> is_ws c \<Longrightarrow> skip_ws (c # cs) = c # cs"
  by (simp add: skip_ws_def)

lemma take_token:
  "set w \<subseteq> num_chars \<Longrightarrow> delim r \<Longrightarrow> takeWhile (\<lambda>x. x \<in> num_chars) (w @ r) = w
     \<and> dropWhile (\<lambda>x. x \<in> num_chars) (w @ r) = r"
  by (induction w) (auto simp: delim_def split: list.splits)

lemma parse_number:
  assumes "set w \<subseteq> num_chars" "w \<noteq> []" "number_of_token w = Some v" "delim r"
  shows "parse_value (Suc n) (w @ r) = Some (v, r)"
proof -
  obtain c cs where w: "w = c # cs" using assms(2) by (metis neq_Nil_conv)
  with assms(1) have c: "c \<in> num_chars" by simp
  from w assms(1) have "set cs \<subseteq> num_chars" by simp
  note t = take_token [OF this assms(4)]
  show ?thesis
    using num_dispatch [OF c] assms(3) by (simp add: w skip_ws_Cons c t)
qed


definition vhead :: "string \<Rightarrow> bool" where
  "vhead s \<longleftrightarrow> (case s of [] \<Rightarrow> False | c # _ \<Rightarrow> \<not> is_ws c \<and> c \<noteq> CHR '']'')"

lemma quote34: "char_of (34::nat) = CHR 0x22"
  by code_simp

lemma show_int_chars: "set (show_int i) \<subseteq> num_chars" "show_int i \<noteq> []"
proof -
  have "set (show_nat n) \<subseteq> num_chars" for n
    using show_nat_digits [of n] digit_num by (auto simp: list_all_iff)
  then show "set (show_int i) \<subseteq> num_chars" by (auto simp: show_int_def) (auto simp: num_chars_def)
  show "show_int i \<noteq> []" using show_nat_digits by (simp add: show_int_def)
qed

lemma vhead_num: "set w \<subseteq> num_chars \<Longrightarrow> w \<noteq> [] \<Longrightarrow> vhead (w @ r)"
  by (cases w) (auto simp: vhead_def dest: num_dispatch)

lemma vhead_dumps: "wf_json j \<Longrightarrow> vhead (dumps j @ r)"
proof (cases j)
  case (JInt i)
  then show ?thesis using vhead_num [OF show_int_chars] by simp
next
  case (JFloat w)
  assume "wf_json j"
  with JFloat have "set w \<subseteq> num_chars" "w \<noteq> []" by auto
  with JFloat show ?thesis using vhead_num by simp
qed (auto simp: vhead_def is_ws_def quote_def quote34)

lemma parse_items_join:
  assumes "xs \<noteq> []"
    and "\<And>x n r. x \<in> set xs \<Longrightarrow> length (dumps x) < n \<Longrightarrow> delim r \<Longrightarrow> parse_value n (dumps x @ r) = Some (norm x, r)"
    and "length (join '','' (map dumps xs)) + 1 < m"
  shows "parse_items m (join '','' (map dumps xs) @ '']'' @ r) = Some (map norm xs, r)"
  using assms
proof (induction xs arbitrary: m)
  case (Cons x xs)
  obtain k where m: "m = Suc k" using Cons.prems(3) by (cases m) auto
  show ?case
  proof (cases xs)
    case Nil
    have "parse_value k (dumps x @ '']'' @ r) = Some (norm x, '']'' @ r)"
      using Cons.prems(3) by (intro Cons.prems(2)) (auto simp: m Nil delim_def num_chars_def)
    then show ?thesis by (simp add: m Nil skip_ws_Cons is_ws_def)
  next
    case (Cons y ys)
    let ?rest = "join '','' (map dumps xs) @ '']'' @ r"
    have "parse_value k (dumps x @ '','' @ ?rest) = Some (norm x, '','' @ ?rest)"
      using Cons.prems(3) by (intro Cons.prems(2)) (auto simp: m Cons delim_def num_chars_def)
    moreover have "parse_items k ?rest = Some (map norm xs, r)"
      using Cons.prems by (intro Cons.IH) (auto simp: m Cons)
    ultimately show ?thesis by (simp add: m Cons skip_ws_Cons is_ws_def)
  qed
qed simp

definition member_text :: "string \<times> json \<Rightarrow> string" where
  "member_text kv = quote (fst kv) @ '':'' @ dumps (snd kv)"

lemma quote_app: "quote s @ r = CHR 0x22 # concat (map escape_char s) @ char_of (34::nat) # r"
  by (simp add: quote_def quote34)

lemma member_app:
  "member_text (k, v) @ r = CHR 0x22 # concat (map escape_char k) @ char_of (34::nat) # CHR '':'' # dumps v @ r"
  by (simp add: member_text_def quote_app)

lemma parse_members_join:
  assumes "kvs \<noteq> []"
    and "\<And>k v n r. (k, v) \<in> set kvs \<Longrightarrow> length (dumps v) < n \<Longrightarrow> delim r \<Longrightarrow> parse_value n (dumps v @ r) = Some (norm v, r)"
    and "length (join '','' (map member_text kvs)) + 1 < m"
  shows "parse_members m (join '','' (map member_text kvs) @ ''}'' @ r) = Some (map (\<lambda>(k, v). (k, norm v)) kvs, r)"
  using assms
proof (induction kvs arbitrary: m)
  case (Cons kv kvs)
  obtain k v where kv: "kv = (k, v)" by fastforce
  obtain n where m: "m = Suc n" using Cons.prems(3) by (cases m) auto
  show ?case
  proof (cases kvs)
    case Nil
    have "parse_value n (dumps v @ ''}'' @ r) = Some (norm v, ''}'' @ r)"
      using Cons.prems(3) by (intro Cons.prems(2)) (auto simp: m Nil kv member_text_def delim_def num_chars_def)
    then show ?thesis
      by (simp add: m Nil kv member_app scan_quote skip_ws_Cons is_ws_def)
  next
    case (Cons y ys)
    let ?rest = "join '','' (map member_text kvs) @ ''}'' @ r"
    have "parse_value n (dumps v @ '','' @ ?rest) = Some (norm v, '','' @ ?rest)"
      using Cons.prems(3) by (intro Cons.prems(2)) (auto simp: m Cons kv member_text_def delim_def num_chars_def)
    moreover have "parse_members n ?rest = Some (map (\<lambda>(k, v). (k, norm v)) kvs, r)"
      using Cons.prems by (intro Cons.IH) (auto simp: m Cons kv)
    ultimately show ?thesis
      by (simp add: m Cons kv member_app scan_quote skip_ws_Cons is_ws_def)
  qed
qed simp


lemma dset_foldl:
  "distinct (map fst (ms @ kvs)) \<Longrightarrow> foldl (\<lambda>m (k, v). dset k v m) ms kvs = ms @ kvs"
proof (induction kvs arbitrary: ms)
  case (Cons kv kvs)
  have "dget ms (fst kv) = None" using Cons.prems by (auto simp: map_of_eq_None_iff)
  then have "dset (fst kv) (snd kv) ms = ms @ [kv]" by (simp add: dset_new)
  with Cons show ?case by (simp add: case_prod_beta)
qed simp

lemma parse_dumps:
  "wf_json j \<Longrightarrow> length (dumps j) < n \<Longrightarrow> delim r \<Longrightarrow> parse_value n (dumps j @ r) = Some (norm j, r)"
proof (induction j arbitrary: n r)
  case (JInt i)
  then show ?case
    using parse_number [OF show_int_chars number_show_int] by (cases n) simp_all
next
  case (JFloat w)
  then have "set w \<subseteq> num_chars" "w \<noteq> []" "number_of_token w = Some (JFloat w)"
    by (auto simp: number_of_token_def)
  with JFloat show ?case using parse_number by (cases n) simp_all
next
  case (JStr x)
  then show ?case by (cases n) (simp_all add: quote_app skip_ws_Cons is_ws_def scan_quote)
next
  case (JList xs)
  then obtain k where n: "n = Suc k" by (cases n) auto
  show ?case
  proof (cases "xs = []")
    case False
    then obtain x ys where xs: "xs = x # ys" by (metis neq_Nil_conv)
    have IH: "parse_value n (dumps x @ r) = Some (norm x, r)"
      if "x \<in> set xs" "length (dumps x) < n" "delim r" for x n r
      using JList.IH [OF that(1) _ that(2,3)] JList.prems(1) that(1) by (auto simp: list_all_iff)
    have "parse_items k (join '','' (map dumps xs) @ '']'' @ r) = Some (map norm xs, r)"
      using JList.prems(2) n by (intro parse_items_join False IH) auto
    moreover have "vhead (join '','' (map dumps xs) @ '']'' @ r)"
      using JList.prems(1) vhead_dumps [of x] by (cases ys) (auto simp: xs)
    ultimately show ?thesis
      by (auto simp: n skip_ws_Cons is_ws_def vhead_def split: list.splits)
  qed (simp add: n skip_ws_Cons is_ws_def)
next
  case (JObj kvs)
  then obtain k where n: "n = Suc k" by (cases n) auto
  define ss where "ss = sort_key fst kvs"
  have printed: "dumps (JObj kvs) = ''{'' @ join '','' (map member_text ss) @ ''}''"
    by (simp add: ss_def sort_key_map o_def case_prod_beta member_text_def [abs_def])
  have ss: "set ss = set kvs" "distinct (map fst ss)"
    using JObj.prems(1) by (auto simp: ss_def distinct_map)
  have normed: "norm (JObj kvs) = JObj (map (\<lambda>(k, v). (k, norm v)) ss)"
    by (simp add: ss_def sort_key_map case_prod_beta)
  show ?case
  proof (cases "ss = []")
    case False
    then obtain x ys where xs: "ss = x # ys" by (metis neq_Nil_conv)
    have IH: "parse_value n (dumps v @ r) = Some (norm v, r)"
      if "(k, v) \<in> set ss" "length (dumps v) < n" "delim r" for k v n r
      using JObj.IH [of "(k, v)" v, OF _ _ _ that(2,3)] JObj.prems(1) that(1) ss
      by (auto simp: list_all_iff)
    have "parse_members k (join '','' (map member_text ss) @ ''}'' @ r) = Some (map (\<lambda>(k, v). (k, norm v)) ss, r)"
      using JObj.prems(2) n by (intro parse_members_join False IH) (auto simp: printed simp del: dumps.simps)
    moreover have "foldl (\<lambda>m (k, v). dset k v m) [] (map (\<lambda>(k, v). (k, norm v)) ss) = map (\<lambda>(k, v). (k, norm v)) ss"
      using ss(2) by (subst dset_foldl) (simp_all add: case_prod_beta comp_def)
    moreover have "\<exists>cs. join '','' (map member_text ss) @ ''}'' @ r = CHR 0x22 # cs"
      by (cases ys) (auto simp: xs member_text_def quote_app)
    ultimately show ?thesis
      unfolding printed normed by (auto simp: n skip_ws_Cons is_ws_def)
  qed (simp add: printed normed n skip_ws_Cons is_ws_def del: dumps.simps norm.simps)
next
  case JNull
  then obtain k where "n = Suc k" by (cases n) auto
  then show ?case by (simp add: skip_ws_Cons is_ws_def take_word_def)
next
  case (JBool b)
  then obtain k where "n = Suc k" by (cases n) auto
  then show ?case by (simp add: skip_ws_Cons is_ws_def take_word_def)
qed

lemma loads_dumps: "wf_json j \<Longrightarrow> loads (dumps j) = Some (norm j)"
  using parse_dumps [of j "2 * length (dumps j) + 2" "[]"] by (simp add: loads_def delim_def skip_ws_def)

lemma dumps_inj: "wf_json a \<Longrightarrow> wf_json b \<Longrightarrow> dumps a = dumps b \<Longrightarrow> norm a = norm b"
  by (metis loads_dumps option.inject)

lemma dumps_norm: "dumps (norm j) = dumps j"
proof (induction j)
  case (JList xs)
  then show ?case by (simp add: comp_def cong: map_cong)
next
  case (JObj kvs)
  have sorted_twice: "sort_key fst (sort_key fst kvs) = sort_key fst kvs" by (simp add: sort_key_id_if_sorted)
  have "dumps (norm (snd kv)) = dumps (snd kv)" if "kv \<in> set kvs" for kv
    using JObj that by (cases kv) force
  then show ?case
    by (simp add: sort_key_map comp_def case_prod_beta sorted_twice)
      (intro arg_cong [where f = "join '',''"] map_cong refl; simp)
qed simp_all

text \<open>
  C15: A canonical JSON text reads back as the value it was printed from, up to the order of
  object keys, and two values have the same canonical text exactly when they differ in that
  order only.  This is what makes a digest of the text a digest of the value.
\<close>

theorem canonical_json:
  "wf_json a \<Longrightarrow> wf_json b \<Longrightarrow>
     loads (dumps a) = Some (norm a) \<and> (dumps a = dumps b \<longleftrightarrow> norm a = norm b)"
  using loads_dumps dumps_inj dumps_norm by metis

theorem canonical_json_witness:
  "loads (dumps (JObj [(''b'', JInt (-7)), (''a'', JStr ''x'')])) = Some (norm (JObj [(''b'', JInt (-7)), (''a'', JStr ''x'')]))"
  using canonical_json [of "JObj [(''b'', JInt (-7)), (''a'', JStr ''x'')]" JNull] by simp

end
