(* ===== verification/Invariants.thy ===== *)
theory Invariants
  imports Writes
begin

section \<open>Invariants of a few tables\<close>

text \<open>
  An invariant that reads the tables of \<open>X\<close> only is kept by every call that writes none of
  them.  The locale states that once; each component interprets it on its own invariant and
  proves the rest for the few repository methods that write those tables.
\<close>

locale table_invariant =
  fixes X :: "table set" and I :: "repo \<Rightarrow> bool"
  assumes frame: "(\<And>x. x \<in> X \<Longrightarrow> same_table x r r') \<Longrightarrow> I r \<Longrightarrow> I r'"
begin

lemma writes_keep: "writes h t L r r' \<Longrightarrow> X \<inter> L = {} \<Longrightarrow> I r \<Longrightarrow> I r'"
  by (rule frame [of r r']) (auto intro: writes_frame)

lemma acts_keep:
  assumes a: "acts h t L m Q" and X: "X \<inter> L = {}"
  shows "keeps h (\<lambda>r. wf_repo r \<and> I r) m Q"
proof (rule keepsI)
  fix s s' :: world and x
  assume s: "sha256 s = h" and I: "wf_repo (db s) \<and> I (db s)" and run: "m s = (x, s')"
  note eff = actsD [OF a s conjunct1 [OF I] run]
  show "sha256 s' = h \<and> (wf_repo (db s') \<and> I (db s')) \<and> (\<forall>a. x = Inr a \<longrightarrow> Q a)"
    using eff writes_keep [OF eff(3) X] I by blast
qed

text \<open>Steps of a call that write other tables only.\<close>

lemma skip: "acts h t (- X) m Q \<Longrightarrow> keeps h (\<lambda>r. wf_repo r \<and> I r) m Q"
  by (rule acts_keep) auto

lemma skip_bnd:
  "acts h t (- X) m (\<lambda>_. True) \<Longrightarrow> (\<And>a. keeps h (\<lambda>r. wf_repo r \<and> I r) (f a) Q) \<Longrightarrow>
     keeps h (\<lambda>r. wf_repo r \<and> I r) (bnd m f) Q"
  by (rule keeps_bnd [OF skip])

lemma skip_seq:
  "acts h t (- X) m (\<lambda>_. True) \<Longrightarrow> keeps h (\<lambda>r. wf_repo r \<and> I r) k Q \<Longrightarrow>
     keeps h (\<lambda>r. wf_repo r \<and> I r) (seq m k) Q"
  by (rule keeps_seq [OF skip])

lemmas skips = skip_bnd skip_seq

end

text \<open>What a call of a component keeps: its tables' rows stay under their keys, and the invariant.\<close>

lemma keeps_wf_modify:
  "(\<And>r. wf_repo r \<Longrightarrow> writes h t L r (f r)) \<Longrightarrow> (\<And>r. wf_repo r \<Longrightarrow> I r \<Longrightarrow> I (f r)) \<Longrightarrow>
     keeps h (\<lambda>r. wf_repo r \<and> I r) (modify f) (\<lambda>_. True)"
  by (rule keeps_modify) (blast intro: wf_writes)

lemma keeps_wf_mutate:
  "acts h t L (mutate f) Q \<Longrightarrow> (\<And>r a r'. wf_repo r \<Longrightarrow> I r \<Longrightarrow> f r = Inr (a, r') \<Longrightarrow> I r') \<Longrightarrow>
     keeps h (\<lambda>r. wf_repo r \<and> I r) (mutate f) (\<lambda>_. True)"
proof (rule keepsI)
  fix s s' :: world and x
  assume a: "acts h t L (mutate f) Q" and I: "\<And>r a r'. wf_repo r \<Longrightarrow> I r \<Longrightarrow> f r = Inr (a, r') \<Longrightarrow> I r'"
    and s: "sha256 s = h" and i: "wf_repo (db s) \<and> I (db s)" and run: "mutate f s = (x, s')"
  note eff = actsD [OF a s conjunct1 [OF i] run]
  have "I (db s')" using I i run by (auto simp: mutate_def split: sum.splits prod.splits)
  with eff show "sha256 s' = h \<and> (wf_repo (db s') \<and> I (db s')) \<and> (\<forall>a. x = Inr a \<longrightarrow> True)" by blast
qed

lemma mutate_wf:
  assumes "acts h t L (mutate f) Q" "wf_repo r" "f r = Inr (a, r')"
  shows "writes h t L r r'" "wf_repo r'" "Q a"
proof -
  let ?s = "\<lparr>db = r, uuid_src = \<lambda>_. [], uuid_ctr = 0, clock_src = \<lambda>_. 0, clock_ctr = 0, token_src = \<lambda>_. [],
      token_ctr = 0, sha256 = h\<rparr>"
  have "mutate f ?s = (Inr a, ?s\<lparr>db := r'\<rparr>)" using assms(3) by (simp add: mutate_def)
  from actsD [OF assms(1) _ _ this] assms(2) show "writes h t L r r'" "wf_repo r'" "Q a" by simp_all
qed

lemma keeps_run:
  assumes "keeps h (\<lambda>r. wf_repo r \<and> I r) m Q" "sha256 s = h" "wf_repo (db s)" "I (db s)"
  shows "wf_repo (db (snd (m s)))" "I (db (snd (m s)))" "sha256 (snd (m s)) = h"
  using keepsD [OF assms(1,2) _ surjective_pairing] assms(3,4) by blast+

subsection \<open>The rows of a tenant after a write\<close>

lemma rows_dset_new:
  "dget d k = None \<Longrightarrow> rows t (dset k v d) = rows t d @ (if fst k = t then [v] else [])"
  by (simp add: dset_new rows_def)

lemma rows_dset_map:
  "dget d k = Some u \<Longrightarrow> f v = f u \<Longrightarrow> map f (rows t (dset k v d)) = map f (rows t d)"
  by (induction d) (auto simp: rows_def split: if_splits)

lemma rows_Cons: "rows t (x # d) = (if fst (fst x) = t then snd x # rows t d else rows t d)"
  by (simp add: rows_def)

lemma rows_dset_in: "fst k = t \<Longrightarrow> v \<in> set (rows t (dset k v d))"
  by (induction d) (auto simp: rows_Cons)

lemma rows_dset_sub: "set (rows t (dset k v d)) \<subseteq> insert v (set (rows t d))"
proof (induction d)
  case (Cons x d)
  then show ?case by (cases x) (auto simp: rows_Cons)
qed (simp add: rows_def)

lemma rows_dset_ex:
  "\<not> P v \<Longrightarrow> (\<And>u. dget d k = Some u \<Longrightarrow> \<not> P u) \<Longrightarrow> list_ex P (rows t (dset k v d)) = list_ex P (rows t d)"
  by (induction d) (auto simp: rows_def split: if_splits)

text \<open>A scan of the tenant's rows for an identifier finds the row stored under it.\<close>

lemma first_rows_dget:
  "keyed (\<lambda>v. (g v, f v)) d \<Longrightarrow> first (\<lambda>v. f v = i) (rows t d) = dget d (t, i)"
proof (induction d)
  case (Cons x d)
  obtain u j v where x: "x = ((u, j), v)" by (metis surj_pair)
  with Cons.prems have "f v = j" "keyed (\<lambda>v. (g v, f v)) d" by (auto simp: keyed_def)
  with Cons.IH x show ?case by (simp add: rows_def)
qed (simp add: rows_def)

lemma keyed_row_dget:
  "keyed (\<lambda>v. (g v, f v)) d \<Longrightarrow> v \<in> set (rows t d) \<Longrightarrow> dget d (t, f v) = Some v"
  by (fastforce simp: keyed_def rows_in intro: in_dget)

subsection \<open>Calls that only read, calls that change nothing when they raise\<close>

definition readonly :: "'a svc \<Rightarrow> bool" where
  "readonly m \<longleftrightarrow> (\<forall>s. db (snd (m s)) = db s)"

definition atomic :: "'a svc \<Rightarrow> bool" where
  "atomic m \<longleftrightarrow> (\<forall>s e s'. m s = (Inl e, s') \<longrightarrow> db s' = db s)"

named_theorems atomic_rules \<open>readonly and atomic calls\<close>

lemma readonlyD: "readonly m \<Longrightarrow> m s = (x, s') \<Longrightarrow> db s' = db s"
  unfolding readonly_def by (metis snd_conv)

lemma atomicD: "atomic m \<Longrightarrow> m s = (Inl e, s') \<Longrightarrow> db s' = db s"
  by (simp add: atomic_def)

lemma readonly_basic [atomic_rules]:
  "readonly (ret a)" "readonly (throw e)" "readonly uuid4" "readonly clock" "readonly token_urlsafe"
  "readonly (sha256_hex x)" "readonly (digest v)" "readonly (query f)" "readonly (reads g)" "readonly (of_sum c)"
  by (simp_all add: readonly_def op_simps digest_def)

lemma readonlyI: "(\<And>s x s'. m s = (x, s') \<Longrightarrow> db s' = db s) \<Longrightarrow> readonly m"
  unfolding readonly_def by (metis surjective_pairing)

lemma atomicI: "(\<And>s e s'. m s = (Inl e, s') \<Longrightarrow> db s' = db s) \<Longrightarrow> atomic m"
  by (simp add: atomic_def)

lemma bnd_cases:
  assumes "bnd m f s = (x, s')"
  obtains (raised) e where "m s = (Inl e, s')" "x = Inl e"
    | (went) a u where "m s = (Inr a, u)" "f a u = (x, s')"
  using assms by (auto simp: bnd_def split: prod.splits sum.splits)

lemma readonly_bnd [atomic_rules]:
  assumes m: "readonly m" and f: "\<And>a. readonly (f a)"
  shows "readonly (bnd m f)"
proof (rule readonlyI)
  fix s x s' assume "bnd m f s = (x, s')"
  then show "db s' = db s"
    by (cases rule: bnd_cases) (metis readonlyD m f)+
qed

lemma readonly_seq [atomic_rules]: "readonly m \<Longrightarrow> readonly k \<Longrightarrow> readonly (seq m k)"
  by (simp add: seq_def readonly_bnd)

lemma readonly_ensure [atomic_rules]: "readonly k \<Longrightarrow> readonly (ensure b e k)"
  by (simp add: ensure_def readonly_basic)

lemma readonly_branches [atomic_rules]:
  "readonly m \<Longrightarrow> readonly k \<Longrightarrow> readonly (if b then m else k)"
  "readonly m \<Longrightarrow> (\<And>a. readonly (f a)) \<Longrightarrow> readonly (case x of None \<Rightarrow> m | Some a \<Rightarrow> f a)"
  "(\<And>a b. readonly (g a b)) \<Longrightarrow> readonly (case y of (a, b) \<Rightarrow> g a b)"
  by (simp_all split: option.splits prod.splits)

lemma readonly_mapM [atomic_rules]: "(\<And>x. readonly (f x)) \<Longrightarrow> readonly (mapM f xs)"
  by (induction xs) (simp_all add: readonly_basic readonly_bnd)

lemma atomic_readonly [atomic_rules]:
  "atomic (ret a)" "atomic (throw e)" "atomic uuid4" "atomic clock"
  "atomic (query f)" "atomic (reads g)" "atomic (of_sum c)"
  by (simp_all add: atomic_def op_simps)

lemma atomic_mutate [atomic_rules]: "atomic (mutate f)"
  by (auto simp: atomic_def mutate_def split: sum.splits)

lemma atomic_transaction [atomic_rules]: "atomic (transaction m)"
  by (auto simp: atomic_def dest: transaction_atomic)

lemma atomic_bnd [atomic_rules]:
  assumes m: "readonly m" and f: "\<And>a. atomic (f a)"
  shows "atomic (bnd m f)"
proof (rule atomicI)
  fix s e s' assume "bnd m f s = (Inl e, s')"
  then show "db s' = db s"
    by (cases rule: bnd_cases) (metis readonlyD atomicD m f)+
qed

lemma atomic_seq [atomic_rules]: "readonly m \<Longrightarrow> atomic k \<Longrightarrow> atomic (seq m k)"
  by (simp add: seq_def atomic_bnd)

lemma atomic_ensure [atomic_rules]: "atomic k \<Longrightarrow> atomic (ensure b e k)"
  by (simp add: ensure_def atomic_readonly)

lemma atomic_branches [atomic_rules]:
  "atomic m \<Longrightarrow> atomic k \<Longrightarrow> atomic (if b then m else k)"
  "atomic m \<Longrightarrow> (\<And>a. atomic (f a)) \<Longrightarrow> atomic (case x of None \<Rightarrow> m | Some a \<Rightarrow> f a)"
  "(\<And>a b. atomic (g a b)) \<Longrightarrow> atomic (case y of (a, b) \<Rightarrow> g a b)"
  by (simp_all split: option.splits prod.splits)

lemma atomic_void [atomic_rules]: "atomic m \<Longrightarrow> atomic (void m)"
  by (auto simp: atomic_def void_def bnd_def ret_def split: prod.splits sum.splits)

lemma atomic_return: "atomic m \<Longrightarrow> atomic (bnd m (\<lambda>a. ret (f a)))"
  by (auto simp: atomic_def bnd_def ret_def split: prod.splits sum.splits)

end
