(* ===== verification/Checks.thy ===== *)
theory Checks
  imports Json Invariants
begin

section \<open>Reading untrusted JSON\<close>

text \<open>
  The tests the components make on values they did not produce: \<open>isinstance(v, str)\<close>,
  \<open>type(v) is int\<close> (a boolean is not an integer there), a list, an object with given keys.
\<close>

fun js_str :: "json option \<Rightarrow> string option" where
  "js_str (Some (JStr x)) = Some x"
| "js_str _ = None"

fun js_int :: "json option \<Rightarrow> int option" where
  "js_int (Some (JInt n)) = Some n"
| "js_int _ = None"

fun js_list :: "json option \<Rightarrow> json list option" where
  "js_list (Some (JList xs)) = Some xs"
| "js_list _ = None"

fun js_keys :: "json \<Rightarrow> string list option" where
  "js_keys (JObj kvs) = Some (map fst kvs)"
| "js_keys _ = None"

definition that :: "('a \<Rightarrow> bool) \<Rightarrow> 'a option \<Rightarrow> 'a option" where
  "that p x = (case x of Some a \<Rightarrow> if p a then Some a else None | None \<Rightarrow> None)"

lemma that_Some [simp]: "that p x = Some a \<longleftrightarrow> x = Some a \<and> p a"
  by (auto simp: that_def split: option.splits)

lemma js_str_Some [simp]: "js_str x = Some a \<longleftrightarrow> x = Some (JStr a)"
  by (cases x rule: js_str.cases) auto

lemma js_int_Some [simp]: "js_int x = Some n \<longleftrightarrow> x = Some (JInt n)"
  by (cases x rule: js_int.cases) auto

lemma js_list_Some [simp]: "js_list x = Some l \<longleftrightarrow> x = Some (JList l)"
  by (cases x rule: js_list.cases) auto

lemma js_keys_Some [simp]: "js_keys v = Some ks \<longleftrightarrow> (\<exists>kvs. v = JObj kvs \<and> ks = map fst kvs)"
  by (cases v) auto

end
