(* ===== verification/Ingestion.thy ===== *)
theory Ingestion
  imports Outbox Checks
begin

section \<open>Inbound events and the ingestion of demo order pages\<close>

text \<open>
  ingestion.py, the inbound calls of \<open>StoreControlPlane\<close> (\<open>register_adapter_manifest\<close>,
  \<open>receive_inbound\<close>, \<open>process_inbound\<close>) and their tables.  A page of untrusted rows is
  validated row by row, and either all of it is stored with its receipts and the advanced
  cursor, or nothing is.  The adapter that is read is a parameter.
\<close>

subsection \<open>Repository methods\<close>

definition save_adapter_manifest :: "adapter_capability_manifest \<Rightarrow> repo \<Rightarrow> err + (unit \<times> repo)" where
  "save_adapter_manifest m r = (if dget (tenants r) (am_tenant_id m) = None
     then Inl (NotFoundError ''tenant not found'')
     else Inr ((), r\<lparr>manifests := dset (am_tenant_id m, am_provider m, am_connection_id m) m (manifests r)\<rparr>))"

definition get_adapter_manifest :: "string \<Rightarrow> string \<Rightarrow> string \<Rightarrow> repo \<Rightarrow> err + adapter_capability_manifest" where
  "get_adapter_manifest t p c r = (case dget (manifests r) (t, p, c) of
     None \<Rightarrow> Inl (NotFoundError ''adapter manifest not found'') | Some m \<Rightarrow> Inr m)"

definition inbox_for :: "string \<Rightarrow> repo \<Rightarrow> inbox_message list" where
  "inbox_for t r = rows t (inbox r)"

definition inbound_identity :: "inbox_message \<Rightarrow> string \<times> string \<times> string" where
  "inbound_identity m = (ib_provider m, ib_connection_id m, ib_external_event_id m)"

definition receive_inbox :: "inbox_message \<Rightarrow> repo \<Rightarrow> err + ((inbox_message \<times> bool) \<times> repo)" where
  "receive_inbox m r = (case first (\<lambda>p. inbound_identity p = inbound_identity m) (inbox_for (ib_tenant_id m) r) of
     Some p \<Rightarrow> if (ib_payload_digest p, ib_schema_version p) \<noteq> (ib_payload_digest m, ib_schema_version m)
         then Inl (ConflictError ''inbound identity reused with different content'')
         else Inr ((p, True), r)
   | None \<Rightarrow> if dget (tenants r) (ib_tenant_id m) = None then Inl (NotFoundError ''tenant not found'')
         else if dget (inbox r) (ib_tenant_id m, ib_id m) \<noteq> None then Inl (ConflictError ''inbox id already exists'')
         else Inr ((m, False), r\<lparr>inbox := dset (ib_tenant_id m, ib_id m) m (inbox r)\<rparr>))"

definition get_inbox :: "string \<Rightarrow> string \<Rightarrow> repo \<Rightarrow> err + inbox_message" where
  "get_inbox t i r = (case dget (inbox r) (t, i) of
     None \<Rightarrow> Inl (NotFoundError ''inbox message not found'') | Some m \<Rightarrow> Inr m)"

definition mark_inbox_processed :: "string \<Rightarrow> string \<Rightarrow> int \<Rightarrow> time \<Rightarrow> repo \<Rightarrow> err + (inbox_message \<times> repo)" where
  "mark_inbox_processed t i expected at r = (case get_inbox t i r of Inl e \<Rightarrow> Inl e
   | Inr v \<Rightarrow> if ib_version v \<noteq> expected \<or> ib_state v \<noteq> Inb_RECEIVED
       then Inl (ConflictError ''inbox state/version conflict'')
       else let v' = v\<lparr>ib_state := Inb_PROCESSED, ib_version := ib_version v + 1, ib_processed_at := Some at\<rparr>
         in Inr (v', r\<lparr>inbox := dset (t, i) v' (inbox r)\<rparr>))"

definition save_normalized_payload :: "normalized_inbound_payload \<Rightarrow> repo \<Rightarrow> err + (normalized_inbound_payload \<times> repo)" where
  "save_normalized_payload v r = (case dget (normalized_payloads r) (np_tenant_id v, np_immutable_ref v) of
     Some p \<Rightarrow> if np_canonical_digest p \<noteq> np_canonical_digest v \<or> np_payload_json p \<noteq> np_payload_json v
         then Inl (ConflictError ''immutable payload reference reused with different content'')
         else Inr (p, r)
   | None \<Rightarrow> Inr (v, r\<lparr>normalized_payloads := dset (np_tenant_id v, np_immutable_ref v) v (normalized_payloads r)\<rparr>))"

definition get_normalized_payload :: "string \<Rightarrow> string \<Rightarrow> repo \<Rightarrow> err + normalized_inbound_payload" where
  "get_normalized_payload t ref r = (case dget (normalized_payloads r) (t, ref) of
     None \<Rightarrow> Inl (NotFoundError ''normalized payload not found'') | Some v \<Rightarrow> Inr v)"

definition normalized_payloads_for :: "string \<Rightarrow> repo \<Rightarrow> normalized_inbound_payload list" where
  "normalized_payloads_for t r = rows t (normalized_payloads r)"

definition get_poll_checkpoint :: "string \<Rightarrow> string \<Rightarrow> string \<Rightarrow> repo \<Rightarrow> adapter_poll_checkpoint option" where
  "get_poll_checkpoint t p c r = dget (poll_checkpoints r) (t, p, c)"

definition checkpoint_version :: "adapter_poll_checkpoint option \<Rightarrow> int" where
  "checkpoint_version c = (case c of Some v \<Rightarrow> pc_version v | None \<Rightarrow> 0)"

definition insert_or_advance_poll_checkpoint :: "adapter_poll_checkpoint \<Rightarrow> int \<Rightarrow> repo \<Rightarrow>
    err + (adapter_poll_checkpoint \<times> repo)" where
  "insert_or_advance_poll_checkpoint v expected r = (let key = (pc_tenant_id v, pc_provider v, pc_connection_id v) in
     if checkpoint_version (dget (poll_checkpoints r) key) \<noteq> expected \<or> pc_version v \<noteq> expected + 1
     then Inl (ConflictError ''adapter poll checkpoint version conflict'')
     else Inr (v, r\<lparr>poll_checkpoints := dset key v (poll_checkpoints r)\<rparr>))"

subsection \<open>Validating one row\<close>

definition allowed_currencies :: "string list" where
  "allowed_currencies = [''KRW'', ''USD'', ''JPY'', ''EUR'', ''GBP'', ''CNY'']"

definition source_line_key :: "string \<Rightarrow> bool" where
  "source_line_key = opaque_colon"

text \<open>One line: the running total, the source keys seen and the lines accepted before it.\<close>

definition normalize_line :: "json \<Rightarrow> int \<times> string list \<times> json list \<Rightarrow> err + (int \<times> string list \<times> json list)" where
  "normalize_line raw = (\<lambda>(calculated, keys, lines).
     need (that (\<lambda>ks. set [''sku'', ''quantity'', ''unit_minor''] \<subseteq> set ks
             \<and> set ks \<subseteq> set [''sku'', ''quantity'', ''unit_minor'', ''source_line_key'']) (js_keys raw))
       (ConflictError ''invalid DEMO order line schema'') (\<lambda>ks.
     need (that opaque (js_str (jget raw ''sku''))) (ConflictError ''invalid sku'') (\<lambda>sku.
     need (that (\<lambda>q. 1 \<le> q) (js_int (jget raw ''quantity'')))
       (ConflictError ''line quantity must be a positive integer'') (\<lambda>quantity.
     need (that (\<lambda>u. 0 \<le> u) (js_int (jget raw ''unit_minor'')))
       (ConflictError ''line unit_minor must be a nonnegative integer'') (\<lambda>unit.
     let line = [(''sku'', JStr sku), (''quantity'', JInt quantity), (''unit_minor'', JInt unit)] in
     if ''source_line_key'' \<in> set ks then
       need (that source_line_key (js_str (jget raw ''source_line_key''))) (ConflictError ''invalid source_line_key'') (\<lambda>k.
       check (k \<notin> set keys) (ConflictError ''duplicate source_line_key'')
       (Inr (calculated + quantity * unit, k # keys, lines @ [JObj (line @ [(''source_line_key'', JStr k)])])))
     else Inr (calculated + quantity * unit, keys, lines @ [JObj line]))))))"

definition order_fields :: "string list" where
  "order_fields = [''external_order_id'', ''event_id'', ''revision'', ''currency'', ''total_minor'', ''lines'']"

definition order_payload :: "normalized_demo_order \<Rightarrow> json" where
  "order_payload o' = JObj [(''external_order_id'', JStr (no_external_order_id o')), (''event_id'', JStr (no_event_id o')),
     (''revision'', JInt (no_revision o')), (''currency'', JStr (no_currency o')),
     (''total_minor'', JInt (no_total_minor o')), (''lines'', JList (no_lines o'))]"

definition normalize_fields :: "json \<Rightarrow> err + normalized_demo_order" where
  "normalize_fields item =
     need (js_keys item) (ConflictError ''DEMO order must be an object'') (\<lambda>ks.
     check (set ks \<subseteq> set (''source_digest'' # order_fields)) (ConflictError ''unknown DEMO order field'') (
     check (set order_fields \<subseteq> set ks) (ConflictError ''missing DEMO order field'') (
     need (that opaque (js_str (jget item ''external_order_id''))) (ConflictError ''invalid external_order_id'') (\<lambda>external.
     need (that opaque (js_str (jget item ''event_id''))) (ConflictError ''invalid event_id'') (\<lambda>event.
     need (that (\<lambda>n. 1 \<le> n) (js_int (jget item ''revision''))) (ConflictError ''revision must be a positive integer'') (\<lambda>revision.
     need (that (\<lambda>c. c \<in> set allowed_currencies) (js_str (jget item ''currency'')))
       (ConflictError ''currency is not allowlisted'') (\<lambda>currency.
     need (that (\<lambda>n. 0 \<le> n) (js_int (jget item ''total_minor'')))
       (ConflictError ''total_minor must be a nonnegative integer'') (\<lambda>total.
     need (that (\<lambda>xs. xs \<noteq> [] \<and> length xs \<le> 100) (js_list (jget item ''lines'')))
       (ConflictError ''lines must be a nonempty bounded list'') (\<lambda>raw_lines.
     case fold_check normalize_line raw_lines (0, [], []) of Inl e \<Rightarrow> Inl e | Inr (calculated, _, lines) \<Rightarrow>
     check (calculated = total) (ConflictError ''order amount does not match line amounts'') (
     let sd = jget item ''source_digest'' in
     check (sd = None \<or> sd = Some JNull \<or> (case js_str sd of Some d \<Rightarrow> hex64 d | None \<Rightarrow> False))
       (ConflictError ''source_digest must be a SHA-256 hex digest'') (
     Inr \<lparr>no_external_order_id = external, no_event_id = event, no_revision = revision, no_currency = currency,
          no_total_minor = total, no_lines = lines, no_source_digest = js_str sd\<rparr>)))))))))))"

text \<open>The normalized row, its canonical text and its immutable reference.\<close>

definition payload_ref_of :: "string \<Rightarrow> int \<Rightarrow> string \<Rightarrow> string" where
  "payload_ref_of event revision dg = ''demo-'' @ event @ ''-r'' @ show_int revision @ ''-'' @ take 16 dg"

definition normalize_demo_order :: "json \<Rightarrow> (normalized_demo_order \<times> string \<times> string) svc" where
  "normalize_demo_order item =
     bnd (of_sum (normalize_fields item)) (\<lambda>o'.
     let encoded = dumps (order_payload o') in
     ensure (length encoded \<le> 64 * 1024) (ConflictError ''normalized DEMO payload exceeds size limit'') (
     bnd (sha256_hex encoded) (\<lambda>dg.
     ret (o', encoded, payload_ref_of (no_event_id o') (no_revision o') dg))))"

subsection \<open>Pages and adapters\<close>

text \<open>\<open>DemoReadAdapter\<close>: what it describes itself to be, and the page it returns or the error it raises.\<close>

record demo_read_adapter =
  rd_describe :: demo_adapter_description
  rd_list_changes :: "string option \<Rightarrow> time option \<Rightarrow> err + demo_page"

record demo_poll_result =
  pr_checkpoint :: adapter_poll_checkpoint
  pr_payload_refs :: "string list"
  pr_inbox_ids :: "string list"
  pr_replayed_count :: nat
  pr_has_more :: bool

definition cursor_index :: "string \<Rightarrow> err + nat" where
  "cursor_index c = (case c of
       p # d # ds \<Rightarrow> if p = CHR ''p'' \<and> is_digit d \<and> d \<noteq> CHR ''0'' \<and> length ds \<le> 8 \<and> list_all is_digit ds
         then Inr (read_nat 0 (d # ds)) else Inl (ConflictError ''invalid DEMO page cursor'')
     | _ \<Rightarrow> Inl (ConflictError ''invalid DEMO page cursor''))"

definition fixture_list_changes :: "demo_page list \<Rightarrow> bool \<Rightarrow> string option \<Rightarrow> time \<Rightarrow> (err + demo_page) \<times> bool" where
  "fixture_list_changes pages fail_once cursor now =
     (if fail_once then (Inl (OtherError ''RetryableReadError'' ''temporary DEMO fixture read failure''), False)
      else ((case (case cursor of None \<Rightarrow> Inr 0 | Some c \<Rightarrow> cursor_index c) of
          Inl e \<Rightarrow> Inl e
        | Inr i \<Rightarrow> if i \<ge> length pages
            then Inr \<lparr>dp_items = [], dp_next_cursor = cursor, dp_has_more = False, dp_observed_at = now\<rparr>
            else Inr (pages ! i)), False))"

definition validate_demo_page :: "demo_page \<Rightarrow> err + unit" where
  "validate_demo_page p =
     check (length (dp_items p) \<le> 100) (ConflictError ''DEMO page exceeds item limit'') (
     case (case dp_next_cursor p of None \<Rightarrow> Inr 0 | Some c \<Rightarrow> cursor_index c) of Inl e \<Rightarrow> Inl e | Inr _ \<Rightarrow>
     check (dp_has_more p \<longrightarrow> dp_next_cursor p \<noteq> None) (ConflictError ''page with more results requires next_cursor'') (Inr ()))"

subsection \<open>Service operations\<close>

abbreviation bad_identifier :: err where
  "bad_identifier \<equiv> ConflictError ''invalid opaque inbound identifier''"

definition register_adapter_manifest :: "tenant_context \<Rightarrow> adapter_capability_manifest \<Rightarrow> unit svc" where
  "register_adapter_manifest ctx m = transaction (
     seq (require ctx Cap_TENANT_ADMIN) (
     ensure (am_tenant_id m = ctx_tenant_id ctx) (AuthorizationError ''manifest tenant mismatch'') (
     ensure (opaque (am_provider m) \<and> opaque (am_connection_id m) \<and> opaque (am_adapter_version m)) bad_identifier (
     ensure (\<forall>v \<in> am_inbound_schema_versions m. 1 \<le> v) (ConflictError ''invalid manifest capabilities/schema versions'') (
     seq (mutate (save_adapter_manifest m)) (
     audit (ctx_tenant_id ctx) (ctx_user_id ctx) ''adapter.manifest_registered'' (am_connection_id m) ''succeeded''
       (JObj [(''adapter_version'', JStr (am_adapter_version m))])))))))"

text \<open>\<open>_inbox_outbox\<close>.\<close>

definition inbox_outbox :: "inbox_message \<Rightarrow> string \<Rightarrow> string \<Rightarrow> time \<Rightarrow> unit svc" where
  "inbox_outbox m topic step now = enqueue (ib_tenant_id m) topic (ib_id m)
     (JObj [(''inbox_id'', JStr (ib_id m)), (''payload_digest'', JStr (ib_payload_digest m))])
     (''inbox:'' @ ib_id m @ '':'' @ step) now"

definition receive_inbound :: "tenant_context \<Rightarrow> string \<Rightarrow> string \<Rightarrow> string \<Rightarrow> int \<Rightarrow> string \<Rightarrow> string option \<Rightarrow>
    (inbox_message \<times> bool) svc" where
  "receive_inbound ctx provider connection event schema dg raw = transaction (let t = ctx_tenant_id ctx in
     seq (require ctx Cap_TENANT_ADMIN) (
     ensure (opaque provider \<and> opaque connection \<and> opaque event) bad_identifier (
     ensure (1 \<le> schema) (ConflictError ''invalid inbound schema version'') (
     ensure (hex64 dg) (ConflictError ''invalid SHA-256 digest'') (
     ensure (case raw of Some x \<Rightarrow> opaque x | None \<Rightarrow> True) bad_identifier (
     bnd (query (get_adapter_manifest t provider connection)) (\<lambda>m.
     ensure (Adp_INBOUND_EVENTS \<in> am_capabilities m \<and> schema \<in> am_inbound_schema_versions m)
       (ConflictError ''unsupported inbound capability/schema'') (
     bnd clock (\<lambda>now. bnd uuid4 (\<lambda>i.
     bnd (mutate (receive_inbox (new_inbox_message i t provider connection event schema now dg raw))) (\<lambda>(msg, replayed).
     if replayed then ret (msg, True) else
     seq (audit t (ctx_user_id ctx) ''inbox.received'' (ib_id msg) ''accepted'' (JObj [(''payload_digest'', JStr dg)])) (
     seq (inbox_outbox msg ''inbox.process_requested'' ''process'' now) (
     ret (msg, False))))))))))))))"

definition process_inbound :: "tenant_context \<Rightarrow> string \<Rightarrow> int \<Rightarrow> (inbox_message \<times> bool) svc" where
  "process_inbound ctx i expected = transaction (let t = ctx_tenant_id ctx in
     seq (require ctx Cap_TENANT_ADMIN) (
     ensure (1 \<le> expected) (ConflictError ''invalid expected version'') (
     bnd (query (get_inbox t i)) (\<lambda>msg.
     if ib_state msg = Inb_PROCESSED then ret (msg, True) else
     bnd clock (\<lambda>now.
     bnd (mutate (mark_inbox_processed t i expected now)) (\<lambda>msg'.
     seq (inbox_outbox msg' ''inbound.accepted'' ''processed'' now) (
     seq (audit t (ctx_user_id ctx) ''inbox.processed'' (ib_id msg') ''accepted''
            (JObj [(''payload_digest'', JStr (ib_payload_digest msg'))])) (
     ret (msg', False)))))))))"

definition manifest_supports :: "adapter_capability_manifest \<Rightarrow> demo_adapter_description \<Rightarrow> bool" where
  "manifest_supports m d \<longleftrightarrow> am_adapter_version m = da_adapter_version d \<and> Adp_ORDERS_READ \<in> am_capabilities m
     \<and> Adp_INBOUND_EVENTS \<in> am_capabilities m \<and> 1 \<in> am_inbound_schema_versions m"

definition payload_digest_of :: "string \<Rightarrow> string svc" where
  "payload_digest_of encoded = (case loads encoded of None \<Rightarrow> throw (ValueError ''invalid JSON'') | Some v \<Rightarrow>
     ensure (finite_json v) (ValueError ''Out of range float values are not JSON compliant'') (digest v))"

text \<open>The loop body of \<open>poll_demo_connection\<close>: store one payload and its receipt.\<close>

definition poll_row :: "tenant_context \<Rightarrow> string \<Rightarrow> string \<Rightarrow> time \<Rightarrow> string list \<times> string list \<times> nat \<Rightarrow>
    normalized_demo_order \<times> string \<times> string \<Rightarrow> (string list \<times> string list \<times> nat) svc" where
  "poll_row ctx provider connection now = (\<lambda>(refs, ids, replays) (o', encoded, ref).
     bnd (payload_digest_of encoded) (\<lambda>dg.
     bnd (mutate (save_normalized_payload \<lparr>np_tenant_id = ctx_tenant_id ctx, np_immutable_ref = ref,
            np_canonical_digest = dg, np_schema_version = 1, np_payload_json = encoded,
            np_source_digest = no_source_digest o', np_created_at = now\<rparr>)) (\<lambda>_.
     bnd (receive_inbound ctx provider connection (no_event_id o') 1 dg (Some ref)) (\<lambda>(msg, replayed).
     ret (refs @ [ref], ids @ [ib_id msg], replays + (if replayed then 1 else 0))))))"

definition poll_commit :: "tenant_context \<Rightarrow> string \<Rightarrow> string \<Rightarrow> int \<Rightarrow> demo_adapter_description \<Rightarrow> demo_page \<Rightarrow> string option \<Rightarrow>
    time option \<Rightarrow> time \<Rightarrow> (normalized_demo_order \<times> string \<times> string) list \<Rightarrow> demo_poll_result svc" where
  "poll_commit ctx provider connection expected d page cursor overlap now orders = transaction (let t = ctx_tenant_id ctx in
     seq (require ctx Cap_TENANT_ADMIN) (
     bnd (query (get_adapter_manifest t provider connection)) (\<lambda>m.
     ensure (manifest_supports m d) (ConflictError ''unsupported DEMO adapter manifest'') (
     bnd (reads (get_poll_checkpoint t provider connection)) (\<lambda>current.
     ensure (checkpoint_version current = expected) (ConflictError ''adapter poll checkpoint version conflict'') (
     bnd (foldM (poll_row ctx provider connection now) ([], [], 0) orders) (\<lambda>(refs, ids, replays).
     let next = \<lparr>pc_tenant_id = t, pc_provider = provider, pc_connection_id = connection,
                 pc_adapter_version = da_adapter_version d,
                 pc_cursor = (case dp_next_cursor page of Some c \<Rightarrow> Some c | None \<Rightarrow> cursor),
                 pc_overlap_from = overlap, pc_version = expected + 1, pc_updated_at = now,
                 pc_last_success_at = Some now\<rparr> in
     bnd (mutate (insert_or_advance_poll_checkpoint next expected)) (\<lambda>_.
     ret \<lparr>pr_checkpoint = next, pr_payload_refs = refs, pr_inbox_ids = ids, pr_replayed_count = replays,
          pr_has_more = dp_has_more page\<rparr>))))))))"

definition poll_demo_connection :: "tenant_context \<Rightarrow> string \<Rightarrow> string \<Rightarrow> int \<Rightarrow> demo_read_adapter \<Rightarrow> time option \<Rightarrow>
    demo_poll_result svc" where
  "poll_demo_connection ctx provider connection expected adapter overlap_from = (let t = ctx_tenant_id ctx; d = rd_describe adapter in
     seq (require ctx Cap_TENANT_ADMIN) (
     ensure (0 \<le> expected) (ConflictError ''expected checkpoint version must be nonnegative'') (
     ensure (da_provider d = provider \<and> da_mode d = ''DEMO'' \<and> da_capability d = Adp_ORDERS_READ)
       (ConflictError ''DEMO ORDERS_READ adapter required'') (
     ensure (da_normalized_schema_version d = 1) (ConflictError ''unsupported normalized DEMO schema version'') (
     bnd (query (get_adapter_manifest t provider connection)) (\<lambda>m.
     ensure (manifest_supports m d) (ConflictError ''unsupported DEMO adapter manifest'') (
     bnd (reads (get_poll_checkpoint t provider connection)) (\<lambda>cp.
     ensure (case cp of Some c \<Rightarrow> pc_adapter_version c = da_adapter_version d | None \<Rightarrow> True)
       (ConflictError ''adapter version does not match poll checkpoint'') (
     let cursor = (case cp of Some c \<Rightarrow> pc_cursor c | None \<Rightarrow> None);
         overlap = (case overlap_from of Some x \<Rightarrow> Some x
           | None \<Rightarrow> (case cp of Some c \<Rightarrow> pc_overlap_from c | None \<Rightarrow> None)) in
     bnd (of_sum (rd_list_changes adapter cursor overlap)) (\<lambda>page.
     seq (of_sum (validate_demo_page page)) (
     bnd (mapM normalize_demo_order (dp_items page)) (\<lambda>orders.
     bnd clock (\<lambda>now.
     poll_commit ctx provider connection expected d page cursor overlap now orders)))))))))))))"

subsection \<open>What the calls write\<close>

lemma acts_save_adapter_manifest [acts_rules]:
  "am_tenant_id m = t \<Longrightarrow> T_manifests \<in> L \<Longrightarrow> acts h t L (mutate (save_adapter_manifest m)) (\<lambda>_. True)"
  by (rule acts_mutate) (auto simp: save_adapter_manifest_def split: if_splits intro!: writes_one W_manifests)

lemma inbox_keys: "wf_repo r \<Longrightarrow> dget (inbox r) (t, i) = Some m \<Longrightarrow> ib_tenant_id m = t \<and> ib_id m = i"
  using keyed_dget [where d = "inbox r"] wf_tableD [of r T_inbox] by fastforce

lemma inbox_for_tenant: "wf_repo r \<Longrightarrow> m \<in> set (inbox_for t r) \<Longrightarrow> ib_tenant_id m = t"
  using keyed_in [where d = "inbox r"] wf_tableD [of r T_inbox] by (fastforce simp: inbox_for_def rows_in)

lemma receive_inbox_ok:
  "receive_inbox m r = Inr ((p, b), r') \<Longrightarrow>
     (b \<and> r' = r \<and> p \<in> set (inbox_for (ib_tenant_id m) r) \<and> inbound_identity p = inbound_identity m
        \<and> ib_payload_digest p = ib_payload_digest m)
     \<or> (\<not> b \<and> p = m \<and> dget (inbox r) (ib_tenant_id m, ib_id m) = None
        \<and> inbound_identity m \<notin> inbound_identity ` set (inbox_for (ib_tenant_id m) r)
        \<and> r' = r\<lparr>inbox := dset (ib_tenant_id m, ib_id m) m (inbox r)\<rparr>)"
  by (auto simp: receive_inbox_def first_None split: option.splits if_splits dest: first_Some)

lemma acts_receive_inbox:
  "ib_tenant_id m = t \<Longrightarrow> T_inbox \<in> L \<Longrightarrow> acts h t L (mutate (receive_inbox m)) (\<lambda>(p, b). ib_tenant_id p = t)"
  by (rule acts_mutate) (auto dest!: receive_inbox_ok intro: inbox_for_tenant writes_one W_inbox)

lemma mark_inbox_processed_ok:
  "mark_inbox_processed t i n at r = Inr (v, r') \<Longrightarrow> \<exists>u. dget (inbox r) (t, i) = Some u \<and> ib_version u = n
     \<and> ib_state u = Inb_RECEIVED \<and> v = u\<lparr>ib_state := Inb_PROCESSED, ib_version := n + 1, ib_processed_at := Some at\<rparr>
     \<and> r' = r\<lparr>inbox := dset (t, i) v (inbox r)\<rparr>"
  by (auto simp: mark_inbox_processed_def get_inbox_def Let_def split: option.splits if_splits)

lemma acts_mark_inbox_processed:
  "T_inbox \<in> L \<Longrightarrow> acts h t L (mutate (mark_inbox_processed t i n at)) (\<lambda>v. ib_tenant_id v = t)"
proof (rule acts_mutate)
  fix r v r' assume L: "T_inbox \<in> L" and wf: "wf_repo r" and m: "mark_inbox_processed t i n at r = Inr (v, r')"
  from mark_inbox_processed_ok [OF m] obtain u where u: "dget (inbox r) (t, i) = Some u"
    "v = u\<lparr>ib_state := Inb_PROCESSED, ib_version := n + 1, ib_processed_at := Some at\<rparr>"
    "r' = r\<lparr>inbox := dset (t, i) v (inbox r)\<rparr>" by blast
  with inbox_keys [OF wf u(1)] have k: "ib_tenant_id v = t" "ib_id v = i" by simp_all
  with W_inbox [OF k(1), of h r] u(3) L show "writes h t L r r' \<and> ib_tenant_id v = t"
    by (auto intro: writes_one)
qed

lemma acts_save_normalized_payload [acts_rules]:
  "np_tenant_id v = t \<Longrightarrow> T_normalized_payloads \<in> L \<Longrightarrow> acts h t L (mutate (save_normalized_payload v)) (\<lambda>_. True)"
  by (rule acts_mutate)
    (auto simp: save_normalized_payload_def split: option.splits if_splits intro!: writes_one W_normalized_payloads)

lemma acts_insert_or_advance_poll_checkpoint [acts_rules]:
  "pc_tenant_id v = t \<Longrightarrow> T_poll_checkpoints \<in> L \<Longrightarrow>
     acts h t L (mutate (insert_or_advance_poll_checkpoint v n)) (\<lambda>_. True)"
  by (rule acts_mutate)
    (auto simp: insert_or_advance_poll_checkpoint_def Let_def split: if_splits intro!: writes_one W_poll_checkpoints)

abbreviation inbound_tables :: "table set" where
  "inbound_tables \<equiv> {T_inbox, T_audit_events, T_outbox}"

lemma acts_register_adapter_manifest:
  "{T_manifests, T_audit_events} \<subseteq> L \<Longrightarrow> acts h (ctx_tenant_id ctx) L (register_adapter_manifest ctx m) (\<lambda>_. True)"
  unfolding register_adapter_manifest_def by (rule acts_rules | simp)+

lemma acts_receive_inbound:
  "inbound_tables \<subseteq> L \<Longrightarrow> acts h (ctx_tenant_id ctx) L (receive_inbound ctx p c e n dg raw) (\<lambda>_. True)"
  unfolding receive_inbound_def Let_def inbox_outbox_def
  by (rule acts_bnd [OF acts_receive_inbox] acts_rules | simp add: new_inbox_message_def split_paired_all)+

lemma acts_process_inbound:
  "inbound_tables \<subseteq> L \<Longrightarrow> acts h (ctx_tenant_id ctx) L (process_inbound ctx i n) (\<lambda>_. True)"
  unfolding process_inbound_def Let_def inbox_outbox_def
  by (rule acts_bnd [OF acts_mark_inbox_processed] acts_rules | simp)+

lemma acts_payload_digest_of [acts_rules]: "acts h t L (payload_digest_of x) (\<lambda>_. True)"
  unfolding payload_digest_of_def by (rule acts_rules TrueI)+

lemma acts_normalize_demo_order [acts_rules]: "acts h t L (normalize_demo_order item) (\<lambda>_. True)"
  unfolding normalize_demo_order_def Let_def by (rule acts_rules TrueI)+

abbreviation poll_tables :: "table set" where
  "poll_tables \<equiv> inbound_tables \<union> {T_normalized_payloads, T_poll_checkpoints}"

lemma acts_poll_row:
  "poll_tables \<subseteq> L \<Longrightarrow> acts h (ctx_tenant_id ctx) L (poll_row ctx p c now acc row) (\<lambda>_. True)"
  unfolding poll_row_def
  by (cases acc; cases row) (simp, (rule acts_receive_inbound acts_rules TrueI | simp)+)

lemma acts_poll_commit:
  "poll_tables \<subseteq> L \<Longrightarrow>
     acts h (ctx_tenant_id ctx) L (poll_commit ctx p c n d page cursor overlap now orders) (\<lambda>_. True)"
  unfolding poll_commit_def Let_def
  by (rule acts_bnd [OF acts_foldM [where Q = "\<lambda>_. True"]] acts_poll_row acts_rules TrueI | assumption | simp)+

lemma acts_poll_demo_connection:
  "poll_tables \<subseteq> L \<Longrightarrow> acts h (ctx_tenant_id ctx) L (poll_demo_connection ctx p c n adapter overlap) (\<lambda>_. True)"
  unfolding poll_demo_connection_def Let_def
  by (rule acts_poll_commit acts_rules TrueI | assumption)+

end
