(* ===== verification/Ingestion_Laws.thy ===== *)
theory Ingestion_Laws
  imports Ingestion Identity
begin

section \<open>Laws of ingestion\<close>

text \<open>
  The inbound calls as one datatype; one receipt per external event whatever calls are made;
  stored payloads that never change; a poll that stores a page and advances its cursor by one
  version, or changes nothing; and the amounts of an accepted row.
\<close>

datatype inbound_call =
    Register tenant_context adapter_capability_manifest
  | Receive tenant_context string string string int string "string option"
  | Process tenant_context string int
  | Poll tenant_context string string int demo_read_adapter "time option"

fun inbound_op :: "inbound_call \<Rightarrow> unit svc" where
  "inbound_op (Register ctx m) = register_adapter_manifest ctx m"
| "inbound_op (Receive ctx p c e n dg raw) = void (receive_inbound ctx p c e n dg raw)"
| "inbound_op (Process ctx i n) = void (process_inbound ctx i n)"
| "inbound_op (Poll ctx p c n adapter overlap) = void (poll_demo_connection ctx p c n adapter overlap)"

fun inbound_owner :: "inbound_call \<Rightarrow> string" where
  "inbound_owner (Register ctx m) = ctx_tenant_id ctx"
| "inbound_owner (Receive ctx p c e n dg raw) = ctx_tenant_id ctx"
| "inbound_owner (Process ctx i n) = ctx_tenant_id ctx"
| "inbound_owner (Poll ctx p c n adapter overlap) = ctx_tenant_id ctx"

abbreviation inbound_call_tables :: "table set" where
  "inbound_call_tables \<equiv> insert T_manifests poll_tables"

lemma acts_inbound_op: "acts h (inbound_owner c) inbound_call_tables (inbound_op c) (\<lambda>_. True)"
  by (cases c) (auto intro!: acts_void acts_register_adapter_manifest acts_receive_inbound
      acts_process_inbound acts_poll_demo_connection)

fun run_inbound :: "inbound_call list \<Rightarrow> world \<Rightarrow> world" where
  "run_inbound [] s = s"
| "run_inbound (c # cs) s = run_inbound cs (snd (inbound_op c s))"

subsection \<open>One receipt per event\<close>

definition inbox_unique :: "repo \<Rightarrow> bool" where
  "inbox_unique r \<longleftrightarrow> (\<forall>t. distinct (map inbound_identity (inbox_for t r)))"

interpretation inbox_inv: table_invariant "{T_inbox}" inbox_unique
  by unfold_locales (simp add: inbox_unique_def inbox_for_def)

lemma receive_inbox_unique:
  "receive_inbox m r = Inr (pb, r') \<Longrightarrow> inbox_unique r \<Longrightarrow> inbox_unique r'"
  by (cases pb)
    (auto dest!: receive_inbox_ok simp: inbox_unique_def inbox_for_def rows_dset_new)

lemma mark_inbox_unique:
  assumes "mark_inbox_processed t i n at r = Inr (v, r')" and "inbox_unique r"
  shows "inbox_unique r'"
proof -
  from mark_inbox_processed_ok [OF assms(1)] obtain u where u: "dget (inbox r) (t, i) = Some u"
    "inbound_identity v = inbound_identity u" "inbox r' = dset (t, i) v (inbox r)"
    by (auto simp: inbound_identity_def)
  have "map inbound_identity (inbox_for t' r') = map inbound_identity (inbox_for t' r)" for t'
    unfolding inbox_for_def u(3) by (rule rows_dset_map [OF u(1,2)])
  with assms(2) show ?thesis by (simp add: inbox_unique_def)
qed

lemma keeps_receive_inbox:
  "keeps h (\<lambda>r. wf_repo r \<and> inbox_unique r) (mutate (receive_inbox m)) (\<lambda>_. True)"
  by (rule keeps_wf_mutate [OF acts_receive_inbox [OF refl, where L = UNIV]]) (auto intro: receive_inbox_unique)

lemma keeps_mark_inbox:
  "keeps h (\<lambda>r. wf_repo r \<and> inbox_unique r) (mutate (mark_inbox_processed t i n at)) (\<lambda>_. True)"
  by (rule keeps_wf_mutate [OF acts_mark_inbox_processed [where L = UNIV]]) (auto intro: mark_inbox_unique)

lemma inbound_unique:
  "keeps h (\<lambda>r. wf_repo r \<and> inbox_unique r) (receive_inbound ctx p c e n dg raw) (\<lambda>_. True)"
  "keeps h (\<lambda>r. wf_repo r \<and> inbox_unique r) (process_inbound ctx i m) (\<lambda>_. True)"
  unfolding receive_inbound_def process_inbound_def Let_def inbox_outbox_def
  by (rule keeps_bnd [OF keeps_receive_inbox] keeps_bnd [OF keeps_mark_inbox] keeps_intros inbox_inv.skips
      acts_rules TrueI | simp)+

lemma poll_unique:
  "keeps h (\<lambda>r. wf_repo r \<and> inbox_unique r) (poll_demo_connection ctx p c n adapter overlap) (\<lambda>_. True)"
proof -
  have row: "keeps h (\<lambda>r. wf_repo r \<and> inbox_unique r) (poll_row ctx p c now acc row) (\<lambda>_. True)" for now acc row
    unfolding poll_row_def
    by (cases acc; cases row) (simp, (rule keeps_bnd [OF inbound_unique(1)] keeps_intros
        inbox_inv.skip_bnd [where t = "ctx_tenant_id ctx"] acts_rules TrueI | simp)+)
  have commit: "keeps h (\<lambda>r. wf_repo r \<and> inbox_unique r) (poll_commit ctx p c n d page cursor ov now orders) (\<lambda>_. True)"
    for d page cursor ov now orders
    unfolding poll_commit_def Let_def
    by (rule keeps_bnd [OF keeps_foldM [where Q = "\<lambda>_. True", OF row TrueI]] keeps_intros
        inbox_inv.skips [where t = "ctx_tenant_id ctx"] acts_rules TrueI | simp)+
  show ?thesis
    unfolding poll_demo_connection_def Let_def
    by (rule commit keeps_intros inbox_inv.skips [where t = "ctx_tenant_id ctx"] acts_rules TrueI | simp)+
qed

lemma inbound_op_unique: "keeps h (\<lambda>r. wf_repo r \<and> inbox_unique r) (inbound_op c) (\<lambda>_. True)"
proof (cases c)
  case (Register ctx m)
  then show ?thesis
    using inbox_inv.acts_keep [OF acts_register_adapter_manifest [OF subset_refl]] by simp
qed (simp_all add: keeps_void [OF inbound_unique(1)] keeps_void [OF inbound_unique(2)] keeps_void [OF poll_unique])

text \<open>
  C19: A marketplace event is received once: for each provider, connection and external event
  identifier a tenant's inbox holds at most one message, whatever events, polls and
  registrations arrive in whatever order.
\<close>

theorem one_receipt_per_event:
  assumes "wf_repo (db s)" "inbox_unique (db s)"
  shows "distinct (map inbound_identity (inbox_for t (db (run_inbound cs s))))"
proof -
  have "wf_repo (db (run_inbound cs s)) \<and> inbox_unique (db (run_inbound cs s))"
    using assms
    by (induction cs s rule: run_inbound.induct) (simp_all add: keeps_run [OF inbound_op_unique refl])
  then show ?thesis by (simp add: inbox_unique_def)
qed

subsection \<open>A poll is all or nothing\<close>

text \<open>A stored payload whose digest is that of its text.\<close>

definition stored_payload :: "(string \<Rightarrow> string) \<Rightarrow> string \<times> string \<Rightarrow> repo \<Rightarrow> bool" where
  "stored_payload h k r \<longleftrightarrow> (case dget (normalized_payloads r) k of None \<Rightarrow> False
     | Some v \<Rightarrow> (case loads (np_payload_json v) of None \<Rightarrow> False | Some j \<Rightarrow> np_canonical_digest v = h (canonical j)))"

lemma payload_digest_of_ok:
  "payload_digest_of x s = (Inr d, s') \<longleftrightarrow> s' = s \<and> (\<exists>j. loads x = Some j \<and> finite_json j \<and> d = sha256 s (canonical j))"
  by (auto simp: payload_digest_of_def digest_def svc_ok split: option.splits)

lemma receive_inbound_frame:
  assumes "receive_inbound ctx p c e n dg raw s = (x, s')" "wf_repo (db s)"
  shows "wf_repo (db s')" "sha256 s' = sha256 s" "normalized_payloads (db s') = normalized_payloads (db s)"
  using actsD [OF acts_receive_inbound [OF subset_refl] refl assms(2,1)]
    writes_frame [of "sha256 s" "ctx_tenant_id ctx" inbound_tables "db s" "db s'" T_normalized_payloads]
  by simp_all

lemma save_normalized_payload_ok:
  "save_normalized_payload v r = Inr (p, r') \<Longrightarrow>
     (\<exists>u. dget (normalized_payloads r') (np_tenant_id v, np_immutable_ref v) = Some u
        \<and> np_payload_json u = np_payload_json v \<and> np_canonical_digest u = np_canonical_digest v)
     \<and> (\<forall>k u. dget (normalized_payloads r) k = Some u \<longrightarrow> dget (normalized_payloads r') k = Some u)"
  by (auto simp: save_normalized_payload_def dget_dset split: option.splits if_splits)

lemma poll_row_ok:
  assumes run: "poll_row ctx p c now (refs, ids, n) (o', enc, ref) s = (Inr acc, s')" and wf: "wf_repo (db s)"
  shows "(\<exists>i k. acc = (refs @ [ref], ids @ [i], k)) \<and> wf_repo (db s') \<and> sha256 s' = sha256 s
     \<and> stored_payload (sha256 s) (ctx_tenant_id ctx, ref) (db s')
     \<and> (\<forall>k. stored_payload (sha256 s) k (db s) \<longrightarrow> stored_payload (sha256 s) k (db s'))"
proof -
  from run obtain dg u1 v r1 msg b where dg: "payload_digest_of enc s = (Inr dg, s)"
    and save: "save_normalized_payload \<lparr>np_tenant_id = ctx_tenant_id ctx, np_immutable_ref = ref,
            np_canonical_digest = dg, np_schema_version = 1, np_payload_json = enc,
            np_source_digest = no_source_digest o', np_created_at = now\<rparr> (db s) = Inr (v, r1)"
    and rec: "receive_inbound ctx p c (no_event_id o') 1 dg (Some ref) (s\<lparr>db := r1\<rparr>) = (Inr (msg, b), s')"
    and acc: "acc = (refs @ [ref], ids @ [ib_id msg], n + (if b then 1 else 0))"
    by (auto simp: poll_row_def svc_ok payload_digest_of_ok)
  have wf1: "wf_repo r1"
    by (rule mutate_wf(2) [OF acts_save_normalized_payload [where t = "ctx_tenant_id ctx" and L = UNIV] wf save]) simp_all
  note f = receive_inbound_frame [OF rec] wf1
  from dg obtain j where j: "loads enc = Some j" "dg = sha256 s (canonical j)" by (auto simp: payload_digest_of_ok)
  from save_normalized_payload_ok [OF save] j
  have "stored_payload (sha256 s) (ctx_tenant_id ctx, ref) r1"
    and "\<forall>k. stored_payload (sha256 s) k (db s) \<longrightarrow> stored_payload (sha256 s) k r1"
    by (fastforce simp: stored_payload_def split: option.splits)+
  with f acc show ?thesis by (simp add: stored_payload_def)
qed

lemma poll_rows_ok:
  "foldM (poll_row ctx p c now) (refs, ids, n) orders s = (Inr (refs', ids', n'), s') \<Longrightarrow> wf_repo (db s) \<Longrightarrow>
     refs' = refs @ map (\<lambda>(_, _, ref). ref) orders \<and> length ids' = length ids + length orders
     \<and> (\<forall>(_, _, ref) \<in> set orders. stored_payload (sha256 s) (ctx_tenant_id ctx, ref) (db s'))
     \<and> (\<forall>k. stored_payload (sha256 s) k (db s) \<longrightarrow> stored_payload (sha256 s) k (db s'))"
proof (induction orders arbitrary: refs ids n s)
  case (Cons row orders)
  obtain o' enc ref where row: "row = (o', enc, ref)" by (metis prod_cases3)
  from Cons.prems obtain acc u where first: "poll_row ctx p c now (refs, ids, n) (o', enc, ref) s = (Inr acc, u)"
    and more: "foldM (poll_row ctx p c now) acc orders u = (Inr (refs', ids', n'), s')"
    by (auto simp: row bnd_ok)
  note one = poll_row_ok [OF first Cons.prems(2)]
  then obtain i k where "acc = (refs @ [ref], ids @ [i], k)" by blast
  note rest = Cons.IH [OF more [unfolded this]]
  from one rest show ?case by (auto simp: row)
qed (simp add: ret_ok)

lemma insert_or_advance_ok:
  "insert_or_advance_poll_checkpoint v n r = Inr (u, r') \<longleftrightarrow>
     checkpoint_version (dget (poll_checkpoints r) (pc_tenant_id v, pc_provider v, pc_connection_id v)) = n
     \<and> pc_version v = n + 1 \<and> u = v
     \<and> r' = r\<lparr>poll_checkpoints := dset (pc_tenant_id v, pc_provider v, pc_connection_id v) v (poll_checkpoints r)\<rparr>"
  by (auto simp: insert_or_advance_poll_checkpoint_def Let_def)

lemma poll_commit_ok:
  assumes run: "poll_commit ctx p c n d page cursor ov now orders s = (Inr res, s')" and wf: "wf_repo (db s)"
  shows "checkpoint_version (get_poll_checkpoint (ctx_tenant_id ctx) p c (db s)) = n
     \<and> get_poll_checkpoint (ctx_tenant_id ctx) p c (db s') = Some (pr_checkpoint res)
     \<and> pc_version (pr_checkpoint res) = n + 1 \<and> length (pr_inbox_ids res) = length (pr_payload_refs res)
     \<and> pr_payload_refs res = map (\<lambda>(_, _, ref). ref) orders
     \<and> (\<forall>ref \<in> set (pr_payload_refs res). stored_payload (sha256 s) (ctx_tenant_id ctx, ref) (db s'))"
proof -
  from run obtain u refs ids k v where u: "db u = db s" "sha256 u = sha256 s"
    and cv: "checkpoint_version (get_poll_checkpoint (ctx_tenant_id ctx) p c (db s)) = n"
    and rows: "foldM (poll_row ctx p c now) ([], [], 0) orders u = (Inr (refs, ids, k), v)"
    and res: "pr_payload_refs res = refs" "pr_inbox_ids res = ids" "pc_version (pr_checkpoint res) = n + 1"
      "db s' = (db v)\<lparr>poll_checkpoints := dset (ctx_tenant_id ctx, p, c) (pr_checkpoint res) (poll_checkpoints (db v))\<rparr>"
    by (auto simp: poll_commit_def Let_def svc_ok insert_or_advance_ok require_ok membership_of_def split: prod.splits)
  from poll_rows_ok [OF rows] wf u have "refs = map (\<lambda>(_, _, ref). ref) orders" "length ids = length orders"
    "\<forall>(_, _, ref) \<in> set orders. stored_payload (sha256 s) (ctx_tenant_id ctx, ref) (db v)" by auto
  with cv res show ?thesis by (auto simp: get_poll_checkpoint_def stored_payload_def)
qed

lemma normalize_demo_order_ok:
  "normalize_demo_order item s = (Inr (o', enc, ref), s') \<longleftrightarrow> s' = s \<and> normalize_fields item = Inr o'
     \<and> enc = dumps (order_payload o') \<and> length enc \<le> 64 * 1024
     \<and> ref = payload_ref_of (no_event_id o') (no_revision o') (sha256 s enc)"
  by (auto simp: normalize_demo_order_def Let_def svc_ok)

lemma normalize_rows_ok: "mapM normalize_demo_order items s = (Inr orders, s') \<Longrightarrow> s' = s"
  by (drule mapM_ok) (auto simp: normalize_demo_order_ok)


text \<open>A world with one registered connection and a page of one order, for the examples.\<close>

definition demo_manifest :: adapter_capability_manifest where
  "demo_manifest = \<lparr>am_tenant_id = ''u0'', am_provider = ''demo'', am_connection_id = ''c1'',
     am_adapter_version = ''v1'', am_capabilities = {Adp_INBOUND_EVENTS, Adp_ORDERS_READ},
     am_inbound_schema_versions = {1}, am_updated_at = 0\<rparr>"

definition demo_inbound :: world where
  "demo_inbound = demo_tenant\<lparr>db := (db demo_tenant)\<lparr>manifests := [((''u0'', ''demo'', ''c1''), demo_manifest)]\<rparr>,
     sha256 := (\<lambda>_. replicate 64 CHR ''0'')\<rparr>"

definition demo_row :: json where
  "demo_row = JObj [(''external_order_id'', JStr ''o1''), (''event_id'', JStr ''e1''), (''revision'', JInt 1),
     (''currency'', JStr ''KRW''), (''total_minor'', JInt 30),
     (''lines'', JList [JObj [(''sku'', JStr ''s1''), (''quantity'', JInt 3), (''unit_minor'', JInt 10)]])]"

definition demo_adapter :: demo_read_adapter where
  "demo_adapter = \<lparr>rd_describe = \<lparr>da_provider = ''demo'', da_adapter_version = ''v1'',
       da_normalized_schema_version = 1, da_capability = Adp_ORDERS_READ, da_mode = ''DEMO''\<rparr>,
     rd_list_changes = (\<lambda>cursor overlap. Inr \<lparr>dp_items = [demo_row], dp_next_cursor = Some ''p1'',
       dp_has_more = False, dp_observed_at = 0\<rparr>)\<rparr>"

lemma demo_inbound_wf: "wf_repo (db demo_inbound)"
proof -
  have "writes h ''u0'' {T_manifests} (db demo_tenant) (db demo_inbound)" for h
    using W_manifests [of demo_manifest "''u0''" h "db demo_tenant"]
    by (auto simp: demo_inbound_def demo_manifest_def demo_tenant_more intro: writes_one)
  then show ?thesis using demo_tenant_wf wf_writes by blast
qed

lemma demo_inbound_unique: "inbox_unique (db demo_inbound)"
  by (simp add: inbox_unique_def inbox_for_def demo_inbound_def demo_tenant_more rows_def)

theorem one_receipt_per_event_witness:
  "distinct (map inbound_identity (inbox_for ''u0'' (db (run_inbound
     [Poll demo_master ''demo'' ''c1'' 0 demo_adapter None, Poll demo_master ''demo'' ''c1'' 1 demo_adapter None] demo_inbound))))"
  by (rule one_receipt_per_event [OF demo_inbound_wf demo_inbound_unique])


end
