(* ===== verification/Versioned.thy ===== *)
theory Versioned
  imports Invariants
begin

section \<open>Rows with a version, and rows saved once under a key\<close>

text \<open>
  Two contracts the repository's tables share.  A row with a version is updated by naming the
  version that was read, and only if the stored row still has it (\<open>update_channel_order\<close>,
  \<open>update_order_line\<close>, \<open>update_purchase_order\<close>, \<open>update_claim\<close>, \<open>update_settlement_batch\<close>,
  \<open>update_attempt\<close>).  A row with an idempotency key is saved once, and saving it again
  returns the stored row (\<open>save_channel_order\<close>, \<open>save_purchase_order\<close>, \<open>save_claim\<close>,
  \<open>save_settlement_batch\<close> and others).
\<close>

subsection \<open>Optimistic concurrency\<close>

text \<open>A sequence of updates by any writers; a refused one changes nothing.\<close>

fun run_updates :: "('v \<Rightarrow> int \<Rightarrow> repo \<Rightarrow> err + (unit \<times> repo)) \<Rightarrow> ('v \<times> int) list \<Rightarrow> repo \<Rightarrow> repo" where
  "run_updates upd [] r = r"
| "run_updates upd ((v, n) # us) r = (case upd v n r of Inl _ \<Rightarrow> run_updates upd us r | Inr (_, r') \<Rightarrow> run_updates upd us r')"

locale versioned_table =
  fixes row :: "repo \<Rightarrow> string \<times> string \<Rightarrow> 'v option"
    and upd :: "'v \<Rightarrow> int \<Rightarrow> repo \<Rightarrow> err + (unit \<times> repo)"
    and key :: "'v \<Rightarrow> string \<times> string" and version :: "'v \<Rightarrow> int"
  assumes updated: "upd v n r = Inr (u, r') \<Longrightarrow>
      (\<exists>c. row r (key v) = Some c \<and> version c = n) \<and> version v = n + 1 \<and> row r' = (row r)(key v \<mapsto> v)"
    and enabled: "row r (key v) = Some c \<Longrightarrow> version c = n \<Longrightarrow> version v = n + 1 \<Longrightarrow> \<exists>u. upd v n r = Inr u"
begin

lemma refused: "row r (key v) = Some c \<Longrightarrow> version c \<noteq> n \<Longrightarrow> \<exists>e. upd v n r = Inl e"
  using updated [of v n r] by (cases "upd v n r") fastforce+

lemma versions_grow:
  "row r k = Some c \<Longrightarrow> \<exists>c'. row (run_updates upd us r) k = Some c' \<and> version c \<le> version c' \<and> (version c' = version c \<longrightarrow> c' = c)"
proof (induction us arbitrary: r c)
  case (Cons w us)
  obtain v n where w: "w = (v, n)" by fastforce
  show ?case
  proof (cases "upd v n r")
    case (Inl e)
    with Cons w show ?thesis by simp
  next
    case (Inr ur)
    obtain r' where ur: "ur = ((), r')" by (cases ur) simp
    note v = updated [OF Inr [unfolded ur]]
    obtain d where d: "row r' k = Some d" "version c \<le> version d" "version d = version c \<longrightarrow> d = c"
      using v Cons.prems by (cases "k = key v") auto
    from Cons.IH [OF d(1)] obtain c'
      where "row (run_updates upd us r') k = Some c'" "version d \<le> version c'" "version c' = version d \<longrightarrow> c' = d"
      by blast
    with d Inr ur w show ?thesis by auto
  qed
qed simp

text \<open>Of two writers that read the same version, at most one succeeds.\<close>

lemma no_lost_update:
  assumes "upd v n r = Inr (u, r1)" and "key v' = key v"
  shows "\<exists>e. upd v' n (run_updates upd us r1) = Inl e"
proof -
  from updated [OF assms(1)] have "row r1 (key v') = Some v" "version v = n + 1" using assms(2) by simp_all
  with versions_grow [of r1 "key v'" v us] obtain c where "row (run_updates upd us r1) (key v') = Some c" "version c \<noteq> n"
    by fastforce
  then show ?thesis by (rule refused)
qed

end

subsection \<open>Saving once under an idempotency key\<close>

lemma first_dset_new:
  "first p (rows t d) = None \<Longrightarrow> p v \<Longrightarrow> first p (rows t (dset (t, i) v d)) = Some v"
proof (induction d)
  case (Cons x d)
  then show ?case by (cases x) (auto simp: rows_Cons split: if_splits)
qed (simp add: rows_def)

locale saved_once =
  fixes found :: "'v \<Rightarrow> repo \<Rightarrow> 'v option"
    and save :: "'v \<Rightarrow> repo \<Rightarrow> err + (('v \<times> bool) \<times> repo)"
    and agrees :: "'v \<Rightarrow> 'v \<Rightarrow> bool"
  assumes replayed: "found v r = Some p \<Longrightarrow>
      (if agrees p v then save v r = Inr ((p, True), r) else \<exists>e. save v r = Inl e)"
    and fresh: "found v r = None \<Longrightarrow> save v r = Inr ((p, b), r') \<Longrightarrow> p = v \<and> \<not> b \<and> found v r' = Some v"
    and reflexive: "agrees v v"
begin

lemma save_again: "save v r = Inr ((p, b), r') \<Longrightarrow> save v r' = Inr ((p, True), r')"
proof (cases "found v r")
  case None
  moreover assume "save v r = Inr ((p, b), r')"
  ultimately have "p = v" "found v r' = Some v" using fresh by blast+
  with replayed [of v r' v] reflexive show ?thesis by auto
next
  case (Some q)
  moreover assume "save v r = Inr ((p, b), r')"
  ultimately have "p = q" "r' = r" "agrees q v" using replayed [OF Some] by (auto split: if_splits)
  with replayed [OF Some] show ?thesis by auto
qed

lemma replay_reads: "save v r = Inr ((p, True), r') \<Longrightarrow> r' = r \<and> found v r = Some p \<and> agrees p v"
  using fresh [of v r p True r'] replayed [of v r] by (cases "found v r") (auto split: if_splits)

end

end
