(* ===== verification/Orders.thy ===== *)
theory Orders
  imports Approvals Ingestion Versioned
begin

section \<open>Channel orders and routing\<close>

text \<open>
  orders.py and the order, routing and purchase tables of repository.py: an ingested payload
  becomes an order with its lines once; routing picks for every line the cheapest feasible
  quote, and asks for the approval of one purchase order per supplier.
\<close>

subsection \<open>Repository methods\<close>

definition same_content :: "channel_order \<Rightarrow> channel_order \<Rightarrow> bool" where
  "same_content p v \<longleftrightarrow> (co_channel_id p, co_external_order_key p, co_payload_ref p, co_total_minor p, co_currency p) =
     (co_channel_id v, co_external_order_key v, co_payload_ref v, co_total_minor v, co_currency v)"

definition find_channel_order :: "string \<Rightarrow> string \<Rightarrow> string \<Rightarrow> repo \<Rightarrow> channel_order option" where
  "find_channel_order t channel external r =
     first (\<lambda>o'. co_channel_id o' = channel \<and> co_external_order_key o' = external) (rows t (channel_orders r))"

definition prior_order :: "channel_order \<Rightarrow> repo \<Rightarrow> channel_order option" where
  "prior_order v r = (case dget (channel_orders r) (co_tenant_id v, co_id v) of Some p \<Rightarrow> Some p
     | None \<Rightarrow> find_channel_order (co_tenant_id v) (co_channel_id v) (co_external_order_key v) r)"

definition save_channel_order :: "channel_order \<Rightarrow> repo \<Rightarrow> err + ((channel_order \<times> bool) \<times> repo)" where
  "save_channel_order v r = (case prior_order v r of
     Some p \<Rightarrow> if same_content p v then Inr ((p, True), r)
       else Inl (ConflictError ''order identity reused with different content'')
   | None \<Rightarrow> Inr ((v, False), r\<lparr>channel_orders := dset (co_tenant_id v, co_id v) v (channel_orders r)\<rparr>))"

definition get_channel_order :: "string \<Rightarrow> string \<Rightarrow> repo \<Rightarrow> err + channel_order" where
  "get_channel_order t i r = (case dget (channel_orders r) (t, i) of
     None \<Rightarrow> Inl (NotFoundError ''order not found'') | Some v \<Rightarrow> Inr v)"

definition update_channel_order :: "channel_order \<Rightarrow> int \<Rightarrow> repo \<Rightarrow> err + (unit \<times> repo)" where
  "update_channel_order v n r = (case get_channel_order (co_tenant_id v) (co_id v) r of Inl e \<Rightarrow> Inl e
   | Inr c \<Rightarrow> if co_version c \<noteq> n \<or> co_version v \<noteq> n + 1 then Inl (ConflictError ''order version conflict'')
       else Inr ((), r\<lparr>channel_orders := dset (co_tenant_id v, co_id v) v (channel_orders r)\<rparr>))"

definition save_order_line :: "order_line \<Rightarrow> repo \<Rightarrow> repo" where
  "save_order_line v r = r\<lparr>order_lines := dset (ol_tenant_id v, ol_id v) v (order_lines r)\<rparr>"

definition update_order_line :: "order_line \<Rightarrow> int \<Rightarrow> repo \<Rightarrow> err + (unit \<times> repo)" where
  "update_order_line v n r = (case first (\<lambda>l. ol_id l = ol_id v) (rows (ol_tenant_id v) (order_lines r)) of
     None \<Rightarrow> Inl (NotFoundError ''order line not found'')
   | Some c \<Rightarrow> if ol_version c \<noteq> n \<or> ol_version v \<noteq> n + 1 then Inl (ConflictError ''order line version conflict'')
       else Inr ((), r\<lparr>order_lines := dset (ol_tenant_id v, ol_id v) v (order_lines r)\<rparr>))"

definition get_order_line :: "string \<Rightarrow> string \<Rightarrow> repo \<Rightarrow> err + order_line" where
  "get_order_line t i r = (case dget (order_lines r) (t, i) of
     None \<Rightarrow> Inl (NotFoundError ''order line not found'') | Some v \<Rightarrow> Inr v)"

definition order_lines_for :: "string \<Rightarrow> string \<Rightarrow> repo \<Rightarrow> err + order_line list" where
  "order_lines_for t i r = (case get_channel_order t i r of Inl e \<Rightarrow> Inl e
     | Inr _ \<Rightarrow> Inr (filter (\<lambda>l. ol_channel_order_id l = i) (rows t (order_lines r))))"

definition save_routing_decision :: "routing_decision \<Rightarrow> repo \<Rightarrow> err + (unit \<times> repo)" where
  "save_routing_decision v r = (let key = (rd_tenant_id v, rd_order_line_id v) in
     case dget (routing_decisions r) key of
       Some p \<Rightarrow> if p \<noteq> v then Inl (ConflictError ''routing decision already exists'')
         else Inr ((), r\<lparr>routing_decisions := dset key v (routing_decisions r)\<rparr>)
     | None \<Rightarrow> Inr ((), r\<lparr>routing_decisions := dset key v (routing_decisions r)\<rparr>))"

definition routing_for :: "string \<Rightarrow> string \<Rightarrow> repo \<Rightarrow> err + routing_decision list" where
  "routing_for t i r = (case order_lines_for t i r of Inl e \<Rightarrow> Inl e
     | Inr ls \<Rightarrow> Inr (map snd (filter (\<lambda>((tid, l), _). tid = t \<and> l \<in> ol_id ` set ls) (routing_decisions r))))"

definition prior_purchase :: "supplier_purchase_order \<Rightarrow> repo \<Rightarrow> supplier_purchase_order option" where
  "prior_purchase v r = first (\<lambda>p. po_idempotency_key p = po_idempotency_key v) (rows (po_tenant_id v) (purchase_orders r))"

definition save_purchase_order :: "supplier_purchase_order \<Rightarrow> repo \<Rightarrow> err + ((supplier_purchase_order \<times> bool) \<times> repo)" where
  "save_purchase_order v r = (case prior_purchase v r of
     Some p \<Rightarrow> if (po_channel_order_id p, po_supplier_id p) \<noteq> (po_channel_order_id v, po_supplier_id v)
       then Inl (ConflictError ''purchase idempotency key reused'') else Inr ((p, True), r)
   | None \<Rightarrow> if dget (purchase_orders r) (po_tenant_id v, po_id v) \<noteq> None
       then Inl (ConflictError ''purchase order already exists'')
       else Inr ((v, False), r\<lparr>purchase_orders := dset (po_tenant_id v, po_id v) v (purchase_orders r)\<rparr>))"

definition get_purchase_order :: "string \<Rightarrow> string \<Rightarrow> repo \<Rightarrow> err + supplier_purchase_order" where
  "get_purchase_order t i r = (case dget (purchase_orders r) (t, i) of
     None \<Rightarrow> Inl (NotFoundError ''purchase order not found'') | Some v \<Rightarrow> Inr v)"

definition update_purchase_order :: "supplier_purchase_order \<Rightarrow> int \<Rightarrow> repo \<Rightarrow> err + (unit \<times> repo)" where
  "update_purchase_order v n r = (case dget (purchase_orders r) (po_tenant_id v, po_id v) of
     None \<Rightarrow> Inl (NotFoundError ''purchase order not found'')
   | Some c \<Rightarrow> if po_version c \<noteq> n \<or> po_version v \<noteq> n + 1 then Inl (ConflictError ''purchase order version conflict'')
       else Inr ((), r\<lparr>purchase_orders := dset (po_tenant_id v, po_id v) v (purchase_orders r)\<rparr>))"

definition save_purchase_line :: "purchase_line \<Rightarrow> repo \<Rightarrow> repo" where
  "save_purchase_line v r = r\<lparr>purchase_lines := dset (pu_tenant_id v, pu_id v) v (purchase_lines r)\<rparr>"

definition purchase_orders_for :: "string \<Rightarrow> string \<Rightarrow> repo \<Rightarrow> err + supplier_purchase_order list" where
  "purchase_orders_for t i r = (case get_channel_order t i r of Inl e \<Rightarrow> Inl e
     | Inr _ \<Rightarrow> Inr (filter (\<lambda>p. po_channel_order_id p = i) (rows t (purchase_orders r))))"

definition purchase_lines_for :: "string \<Rightarrow> string \<Rightarrow> repo \<Rightarrow> purchase_line list" where
  "purchase_lines_for t i r = filter (\<lambda>l. pu_purchase_order_id l = i) (rows t (purchase_lines r))"

subsection \<open>Ingesting an order\<close>

text \<open>\<open>isinstance(v, int)\<close> also accepts a boolean, as 0 or 1.\<close>

fun js_int_or_bool :: "json option \<Rightarrow> int option" where
  "js_int_or_bool (Some (JInt n)) = Some n"
| "js_int_or_bool (Some (JBool b)) = Some (if b then 1 else 0)"
| "js_int_or_bool _ = None"

definition load_payload :: "tenant_context \<Rightarrow> string \<Rightarrow> json svc" where
  "load_payload ctx ref =
     seq (require ctx Cap_TENANT_ADMIN) (
     ensure (opaque ref) bad_identifier (
     bnd (query (get_normalized_payload (ctx_tenant_id ctx) ref)) (\<lambda>p.
     ensure (np_schema_version p = 1) (ConflictError ''normalized payload digest/schema verification failed'') (
     bnd (payload_digest_of (np_payload_json p)) (\<lambda>dg.
     ensure (dg = np_canonical_digest p) (ConflictError ''normalized payload digest/schema verification failed'') (
     of_sum (need (that (\<lambda>v. js_keys v \<noteq> None) (loads (np_payload_json p)))
       (ConflictError ''normalized order payload must be an object'') Inr)))))))"

text \<open>The fields of one payload line; a stored line is one that \<open>normalize_demo_order\<close> made.\<close>

definition line_fields :: "json \<Rightarrow> err + (string \<times> int \<times> int \<times> string option)" where
  "line_fields line =
     need (jget line ''sku'') (KeyError ''sku'') (\<lambda>sku.
     need (that opaque (js_str (Some sku))) (ConflictError ''invalid sku'') (\<lambda>s.
     need (jget line ''quantity'') (KeyError ''quantity'') (\<lambda>q.
     need (js_int (Some q)) (OtherError ''TypeError'' ''quantity'') (\<lambda>quantity.
     need (jget line ''unit_minor'') (KeyError ''unit_minor'') (\<lambda>u.
     need (js_int (Some u)) (OtherError ''TypeError'' ''unit_minor'') (\<lambda>unit.
     Inr (s, quantity, unit, js_str (jget line ''source_line_key'')))))))) "

definition add_line :: "string \<Rightarrow> string \<Rightarrow> json \<Rightarrow> unit svc" where
  "add_line t oid line = bnd uuid4 (\<lambda>i. bnd (of_sum (line_fields line)) (\<lambda>(sku, quantity, unit, source).
     modify (save_order_line (new_order_line i t oid sku quantity unit source))))"

definition order_key :: "string \<Rightarrow> string \<Rightarrow> string option \<Rightarrow> string" where
  "order_key channel external key = (case key of None \<Rightarrow> ''order:'' @ channel @ '':'' @ external
     | Some k \<Rightarrow> if k = [] then ''order:'' @ channel @ '':'' @ external else k)"

definition ingest_order :: "tenant_context \<Rightarrow> string \<Rightarrow> string \<Rightarrow> string option \<Rightarrow> (channel_order \<times> bool) svc" where
  "ingest_order ctx channel ref idem = (let t = ctx_tenant_id ctx in
     seq (require ctx Cap_TENANT_ADMIN) (
     ensure (opaque channel) (ConflictError ''invalid channel_id'') (
     bnd (load_payload ctx ref) (\<lambda>payload.
     bnd (of_sum (need (that opaque (js_str (jget payload ''external_order_id''))) (ConflictError ''invalid external_order_id'') Inr)) (\<lambda>external.
     bnd (of_sum (need (that opaque (js_str (jget payload ''event_id''))) (ConflictError ''invalid event_id'') Inr)) (\<lambda>event.
     bnd (of_sum (
       need (js_str (jget payload ''currency'')) (ConflictError ''invalid normalized order projection'') (\<lambda>currency.
       need (that (\<lambda>n. 0 \<le> n) (js_int_or_bool (jget payload ''total_minor''))) (ConflictError ''invalid normalized order projection'') (\<lambda>total.
       need (that (\<lambda>xs. xs \<noteq> []) (js_list (jget payload ''lines''))) (ConflictError ''invalid normalized order projection'') (\<lambda>lines.
       Inr (currency, total, lines)))))) (\<lambda>(currency, total, lines).
     let key = order_key channel external idem in
     ensure (\<not> blank key \<and> py_len key \<le> 255) (ConflictError ''invalid idempotency_key'') (
     bnd clock (\<lambda>now. transaction (
       bnd uuid4 (\<lambda>oid.
       bnd (mutate (save_channel_order (new_channel_order oid t channel external ref currency total Ord_ACCEPTED now key))) (\<lambda>(order, replayed).
       if replayed then ret (order, True) else
       seq (foreach lines (add_line t (co_id order))) (
       seq (audit t (ctx_user_id ctx) ''order.accepted'' (co_id order) ''succeeded''
              (JObj [(''external_order_key'', JStr external), (''payload_ref'', JStr ref), (''event_id'', JStr event)])) (
       seq (enqueue t ''order.accepted'' (co_id order)
              (JObj [(''order_id'', JStr (co_id order)), (''payload_ref'', JStr ref)])
              (''order.accepted:'' @ co_id order) now) (
       ret (order, False))))))))))))))))"

subsection \<open>Routing\<close>

definition quotes_for :: "json \<Rightarrow> string \<Rightarrow> err + json list" where
  "quotes_for options sku = (case jget options sku of None \<Rightarrow> Inr []
     | Some (JList xs) \<Rightarrow> Inr (filter (\<lambda>q. js_keys q \<noteq> None) xs)
     | Some _ \<Rightarrow> Inl (ConflictError ''supplier quote list required''))"

definition add_candidate :: "int \<Rightarrow> json \<Rightarrow> (int \<times> string) list \<Rightarrow> err + (int \<times> string) list" where
  "add_candidate quantity quote' cs =
     need (that opaque (js_str (jget quote' ''supplier_id''))) (ConflictError ''invalid supplier_id'') (\<lambda>supplier.
     Inr (case (js_int (jget quote' ''unit_cost_minor''), js_int (jget quote' ''available_quantity'')) of
        (Some cost, Some available) \<Rightarrow> if 0 \<le> cost \<and> quantity \<le> available then cs @ [(cost, supplier)] else cs
      | _ \<Rightarrow> cs))"

definition line_candidates :: "json \<Rightarrow> order_line \<Rightarrow> err + (int \<times> string) list" where
  "line_candidates options l = (case quotes_for options (ol_sku l) of Inl e \<Rightarrow> Inl e
     | Inr qs \<Rightarrow> fold_check (add_candidate (ol_quantity l)) qs [])"

text \<open>The lines with their supplier and cost, or the SKU for which no quote is feasible.\<close>

fun select_suppliers :: "json \<Rightarrow> order_line list \<Rightarrow> err + (string + (order_line \<times> string \<times> int) list)" where
  "select_suppliers options [] = Inr (Inr [])"
| "select_suppliers options (l # ls) = (case line_candidates options l of Inl e \<Rightarrow> Inl e
   | Inr [] \<Rightarrow> Inr (Inl (ol_sku l))
   | Inr (c # cs) \<Rightarrow> (case select_suppliers options ls of Inl e \<Rightarrow> Inl e
       | Inr (Inl sku) \<Rightarrow> Inr (Inl sku)
       | Inr (Inr sel) \<Rightarrow> (let (cost, supplier) = hd (sort (c # cs)) in Inr (Inr ((l, supplier, cost) # sel)))))"

definition grouped :: "(order_line \<times> string \<times> int) list \<Rightarrow> (string \<times> (order_line \<times> int) list) list" where
  "grouped sel = map (\<lambda>s. (s, map (\<lambda>(l, _, cost). (l, cost)) (filter (\<lambda>(_, s', _). s' = s) sel)))
     (sort (remdups (map (\<lambda>(_, s, _). s) sel)))"

definition order_moved :: "tenant_context \<Rightarrow> string \<Rightarrow> int \<Rightarrow> channel_order_state \<Rightarrow> channel_order svc" where
  "order_moved ctx oid expected st =
     bnd (query (get_channel_order (ctx_tenant_id ctx) oid)) (\<lambda>current.
     ensure (co_version current = expected) (ConflictError ''order version conflict'') (
     let current' = current\<lparr>co_status := st, co_version := co_version current + 1\<rparr> in
     seq (mutate (update_channel_order current' expected)) (ret current')))"

definition route_line :: "tenant_context \<Rightarrow> order_line \<times> string \<times> int \<Rightarrow> unit svc" where
  "route_line ctx = (\<lambda>(l, supplier, cost).
     bnd uuid4 (\<lambda>i.
     seq (mutate (save_routing_decision \<lparr>rd_id = i, rd_tenant_id = ctx_tenant_id ctx, rd_order_line_id = ol_id l,
            rd_supplier_id = supplier, rd_quantity = ol_quantity l, rd_unit_cost_minor = cost,
            rd_reason = ''lowest feasible DEMO quote'', rd_status = Rtg_PROPOSED\<rparr>)) (
     mutate (update_order_line (l\<lparr>ol_routed_status := ''routed'', ol_version := ol_version l + 1\<rparr>) (ol_version l)))))"

definition purchase_payload :: "string \<Rightarrow> string \<Rightarrow> (string \<times> int \<times> int) list \<Rightarrow> json" where
  "purchase_payload oid supplier ls = JObj [(''order_id'', JStr oid), (''supplier_id'', JStr supplier),
     (''lines'', JList (map (\<lambda>(i, q, c). JObj [(''order_line_id'', JStr i), (''quantity'', JInt q),
        (''unit_cost_minor'', JInt c)]) ls))]"

definition request_purchase :: "tenant_context \<Rightarrow> string \<Rightarrow> time \<Rightarrow> int \<Rightarrow> string \<times> (order_line \<times> int) list \<Rightarrow>
    supplier_purchase_order svc" where
  "request_purchase ctx oid now version = (\<lambda>(supplier, routed).
     let t = ctx_tenant_id ctx; idem = ''po:'' @ oid @ '':'' @ supplier in
     bnd (request_approval ctx Kind_PURCHASE idem
            (purchase_payload oid supplier (map (\<lambda>(l, cost). (ol_id l, ol_quantity l, cost)) routed))
            (idem @ '':approval'') 1 version []) (\<lambda>(c, _).
     bnd uuid4 (\<lambda>pid.
     bnd (mutate (save_purchase_order (new_purchase_order pid t oid supplier PO_APPROVAL_PENDING idem (Some (cmd_id c)) now))) (\<lambda>(po, _).
     seq (foreach routed (\<lambda>(l, cost). bnd uuid4 (\<lambda>i.
            modify (save_purchase_line \<lparr>pu_id = i, pu_tenant_id = t, pu_purchase_order_id = po_id po,
              pu_order_line_id = ol_id l, pu_quantity = ol_quantity l, pu_unit_cost_minor = cost\<rparr>)))) (
     ret po)))))"

definition propose_routing :: "tenant_context \<Rightarrow> string \<Rightarrow> json \<Rightarrow> int \<Rightarrow> supplier_purchase_order list svc" where
  "propose_routing ctx oid options expected = (let t = ctx_tenant_id ctx in
     seq (require ctx Cap_TENANT_ADMIN) (
     bnd (query (get_channel_order t oid)) (\<lambda>order.
     ensure (co_version order = expected) (ConflictError ''order version conflict'') (
     ensure (co_status order \<in> {Ord_ACCEPTED, Ord_ROUTING, Ord_PO_PENDING}) (ConflictError ''order cannot be routed'') (
     bnd (query (purchase_orders_for t oid)) (\<lambda>existing.
     if existing \<noteq> [] then ret existing else
     bnd (query (order_lines_for t oid)) (\<lambda>lines.
     bnd (of_sum (select_suppliers options lines)) (\<lambda>sel.
     case sel of
       Inl sku \<Rightarrow> seq (transaction (bnd (order_moved ctx oid expected Ord_EXCEPTION) (\<lambda>_.
           audit t (ctx_user_id ctx) ''order.routing_failed'' oid ''blocked'' (JObj [(''sku'', JStr sku)])))) (ret [])
     | Inr selected \<Rightarrow>
         bnd clock (\<lambda>now. transaction (
         bnd (order_moved ctx oid expected Ord_PO_PENDING) (\<lambda>current.
         seq (foreach selected (route_line ctx)) (
         bnd (mapM (request_purchase ctx oid now (co_version current)) (grouped selected)) (\<lambda>pos.
         seq (audit t (ctx_user_id ctx) ''order.routing_proposed'' oid ''succeeded''
                (JObj [(''purchase_order_count'', JInt (int (length pos)))])) (
         ret pos))))))))))))))"

subsection \<open>What the calls write\<close>

lemma order_keys: "wf_repo r \<Longrightarrow> dget (channel_orders r) (t, i) = Some v \<Longrightarrow> co_tenant_id v = t \<and> co_id v = i"
  using keyed_dget [where d = "channel_orders r"] wf_tableD [of r T_channel_orders] by fastforce

lemma find_order_tenant:
  "wf_repo r \<Longrightarrow> find_channel_order t c e r = Some v \<Longrightarrow> co_tenant_id v = t \<and> co_channel_id v = c \<and> co_external_order_key v = e"
  using keyed_in [where d = "channel_orders r"] wf_tableD [of r T_channel_orders]
  by (fastforce simp: find_channel_order_def rows_in dest: first_Some)

lemma prior_order_tenant: "wf_repo r \<Longrightarrow> prior_order v r = Some p \<Longrightarrow> co_tenant_id p = co_tenant_id v"
  by (auto simp: prior_order_def split: option.splits dest: order_keys find_order_tenant)

lemma line_keys: "wf_repo r \<Longrightarrow> dget (order_lines r) (t, i) = Some v \<Longrightarrow> ol_tenant_id v = t \<and> ol_id v = i"
  using keyed_dget [where d = "order_lines r"] wf_tableD [of r T_order_lines] by fastforce

lemma line_rows_tenant: "wf_repo r \<Longrightarrow> l \<in> set (rows t (order_lines r)) \<Longrightarrow> ol_tenant_id l = t"
  using keyed_in [where d = "order_lines r"] wf_tableD [of r T_order_lines] by (fastforce simp: rows_in)

lemma purchase_keys: "wf_repo r \<Longrightarrow> dget (purchase_orders r) (t, i) = Some v \<Longrightarrow> po_tenant_id v = t \<and> po_id v = i"
  using keyed_dget [where d = "purchase_orders r"] wf_tableD [of r T_purchase_orders] by fastforce

lemma purchase_rows_tenant: "wf_repo r \<Longrightarrow> p \<in> set (rows t (purchase_orders r)) \<Longrightarrow> po_tenant_id p = t"
  using keyed_in [where d = "purchase_orders r"] wf_tableD [of r T_purchase_orders] by (fastforce simp: rows_in)

lemma acts_save_channel_order:
  "co_tenant_id v = t \<Longrightarrow> T_channel_orders \<in> L \<Longrightarrow> acts h t L (mutate (save_channel_order v)) (\<lambda>(p, b). co_tenant_id p = t)"
  by (rule acts_mutate)
    (auto simp: save_channel_order_def split: option.splits if_splits dest: prior_order_tenant
      intro: writes_one W_channel_orders)

lemma acts_get_channel_order: "acts h t L (query (get_channel_order i o')) (\<lambda>v. co_tenant_id v = i \<and> co_id v = o')"
  by (rule acts_query) (auto simp: get_channel_order_def split: option.splits dest: order_keys)

lemma acts_update_channel_order [acts_rules]:
  "co_tenant_id v = t \<Longrightarrow> T_channel_orders \<in> L \<Longrightarrow> acts h t L (mutate (update_channel_order v n)) (\<lambda>_. True)"
  by (rule acts_mutate)
    (auto simp: update_channel_order_def split: sum.splits if_splits intro!: writes_one W_channel_orders)

lemma acts_save_order_line [acts_rules]:
  "ol_tenant_id v = t \<Longrightarrow> T_order_lines \<in> L \<Longrightarrow> acts h t L (modify (save_order_line v)) (\<lambda>_. True)"
  by (rule acts_modify) (auto simp: save_order_line_def intro!: writes_one W_order_lines)

lemma acts_update_order_line [acts_rules]:
  "ol_tenant_id v = t \<Longrightarrow> T_order_lines \<in> L \<Longrightarrow> acts h t L (mutate (update_order_line v n)) (\<lambda>_. True)"
  by (rule acts_mutate)
    (auto simp: update_order_line_def split: option.splits if_splits intro!: writes_one W_order_lines)

lemma acts_get_order_line: "acts h t L (query (get_order_line i l)) (\<lambda>v. ol_tenant_id v = i \<and> ol_id v = l)"
  by (rule acts_query) (auto simp: get_order_line_def split: option.splits dest: line_keys)

lemma acts_order_lines_for:
  "acts h t L (query (order_lines_for i o')) (list_all (\<lambda>l. ol_tenant_id l = i \<and> ol_channel_order_id l = o'))"
  by (rule acts_query) (auto simp: order_lines_for_def list_all_iff split: sum.splits dest: line_rows_tenant)

lemma acts_save_routing_decision [acts_rules]:
  "rd_tenant_id v = t \<Longrightarrow> T_routing_decisions \<in> L \<Longrightarrow> acts h t L (mutate (save_routing_decision v)) (\<lambda>_. True)"
  by (rule acts_mutate)
    (auto simp: save_routing_decision_def Let_def split: option.splits if_splits intro!: writes_one W_routing_decisions)

lemma acts_save_purchase_order:
  "po_tenant_id v = t \<Longrightarrow> T_purchase_orders \<in> L \<Longrightarrow> acts h t L (mutate (save_purchase_order v)) (\<lambda>(p, b). po_tenant_id p = t)"
  by (rule acts_mutate)
    (auto simp: save_purchase_order_def prior_purchase_def split: option.splits if_splits
      dest!: first_Some dest: purchase_rows_tenant intro: writes_one W_purchase_orders)

lemma acts_get_purchase_order: "acts h t L (query (get_purchase_order i p)) (\<lambda>v. po_tenant_id v = i \<and> po_id v = p)"
  by (rule acts_query) (auto simp: get_purchase_order_def split: option.splits dest: purchase_keys)

lemma acts_update_purchase_order [acts_rules]:
  "po_tenant_id v = t \<Longrightarrow> T_purchase_orders \<in> L \<Longrightarrow> acts h t L (mutate (update_purchase_order v n)) (\<lambda>_. True)"
  by (rule acts_mutate)
    (auto simp: update_purchase_order_def split: option.splits if_splits intro!: writes_one W_purchase_orders)

lemma acts_save_purchase_line [acts_rules]:
  "pu_tenant_id v = t \<Longrightarrow> T_purchase_lines \<in> L \<Longrightarrow> acts h t L (modify (save_purchase_line v)) (\<lambda>_. True)"
  by (rule acts_modify) (auto simp: save_purchase_line_def intro!: writes_one W_purchase_lines)

lemma acts_purchase_orders_for:
  "acts h t L (query (purchase_orders_for i o')) (list_all (\<lambda>p. po_tenant_id p = i \<and> po_channel_order_id p = o'))"
  by (rule acts_query) (auto simp: purchase_orders_for_def list_all_iff split: sum.splits dest: purchase_rows_tenant)

lemma acts_load_payload [acts_rules]: "acts h t L (load_payload ctx ref) (\<lambda>_. True)"
  unfolding load_payload_def by (rule acts_rules TrueI)+

lemma acts_ingest_order:
  "{T_channel_orders, T_order_lines, T_audit_events, T_outbox} \<subseteq> L \<Longrightarrow>
     acts h (ctx_tenant_id ctx) L (ingest_order ctx channel ref idem) (\<lambda>_. True)"
  unfolding ingest_order_def Let_def add_line_def
  by (rule acts_bnd [OF acts_save_channel_order] acts_rules TrueI
      | simp add: new_channel_order_def new_order_line_def split_paired_all)+

abbreviation routing_tables :: "table set" where
  "routing_tables \<equiv> {T_channel_orders, T_order_lines, T_routing_decisions, T_purchase_orders, T_purchase_lines,
     T_approval_intents} \<union> approval_tables"

lemma acts_order_moved [acts_rules]:
  "T_channel_orders \<in> L \<Longrightarrow> acts h (ctx_tenant_id ctx) L (order_moved ctx oid n st) (\<lambda>_. True)"
  unfolding order_moved_def Let_def by (rule acts_bnd [OF acts_get_channel_order] acts_rules TrueI | simp)+

lemma acts_route_line:
  "ol_tenant_id (fst x) = ctx_tenant_id ctx \<Longrightarrow> {T_order_lines, T_routing_decisions} \<subseteq> L \<Longrightarrow>
     acts h (ctx_tenant_id ctx) L (route_line ctx x) (\<lambda>_. True)"
  unfolding route_line_def by (cases x) (simp, (rule acts_rules TrueI | simp)+)

lemma acts_request_purchase:
  "routing_tables \<subseteq> L \<Longrightarrow> acts h (ctx_tenant_id ctx) L (request_purchase ctx oid now n x) (\<lambda>_. True)"
  unfolding request_purchase_def Let_def
  by (cases x) (simp, (rule acts_bnd_any [OF acts_any [OF acts_request_approval]]
      acts_bnd_any [OF acts_any [OF acts_save_purchase_order]] acts_rules TrueI | simp add: new_purchase_order_def)+)

lemma acts_sum [acts_rules]:
  "(\<And>a. x = Inl a \<Longrightarrow> acts h t L (f a) Q) \<Longrightarrow> (\<And>b. x = Inr b \<Longrightarrow> acts h t L (g b) Q) \<Longrightarrow>
     acts h t L (case x of Inl a \<Rightarrow> f a | Inr b \<Rightarrow> g b) Q"
  by (cases x) simp_all

lemma select_suppliers_lines: "select_suppliers options ls = Inr (Inr sel) \<Longrightarrow> map fst sel = ls"
  by (induction options ls arbitrary: sel rule: select_suppliers.induct)
    (auto simp: Let_def split: sum.splits list.splits prod.splits)

lemma acts_propose_routing:
  "routing_tables \<subseteq> L \<Longrightarrow> acts h (ctx_tenant_id ctx) L (propose_routing ctx oid options n) (\<lambda>_. True)"
proof -
  assume L: "routing_tables \<subseteq> L"
  have route: "acts h (ctx_tenant_id ctx) L (foreach sel (route_line ctx)) (\<lambda>_. True)"
    if "list_all (\<lambda>l. ol_tenant_id l = ctx_tenant_id ctx \<and> ol_channel_order_id l = oid) ls"
      "select_suppliers options ls = Inr (Inr sel)" for ls sel
  proof (rule acts_foreach)
    fix x assume "x \<in> set sel"
    then have "fst x \<in> set ls" using select_suppliers_lines [OF that(2)] by auto
    with that(1) L show "acts h (ctx_tenant_id ctx) L (route_line ctx x) (\<lambda>_. True)"
      by (auto simp: list_all_iff intro!: acts_route_line)
  qed
  show ?thesis
    unfolding propose_routing_def Let_def
    using L by - (rule acts_bnd [OF acts_order_lines_for] acts_bnd [OF acts_of_sum] route acts_request_purchase
        acts_rules TrueI | assumption | simp)+
qed

subsection \<open>Contracts of the tables\<close>

interpretation order_table: versioned_table "\<lambda>r. dget (channel_orders r)" update_channel_order
  "\<lambda>v. (co_tenant_id v, co_id v)" co_version
  by unfold_locales
    (auto simp: update_channel_order_def get_channel_order_def dget_dset split: option.splits if_splits)

interpretation purchase_table: versioned_table "\<lambda>r. dget (purchase_orders r)" update_purchase_order
  "\<lambda>v. (po_tenant_id v, po_id v)" po_version
  by unfold_locales (auto simp: update_purchase_order_def dget_dset split: option.splits if_splits)

interpretation order_saved: saved_once prior_order save_channel_order same_content
  by unfold_locales (auto simp: save_channel_order_def same_content_def prior_order_def split: option.splits)

end
