(* ===== verification/Safety.thy ===== *)
theory Safety
  imports Identity Checks
begin

section \<open>Stop controls, backups, promotion readiness\<close>

text \<open>
  safety.py and readiness.py.  The copy of the database file is outside the model: what it
  yields, the digest of the dump or a failure, is an argument.
\<close>

subsection \<open>Stop controls\<close>

definition save_stop_control :: "demo_stop_control \<Rightarrow> repo \<Rightarrow> repo" where
  "save_stop_control v r = r\<lparr>stop_controls := dset (sc_tenant_id v, sc_scope_type v, sc_scope_ref v) v (stop_controls r)\<rparr>"

definition stop_controls_for :: "string \<Rightarrow> repo \<Rightarrow> demo_stop_control list" where
  "stop_controls_for t r = rows t (stop_controls r)"

definition demo_stop_active :: "string \<Rightarrow> string \<Rightarrow> repo \<Rightarrow> bool" where
  "demo_stop_active t connection r = list_ex (\<lambda>c. sc_stopped c \<and> (sc_scope_type c = ''tenant'' \<or> sc_scope_type c = ''global''
     \<or> (sc_scope_type c = ''connection'' \<and> sc_scope_ref c = connection))) (stop_controls_for t r)"

definition set_demo_stop :: "tenant_context \<Rightarrow> string \<Rightarrow> string \<Rightarrow> bool \<Rightarrow> string \<Rightarrow> demo_stop_control svc" where
  "set_demo_stop ctx scope ref stopped reason = (let t = ctx_tenant_id ctx in
     seq (require ctx Cap_TENANT_ADMIN) (
     ensure (scope \<in> {''global'', ''tenant'', ''connection''} \<and> ref \<noteq> [] \<and> \<not> blank reason)
       (ConflictError ''invalid DEMO stop control'') (
     ensure (scope = ''global'' \<longrightarrow> ref = ''global'') (ConflictError ''global scope ref must be global'') (
     transaction (
       bnd (reads (\<lambda>r. first (\<lambda>c. (sc_scope_type c, sc_scope_ref c) = (scope, ref)) (stop_controls_for t r))) (\<lambda>prior.
       bnd clock (\<lambda>now.
       let v = \<lparr>sc_tenant_id = t, sc_scope_type = scope, sc_scope_ref = ref, sc_stopped = stopped,
                sc_reason = strip reason, sc_version = (case prior of Some p \<Rightarrow> sc_version p + 1 | None \<Rightarrow> 1),
                sc_updated_at = now\<rparr> in
       seq (modify (save_stop_control v)) (
       seq (audit t (ctx_user_id ctx) ''stop.control_changed'' (scope @ '':'' @ ref) ''succeeded''
              (JObj [(''stopped'', JBool stopped)])) (
       ret v)))))))))"

subsection \<open>Backups\<close>

definition save_backup_manifest :: "demo_backup_manifest \<Rightarrow> repo \<Rightarrow> repo" where
  "save_backup_manifest v r = r\<lparr>backup_manifests := dset (bm_tenant_id v, bm_id v) v (backup_manifests r)\<rparr>"

definition backup_manifests_for :: "string \<Rightarrow> repo \<Rightarrow> demo_backup_manifest list" where
  "backup_manifests_for t r = rows t (backup_manifests r)"

text \<open>\<open>copied\<close> is the digest of the verified copy, or \<open>None\<close> when the copy or its check failed.\<close>

definition backup_demo_sqlite :: "bool \<Rightarrow> string option \<Rightarrow> int \<Rightarrow> time \<Rightarrow> string \<Rightarrow> demo_backup_manifest svc" where
  "backup_demo_sqlite target_exists copied schema now t =
     ensure (t \<noteq> []) (ConflictError ''SQLite DEMO backup requires a local repository and tenant'') (
     ensure (\<not> target_exists) (ConflictError ''backup destination must be new'') (
     case copied of None \<Rightarrow> throw (ConflictError ''DEMO backup verification failed'')
     | Some dg \<Rightarrow> bnd uuid4 (\<lambda>i.
         let m = \<lparr>bm_id = i, bm_tenant_id = t, bm_source_digest = dg, bm_schema_version = schema, bm_created_at = now\<rparr> in
         seq (transaction (modify (save_backup_manifest m))) (ret m))))"

subsection \<open>Readiness\<close>

definition readiness_checks :: "string list" where
  "readiness_checks = [''tenant_isolation'', ''immutable_inputs'', ''deterministic_guards'',
     ''approval_revalidation'', ''recovery_backup'', ''external_contract_review'', ''operator_exit'']"

record readiness =
  rs_live_authorized :: bool
  rs_storage_ready :: bool
  rs_discovery :: bool
  rs_shadow :: bool
  rs_assisted :: bool
  rs_bounded :: bool
  rs_checks :: "(string \<times> bool) list"
  rs_next_action :: string

text \<open>\<open>storage\<close> is what the repository's readiness probe says, or \<open>None\<close> when it has none or fails.\<close>

definition evaluate_demo_readiness :: "bool option \<Rightarrow> bool \<Rightarrow> json \<Rightarrow> readiness" where
  "evaluate_demo_readiness storage live_authorized evidence =
     (let checks = map (\<lambda>k. (k, jget evidence k = Some (JBool True))) readiness_checks;
          ok = (\<lambda>k. map_of checks k = Some True);
          storage_ready = (storage = Some True);
          discovery = (storage_ready \<and> ok ''tenant_isolation'' \<and> ok ''immutable_inputs'');
          shadow = (discovery \<and> ok ''deterministic_guards'');
          assisted = (shadow \<and> ok ''approval_revalidation'');
          bounded = (assisted \<and> ok ''recovery_backup'' \<and> ok ''external_contract_review'' \<and> ok ''operator_exit'')
      in \<lparr>rs_live_authorized = False, rs_storage_ready = storage_ready, rs_discovery = discovery,
          rs_shadow = shadow, rs_assisted = assisted, rs_bounded = bounded, rs_checks = checks,
          rs_next_action = (if bounded then ''explicit_master_decision'' else ''manual_review'')\<rparr>)"

subsection \<open>What the calls write and return\<close>

lemma acts_save_stop_control [acts_rules]:
  "sc_tenant_id v = t \<Longrightarrow> T_stop_controls \<in> L \<Longrightarrow> acts h t L (modify (save_stop_control v)) (\<lambda>_. True)"
  by (rule acts_modify) (auto simp: save_stop_control_def intro!: writes_one W_stop_controls)

lemma acts_save_backup_manifest [acts_rules]:
  "bm_tenant_id v = t \<Longrightarrow> T_backup_manifests \<in> L \<Longrightarrow> acts h t L (modify (save_backup_manifest v)) (\<lambda>_. True)"
  by (rule acts_modify) (auto simp: save_backup_manifest_def intro!: writes_one W_backup_manifests)

lemma acts_set_demo_stop:
  "{T_stop_controls, T_audit_events} \<subseteq> L \<Longrightarrow> acts h (ctx_tenant_id ctx) L (set_demo_stop ctx scope ref stopped reason) (\<lambda>_. True)"
  unfolding set_demo_stop_def Let_def by (rule acts_rules TrueI | simp)+

lemma acts_backup_demo_sqlite:
  "T_backup_manifests \<in> L \<Longrightarrow> acts h t L (backup_demo_sqlite e c n now t) (\<lambda>_. True)"
  unfolding backup_demo_sqlite_def Let_def by (rule acts_rules TrueI | simp)+

lemma stop_keys: "wf_repo r \<Longrightarrow> dget (stop_controls r) (t, a, b) = Some u \<Longrightarrow> sc_scope_type u = a \<and> sc_scope_ref u = b"
  using keyed_dget [where d = "stop_controls r"] wf_tableD [of r T_stop_controls] by fastforce

lemma set_demo_stop_ok:
  assumes "set_demo_stop ctx scope ref stopped reason s = (Inr v, s')"
  shows "scope \<in> {''global'', ''tenant'', ''connection''} \<and> sc_tenant_id v = ctx_tenant_id ctx \<and> sc_scope_type v = scope
     \<and> sc_scope_ref v = ref \<and> sc_stopped v = stopped
     \<and> stop_controls (db s') = dset (ctx_tenant_id ctx, scope, ref) v (stop_controls (db s))"
  using assms by (auto simp: set_demo_stop_def Let_def svc_ok require_ok audit_ok save_stop_control_def)

text \<open>
  C22: A stop takes effect at once and only where it is meant: after a tenant's or a global
  stop every connection of the tenant is stopped, after a connection's stop that connection
  is, and lifting one connection's stop leaves every other stop in force.
\<close>

theorem stop_takes_effect:
  assumes "wf_repo (db s)" and run: "set_demo_stop ctx scope ref stopped reason s = (Inr v, s')"
  shows "(stopped \<longrightarrow> scope \<in> {''global'', ''tenant''} \<longrightarrow> demo_stop_active (ctx_tenant_id ctx) c (db s'))
       \<and> (stopped \<longrightarrow> scope = ''connection'' \<longrightarrow> demo_stop_active (ctx_tenant_id ctx) ref (db s'))
       \<and> (scope = ''connection'' \<longrightarrow> c \<noteq> ref \<longrightarrow>
            demo_stop_active (ctx_tenant_id ctx) c (db s') = demo_stop_active (ctx_tenant_id ctx) c (db s))"
proof -
  note v = set_demo_stop_ok [OF run]
  let ?t = "ctx_tenant_id ctx"
  have stored: "v \<in> set (stop_controls_for ?t (db s'))"
    using v rows_dset_in [of "(?t, scope, ref)" ?t v] by (simp add: stop_controls_for_def)
  have other: "scope = ''connection'' \<Longrightarrow> c \<noteq> ref \<Longrightarrow> demo_stop_active ?t c (db s') = demo_stop_active ?t c (db s)"
    unfolding demo_stop_active_def stop_controls_for_def
    using v assms(1) by (simp del: list_ex_iff) (rule rows_dset_ex, auto dest: stop_keys)
  show ?thesis
    using v stored other by (auto simp: demo_stop_active_def list_ex_iff)
qed

lemma demo_stop_run:
  "\<exists>v s'. set_demo_stop demo_master ''connection'' ''c1'' True ''maintenance'' demo_tenant = (Inr v, s')"
  using demo_tenant_tables
  by (simp add: set_demo_stop_def Let_def op_simps audit_run require_def membership_of_def get_membership_def
      demo_master_def new_membership_def member_capabilities_def blank_def strip_printable printable_def)

theorem stop_takes_effect_witness:
  "\<exists>v s'. set_demo_stop demo_master ''connection'' ''c1'' True ''maintenance'' demo_tenant = (Inr v, s')
     \<and> demo_stop_active ''u0'' ''c1'' (db s')"
proof -
  obtain v s' where run: "set_demo_stop demo_master ''connection'' ''c1'' True ''maintenance'' demo_tenant = (Inr v, s')"
    using demo_stop_run by blast
  with stop_takes_effect [OF demo_tenant_wf run] show ?thesis by (auto simp: demo_master_def)
qed

text \<open>
  Readiness is fail-closed: no input grants live authority, each stage needs the one
  before it and storage that answered ready, and the last one needs every check.
\<close>

lemma readiness_fail_closed:
  "let r = evaluate_demo_readiness storage live evidence in
     \<not> rs_live_authorized r \<and> (rs_bounded r \<longrightarrow> rs_assisted r) \<and> (rs_assisted r \<longrightarrow> rs_shadow r)
     \<and> (rs_shadow r \<longrightarrow> rs_discovery r) \<and> (rs_discovery r \<longrightarrow> storage = Some True)
     \<and> (rs_bounded r \<longleftrightarrow> storage = Some True \<and> (\<forall>k \<in> set readiness_checks. jget evidence k = Some (JBool True)))"
  by (auto simp: evaluate_demo_readiness_def Let_def readiness_checks_def)

end
