(* ===== verification/Purchasing.thy ===== *)
theory Purchasing
  imports Orders Safety
begin

section \<open>Purchase orders, cancellation, tracking\<close>

text \<open>
  order02.py, order03.py and the decision of linked commands (\<open>decide\<close> of service.py).  A
  purchase order is approved together with its command, submitted only while that approval
  holds, reconciled with the supplier's answer once, and cancelled with its order.
\<close>

subsection \<open>Verifying a purchase order\<close>

definition check_purchase_line :: "string \<Rightarrow> supplier_purchase_order \<Rightarrow> channel_order \<Rightarrow> routing_decision list \<Rightarrow>
    purchase_line \<Rightarrow> (string \<times> int \<times> int) svc" where
  "check_purchase_line t po order ds l =
     ensure (case map_of (rev (map (\<lambda>d. (rd_order_line_id d, d)) ds)) (pu_order_line_id l) of None \<Rightarrow> False
         | Some d \<Rightarrow> rd_supplier_id d = po_supplier_id po \<and> rd_quantity d = pu_quantity l
             \<and> rd_unit_cost_minor d = pu_unit_cost_minor l)
       (ConflictError ''purchase routing changed; approval must be renewed'') (
     bnd (query (order_lines_for t (co_id order))) (\<lambda>ols.
     ensure (case first (\<lambda>x. ol_id x = pu_order_line_id l) ols of None \<Rightarrow> False | Some x \<Rightarrow> ol_routed_status x = ''routed'')
       (ConflictError ''order line routing is no longer valid'') (
     ret (pu_order_line_id l, pu_quantity l, pu_unit_cost_minor l))))"

text \<open>\<open>_routed_payload\<close>.\<close>

definition routed_payload :: "tenant_context \<Rightarrow> supplier_purchase_order \<Rightarrow> channel_order \<Rightarrow> json svc" where
  "routed_payload ctx po order = (let t = ctx_tenant_id ctx in
     bnd (reads (purchase_lines_for t (po_id po))) (\<lambda>lines.
     bnd (query (routing_for t (co_id order))) (\<lambda>ds.
     bnd (mapM (check_purchase_line t po order ds) lines) (\<lambda>expected.
     ret (purchase_payload (co_id order) (po_supplier_id po) expected)))))"

text \<open>\<open>_digest\<close> of these modules refuses non-finite floats.\<close>

definition finite_digest :: "json \<Rightarrow> string svc" where
  "finite_digest v = ensure (finite_json v) (ValueError ''Out of range float values are not JSON compliant'') (digest v)"

text \<open>\<open>_verify_po\<close>.\<close>

definition verify_po :: "tenant_context \<Rightarrow> string \<Rightarrow> (supplier_purchase_order \<times> channel_order \<times> command \<times> approval) svc" where
  "verify_po ctx pid = (let t = ctx_tenant_id ctx in
     bnd (query (get_purchase_order t pid)) (\<lambda>po.
     ensure (po_status po = PO_APPROVAL_PENDING) (ConflictError ''purchase order is not awaiting approval'') (
     bnd (of_sum (need (po_approval_command_id po) (ConflictError ''purchase order is not awaiting approval'') Inr)) (\<lambda>cid.
     bnd (query (get_channel_order t (po_channel_order_id po))) (\<lambda>order.
     ensure (co_status order = Ord_PO_PENDING) (ConflictError ''order changed; purchase approval must be renewed'') (
     bnd (routed_payload ctx po order) (\<lambda>expected.
     bnd (query (get_command t cid)) (\<lambda>c.
     bnd (query (get_approval_for_command t (cmd_id c))) (\<lambda>a.
     bnd (finite_digest (cmd_payload c)) (\<lambda>d1. bnd (finite_digest expected) (\<lambda>d2.
     ensure (d1 = d2 \<and> cmd_state c = Cmd_AWAITING_APPROVAL \<and> ap_state a = Apr_PENDING)
       (ConflictError ''purchase approval intent no longer matches PO'') (
     bnd (reads (get_approval_intent t (cmd_id c))) (\<lambda>i.
     ensure (case i of None \<Rightarrow> False | Some v \<Rightarrow> ai_target_version v = co_version order)
       (ConflictError ''purchase approval target version is stale'') (
     ret (po, order, c, a)))))))))))))))"

subsection \<open>Deciding\<close>

definition approve_demo_po :: "tenant_context \<Rightarrow> string \<Rightarrow> bool \<Rightarrow> string \<Rightarrow> supplier_purchase_order svc" where
  "approve_demo_po ctx pid approve reason = (let t = ctx_tenant_id ctx; u = ctx_user_id ctx;
       action = (if approve then ''purchase_order.approved'' else ''purchase_order.rejected'') in
     seq (require ctx Cap_APPROVE_PURCHASE) (
     ensure (\<not> blank reason) (ConflictError ''approval decision and reason are required'') (
     bnd (transaction (
       seq (require ctx Cap_APPROVE_PURCHASE) (
       bnd (verify_po ctx pid) (\<lambda>(po, order, c, a).
       bnd (decide_in ctx (cmd_id c) approve reason) (\<lambda>(_, expired).
       if expired then ret (po, True) else
       let po' = po\<lparr>po_status := (if approve then PO_APPROVED else PO_CANCELLED), po_version := po_version po + 1\<rparr> in
       seq (mutate (update_purchase_order po' (po_version po))) (
       bnd clock (\<lambda>now.
       seq (audit t u action (po_id po') ''succeeded'' (JObj [(''command_id'', JStr (cmd_id c))])) (
       seq (enqueue t action (po_id po')
              (JObj [(''purchase_order_id'', JStr (po_id po')), (''command_id'', JStr (cmd_id c)),
                     (''state'', JStr (purchase_order_state_value (po_status po')))])
              (''po:'' @ po_id po' @ '':'' @ purchase_order_state_value (po_status po')) now) (
       ret (po', False)))))))))) (\<lambda>(po, expired).
     ensure (\<not> expired) (ConflictError ''approval expired'') (ret po)))))"

text \<open>\<open>decide\<close>: a probe of another tenant's command is recorded, then refused.\<close>

definition decide :: "tenant_context \<Rightarrow> string \<Rightarrow> bool \<Rightarrow> string \<Rightarrow> approval svc" where
  "decide ctx cid approve reason = (let t = ctx_tenant_id ctx in
     bnd (catch (query (get_command t cid)) (\<lambda>e.
       if is_authorization e then seq (transaction (audit t (ctx_user_id ctx) ''command.cross_tenant_access''
           ''redacted'' ''blocked'' (JObj []))) (throw e)
       else throw e)) (\<lambda>c.
     case (if cmd_kind c = Kind_PURCHASE then js_str (jget (cmd_payload c) ''order_id'') else None) of
       None \<Rightarrow> decide_unlinked ctx cid approve reason
     | Some oid \<Rightarrow> bnd (query (purchase_orders_for t oid)) (\<lambda>pos.
         case first (\<lambda>p. po_approval_command_id p = Some cid) pos of
           None \<Rightarrow> decide_unlinked ctx cid approve reason
         | Some p \<Rightarrow> seq (void (approve_demo_po ctx (po_id p) approve reason)) (query (get_approval_for_command t cid)))))"

subsection \<open>Renewing and submitting\<close>

definition renewable :: "supplier_purchase_order \<Rightarrow> approval \<Rightarrow> bool svc" where
  "renewable po a =
     (if po_status po = PO_CANCELLED then ret (ap_state a \<in> {Apr_REJECTED, Apr_EXPIRED})
      else if po_status po = PO_APPROVAL_PENDING then
        (if ap_state a = Apr_EXPIRED then ret True else bnd clock (\<lambda>now. ret (now \<ge> ap_expires_at a)))
      else if po_status po = PO_APPROVED then bnd clock (\<lambda>now. ret (now \<ge> ap_expires_at a))
      else ret False)"

definition regenerate_demo_po :: "tenant_context \<Rightarrow> string \<Rightarrow> string \<Rightarrow> int \<Rightarrow> supplier_purchase_order svc" where
  "regenerate_demo_po ctx pid reason expected = (let t = ctx_tenant_id ctx in
     seq (require ctx Cap_TENANT_ADMIN) (
     ensure (\<not> blank reason) (ConflictError ''regeneration reason and PO version are required'') (
     transaction (
       bnd (query (get_purchase_order t pid)) (\<lambda>po.
       ensure (po_version po = expected) (ConflictError ''purchase order version conflict'') (
       bnd (query (get_channel_order t (po_channel_order_id po))) (\<lambda>order.
       ensure (co_status order = Ord_PO_PENDING) (ConflictError ''order is not awaiting purchase; regeneration refused'') (
       bnd (of_sum (need (po_approval_command_id po) (ConflictError ''purchase order has no approval to renew'') Inr)) (\<lambda>prior.
       bnd (query (get_approval_for_command t prior)) (\<lambda>previous.
       bnd (renewable po previous) (\<lambda>ok.
       ensure ok (ConflictError ''purchase order approval is still usable or the PO is past approval'') (
       bnd (routed_payload ctx po order) (\<lambda>payload.
       bnd (request_approval ctx Kind_PURCHASE (''po:'' @ co_id order @ '':'' @ po_supplier_id po) payload
              (po_idempotency_key po @ '':approval:v'' @ show_int (po_version po + 1)) 1 (co_version order) []) (\<lambda>(c, _).
       let po' = po\<lparr>po_status := PO_APPROVAL_PENDING, po_approval_command_id := Some (cmd_id c),
                    po_version := po_version po + 1\<rparr> in
       seq (mutate (update_purchase_order po' expected)) (
       bnd clock (\<lambda>now.
       seq (audit t (ctx_user_id ctx) ''purchase_order.regenerated'' (po_id po') ''succeeded''
              (JObj [(''reason'', JStr reason), (''previous_command_id'', JStr prior), (''command_id'', JStr (cmd_id c))])) (
       seq (enqueue t ''purchase_order.regenerated'' (po_id po')
              (JObj [(''purchase_order_id'', JStr (po_id po')), (''command_id'', JStr (cmd_id c)),
                     (''previous_command_id'', JStr prior)])
              (''po:'' @ po_id po' @ '':regenerated:v'' @ show_int (po_version po')) now) (
       ret po'))))))))))))))))))"

definition submit_demo_po :: "tenant_context \<Rightarrow> string \<Rightarrow> supplier_purchase_order svc" where
  "submit_demo_po ctx pid = (let t = ctx_tenant_id ctx in
     seq (require ctx Cap_TENANT_ADMIN) (
     transaction (
       bnd (query (get_purchase_order t pid)) (\<lambda>po.
       ensure (po_status po = PO_APPROVED) (ConflictError ''only an approved PO can be submitted'') (
       bnd (of_sum (need (po_approval_command_id po) (ConflictError ''only an approved PO can be submitted'') Inr)) (\<lambda>cid.
       bnd (query (get_channel_order t (po_channel_order_id po))) (\<lambda>order.
       bnd (reads (demo_stop_active t (co_channel_id order))) (\<lambda>stopped.
       ensure (\<not> stopped) (ConflictError ''DEMO scope stopped'') (
       bnd (query (get_command t cid)) (\<lambda>c.
       bnd (query (get_approval_for_command t (cmd_id c))) (\<lambda>a.
       bnd (reads (get_approval_intent t (cmd_id c))) (\<lambda>intent.
       bnd clock (\<lambda>now.
       ensure (co_status order = Ord_PO_PENDING \<and> ap_state a = Apr_APPROVED \<and> intent \<noteq> None \<and> now < ap_expires_at a)
         (ConflictError ''approved PO is no longer executable'') (
       seq (void (prepare_execution ctx (cmd_id c) (case intent of Some i \<Rightarrow> ai_policy_version i | None \<Rightarrow> 0) (co_version order))) (
       let po' = po\<lparr>po_status := PO_SUBMITTED, po_version := po_version po + 1\<rparr> in
       seq (mutate (update_purchase_order po' (po_version po))) (
       seq (audit t (ctx_user_id ctx) ''purchase_order.submitted_demo'' (po_id po') ''succeeded''
              (JObj [(''mode'', JStr ''DEMO'')])) (
       seq (enqueue t ''purchase_order.submitted'' (po_id po')
              (JObj [(''purchase_order_id'', JStr (po_id po')), (''mode'', JStr ''DEMO'')])
              (''po:'' @ po_id po' @ '':submitted'') now) (
       ret po'))))))))))))))))))"

subsection \<open>The supplier's answer\<close>

text \<open>
  The response mapping: its keys, and the values it has under the three allowed ones.  An
  absent value and \<open>None\<close> are the same to the code, except that \<open>status\<close> must be a key.
\<close>

record demo_po_response =
  rsp_keys :: "string list"
  rsp_status :: "json option"
  rsp_reference :: "json option"
  rsp_observed :: "stamp option"

definition allowed_reference :: "json option \<Rightarrow> bool" where
  "allowed_reference v \<longleftrightarrow> v = None \<or> v = Some JNull \<or> (case js_str v of Some x \<Rightarrow> opaque x | None \<Rightarrow> False)"

definition reconcile_demo_po :: "tenant_context \<Rightarrow> string \<Rightarrow> demo_po_response \<Rightarrow> (supplier_purchase_order \<times> bool) svc" where
  "reconcile_demo_po ctx pid rsp = (let t = ctx_tenant_id ctx in
     seq (require ctx Cap_TENANT_ADMIN) (
     ensure (set (rsp_keys rsp) \<subseteq> {''status'', ''provider_reference'', ''observed_at''} \<and> ''status'' \<in> set (rsp_keys rsp))
       (ConflictError ''invalid DEMO PO response'') (
     bnd (of_sum (need (that (\<lambda>x. x \<in> {''ACKNOWLEDGED'', ''REJECTED'', ''UNKNOWN''}) (js_str (rsp_status rsp)))
            (ConflictError ''unsupported DEMO PO response status'') Inr)) (\<lambda>status.
     ensure (allowed_reference (rsp_reference rsp)) (ConflictError ''invalid provider reference'') (
     bnd (case rsp_observed rsp of None \<Rightarrow> bnd clock (\<lambda>now. ret (Aware now)) | Some x \<Rightarrow> ret x) (\<lambda>observed.
     ensure (is_aware observed) (ConflictError ''response observed_at must be timezone aware'') (
     let ref = js_str (rsp_reference rsp) in
     bnd (digest (JObj [(''status'', JStr status), (''provider_reference'', opt_str ref),
                        (''observed_at'', JStr (isoformat (instant observed)))])) (\<lambda>dg.
     transaction (
       bnd (query (get_purchase_order t pid)) (\<lambda>po.
       ensure (po_status po \<in> {PO_SUBMITTED, PO_ACKNOWLEDGED, PO_EXCEPTION}) (ConflictError ''PO response is not applicable'') (
       if po_last_response_digest po = Some dg then ret (po, True) else
       ensure (po_last_response_digest po = None) (ConflictError ''PO response conflicts with recorded evidence'') (
       if status = ''UNKNOWN'' then ret (po, False) else
       let po' = po\<lparr>po_status := (if status = ''ACKNOWLEDGED'' then PO_ACKNOWLEDGED else PO_EXCEPTION),
                    po_provider_reference := ref, po_last_response_digest := Some dg,
                    po_last_observed_at := Some (instant observed), po_version := po_version po + 1\<rparr> in
       seq (mutate (update_purchase_order po' (po_version po))) (
       seq (audit t (ctx_user_id ctx) ''purchase_order.response_reconciled'' (po_id po') ''succeeded''
              (JObj [(''status'', JStr status), (''response_digest'', JStr dg)])) (
       seq (enqueue t ''purchase_order.response_reconciled'' (po_id po')
              (JObj [(''purchase_order_id'', JStr (po_id po')), (''status'', JStr status), (''response_digest'', JStr dg)])
              (''po:'' @ po_id po' @ '':response:'' @ dg) (instant observed)) (
       ret (po', False))))))))))))))))"

subsection \<open>Cancelling an order\<close>

definition cancel_purchase :: "tenant_context \<Rightarrow> string \<Rightarrow> time \<Rightarrow> supplier_purchase_order \<Rightarrow> unit svc" where
  "cancel_purchase ctx reason now po =
     (if po_status po \<in> {PO_APPROVAL_PENDING, PO_APPROVED} then
        mutate (update_purchase_order (po\<lparr>po_status := PO_CANCELLED, po_version := po_version po + 1\<rparr>) (po_version po))
      else if po_status po \<in> {PO_SUBMITTED, PO_ACKNOWLEDGED} then
        seq (mutate (update_purchase_order (po\<lparr>po_status := PO_CANCEL_REQUESTED, po_version := po_version po + 1\<rparr>) (po_version po))) (
        enqueue (ctx_tenant_id ctx) ''purchase_order.cancel_requested'' (po_id po)
          (JObj [(''purchase_order_id'', JStr (po_id po)), (''reason'', JStr reason), (''mode'', JStr ''DEMO'')])
          (''po:'' @ po_id po @ '':cancel-requested'') now)
      else ret ())"

definition request_demo_cancel :: "tenant_context \<Rightarrow> string \<Rightarrow> string \<Rightarrow> int \<Rightarrow> (channel_order \<times> bool) svc" where
  "request_demo_cancel ctx oid reason expected = (let t = ctx_tenant_id ctx in
     seq (require ctx Cap_TENANT_ADMIN) (
     ensure (\<not> blank reason) (ConflictError ''cancellation reason and version are required'') (
     transaction (
       bnd (query (get_channel_order t oid)) (\<lambda>order.
       if co_status order = Ord_CANCELLED then ret (order, True) else
       ensure (co_version order = expected \<and> co_status order = Ord_PO_PENDING)
         (ConflictError ''order cancellation version/state conflict'') (
       bnd (query (purchase_orders_for t (co_id order))) (\<lambda>pos.
       let order' = order\<lparr>co_status := Ord_CANCELLED, co_version := co_version order + 1\<rparr> in
       seq (mutate (update_channel_order order' expected)) (
       bnd clock (\<lambda>now.
       seq (foreach pos (cancel_purchase ctx reason now)) (
       seq (audit t (ctx_user_id ctx) ''order.cancelled'' (co_id order') ''succeeded'' (JObj [(''reason'', JStr reason)])) (
       seq (enqueue t ''order.cancelled'' (co_id order')
              (JObj [(''order_id'', JStr (co_id order')), (''mode'', JStr ''DEMO'')])
              (''order:'' @ co_id order' @ '':cancelled'') now) (
       ret (order', False)))))))))))))"

subsection \<open>Tracking\<close>

definition tracking_rows :: "string \<Rightarrow> string \<Rightarrow> repo \<Rightarrow> tracking_observation list" where
  "tracking_rows t l r = (case dget (tracking_observations r) (t, l) of None \<Rightarrow> [] | Some xs \<Rightarrow> xs)"

definition tracking_observation_for :: "string \<Rightarrow> string \<Rightarrow> string \<Rightarrow> string \<Rightarrow> repo \<Rightarrow> tracking_observation option" where
  "tracking_observation_for t l key status r =
     first (\<lambda>x. (trk_tracking_key x, trk_status x) = (key, status)) (tracking_rows t l r)"

definition save_tracking_observation :: "tracking_observation \<Rightarrow> repo \<Rightarrow> err + (tracking_observation \<times> repo)" where
  "save_tracking_observation v r = (let t = trk_tenant_id v; l = trk_order_line_id v in
     case tracking_observation_for t l (trk_tracking_key v) (trk_status v) r of
       Some p \<Rightarrow> if trk_response_digest p \<noteq> trk_response_digest v
         then Inl (ConflictError ''tracking identity reused with different content'') else Inr (p, r)
     | None \<Rightarrow> Inr (v, r\<lparr>tracking_observations := dset (t, l) (tracking_rows t l r @ [v]) (tracking_observations r)\<rparr>))"

definition tracking_for :: "string \<Rightarrow> string \<Rightarrow> repo \<Rightarrow> err + tracking_observation list" where
  "tracking_for t l r = (case get_order_line t l r of Inl e \<Rightarrow> Inl e | Inr _ \<Rightarrow> Inr (tracking_rows t l r))"

definition ingest_demo_tracking :: "tenant_context \<Rightarrow> string \<Rightarrow> string \<Rightarrow> string \<Rightarrow> stamp option \<Rightarrow> int option \<Rightarrow>
    (order_line \<times> bool) svc" where
  "ingest_demo_tracking ctx lid key status observed_at expected = (let t = ctx_tenant_id ctx in
     seq (require ctx Cap_TENANT_ADMIN) (
     ensure (opaque key \<and> status \<in> {''LABEL_CREATED'', ''IN_TRANSIT'', ''DELIVERED'', ''CANCELLED''})
       (ConflictError ''invalid DEMO tracking identity/status'') (
     bnd (case observed_at of None \<Rightarrow> bnd clock (\<lambda>now. ret (Aware now)) | Some x \<Rightarrow> ret x) (\<lambda>observed.
     ensure (is_aware observed) (ConflictError ''tracking timestamp must be timezone aware'') (
     bnd (digest (JObj [(''tracking_key'', JStr key), (''status'', JStr status)])) (\<lambda>dg.
     transaction (
       bnd (query (get_order_line t lid)) (\<lambda>line.
       bnd (query (get_channel_order t (ol_channel_order_id line))) (\<lambda>order.
       ensure (ol_routed_status line = ''routed'' \<and> co_status order \<in> {Ord_PO_PENDING, Ord_CANCELLED})
         (ConflictError ''tracking is not applicable to this order line'') (
       bnd (reads (tracking_observation_for t (ol_id line) key status)) (\<lambda>prior.
       if prior \<noteq> None then ret (line, True) else
       ensure (expected = None \<or> expected = Some (ol_version line)) (ConflictError ''order line version conflict'') (
       bnd uuid4 (\<lambda>i.
       bnd (mutate (save_tracking_observation \<lparr>trk_id = i, trk_tenant_id = t, trk_order_line_id = ol_id line,
              trk_tracking_key = key, trk_status = status, trk_observed_at = instant observed, trk_response_digest = dg\<rparr>)) (\<lambda>obs.
       let line' = line\<lparr>ol_tracking_key := Some key, ol_tracking_status := Some status,
                        ol_tracking_version := ol_tracking_version line + 1,
                        ol_tracking_observed_at := Some (instant observed), ol_version := ol_version line + 1\<rparr> in
       seq (mutate (update_order_line line' (ol_version line))) (
       seq (audit t (ctx_user_id ctx) ''tracking.observed'' (ol_id line') ''succeeded''
              (JObj [(''status'', JStr status), (''response_digest'', JStr (trk_response_digest obs))])) (
       seq (enqueue t ''tracking.observed'' (ol_id line')
              (JObj [(''order_line_id'', JStr (ol_id line')), (''tracking_key'', JStr key), (''status'', JStr status),
                     (''response_digest'', JStr dg)])
              (''tracking:'' @ ol_id line' @ '':'' @ key @ '':'' @ status) (instant observed)) (
       ret (line', False))))))))))))))))))"

subsection \<open>What the calls write\<close>

lemma acts_finite_digest [acts_rules]: "acts h t L (finite_digest v) (\<lambda>_. True)"
  unfolding finite_digest_def by (rule acts_rules TrueI)+

lemma acts_routed_payload [acts_rules]: "acts h t L (routed_payload ctx po order) (\<lambda>_. True)"
  unfolding routed_payload_def check_purchase_line_def Let_def by (rule acts_rules TrueI)+

lemma acts_verify_po:
  "acts h t L (verify_po ctx pid) (\<lambda>(po, order, c, a). po_tenant_id po = ctx_tenant_id ctx)"
  unfolding verify_po_def Let_def
  by (rule acts_bnd [OF acts_get_purchase_order] acts_rules | simp)+

abbreviation purchase_tables :: "table set" where
  "purchase_tables \<equiv> insert T_purchase_orders approval_tables"

lemma acts_approve_demo_po:
  "purchase_tables \<subseteq> L \<Longrightarrow> acts h (ctx_tenant_id ctx) L (approve_demo_po ctx pid approve reason) (\<lambda>_. True)"
  unfolding approve_demo_po_def Let_def
  by (rule acts_bnd [OF acts_verify_po] acts_bnd_any [OF acts_decide_in] acts_rules TrueI | simp add: split_paired_all)+

lemma acts_decide:
  "purchase_tables \<subseteq> L \<Longrightarrow> acts h (ctx_tenant_id ctx) L (decide ctx cid approve reason) (\<lambda>_. True)"
  unfolding decide_def Let_def
  by (rule acts_approve_demo_po acts_decide_unlinked acts_rules TrueI | simp)+

lemma acts_renewable [acts_rules]: "acts h t L (renewable po a) (\<lambda>_. True)"
  unfolding renewable_def by (rule acts_rules TrueI)+

lemma acts_regenerate_demo_po:
  "insert T_approval_intents purchase_tables \<subseteq> L \<Longrightarrow>
     acts h (ctx_tenant_id ctx) L (regenerate_demo_po ctx pid reason n) (\<lambda>_. True)"
  unfolding regenerate_demo_po_def Let_def
  by (rule acts_bnd [OF acts_get_purchase_order] acts_bnd_any [OF acts_any [OF acts_request_approval]]
      acts_rules TrueI | simp)+

lemma acts_submit_demo_po:
  "{T_purchase_orders, T_execution_preparations, T_audit_events, T_outbox} \<subseteq> L \<Longrightarrow>
     acts h (ctx_tenant_id ctx) L (submit_demo_po ctx pid) (\<lambda>_. True)"
  unfolding submit_demo_po_def Let_def
  by (rule acts_bnd [OF acts_get_purchase_order] acts_prepare_execution acts_rules TrueI | simp)+

lemma acts_reconcile_demo_po:
  "{T_purchase_orders, T_audit_events, T_outbox} \<subseteq> L \<Longrightarrow>
     acts h (ctx_tenant_id ctx) L (reconcile_demo_po ctx pid rsp) (\<lambda>_. True)"
  unfolding reconcile_demo_po_def Let_def
  by (rule acts_bnd [OF acts_get_purchase_order] acts_rules TrueI | simp)+

lemma acts_cancel_purchase:
  "po_tenant_id po = ctx_tenant_id ctx \<Longrightarrow> {T_purchase_orders, T_outbox} \<subseteq> L \<Longrightarrow>
     acts h (ctx_tenant_id ctx) L (cancel_purchase ctx reason now po) (\<lambda>_. True)"
  unfolding cancel_purchase_def by (rule acts_rules TrueI | simp)+

lemma acts_request_demo_cancel:
  assumes "{T_channel_orders, T_purchase_orders, T_audit_events, T_outbox} \<subseteq> L"
  shows "acts h (ctx_tenant_id ctx) L (request_demo_cancel ctx oid reason n) (\<lambda>_. True)"
proof -
  have pos: "acts h (ctx_tenant_id ctx) L (foreach pos (cancel_purchase ctx reason now)) (\<lambda>_. True)"
    if "list_all (\<lambda>p. po_tenant_id p = ctx_tenant_id ctx \<and> po_channel_order_id p = o') pos" for pos now o'
    using that assms by (auto simp: list_all_iff intro!: acts_foreach acts_cancel_purchase)
  show ?thesis
    unfolding request_demo_cancel_def Let_def using assms
    by - (rule acts_bnd [OF acts_get_channel_order] acts_bnd [OF acts_purchase_orders_for] pos acts_rules TrueI
        | assumption | simp)+
qed

lemma acts_save_tracking_observation [acts_rules]:
  assumes "trk_tenant_id v = t" "T_tracking_observations \<in> L"
  shows "acts h t L (mutate (save_tracking_observation v)) (\<lambda>_. True)"
proof (rule acts_mutate)
  fix r o' r' assume wf: "wf_repo r" and ok: "save_tracking_observation v r = Inr (o', r')"
  have kl: "keyed_lists (\<lambda>v. (trk_tenant_id v, trk_order_line_id v)) (tracking_observations r)"
    using wf_tableD [OF wf, of T_tracking_observations] by simp
  have "trk_tenant_id x = t \<and> trk_order_line_id x = l" if "x \<in> set (tracking_rows t l r)" for x l
    using that keyed_lists_dget [OF kl, of "(t, l)" _ x]
    by (cases "dget (tracking_observations r) (t, l)") (simp_all add: tracking_rows_def)
  then show "writes h t L r r' \<and> True"
    using ok assms
    by (auto simp: save_tracking_observation_def Let_def split: option.splits if_splits
        intro!: writes_one W_tracking_observations)
qed

lemma acts_ingest_demo_tracking:
  "{T_order_lines, T_tracking_observations, T_audit_events, T_outbox} \<subseteq> L \<Longrightarrow>
     acts h (ctx_tenant_id ctx) L (ingest_demo_tracking ctx lid key status at n) (\<lambda>_. True)"
  unfolding ingest_demo_tracking_def Let_def
  by (rule acts_bnd [OF acts_get_order_line] acts_rules TrueI | simp)+

end
