(* ===== verification/Purchasing_Laws.thy ===== *)
theory Purchasing_Laws
  imports Purchasing
begin

section \<open>Laws of purchase orders\<close>

text \<open>
  A purchase order is submitted only on a live approval of exactly its content, at most once;
  cancelling an order leaves none of its purchase orders submittable; and what happens to a
  purchase order whose approval is renewed.
\<close>

subsection \<open>Submission\<close>

lemma get_purchase_order_ok:
  "get_purchase_order t i r = Inr v \<longleftrightarrow> dget (purchase_orders r) (t, i) = Some v"
  by (auto simp: get_purchase_order_def split: option.splits)

lemma get_channel_order_ok:
  "get_channel_order t i r = Inr v \<longleftrightarrow> dget (channel_orders r) (t, i) = Some v"
  by (auto simp: get_channel_order_def split: option.splits)

lemma update_purchase_order_ok:
  "update_purchase_order v n r = Inr (u, r') \<longleftrightarrow>
     (\<exists>c. dget (purchase_orders r) (po_tenant_id v, po_id v) = Some c \<and> po_version c = n \<and> po_version v = n + 1)
     \<and> r' = r\<lparr>purchase_orders := dset (po_tenant_id v, po_id v) v (purchase_orders r)\<rparr>"
  by (auto simp: update_purchase_order_def get_purchase_order_def split: option.splits sum.splits if_splits)

lemma purchase_stored:
  "wf_repo r \<Longrightarrow> dget (purchase_orders r) (t, i) = Some v \<Longrightarrow> po_tenant_id v = t \<and> po_id v = i"
  using keyed_dget [where d = "purchase_orders r"] wf_tableD [of r T_purchase_orders] by fastforce

lemma prepare_keeps_purchases:
  assumes "prepare_execution ctx cid policy tv s = (x, s')" "wf_repo (db s)"
  shows "purchase_orders (db s') = purchase_orders (db s)"
proof -
  have "writes (sha256 s) (ctx_tenant_id ctx) {T_execution_preparations, T_audit_events, T_outbox} (db s) (db s')"
    using actsD(3) [OF acts_prepare_execution [OF subset_refl] refl assms(2,1)] .
  then show ?thesis using writes_frame [where x = T_purchase_orders] by fastforce
qed

lemma submit_demo_po_steps:
  assumes "submit_demo_po ctx pid s = (Inr po', s')"
  shows "\<exists>po cid order c a policy p u r ub. get_purchase_order (ctx_tenant_id ctx) pid (db s) = Inr po \<and> po_status po = PO_APPROVED
     \<and> po_approval_command_id po = Some cid \<and> get_channel_order (ctx_tenant_id ctx) (po_channel_order_id po) (db s) = Inr order
     \<and> co_status order = Ord_PO_PENDING \<and> \<not> demo_stop_active (ctx_tenant_id ctx) (co_channel_id order) (db s)
     \<and> get_command (ctx_tenant_id ctx) cid (db s) = Inr c
     \<and> get_approval_for_command (ctx_tenant_id ctx) (cmd_id c) (db s) = Inr a \<and> clock_src s (clock_ctr s) < ap_expires_at a
     \<and> prepare_execution ctx (cmd_id c) policy (co_version order) (s\<lparr>clock_ctr := Suc (clock_ctr s)\<rparr>) = (Inr p, u)
     \<and> po' = po\<lparr>po_status := PO_SUBMITTED, po_version := po_version po + 1\<rparr>
     \<and> update_purchase_order po' (po_version po) (db u) = Inr ((), r)
     \<and> audit (ctx_tenant_id ctx) (ctx_user_id ctx) ''purchase_order.submitted_demo'' (po_id po) ''succeeded''
          (JObj [(''mode'', JStr ''DEMO'')]) (u\<lparr>db := r\<rparr>) = (Inr (), ub)
     \<and> enqueue (ctx_tenant_id ctx) ''purchase_order.submitted'' (po_id po)
              (JObj [(''purchase_order_id'', JStr (po_id po)), (''mode'', JStr ''DEMO'')])
              (''po:'' @ po_id po @ '':submitted'') (clock_src s (clock_ctr s)) ub = (Inr (), s')"
  using assms unfolding submit_demo_po_def Let_def
  apply (simp add: svc_ok require_ok void_ok need_ok)
  apply (elim exE conjE disjE)
  apply (intro exI conjI)
  apply (rule refl | assumption | simp)+
  done

lemma submit_demo_po_ok:
  assumes "submit_demo_po ctx pid s = (Inr po', s')" and wf: "wf_repo (db s)"
  shows "\<exists>po cid order c a policy p u. dget (purchase_orders (db s)) (ctx_tenant_id ctx, pid) = Some po
     \<and> po_status po = PO_APPROVED \<and> po_approval_command_id po = Some cid
     \<and> dget (channel_orders (db s)) (ctx_tenant_id ctx, po_channel_order_id po) = Some order
     \<and> co_status order = Ord_PO_PENDING \<and> \<not> demo_stop_active (ctx_tenant_id ctx) (co_channel_id order) (db s)
     \<and> dget (commands (db s)) (ctx_tenant_id ctx, cid) = Some c
     \<and> dget (approvals (db s)) (ctx_tenant_id ctx, cid) = Some a \<and> clock_src s (clock_ctr s) < ap_expires_at a
     \<and> prepare_execution ctx cid policy (co_version order) (s\<lparr>clock_ctr := Suc (clock_ctr s)\<rparr>) = (Inr p, u)
     \<and> po' = po\<lparr>po_status := PO_SUBMITTED, po_version := po_version po + 1\<rparr>
     \<and> purchase_orders (db s') = dset (ctx_tenant_id ctx, pid) po' (purchase_orders (db s))"
proof -
  from submit_demo_po_steps [OF assms(1)] obtain po cid order c a policy p u r ub where
    steps: "get_purchase_order (ctx_tenant_id ctx) pid (db s) = Inr po" "po_status po = PO_APPROVED"
      "po_approval_command_id po = Some cid" "get_channel_order (ctx_tenant_id ctx) (po_channel_order_id po) (db s) = Inr order"
      "co_status order = Ord_PO_PENDING" "\<not> demo_stop_active (ctx_tenant_id ctx) (co_channel_id order) (db s)"
      "get_command (ctx_tenant_id ctx) cid (db s) = Inr c"
      "get_approval_for_command (ctx_tenant_id ctx) (cmd_id c) (db s) = Inr a" "clock_src s (clock_ctr s) < ap_expires_at a"
      "prepare_execution ctx (cmd_id c) policy (co_version order) (s\<lparr>clock_ctr := Suc (clock_ctr s)\<rparr>) = (Inr p, u)"
    and po': "po' = po\<lparr>po_status := PO_SUBMITTED, po_version := po_version po + 1\<rparr>"
    and upd: "update_purchase_order po' (po_version po) (db u) = Inr ((), r)"
    and ub: "audit (ctx_tenant_id ctx) (ctx_user_id ctx) ''purchase_order.submitted_demo'' (po_id po) ''succeeded''
          (JObj [(''mode'', JStr ''DEMO'')]) (u\<lparr>db := r\<rparr>) = (Inr (), ub)"
    and s': "enqueue (ctx_tenant_id ctx) ''purchase_order.submitted'' (po_id po)
              (JObj [(''purchase_order_id'', JStr (po_id po)), (''mode'', JStr ''DEMO'')])
              (''po:'' @ po_id po @ '':submitted'') (clock_src s (clock_ctr s)) ub = (Inr (), s')"
    by blast
  have "purchase_orders (db s') = purchase_orders r"
    using ub s' by (auto simp: audit_ok enqueue_ok Let_def append_audit_def put_event_def)
  with upd have "purchase_orders (db s') = dset (po_tenant_id po, po_id po) po' (purchase_orders (db u))"
    by (simp add: update_purchase_order_ok po')
  moreover have "purchase_orders (db u) = purchase_orders (db s)"
    using prepare_keeps_purchases [OF steps(10)] wf by simp
  moreover have "po_tenant_id po = ctx_tenant_id ctx" "po_id po = pid"
    using purchase_stored [OF wf] steps(1) by (auto simp: get_purchase_order_ok)
  moreover have "cmd_id c = cid" using get_command_keys [OF wf steps(7)] by simp
  moreover have "dget (approvals (db s)) (ctx_tenant_id ctx, cid) = Some a"
    using steps(7,8) \<open>cmd_id c = cid\<close> by (auto simp: get_command_ok get_approval_for_command_ok)
  ultimately show ?thesis
    using steps po' unfolding get_purchase_order_ok get_channel_order_ok get_command_ok by metis
qed


subsection \<open>Renewing an approval\<close>

text \<open>Outbox keys are never freed.\<close>

lemma key_kept:
  assumes "writes h t L r r'" "dget (outbox_idempotency r) k \<noteq> None"
  shows "dget (outbox_idempotency r') k \<noteq> None"
  using assms
proof (rule writes_inv)
  fix l and a b :: repo
  assume "repo_write h t l a b" "dget (outbox_idempotency a) k \<noteq> None"
  then show "dget (outbox_idempotency b) k \<noteq> None"
    by cases (auto simp: dget_dset append_audit_def)
qed

lemma acts_key_kept:
  assumes "acts h t L m Q" "m s = (x, s')" "wf_repo (db s)" "sha256 s = h" "dget (outbox_idempotency (db s)) k \<noteq> None"
  shows "dget (outbox_idempotency (db s')) k \<noteq> None"
  using actsD(3) [OF assms(1,4,3,2)] assms(5) by (rule key_kept)

definition decided_key :: "string \<Rightarrow> bool \<Rightarrow> string" where
  "decided_key pid approve = ''po:'' @ pid @ '':'' @ purchase_order_state_value (if approve then PO_APPROVED else PO_CANCELLED)"

lemma approve_demo_po_steps:
  assumes "approve_demo_po ctx pid approve reason s = (Inr po', s')"
  shows "\<exists>po order c a u0 d u1 r u2 action meta topic payload now u3. verify_po ctx pid s = (Inr (po, order, c, a), u0)
     \<and> decide_in ctx (cmd_id c) approve reason u0 = (Inr (d, False), u1)
     \<and> po' = po\<lparr>po_status := (if approve then PO_APPROVED else PO_CANCELLED), po_version := po_version po + 1\<rparr>
     \<and> update_purchase_order po' (po_version po) (db u1) = Inr ((), r)
     \<and> audit (ctx_tenant_id ctx) (ctx_user_id ctx) action (po_id po) ''succeeded'' meta u2 = (Inr (), u3) \<and> db u2 = r
     \<and> enqueue (ctx_tenant_id ctx) topic (po_id po) payload (decided_key (po_id po) approve) now u3 = (Inr (), s')"
proof (cases approve)
  case True
  with assms show ?thesis unfolding approve_demo_po_def Let_def decided_key_def
    apply (simp add: svc_ok require_ok split_paired_Ex branch_ok del: split_paired_All)
    apply (elim exE conjE disjE)
     apply simp
    apply clarify
    apply (intro exI conjI)
    apply (rule refl | assumption | simp)+
    done
next
  case False
  with assms show ?thesis unfolding approve_demo_po_def Let_def decided_key_def
    apply (simp add: svc_ok require_ok split_paired_Ex branch_ok del: split_paired_All)
    apply (elim exE conjE disjE)
     apply simp
    apply clarify
    apply (intro exI conjI)
    apply (rule refl | assumption | simp)+
    done
qed

lemma verify_po_stored:
  "verify_po ctx pid s = (Inr (po, order, c, a), u) \<Longrightarrow> dget (purchase_orders (db s)) (ctx_tenant_id ctx, pid) = Some po"
  by (auto simp: verify_po_def Let_def svc_ok finite_digest_def need_ok get_purchase_order_ok)

lemma approve_uses_key:
  assumes run: "approve_demo_po ctx pid approve reason s = (Inr po', s')" and wf: "wf_repo (db s)"
  shows "dget (outbox_idempotency (db s)) (ctx_tenant_id ctx, decided_key pid approve) = None"
    "dget (outbox_idempotency (db s')) (ctx_tenant_id ctx, decided_key pid approve) \<noteq> None"
proof -
  let ?k = "(ctx_tenant_id ctx, decided_key pid approve)"
  from approve_demo_po_steps [OF run] obtain po order c a u0 d u1 r u2 action meta topic payload now u3 where
    v: "verify_po ctx pid s = (Inr (po, order, c, a), u0)" and d: "decide_in ctx (cmd_id c) approve reason u0 = (Inr (d, False), u1)"
    and r: "update_purchase_order po' (po_version po) (db u1) = Inr ((), r)"
    and a: "audit (ctx_tenant_id ctx) (ctx_user_id ctx) action (po_id po) ''succeeded'' meta u2 = (Inr (), u3)" "db u2 = r"
    and e: "enqueue (ctx_tenant_id ctx) topic (po_id po) payload (decided_key (po_id po) approve) now u3 = (Inr (), s')" by blast
  have pid: "po_id po = pid" using purchase_stored [OF wf verify_po_stored [OF v]] by simp
  have none: "dget (outbox_idempotency (db u3)) ?k = None" and "dget (outbox_idempotency (db s')) ?k \<noteq> None"
    using e unfolding enqueue_ok pid by (auto simp: Let_def)
  then show "dget (outbox_idempotency (db s')) ?k \<noteq> None" by blast
  have "outbox_idempotency (db u3) = outbox_idempotency (db u1)"
    using r a by (auto simp: update_purchase_order_ok audit_ok append_audit_def)
  with none have "dget (outbox_idempotency (db u1)) ?k = None" by simp
  moreover note eff = actsD [OF acts_verify_po [where L = "{}"] refl wf v]
  ultimately have "dget (outbox_idempotency (db u0)) ?k = None"
    using acts_key_kept [OF acts_decide_in [OF subset_refl] d, where k = ?k] by force
  then show "dget (outbox_idempotency (db s)) ?k = None"
    using acts_key_kept [OF acts_verify_po [where L = "{}"] v wf refl, where k = ?k] by blast
qed

text \<open>
  C23: A purchase order whose approval was renewed cannot be decided the same way twice.  Once a
  purchase order was approved (or rejected) and then regenerated, which puts it back to
  APPROVAL_PENDING with a fresh approval request, every further attempt to approve (or reject)
  it raises: the outbox key of the decision does not carry the version of the purchase order.
\<close>

theorem renewed_decision_blocked:
  assumes wf: "wf_repo (db s)" and decided: "approve_demo_po ctx pid approve reason s = (Inr po1, s1)"
    and renewed: "regenerate_demo_po ctx' pid why v w1 = (Inr po2, w2)" and later: "db w1 = db s1" "sha256 w1 = sha256 s"
    and same: "ctx_tenant_id ctx' = ctx_tenant_id ctx" "ctx_tenant_id ctx'' = ctx_tenant_id ctx" "db w = db w2"
  shows "po_status po2 = PO_APPROVAL_PENDING \<and> (\<exists>e. fst (approve_demo_po ctx'' pid approve reason' w) = Inl e)"
proof
  show "po_status po2 = PO_APPROVAL_PENDING"
    using renewed unfolding regenerate_demo_po_def Let_def by (auto simp: svc_ok)
  have wf1: "wf_repo (db w1)"
    using actsD(2) [OF acts_approve_demo_po [OF subset_refl] refl wf decided] later by simp
  let ?k = "(ctx_tenant_id ctx, decided_key pid approve)"
  have "dget (outbox_idempotency (db w1)) ?k \<noteq> None" using approve_uses_key(2) [OF decided wf] later by simp
  then have k: "dget (outbox_idempotency (db w2)) ?k \<noteq> None"
    by (rule acts_key_kept [OF acts_regenerate_demo_po [OF subset_refl] renewed wf1 refl])
  have wf2: "wf_repo (db w)"
    using actsD(2) [OF acts_regenerate_demo_po [OF subset_refl] refl wf1 renewed] same by simp
  show "\<exists>e. fst (approve_demo_po ctx'' pid approve reason' w) = Inl e"
  proof (cases "approve_demo_po ctx'' pid approve reason' w")
    case (Pair x w')
    with approve_uses_key(1) [of ctx'' pid approve reason' w _ w'] wf2 k same show ?thesis by (cases x) auto
  qed
qed

subsection \<open>A purchase order awaiting approval, for the examples\<close>

definition demo_po_payload :: json where
  "demo_po_payload = purchase_payload ''o1'' ''sup'' [(''l1'', 2, 7)]"

definition demo_po_rows :: "unit svc" where
  "demo_po_rows =
     seq (void (mutate (save_channel_order (new_channel_order ''o1'' ''u0'' ''ch'' ''e1'' ''ref'' ''KRW'' 30 Ord_PO_PENDING 0 ''k1'')))) (
     seq (modify (save_order_line ((new_order_line ''l1'' ''u0'' ''o1'' ''s1'' 2 15 None)\<lparr>ol_routed_status := ''routed''\<rparr>))) (
     seq (mutate (save_routing_decision \<lparr>rd_id = ''d1'', rd_tenant_id = ''u0'', rd_order_line_id = ''l1'', rd_supplier_id = ''sup'',
        rd_quantity = 2, rd_unit_cost_minor = 7, rd_reason = ''lowest feasible DEMO quote'', rd_status = Rtg_PROPOSED\<rparr>)) (
     seq (modify (save_command (new_command ''c1'' ''u0'' Kind_PURCHASE ''po:o1:sup'' demo_po_payload (replicate 64 CHR ''0'') ''ck''
        Cmd_AWAITING_APPROVAL 0))) (
     seq (modify (save_approval (new_approval ''a1'' ''u0'' ''c1'' Kind_PURCHASE Apr_PENDING 0 20000000 []))) (
     seq (mutate (save_approval_intent \<lparr>ai_tenant_id = ''u0'', ai_command_id = ''c1'', ai_canonical_digest = replicate 64 CHR ''0'',
        ai_policy_version = 1, ai_target_version = 1, ai_created_at = 0\<rparr>)) (
     seq (void (mutate (save_purchase_order (new_purchase_order ''p1'' ''u0'' ''o1'' ''sup'' PO_APPROVAL_PENDING ''po:o1:sup'' (Some ''c1'') 0)))) (
     modify (save_purchase_line \<lparr>pu_id = ''pl1'', pu_tenant_id = ''u0'', pu_purchase_order_id = ''p1'', pu_order_line_id = ''l1'',
        pu_quantity = 2, pu_unit_cost_minor = 7\<rparr>))))))))"

definition demo_po :: world where
  "demo_po = snd (demo_po_rows demo_tenant)"

definition demo_po_approved :: world where
  "demo_po_approved = snd (approve_demo_po demo_master ''p1'' True ''ok'' demo_po)"

definition demo_po_lapsed :: world where
  "demo_po_lapsed = demo_po_approved\<lparr>clock_ctr := 30\<rparr>"

abbreviation demo_po_row :: "purchase_order_state \<Rightarrow> int \<Rightarrow> supplier_purchase_order" where
  "demo_po_row st v \<equiv> (new_purchase_order ''p1'' ''u0'' ''o1'' ''sup'' st ''po:o1:sup'' (Some ''c1'') 0)\<lparr>po_version := v\<rparr>"

abbreviation demo_po_command :: "command_state \<Rightarrow> command" where
  "demo_po_command st \<equiv> new_command ''c1'' ''u0'' Kind_PURCHASE ''po:o1:sup'' demo_po_payload (replicate 64 CHR ''0'') ''ck'' st 0"

abbreviation demo_po_approval :: approval where
  "demo_po_approval \<equiv> new_approval ''a1'' ''u0'' ''c1'' Kind_PURCHASE Apr_PENDING 0 20000000 []"

definition demo_po_rest :: "world \<Rightarrow> bool" where
  "demo_po_rest w \<longleftrightarrow>
     channel_orders (db w) = [((''u0'', ''o1''), new_channel_order ''o1'' ''u0'' ''ch'' ''e1'' ''ref'' ''KRW'' 30 Ord_PO_PENDING 0 ''k1'')]
   \<and> order_lines (db w) = [((''u0'', ''l1''), (new_order_line ''l1'' ''u0'' ''o1'' ''s1'' 2 15 None)\<lparr>ol_routed_status := ''routed''\<rparr>)]
   \<and> routing_decisions (db w) = [((''u0'', ''l1''), \<lparr>rd_id = ''d1'', rd_tenant_id = ''u0'', rd_order_line_id = ''l1'',
        rd_supplier_id = ''sup'', rd_quantity = 2, rd_unit_cost_minor = 7, rd_reason = ''lowest feasible DEMO quote'',
        rd_status = Rtg_PROPOSED\<rparr>)]
   \<and> approval_intents (db w) = [((''u0'', ''c1''), \<lparr>ai_tenant_id = ''u0'', ai_command_id = ''c1'',
        ai_canonical_digest = replicate 64 CHR ''0'', ai_policy_version = 1, ai_target_version = 1, ai_created_at = 0\<rparr>)]
   \<and> purchase_lines (db w) = [((''u0'', ''pl1''), \<lparr>pu_id = ''pl1'', pu_tenant_id = ''u0'', pu_purchase_order_id = ''p1'',
        pu_order_line_id = ''l1'', pu_quantity = 2, pu_unit_cost_minor = 7\<rparr>)]
   \<and> memberships (db w) = memberships (db demo_tenant) \<and> command_idempotency (db w) = [] \<and> execution_preparations (db w) = []
   \<and> stop_controls (db w) = [] \<and> uuid_src w = uuid_src demo_world \<and> clock_src w = clock_src demo_world
   \<and> sha256 w = sha256 demo_world"

lemma demo_po_tables:
  "demo_po_rest demo_po \<and> purchase_orders (db demo_po) = [((''u0'', ''p1''), demo_po_row PO_APPROVAL_PENDING 1)]
   \<and> commands (db demo_po) = [((''u0'', ''c1''), demo_po_command Cmd_AWAITING_APPROVAL)]
   \<and> approvals (db demo_po) = [((''u0'', ''c1''), demo_po_approval)] \<and> outbox_idempotency (db demo_po) = []
   \<and> uuid_ctr demo_po = 4 \<and> clock_ctr demo_po = 2"
  using demo_tenant_tables
  by (simp add: demo_po_rest_def demo_po_def demo_po_rows_def op_simps void_def save_channel_order_def prior_order_def rows_def
      find_channel_order_def new_channel_order_def save_order_line_def new_order_line_def save_routing_decision_def Let_def
      save_command_def new_command_def save_approval_def new_approval_def save_approval_intent_def get_command_def
      save_purchase_order_def prior_purchase_def new_purchase_order_def save_purchase_line_def demo_tenant_more)

lemma demo_po_wf: "wf_repo (db demo_po)"
proof -
  have "acts h ''u0'' UNIV demo_po_rows (\<lambda>_. True)" for h
    unfolding demo_po_rows_def
    by (rule acts_rules acts_void [OF acts_any [OF acts_save_channel_order]] acts_void [OF acts_any [OF acts_save_purchase_order]] TrueI
        | simp add: new_channel_order_def new_order_line_def new_command_def new_approval_def new_purchase_order_def)+
  from actsD(2) [OF this refl demo_tenant_wf surjective_pairing] show ?thesis by (simp add: demo_po_def)
qed

lemmas demo_po_simps = Let_def op_simps audit_run void_def digest_def demo_world_def require_def membership_of_def
  get_membership_def demo_master_def new_membership_def member_capabilities_def finite_digest_def strict_intent_digest_def
  intent_digest_def check_intent_def intent_material_def enqueue_def append_outbox_def new_outbox_event_def put_event_def
  append_audit_def get_command_def get_approval_for_command_def get_approval_intent_def get_purchase_order_def
  get_channel_order_def new_channel_order_def new_order_line_def new_command_def new_approval_def new_purchase_order_def
  routed_payload_def check_purchase_line_def purchase_lines_for_def routing_for_def order_lines_for_def rows_def
  update_purchase_order_def blank_def strip_printable printable_def save_approval_def save_command_def purchase_payload_def
  show_int_def

lemma demo_po_words [simp]: "py_len ''ok'' = 2" "show_nat 5 = ''5''" "show_nat 6 = ''6''" "show_nat 7 = ''7''" "show_nat 8 = ''8''"
  "show_nat 9 = ''9''" "show_nat 10 = ''10''" "show_nat 11 = ''11''" "show_nat 12 = ''12''" "show_nat 13 = ''13''"
  "show_nat 14 = ''14''" "show_nat 15 = ''15''" "show_nat 16 = ''16''" "show_nat 17 = ''17''"
  by code_simp+

abbreviation demo_po_decided :: approval where
  "demo_po_decided \<equiv> demo_po_approval\<lparr>ap_state := Apr_APPROVED, ap_decided_by := Some ''u1'', ap_decision_reason := Some ''ok''\<rparr>"

lemma demo_po_approve:
  "\<exists>w. approve_demo_po demo_master ''p1'' True ''ok'' demo_po = (Inr (demo_po_row PO_APPROVED 2), w)
   \<and> demo_po_rest w \<and> purchase_orders (db w) = [((''u0'', ''p1''), demo_po_row PO_APPROVED 2)]
   \<and> commands (db w) = [((''u0'', ''c1''), demo_po_command Cmd_APPROVED)]
   \<and> approvals (db w) = [((''u0'', ''c1''), demo_po_decided)]
   \<and> outbox_idempotency (db w) = [((''u0'', ''approval.decided:a1''), ''u6''), ((''u0'', ''po:p1:approved''), ''u9'')]
   \<and> uuid_ctr w = 10 \<and> clock_ctr w = 6"
  using demo_tenant_tables demo_po_tables unfolding demo_po_rest_def
  by (simp add: demo_po_simps demo_po_payload_def approve_demo_po_def verify_po_def decide_in_def decision_event_def need_def)

lemma demo_po_approved_runs:
  "approve_demo_po demo_master ''p1'' True ''ok'' demo_po = (Inr (demo_po_row PO_APPROVED 2), demo_po_approved)"
  "demo_po_rest demo_po_approved" "purchase_orders (db demo_po_approved) = [((''u0'', ''p1''), demo_po_row PO_APPROVED 2)]"
  "commands (db demo_po_approved) = [((''u0'', ''c1''), demo_po_command Cmd_APPROVED)]"
  "approvals (db demo_po_approved) = [((''u0'', ''c1''), demo_po_decided)]"
  "outbox_idempotency (db demo_po_approved) = [((''u0'', ''approval.decided:a1''), ''u6''), ((''u0'', ''po:p1:approved''), ''u9'')]"
  "uuid_ctr demo_po_approved = 10" "clock_ctr demo_po_approved = 6"
  using demo_po_approve by (auto simp: demo_po_approved_def)

lemma demo_po_approved_wf: "wf_repo (db demo_po_approved)"
  by (rule actsD(2) [OF acts_approve_demo_po [OF subset_refl] refl demo_po_wf demo_po_approved_runs(1)])

lemma demo_po_submit:
  "\<exists>w. submit_demo_po demo_master ''p1'' demo_po_approved = (Inr (demo_po_row PO_SUBMITTED 3), w)"
  using demo_tenant_tables demo_po_approved_runs(2-) unfolding demo_po_rest_def
  by (simp add: demo_po_simps demo_po_payload_def submit_demo_po_def need_def demo_stop_active_def stop_controls_for_def
      prepare_execution_def get_execution_preparation_def save_execution_preparation_def context_for_def)

subsection \<open>When a request goes through\<close>

lemma new_fields:
  "cmd_id (new_command i t k tg p dg key cs c) = i" "cmd_tenant_id (new_command i t k tg p dg key cs c) = t"
  "cmd_kind (new_command i t k tg p dg key cs c) = k" "cmd_target_ref (new_command i t k tg p dg key cs c) = tg"
  "cmd_payload (new_command i t k tg p dg key cs c) = p"
  "ap_id (new_approval i t c' k st r x ev) = i" "ap_tenant_id (new_approval i t c' k st r x ev) = t"
  "ap_command_id (new_approval i t c' k st r x ev) = c'" "ap_expires_at (new_approval i t c' k st r x ev) = x"
  "ap_evidence (new_approval i t c' k st r x ev) = ev" "ap_state (new_approval i t c' k st r x ev) = st"
  "ob_id (new_outbox_event i t tp ag p key os c) = i" "ob_tenant_id (new_outbox_event i t tp ag p key os c) = t"
  "ob_idempotency_key (new_outbox_event i t tp ag p key os c) = key"
  by (simp_all add: new_command_def new_approval_def new_outbox_event_def)

lemma create_command_runs:
  assumes "require ctx (approval_capability kind) s = (Inr (), s)" "\<not> blank key"
    "dget (command_idempotency (db s)) (ctx_tenant_id ctx, key) = None"
    "dget (outbox_idempotency (db s)) (ctx_tenant_id ctx, ''approval.requested:'' @ uuid_src s (uuid_ctr s)) = None"
  shows "\<exists>c a w e. create_command ctx kind target payload key ev s = (Inr (c, a), w)
     \<and> cmd_id c = uuid_src s (uuid_ctr s) \<and> cmd_kind c = kind \<and> cmd_target_ref c = target \<and> cmd_payload c = payload
     \<and> ap_evidence a = ev \<and> ap_state a = Apr_PENDING
     \<and> dget (commands (db w)) (ctx_tenant_id ctx, cmd_id c) = Some c \<and> purchase_orders (db w) = purchase_orders (db s)
     \<and> approval_intents (db w) = approval_intents (db s)
     \<and> outbox_idempotency (db w) = dset (ctx_tenant_id ctx, ''approval.requested:'' @ cmd_id c) e (outbox_idempotency (db s))
     \<and> sha256 w = sha256 s"
  using assms
  by (simp add: create_command_def Let_def op_simps digest_def command_id_for_key_def enqueue_def append_outbox_def audit_run
      new_fields append_audit_def put_event_def save_command_def save_approval_def bind_command_key_def) blast

lemma request_approval_runs:
  assumes "require ctx (approval_capability kind) s = (Inr (), s)" "\<not> blank key"
    "dget (command_idempotency (db s)) (ctx_tenant_id ctx, key) = None"
    "dget (outbox_idempotency (db s)) (ctx_tenant_id ctx, ''approval.requested:'' @ uuid_src s (uuid_ctr s)) = None"
    "dget (approval_intents (db s)) (ctx_tenant_id ctx, uuid_src s (uuid_ctr s)) = None"
    "finite_json payload" "list_all finite_json ev" "1 \<le> policy" "1 \<le> tv"
  shows "\<exists>c a w e. request_approval ctx kind target payload key policy tv ev s = (Inr (c, a), w)
     \<and> cmd_id c = uuid_src s (uuid_ctr s) \<and> purchase_orders (db w) = purchase_orders (db s)
     \<and> outbox_idempotency (db w) = dset (ctx_tenant_id ctx, ''approval.requested:'' @ cmd_id c) e (outbox_idempotency (db s))"
proof -
  from create_command_runs [OF assms(1-4), of target payload ev] obtain c a w e where
    "create_command ctx kind target payload key ev s = (Inr (c, a), w)" "cmd_id c = uuid_src s (uuid_ctr s)"
    "cmd_kind c = kind" "cmd_target_ref c = target" "cmd_payload c = payload" "ap_evidence a = ev" "ap_state a = Apr_PENDING"
    "dget (commands (db w)) (ctx_tenant_id ctx, cmd_id c) = Some c" "purchase_orders (db w) = purchase_orders (db s)"
    "approval_intents (db w) = approval_intents (db s)" "sha256 w = sha256 s"
    "outbox_idempotency (db w) = dset (ctx_tenant_id ctx, ''approval.requested:'' @ cmd_id c) e (outbox_idempotency (db s))"
    by blast
  with assms show ?thesis
    by (simp add: request_approval_def Let_def op_simps void_def strict_intent_digest_def digest_def get_approval_intent_def
        intent_digest_def intent_material_def save_approval_intent_def get_command_def) blast
qed

lemma demo_po_regenerate:
  "\<exists>p w. regenerate_demo_po demo_master ''p1'' ''late'' 2 demo_po_lapsed = (Inr p, w)"
proof -
  let ?s = "demo_po_approved\<lparr>clock_ctr := 31\<rparr>"
  have f: "\<not> blank ''po:o1:sup:approval:v3''" "finite_json demo_po_payload"
    by (simp_all add: blank_def strip_printable printable_def demo_po_payload_def purchase_payload_def)
  have "require demo_master (approval_capability Kind_PURCHASE) ?s = (Inr (), ?s)"
    using demo_tenant_tables demo_po_approved_runs(2) unfolding demo_po_rest_def
    by (simp add: require_def membership_of_def get_membership_def op_simps demo_master_def new_membership_def member_capabilities_def)
  from request_approval_runs [OF this f(1) _ _ _ f(2), of "[]" 1 1 "''po:o1:sup''"]
  obtain c a w e where
    "request_approval demo_master Kind_PURCHASE ''po:o1:sup'' demo_po_payload ''po:o1:sup:approval:v3'' 1 1 [] ?s = (Inr (c, a), w)"
    "purchase_orders (db w) = [((''u0'', ''p1''), demo_po_row PO_APPROVED 2)]"
    "outbox_idempotency (db w) = dset (''u0'', ''approval.requested:'' @ cmd_id c) e
        [((''u0'', ''approval.decided:a1''), ''u6''), ((''u0'', ''po:p1:approved''), ''u9'')]"
    using demo_po_approved_runs(2-) unfolding demo_po_rest_def by (auto simp: demo_master_def demo_world_def)
  with demo_tenant_tables demo_po_approved_runs(2-) show ?thesis unfolding demo_po_rest_def
    by (simp add: demo_po_simps demo_po_payload_def regenerate_demo_po_def need_def renewable_def demo_po_lapsed_def)
qed


theorem renewed_decision_blocked_witness:
  "\<exists>p w. regenerate_demo_po demo_master ''p1'' ''late'' 2 demo_po_lapsed = (Inr p, w) \<and> po_status p = PO_APPROVAL_PENDING
     \<and> (\<exists>e. fst (approve_demo_po demo_master ''p1'' True ''again'' w) = Inl e)"
proof -
  from demo_po_regenerate obtain p w where run: "regenerate_demo_po demo_master ''p1'' ''late'' 2 demo_po_lapsed = (Inr p, w)"
    by blast
  have "db demo_po_lapsed = db demo_po_approved" "sha256 demo_po_lapsed = sha256 demo_po"
    using demo_po_approved_runs(2) demo_po_tables by (simp_all add: demo_po_lapsed_def demo_po_rest_def)
  with renewed_decision_blocked [OF demo_po_wf demo_po_approved_runs(1) run _ _ refl refl refl] run show ?thesis by blast
qed

end
