(* ===== verification/Claims.thy ===== *)
theory Claims
  imports Orders
begin

section \<open>Claims\<close>

text \<open>
  claim01.py and the claim tables of repository.py: a claim is opened once per idempotency key
  for at most the order's total, and carries three independent statuses, each observation of
  which is recorded once.
\<close>

subsection \<open>Repository methods\<close>

definition prior_claim :: "demo_claim \<Rightarrow> repo \<Rightarrow> demo_claim option" where
  "prior_claim v r = first (\<lambda>c. dc_idempotency_key c = dc_idempotency_key v) (rows (dc_tenant_id v) (claims r))"

definition same_claim :: "demo_claim \<Rightarrow> demo_claim \<Rightarrow> bool" where
  "same_claim p v \<longleftrightarrow> (dc_channel_order_id p, dc_claim_type p, dc_amount_minor p) =
     (dc_channel_order_id v, dc_claim_type v, dc_amount_minor v)"

definition save_claim :: "demo_claim \<Rightarrow> repo \<Rightarrow> err + ((demo_claim \<times> bool) \<times> repo)" where
  "save_claim v r = (case prior_claim v r of
     Some p \<Rightarrow> if same_claim p v then Inr ((p, True), r) else Inl (ConflictError ''claim idempotency key reused'')
   | None \<Rightarrow> Inr ((v, False), r\<lparr>claims := dset (dc_tenant_id v, dc_id v) v (claims r)\<rparr>))"

definition get_claim :: "string \<Rightarrow> string \<Rightarrow> repo \<Rightarrow> err + demo_claim" where
  "get_claim t i r = (case dget (claims r) (t, i) of None \<Rightarrow> Inl (NotFoundError ''claim not found'') | Some v \<Rightarrow> Inr v)"

definition update_claim :: "demo_claim \<Rightarrow> int \<Rightarrow> repo \<Rightarrow> err + (unit \<times> repo)" where
  "update_claim v n r = (case get_claim (dc_tenant_id v) (dc_id v) r of Inl e \<Rightarrow> Inl e
   | Inr c \<Rightarrow> if dc_version c \<noteq> n \<or> dc_version v \<noteq> n + 1 then Inl (ConflictError ''claim version conflict'')
       else Inr ((), r\<lparr>claims := dset (dc_tenant_id v, dc_id v) v (claims r)\<rparr>))"

definition claim_rows :: "string \<Rightarrow> string \<Rightarrow> repo \<Rightarrow> claim_status_observation list" where
  "claim_rows t i r = (case dget (claim_status_observations r) (t, i) of None \<Rightarrow> [] | Some xs \<Rightarrow> xs)"

definition claim_observation_for :: "string \<Rightarrow> string \<Rightarrow> string \<Rightarrow> claim_status \<Rightarrow> repo \<Rightarrow> claim_status_observation option" where
  "claim_observation_for t i kind st r = first (\<lambda>x. (cs_status_kind x, cs_status x) = (kind, st)) (claim_rows t i r)"

definition save_claim_observation :: "claim_status_observation \<Rightarrow> repo \<Rightarrow> err + (claim_status_observation \<times> repo)" where
  "save_claim_observation v r = (let t = cs_tenant_id v; i = cs_claim_id v in
     case claim_observation_for t i (cs_status_kind v) (cs_status v) r of
       Some p \<Rightarrow> if cs_response_digest p \<noteq> cs_response_digest v
         then Inl (ConflictError ''claim status reused with different content'') else Inr (p, r)
     | None \<Rightarrow> Inr (v, r\<lparr>claim_status_observations := dset (t, i) (claim_rows t i r @ [v]) (claim_status_observations r)\<rparr>))"

definition claim_observations_for :: "string \<Rightarrow> string \<Rightarrow> repo \<Rightarrow> err + claim_status_observation list" where
  "claim_observations_for t i r = (case get_claim t i r of Inl e \<Rightarrow> Inl e | Inr _ \<Rightarrow> Inr (claim_rows t i r))"

subsection \<open>Service operations\<close>

definition open_demo_claim :: "tenant_context \<Rightarrow> string \<Rightarrow> string \<Rightarrow> int \<Rightarrow> string \<Rightarrow> (demo_claim \<times> bool) svc" where
  "open_demo_claim ctx oid kind amount key = (let t = ctx_tenant_id ctx in
     seq (require ctx Cap_TENANT_ADMIN) (
     ensure (opaque kind \<and> 0 \<le> amount \<and> \<not> blank key \<and> py_len key \<le> 255) (ConflictError ''invalid claim intake'') (
     transaction (
       bnd (query (get_channel_order t oid)) (\<lambda>order.
       ensure (amount \<le> co_total_minor order) (ConflictError ''claim amount exceeds order total'') (
       bnd clock (\<lambda>now. bnd uuid4 (\<lambda>i.
       bnd (mutate (save_claim \<lparr>dc_id = i, dc_tenant_id = t, dc_channel_order_id = co_id order, dc_claim_type = kind,
              dc_amount_minor = amount, dc_consumer_status = Clm_OPEN, dc_channel_status = Clm_OPEN,
              dc_supplier_status = Clm_OPEN, dc_idempotency_key = key, dc_created_at = now, dc_version = 1\<rparr>)) (\<lambda>(c, replay).
       if replay then ret (c, True) else
       seq (audit t (ctx_user_id ctx) ''claim.opened'' (dc_id c) ''succeeded''
              (JObj [(''order_id'', JStr (co_id order)), (''claim_type'', JStr kind), (''amount_minor'', JInt amount)])) (
       seq (enqueue t ''claim.opened'' (dc_id c) (JObj [(''claim_id'', JStr (dc_id c)), (''order_id'', JStr (co_id order))])
              (''claim:'' @ dc_id c @ '':opened'') now) (
       ret (c, False))))))))))))"

definition claim_statuses :: "claim_status list" where
  "claim_statuses = [Clm_OPEN, Clm_EVIDENCE_PENDING, Clm_APPROVED, Clm_REJECTED, Clm_REFUND_PENDING,
     Clm_REFUNDED, Clm_CLOSED]"

text \<open>\<open>setattr(claim, f"{status_kind}_status", target)\<close>.\<close>

definition set_claim_status :: "string \<Rightarrow> claim_status \<Rightarrow> demo_claim \<Rightarrow> demo_claim" where
  "set_claim_status kind st c =
     (if kind = ''consumer'' then c\<lparr>dc_consumer_status := st\<rparr>
      else if kind = ''channel'' then c\<lparr>dc_channel_status := st\<rparr>
      else c\<lparr>dc_supplier_status := st\<rparr>)"

definition record_demo_claim_status :: "tenant_context \<Rightarrow> string \<Rightarrow> string \<Rightarrow> string \<Rightarrow> int \<Rightarrow> (demo_claim \<times> bool) svc" where
  "record_demo_claim_status ctx i kind status expected = (let t = ctx_tenant_id ctx in
     seq (require ctx Cap_TENANT_ADMIN) (
     ensure (kind \<in> {''consumer'', ''channel'', ''supplier''}) (ConflictError ''invalid claim status transition'') (
     bnd (of_sum (need (first (\<lambda>s. claim_status_value s = status) claim_statuses)
            (ConflictError ''invalid claim status transition'') Inr)) (\<lambda>target.
     transaction (
       bnd (query (get_claim t i)) (\<lambda>c.
       bnd (reads (claim_observation_for t (dc_id c) kind target)) (\<lambda>prior.
       if prior \<noteq> None then ret (c, True) else
       ensure (dc_version c = expected) (ConflictError ''claim version conflict'') (
       bnd clock (\<lambda>observed.
       bnd (digest (JObj [(''status_kind'', JStr kind), (''status'', JStr status)])) (\<lambda>dg.
       bnd uuid4 (\<lambda>oid.
       bnd (mutate (save_claim_observation \<lparr>cs_id = oid, cs_tenant_id = t, cs_claim_id = dc_id c, cs_status_kind = kind,
              cs_status = target, cs_observed_at = observed, cs_response_digest = dg\<rparr>)) (\<lambda>_.
       let c' = (set_claim_status kind target c)\<lparr>dc_version := dc_version c + 1\<rparr> in
       seq (mutate (update_claim c' expected)) (
       seq (audit t (ctx_user_id ctx) ''claim.status_observed'' (dc_id c') ''succeeded''
              (JObj [(''status_kind'', JStr kind), (''status'', JStr status), (''response_digest'', JStr dg)])) (
       seq (enqueue t ''claim.status_observed'' (dc_id c')
              (JObj [(''claim_id'', JStr (dc_id c')), (''status_kind'', JStr kind), (''status'', JStr status),
                     (''response_digest'', JStr dg)])
              (''claim:'' @ dc_id c' @ '':'' @ kind @ '':'' @ status) observed) (
       ret (c', False))))))))))))))))"

subsection \<open>What the calls write\<close>

lemma claim_keys: "wf_repo r \<Longrightarrow> dget (claims r) (t, i) = Some v \<Longrightarrow> dc_tenant_id v = t \<and> dc_id v = i"
  using keyed_dget [where d = "claims r"] wf_tableD [of r T_claims] by fastforce

lemma claim_rows_in: "wf_repo r \<Longrightarrow> v \<in> set (rows t (claims r)) \<Longrightarrow> dc_tenant_id v = t"
  using keyed_in [where d = "claims r"] wf_tableD [of r T_claims] by (fastforce simp: rows_in)

lemma observation_keys:
  assumes "wf_repo r" "x \<in> set (claim_rows t i r)"
  shows "cs_tenant_id x = t \<and> cs_claim_id x = i"
proof -
  have kl: "keyed_lists (\<lambda>v. (cs_tenant_id v, cs_claim_id v)) (claim_status_observations r)"
    using wf_tableD [OF assms(1), of T_claim_status_observations] by simp
  show ?thesis
    using assms(2) keyed_lists_dget [OF kl, of "(t, i)" _ x]
    by (cases "dget (claim_status_observations r) (t, i)") (simp_all add: claim_rows_def)
qed

lemma acts_save_claim:
  "dc_tenant_id v = t \<Longrightarrow> T_claims \<in> L \<Longrightarrow> acts h t L (mutate (save_claim v)) (\<lambda>(p, b). dc_tenant_id p = t)"
  by (rule acts_mutate)
    (auto simp: save_claim_def prior_claim_def split: option.splits if_splits dest!: first_Some
      dest: claim_rows_in intro: writes_one W_claims)

lemma acts_get_claim: "acts h t L (query (get_claim i c)) (\<lambda>v. dc_tenant_id v = i \<and> dc_id v = c)"
  by (rule acts_query) (auto simp: get_claim_def split: option.splits dest: claim_keys)

lemma acts_update_claim [acts_rules]:
  "dc_tenant_id v = t \<Longrightarrow> T_claims \<in> L \<Longrightarrow> acts h t L (mutate (update_claim v n)) (\<lambda>_. True)"
  by (rule acts_mutate) (auto simp: update_claim_def split: sum.splits if_splits intro!: writes_one W_claims)

lemma acts_save_claim_observation [acts_rules]:
  "cs_tenant_id v = t \<Longrightarrow> T_claim_status_observations \<in> L \<Longrightarrow> acts h t L (mutate (save_claim_observation v)) (\<lambda>_. True)"
  by (rule acts_mutate)
    (auto simp: save_claim_observation_def Let_def observation_keys split: option.splits if_splits
      intro!: writes_one W_claim_status_observations)

lemma set_claim_status_fields [simp]:
  "dc_tenant_id (set_claim_status k st c) = dc_tenant_id c" "dc_id (set_claim_status k st c) = dc_id c"
  "dc_version (set_claim_status k st c) = dc_version c" "dc_amount_minor (set_claim_status k st c) = dc_amount_minor c"
  "dc_channel_order_id (set_claim_status k st c) = dc_channel_order_id c"
  by (simp_all add: set_claim_status_def)

lemma acts_open_demo_claim:
  "{T_claims, T_audit_events, T_outbox} \<subseteq> L \<Longrightarrow>
     acts h (ctx_tenant_id ctx) L (open_demo_claim ctx oid kind amount key) (\<lambda>_. True)"
  unfolding open_demo_claim_def Let_def
  by (rule acts_bnd_any [OF acts_any [OF acts_save_claim]] acts_rules TrueI | simp add: split_paired_all)+

lemma acts_record_demo_claim_status:
  "{T_claims, T_claim_status_observations, T_audit_events, T_outbox} \<subseteq> L \<Longrightarrow>
     acts h (ctx_tenant_id ctx) L (record_demo_claim_status ctx i kind status n) (\<lambda>_. True)"
  unfolding record_demo_claim_status_def Let_def
  by (rule acts_bnd [OF acts_get_claim] acts_rules TrueI | simp)+

subsection \<open>Contracts of the tables\<close>

interpretation claim_table: versioned_table "\<lambda>r. dget (claims r)" update_claim "\<lambda>v. (dc_tenant_id v, dc_id v)" dc_version
  by unfold_locales (auto simp: update_claim_def get_claim_def dget_dset split: option.splits if_splits)

subsection \<open>A claim and its observations\<close>

definition last_status :: "string \<Rightarrow> claim_status_observation list \<Rightarrow> claim_status" where
  "last_status kind xs = (case rev (filter (\<lambda>x. cs_status_kind x = kind) xs) of [] \<Rightarrow> Clm_OPEN | x # _ \<Rightarrow> cs_status x)"

text \<open>The claim is the fold of its observations, none of which repeats another.\<close>

definition claim_agrees :: "demo_claim \<Rightarrow> claim_status_observation list \<Rightarrow> bool" where
  "claim_agrees c xs \<longleftrightarrow> dc_version c = 1 + int (length xs)
     \<and> distinct (map (\<lambda>x. (cs_status_kind x, cs_status x)) xs)
     \<and> dc_consumer_status c = last_status ''consumer'' xs \<and> dc_channel_status c = last_status ''channel'' xs
     \<and> dc_supplier_status c = last_status ''supplier'' xs"

definition claims_agree :: "repo \<Rightarrow> bool" where
  "claims_agree r \<longleftrightarrow> (\<forall>t i c. dget (claims r) (t, i) = Some c \<longrightarrow> claim_agrees c (claim_rows t i r))"

lemma last_status_append:
  "last_status k (xs @ [x]) = (if cs_status_kind x = k then cs_status x else last_status k xs)"
  by (simp add: last_status_def)

lemma claim_agrees_step:
  assumes "claim_agrees c xs" "cs_status_kind x \<in> {''consumer'', ''channel'', ''supplier''}"
    and "(cs_status_kind x, cs_status x) \<notin> (\<lambda>x. (cs_status_kind x, cs_status x)) ` set xs"
  shows "claim_agrees ((set_claim_status (cs_status_kind x) (cs_status x) c)\<lparr>dc_version := dc_version c + 1\<rparr>) (xs @ [x])"
  using assms by (auto simp: claim_agrees_def set_claim_status_def last_status_append)

lemma get_claim_ok: "get_claim t i r = Inr v \<longleftrightarrow> dget (claims r) (t, i) = Some v"
  by (auto simp: get_claim_def split: option.splits)

lemma update_claim_ok:
  "update_claim v n r = Inr (u, r') \<longleftrightarrow> (\<exists>c. dget (claims r) (dc_tenant_id v, dc_id v) = Some c \<and> dc_version c = n)
     \<and> dc_version v = n + 1 \<and> r' = r\<lparr>claims := dset (dc_tenant_id v, dc_id v) v (claims r)\<rparr>"
  by (auto simp: update_claim_def get_claim_def split: option.splits)

lemma save_claim_observation_new:
  "claim_observation_for (cs_tenant_id v) (cs_claim_id v) (cs_status_kind v) (cs_status v) r = None \<Longrightarrow>
     save_claim_observation v r = Inr (w, r') \<longleftrightarrow> w = v
       \<and> r' = r\<lparr>claim_status_observations := dset (cs_tenant_id v, cs_claim_id v)
           (claim_rows (cs_tenant_id v) (cs_claim_id v) r @ [v]) (claim_status_observations r)\<rparr>"
  by (auto simp: save_claim_observation_def Let_def)

lemmas claim_calls_ok = get_claim_ok update_claim_ok save_claim_observation_new

lemma record_ok:
  assumes run: "record_demo_claim_status ctx i kind status n s = (Inr (c, replay), s')"
  shows "claims (db s') = claims (db s) \<and> claim_status_observations (db s') = claim_status_observations (db s)
     \<or> (\<exists>c0 x. dget (claims (db s)) (ctx_tenant_id ctx, i) = Some c0
        \<and> claim_status_observations (db s') = dset (ctx_tenant_id ctx, dc_id c0)
            (claim_rows (ctx_tenant_id ctx) (dc_id c0) (db s) @ [x]) (claim_status_observations (db s))
        \<and> cs_status_kind x \<in> {''consumer'', ''channel'', ''supplier''}
        \<and> claim_observation_for (ctx_tenant_id ctx) (dc_id c0) (cs_status_kind x) (cs_status x) (db s) = None
        \<and> c = (set_claim_status (cs_status_kind x) (cs_status x) c0)\<lparr>dc_version := dc_version c0 + 1\<rparr>
        \<and> claims (db s') = dset (dc_tenant_id c, dc_id c) c (claims (db s)))"
  using run
  apply (simp add: record_demo_claim_status_def Let_def call_ok claim_calls_ok need_ok del: insert_iff)
  apply (elim exE conjE disjE)
   apply (simp_all add: save_claim_observation_new del: insert_iff)
  apply (intro disjI2 exI conjI)
       apply (rule refl | assumption | simp del: insert_iff)+
  done


lemma claim_rows_dset:
  "claim_status_observations r' = dset (t, i) xs (claim_status_observations r) \<Longrightarrow>
     claim_rows t' i' r' = (if (t', i') = (t, i) then xs else claim_rows t' i' r)"
  by (simp add: claim_rows_def dget_dset)

lemma record_agrees:
  assumes run: "record_demo_claim_status ctx i kind status n s = (Inr (c, replay), s')"
    and wf: "wf_repo (db s)" and ok: "claims_agree (db s)"
  shows "claims_agree (db s')"
  using record_ok [OF run]
proof (elim disjE conjE exE)
  assume "claims (db s') = claims (db s)" "claim_status_observations (db s') = claim_status_observations (db s)"
  with ok show ?thesis by (simp add: claims_agree_def claim_rows_def)
next
  let ?t = "ctx_tenant_id ctx"
  fix c0 x assume c0: "dget (claims (db s)) (?t, i) = Some c0"
    and rows: "claim_status_observations (db s') = dset (?t, dc_id c0) (claim_rows ?t (dc_id c0) (db s) @ [x]) (claim_status_observations (db s))"
    and x: "cs_status_kind x \<in> {''consumer'', ''channel'', ''supplier''}"
      "claim_observation_for ?t (dc_id c0) (cs_status_kind x) (cs_status x) (db s) = None"
    and c: "c = (set_claim_status (cs_status_kind x) (cs_status x) c0)\<lparr>dc_version := dc_version c0 + 1\<rparr>"
    and cl: "claims (db s') = dset (dc_tenant_id c, dc_id c) c (claims (db s))"
  have key: "dc_tenant_id c0 = ?t" "dc_id c0 = i" using claim_keys [OF wf c0] by simp_all
  have "claim_agrees c (claim_rows ?t i (db s) @ [x])"
    unfolding c using ok c0 x key
    by (intro claim_agrees_step) (auto simp: claims_agree_def claim_observation_for_def first_None)
  then show ?thesis
    using ok key unfolding claims_agree_def cl claim_rows_dset [OF rows]
    by (auto simp: c dget_dset split: if_splits)
qed

fun run_claim_reports :: "(tenant_context \<times> string \<times> string \<times> string \<times> int) list \<Rightarrow> world \<Rightarrow> world" where
  "run_claim_reports [] s = s"
| "run_claim_reports ((ctx, i, kind, status, n) # rs) s =
     run_claim_reports rs (snd (record_demo_claim_status ctx i kind status n s))"

lemma atomic_record: "atomic (record_demo_claim_status ctx i kind status n)"
  unfolding record_demo_claim_status_def Let_def require_def membership_of_def by (rule atomic_rules)+

lemma report_agrees:
  assumes "wf_repo (db s)" "claims_agree (db s)"
  shows "claims_agree (db (snd (record_demo_claim_status ctx i kind status n s)))"
proof (cases "record_demo_claim_status ctx i kind status n s")
  case (Pair x s')
  show ?thesis
  proof (cases x)
    case (Inl e)
    with Pair atomicD [OF atomic_record, of ctx i kind status n s e s'] assms(2) show ?thesis by simp
  next
    case (Inr cr)
    with Pair record_agrees [OF _ assms, of ctx i kind status n] show ?thesis by (cases cr) simp
  qed
qed

lemma report_wf: "wf_repo (db s) \<Longrightarrow> wf_repo (db (snd (record_demo_claim_status ctx i kind status n s)))"
  by (rule actsD(2) [OF acts_record_demo_claim_status [OF subset_refl] refl _ surjective_pairing])

text \<open>
  C21: A claim is its history: whatever status reports arrive, in whatever order and with
  whatever versions, each claim's version is one more than the number of its observations, no
  observation repeats another, and each of the three statuses is the last one observed for it.
\<close>

theorem claim_is_its_history:
  assumes "wf_repo (db s)" "claims_agree (db s)"
    and "dget (claims (db (run_claim_reports rs s))) (t, i) = Some c"
  shows "claim_agrees c (claim_rows t i (db (run_claim_reports rs s)))"
proof -
  have "claims_agree (db (run_claim_reports rs s))"
    using assms(1,2) by (induction rs s rule: run_claim_reports.induct) (simp_all add: report_wf report_agrees)
  with assms(3) show ?thesis by (simp add: claims_agree_def)
qed

definition demo_claimed :: world where
  "demo_claimed = demo_tenant\<lparr>db := (db demo_tenant)\<lparr>claims := [((''u0'', ''cl''),
     \<lparr>dc_id = ''cl'', dc_tenant_id = ''u0'', dc_channel_order_id = ''o1'', dc_claim_type = ''damage'', dc_amount_minor = 10,
      dc_consumer_status = Clm_OPEN, dc_channel_status = Clm_OPEN, dc_supplier_status = Clm_OPEN,
      dc_idempotency_key = ''k'', dc_created_at = 0, dc_version = 1\<rparr>)]\<rparr>\<rparr>"

lemma demo_claimed_wf: "wf_repo (db demo_claimed)"
proof -
  have "writes h ''u0'' {T_claims} (db demo_tenant) (db demo_claimed)" for h
    using W_claims [of "snd (hd (claims (db demo_claimed)))" "''u0''" h "db demo_tenant"]
    by (auto simp: demo_claimed_def demo_tenant_more intro: writes_one)
  then show ?thesis using demo_tenant_wf wf_writes by blast
qed

lemma demo_claim_run:
  "\<exists>c. dget (claims (db (run_claim_reports [(demo_master, ''cl'', ''channel'', ''APPROVED'', 1)] demo_claimed))) (''u0'', ''cl'') = Some c
     \<and> dc_channel_status c = Clm_APPROVED"
  using demo_tenant_tables
  by (simp add: demo_claimed_def record_demo_claim_status_def Let_def op_simps audit_run require_def membership_of_def
      get_membership_def demo_master_def new_membership_def member_capabilities_def get_claim_def need_def
      claim_statuses_def claim_observation_for_def claim_rows_def demo_tenant_more digest_def save_claim_observation_def
      update_claim_def set_claim_status_def enqueue_def append_outbox_def new_outbox_event_def)

theorem claim_is_its_history_witness:
  "\<exists>c. dget (claims (db (run_claim_reports [(demo_master, ''cl'', ''channel'', ''APPROVED'', 1)] demo_claimed))) (''u0'', ''cl'') = Some c
     \<and> claim_agrees c (claim_rows ''u0'' ''cl'' (db (run_claim_reports [(demo_master, ''cl'', ''channel'', ''APPROVED'', 1)] demo_claimed)))"
proof -
  have "claims_agree (db demo_claimed)"
    by (simp add: claims_agree_def claim_agrees_def demo_claimed_def claim_rows_def demo_tenant_more last_status_def)
  with demo_claim_run claim_is_its_history [OF demo_claimed_wf] show ?thesis by blast
qed

end
