(* ===== verification/Settlement.thy ===== *)
theory Settlement
  imports Orders
begin

section \<open>Settlement imports\<close>

text \<open>
  finance01.py and the settlement tables of repository.py: a statement of a channel is
  validated, matched line by line with the tenant's orders and reconciled order by order; the
  profit of an order is realized only when its lines reconcile.
\<close>

subsection \<open>Repository methods\<close>

definition prior_batch :: "demo_settlement_batch \<Rightarrow> repo \<Rightarrow> demo_settlement_batch option" where
  "prior_batch v r = first (\<lambda>b. sb_idempotency_key b = sb_idempotency_key v) (rows (sb_tenant_id v) (settlement_batches r))"

definition save_settlement_batch :: "demo_settlement_batch \<Rightarrow> repo \<Rightarrow> err + ((demo_settlement_batch \<times> bool) \<times> repo)" where
  "save_settlement_batch v r = (case prior_batch v r of
     Some p \<Rightarrow> if sb_source_digest p = sb_source_digest v then Inr ((p, True), r)
       else Inl (ConflictError ''settlement idempotency key reused'')
   | None \<Rightarrow> Inr ((v, False), r\<lparr>settlement_batches := dset (sb_tenant_id v, sb_id v) v (settlement_batches r)\<rparr>))"

definition get_settlement_batch :: "string \<Rightarrow> string \<Rightarrow> repo \<Rightarrow> err + demo_settlement_batch" where
  "get_settlement_batch t i r = (case dget (settlement_batches r) (t, i) of
     None \<Rightarrow> Inl (NotFoundError ''settlement batch not found'') | Some v \<Rightarrow> Inr v)"

definition update_settlement_batch :: "demo_settlement_batch \<Rightarrow> int \<Rightarrow> repo \<Rightarrow> err + (unit \<times> repo)" where
  "update_settlement_batch v n r = (case get_settlement_batch (sb_tenant_id v) (sb_id v) r of Inl e \<Rightarrow> Inl e
   | Inr c \<Rightarrow> if sb_version c \<noteq> n \<or> sb_version v \<noteq> n + 1 then Inl (ConflictError ''settlement version conflict'')
       else Inr ((), r\<lparr>settlement_batches := dset (sb_tenant_id v, sb_id v) v (settlement_batches r)\<rparr>))"

definition save_settlement_line :: "demo_settlement_line \<Rightarrow> repo \<Rightarrow> repo" where
  "save_settlement_line v r = r\<lparr>settlement_lines := dset (sl_tenant_id v, sl_id v) v (settlement_lines r)\<rparr>"

definition settlement_lines_for :: "string \<Rightarrow> string \<Rightarrow> repo \<Rightarrow> err + demo_settlement_line list" where
  "settlement_lines_for t i r = (case get_settlement_batch t i r of Inl e \<Rightarrow> Inl e
     | Inr _ \<Rightarrow> Inr (filter (\<lambda>l. sl_batch_id l = i) (rows t (settlement_lines r))))"

definition save_realized_profit :: "demo_realized_profit \<Rightarrow> repo \<Rightarrow> repo" where
  "save_realized_profit v r = r\<lparr>realized_profits := dset (rp_tenant_id v, rp_batch_id v, rp_order_id v) v (realized_profits r)\<rparr>"

definition realized_profits_for :: "string \<Rightarrow> string \<Rightarrow> repo \<Rightarrow> err + demo_realized_profit list" where
  "realized_profits_for t i r = (case get_settlement_batch t i r of Inl e \<Rightarrow> Inl e
     | Inr _ \<Rightarrow> Inr (map snd (filter (\<lambda>((tid, bid, _), _). tid = t \<and> bid = i) (realized_profits r))))"

subsection \<open>Rows of a statement\<close>

record settlement_row =
  sr_external :: string
  sr_kind :: string
  sr_amount :: int
  sr_currency :: string
  sr_source :: string

definition settlement_fields :: "string list" where
  "settlement_fields = [''external_order_key'', ''kind'', ''amount_minor'', ''currency'', ''source_row_ref'']"

definition check_row :: "json \<Rightarrow> settlement_row list \<Rightarrow> err + settlement_row list" where
  "check_row row acc = (let bad = ConflictError ''invalid settlement row'' in
     need (that (\<lambda>ks. set ks = set settlement_fields) (js_keys row)) (ConflictError ''invalid settlement row schema'') (\<lambda>_.
     need (that opaque (js_str (jget row ''external_order_key''))) bad (\<lambda>external.
     need (that (\<lambda>k. k \<in> {''SALE'', ''FEE'', ''REFUND''}) (js_str (jget row ''kind''))) bad (\<lambda>kind.
     need (js_int (jget row ''amount_minor'')) bad (\<lambda>amount.
     need (that (\<lambda>c. c \<in> set allowed_currencies) (js_str (jget row ''currency''))) bad (\<lambda>currency.
     need (that (\<lambda>x. opaque x \<and> x \<notin> sr_source ` set acc) (js_str (jget row ''source_row_ref''))) bad (\<lambda>source.
     Inr (acc @ [\<lparr>sr_external = external, sr_kind = kind, sr_amount = amount, sr_currency = currency, sr_source = source\<rparr>]))))))))"

definition row_json :: "settlement_row \<Rightarrow> json" where
  "row_json r = JObj [(''external_order_key'', JStr (sr_external r)), (''kind'', JStr (sr_kind r)),
     (''amount_minor'', JInt (sr_amount r)), (''currency'', JStr (sr_currency r)), (''source_row_ref'', JStr (sr_source r))]"

subsection \<open>Importing a statement\<close>

definition group_add :: "'k \<Rightarrow> 'v \<Rightarrow> ('k, 'v list) dict \<Rightarrow> ('k, 'v list) dict" where
  "group_add k v d = dset k ((case dget d k of None \<Rightarrow> [] | Some xs \<Rightarrow> xs) @ [v]) d"

definition row_matches :: "channel_order option \<Rightarrow> settlement_row \<Rightarrow> bool" where
  "row_matches order row \<longleftrightarrow> (case order of None \<Rightarrow> False | Some v \<Rightarrow> co_currency v = sr_currency row)"

text \<open>The first loop: one line per row, matched with the order it names.\<close>

definition settle_row :: "string \<Rightarrow> string \<Rightarrow> string \<Rightarrow> bool \<times> (string, demo_settlement_line list) dict \<Rightarrow> settlement_row \<Rightarrow>
    (bool \<times> (string, demo_settlement_line list) dict) svc" where
  "settle_row t channel bid = (\<lambda>(all_match, groups) row.
     bnd (reads (find_channel_order t channel (sr_external row))) (\<lambda>order.
     bnd uuid4 (\<lambda>i.
     let ok = row_matches order row;
         line = \<lparr>sl_id = i, sl_tenant_id = t, sl_batch_id = bid, sl_external_order_key = sr_external row,
                 sl_kind = sr_kind row, sl_amount_minor = sr_amount row, sl_currency = sr_currency row,
                 sl_source_row_ref = sr_source row, sl_order_id = map_option co_id order,
                 sl_match_status = (if ok then ''matched'' else ''exception'')\<rparr> in
     seq (modify (save_settlement_line line)) (
     ret (all_match \<and> ok, case order of None \<Rightarrow> groups | Some v \<Rightarrow> group_add (co_id v) line groups)))))"

definition reconciles :: "channel_order \<Rightarrow> demo_settlement_line list \<Rightarrow> bool" where
  "reconciles order ls \<longleftrightarrow> sum_list (map sl_amount_minor (filter (\<lambda>l. sl_kind l = ''SALE'') ls)) = co_total_minor order
     \<and> list_all (\<lambda>l. sl_match_status l = ''matched'') ls"

definition purchase_cost :: "string \<Rightarrow> supplier_purchase_order list \<Rightarrow> repo \<Rightarrow> int" where
  "purchase_cost t pos r = sum_list (map (\<lambda>p. sum_list (map (\<lambda>l. pu_quantity l * pu_unit_cost_minor l)
     (purchase_lines_for t (po_id p) r))) pos)"

text \<open>The second loop: the profit of one order.\<close>

definition settle_order :: "string \<Rightarrow> string \<Rightarrow> time \<Rightarrow> bool \<Rightarrow> string \<times> demo_settlement_line list \<Rightarrow> bool svc" where
  "settle_order t bid now all_match = (\<lambda>(oid, ls).
     bnd (query (get_channel_order t oid)) (\<lambda>order.
     bnd (query (purchase_orders_for t oid)) (\<lambda>pos.
     bnd (reads (purchase_cost t pos)) (\<lambda>cost.
     bnd uuid4 (\<lambda>i.
     let ok = reconciles order ls in
     seq (modify (save_realized_profit \<lparr>rp_id = i, rp_tenant_id = t, rp_batch_id = bid, rp_order_id = oid,
            rp_projected_minor = (if cost \<noteq> 0 \<and> ok then Some (co_total_minor order - cost) else None),
            rp_realized_minor = (if ok then Some (sum_list (map sl_amount_minor ls)) else None),
            rp_status = (if ok then ''reconciled'' else ''exception''), rp_calculated_at = now\<rparr>)) (
     ret (all_match \<and> ok)))))))"

text \<open>The body of the import once its batch is new: both loops and the batch's status.\<close>

definition settle_batch :: "tenant_context \<Rightarrow> string \<Rightarrow> string \<Rightarrow> time \<Rightarrow> settlement_row list \<Rightarrow> demo_settlement_batch \<Rightarrow>
    (demo_settlement_batch \<times> bool) svc" where
  "settle_batch ctx channel dg now srows batch = (let t = ctx_tenant_id ctx in
     bnd (foldM (settle_row t channel (sb_id batch)) (True, []) srows) (\<lambda>(m1, groups).
     bnd (foldM (settle_order t (sb_id batch) now) m1 groups) (\<lambda>all_match.
     let batch' = batch\<lparr>sb_status := (if all_match then Stl_RECONCILED else Stl_EXCEPTION), sb_version := sb_version batch + 1\<rparr> in
     seq (mutate (update_settlement_batch batch' 1)) (
     seq (audit t (ctx_user_id ctx) ''settlement.imported'' (sb_id batch') ''succeeded''
            (JObj [(''status'', JStr (settlement_status_value (sb_status batch'))), (''source_digest'', JStr dg)])) (
     seq (enqueue t ''settlement.imported'' (sb_id batch')
            (JObj [(''batch_id'', JStr (sb_id batch')), (''status'', JStr (settlement_status_value (sb_status batch')))])
            (''settlement:'' @ sb_id batch' @ '':imported'') now) (
     ret (batch', False)))))))"

definition import_demo_settlement :: "tenant_context \<Rightarrow> string \<Rightarrow> string \<Rightarrow> json list \<Rightarrow> string \<Rightarrow>
    (demo_settlement_batch \<times> bool) svc" where
  "import_demo_settlement ctx channel period raw key = (let t = ctx_tenant_id ctx in
     seq (require ctx Cap_TENANT_ADMIN) (
     ensure (opaque channel \<and> opaque period \<and> \<not> blank key \<and> py_len key \<le> 255 \<and> raw \<noteq> [])
       (ConflictError ''invalid settlement import'') (
     bnd (of_sum (fold_check check_row raw [])) (\<lambda>srows.
     bnd (digest (JList (map row_json srows))) (\<lambda>dg.
     bnd clock (\<lambda>now. transaction (
       bnd uuid4 (\<lambda>bid.
       bnd (mutate (save_settlement_batch \<lparr>sb_id = bid, sb_tenant_id = t, sb_channel_id = channel, sb_period = period,
              sb_source_digest = dg, sb_status = Stl_IMPORTED, sb_idempotency_key = key, sb_created_at = now,
              sb_version = 1\<rparr>)) (\<lambda>(batch, replay).
       if replay then ret (batch, True) else settle_batch ctx channel dg now srows batch)))))))))"

subsection \<open>What the call writes\<close>

lemma batch_rows_in: "wf_repo r \<Longrightarrow> v \<in> set (rows t (settlement_batches r)) \<Longrightarrow> sb_tenant_id v = t"
  using keyed_in [where d = "settlement_batches r"] wf_tableD [of r T_settlement_batches] by (fastforce simp: rows_in)

lemma acts_save_settlement_batch:
  "sb_tenant_id v = t \<Longrightarrow> T_settlement_batches \<in> L \<Longrightarrow>
     acts h t L (mutate (save_settlement_batch v)) (\<lambda>(p, b). sb_tenant_id p = t)"
  by (rule acts_mutate)
    (auto simp: save_settlement_batch_def prior_batch_def split: option.splits if_splits dest!: first_Some
      dest: batch_rows_in intro: writes_one W_settlement_batches)

lemma acts_update_settlement_batch [acts_rules]:
  "sb_tenant_id v = t \<Longrightarrow> T_settlement_batches \<in> L \<Longrightarrow> acts h t L (mutate (update_settlement_batch v n)) (\<lambda>_. True)"
  by (rule acts_mutate)
    (auto simp: update_settlement_batch_def split: sum.splits if_splits intro!: writes_one W_settlement_batches)

lemma acts_save_settlement_line [acts_rules]:
  "sl_tenant_id v = t \<Longrightarrow> T_settlement_lines \<in> L \<Longrightarrow> acts h t L (modify (save_settlement_line v)) (\<lambda>_. True)"
  by (rule acts_modify) (auto simp: save_settlement_line_def intro!: writes_one W_settlement_lines)

lemma acts_save_realized_profit [acts_rules]:
  "rp_tenant_id v = t \<Longrightarrow> T_realized_profits \<in> L \<Longrightarrow> acts h t L (modify (save_realized_profit v)) (\<lambda>_. True)"
  by (rule acts_modify) (auto simp: save_realized_profit_def intro!: writes_one W_realized_profits)

abbreviation settlement_tables :: "table set" where
  "settlement_tables \<equiv> {T_settlement_batches, T_settlement_lines, T_realized_profits, T_audit_events, T_outbox}"

lemma acts_settle_row: "T_settlement_lines \<in> L \<Longrightarrow> acts h t L (settle_row t channel bid acc row) (\<lambda>_. True)"
  unfolding settle_row_def Let_def by (cases acc) (simp, (rule acts_rules TrueI | simp)+)

lemma acts_settle_order: "T_realized_profits \<in> L \<Longrightarrow> acts h t L (settle_order t bid now m g) (\<lambda>_. True)"
  unfolding settle_order_def Let_def by (cases g) (simp, (rule acts_rules TrueI | simp)+)

lemma acts_settle_batch:
  assumes "settlement_tables \<subseteq> L" "sb_tenant_id batch = ctx_tenant_id ctx"
  shows "acts h (ctx_tenant_id ctx) L (settle_batch ctx channel dg now srows batch) (\<lambda>_. True)"
proof -
  have loops: "acts h (ctx_tenant_id ctx) L (foldM (settle_row (ctx_tenant_id ctx) channel bid) acc rows) (\<lambda>_. True)"
    "acts h (ctx_tenant_id ctx) L (foldM (settle_order (ctx_tenant_id ctx) bid now) m groups) (\<lambda>_. True)"
    for bid acc rows now m groups
    using assms by (auto intro!: acts_foldM acts_settle_row acts_settle_order)
  show ?thesis
    unfolding settle_batch_def Let_def using assms
    by - (rule loops acts_rules TrueI | simp add: split_paired_all)+
qed

lemma acts_import_demo_settlement:
  assumes "settlement_tables \<subseteq> L"
  shows "acts h (ctx_tenant_id ctx) L (import_demo_settlement ctx channel period raw key) (\<lambda>_. True)"
  unfolding import_demo_settlement_def Let_def using assms
  by - (rule acts_bnd [OF acts_save_settlement_batch] acts_settle_batch [OF assms] acts_rules TrueI
      | simp add: split_paired_all)+

interpretation batch_table: versioned_table "\<lambda>r. dget (settlement_batches r)" update_settlement_batch
  "\<lambda>v. (sb_tenant_id v, sb_id v)" sb_version
  by unfold_locales (auto simp: update_settlement_batch_def get_settlement_batch_def dget_dset split: option.splits if_splits)

subsection \<open>When a statement reconciles\<close>

definition lines_of :: "(string, demo_settlement_line list) dict \<Rightarrow> string \<Rightarrow> demo_settlement_line list" where
  "lines_of g k = (case dget g k of None \<Rightarrow> [] | Some ls \<Rightarrow> ls)"

lemma lines_of_add: "lines_of (group_add k v g) k' = lines_of g k' @ (if k' = k then [v] else [])"
  by (auto simp: lines_of_def group_add_def dget_dset split: option.split)

text \<open>The rows of a statement that name the order with identifier \<open>oid\<close>.\<close>

definition rows_for :: "string \<Rightarrow> string \<Rightarrow> repo \<Rightarrow> string \<Rightarrow> settlement_row list \<Rightarrow> settlement_row list" where
  "rows_for t channel r oid srows =
     filter (\<lambda>row. map_option co_id (find_channel_order t channel (sr_external row) r) = Some oid) srows"

definition line_of_row :: "bool \<Rightarrow> demo_settlement_line \<Rightarrow> settlement_row \<Rightarrow> bool" where
  "line_of_row ok l row \<longleftrightarrow> sl_kind l = sr_kind row \<and> sl_amount_minor l = sr_amount row
     \<and> (sl_match_status l = ''matched'' \<longleftrightarrow> ok)"

lemma save_settlement_line_tables [simp]:
  "channel_orders (save_settlement_line l r) = channel_orders r" "purchase_orders (save_settlement_line l r) = purchase_orders r"
  "purchase_lines (save_settlement_line l r) = purchase_lines r" "settlement_batches (save_settlement_line l r) = settlement_batches r"
  "channel_orders (save_realized_profit p r) = channel_orders r" "purchase_orders (save_realized_profit p r) = purchase_orders r"
  "purchase_lines (save_realized_profit p r) = purchase_lines r" "settlement_batches (save_realized_profit p r) = settlement_batches r"
  by (simp_all add: save_settlement_line_def save_realized_profit_def)

text \<open>What both loops leave as it is.\<close>

definition same_orders :: "repo \<Rightarrow> repo \<Rightarrow> bool" where
  "same_orders r r' \<longleftrightarrow> channel_orders r' = channel_orders r \<and> purchase_orders r' = purchase_orders r
     \<and> purchase_lines r' = purchase_lines r \<and> settlement_batches r' = settlement_batches r"

lemma settle_row_ok:
  "settle_row t channel bid (m, g) row s = (Inr acc, s') \<Longrightarrow>
     (let order = find_channel_order t channel (sr_external row) (db s); ok = row_matches order row in
      same_orders (db s) (db s') \<and> (\<exists>l. line_of_row ok l row \<and>
        acc = (m \<and> ok, case order of None \<Rightarrow> g | Some v \<Rightarrow> group_add (co_id v) l g)))"
  by (auto simp: settle_row_def Let_def svc_ok same_orders_def line_of_row_def intro!: exI)

lemma find_same_orders: "same_orders r r' \<Longrightarrow> find_channel_order t c e r' = find_channel_order t c e r"
  by (simp add: same_orders_def find_channel_order_def)

lemma settle_rows_ok:
  "foldM (settle_row t channel bid) (m, g) srows s = (Inr (m', g'), s') \<Longrightarrow> distinct (map fst g) \<Longrightarrow>
     same_orders (db s) (db s') \<and> distinct (map fst g')
     \<and> (m' \<longleftrightarrow> m \<and> (\<forall>row \<in> set srows. row_matches (find_channel_order t channel (sr_external row) (db s)) row))
     \<and> (\<forall>oid. \<exists>new. lines_of g' oid = lines_of g oid @ new \<and>
          list_all2 (\<lambda>l row. line_of_row (row_matches (find_channel_order t channel (sr_external row) (db s)) row) l row)
            new (rows_for t channel (db s) oid srows))
     \<and> fst ` set g' = fst ` set g \<union> {oid. rows_for t channel (db s) oid srows \<noteq> []}"
proof (induction srows arbitrary: m g s)
  case Nil
  then show ?case by (auto simp: ret_ok same_orders_def rows_for_def)
next
  case (Cons row srows)
  let ?o = "find_channel_order t channel (sr_external row) (db s)"
  let ?ok = "row_matches ?o row"
  from Cons.prems(1) obtain acc u where one: "settle_row t channel bid (m, g) row s = (Inr acc, u)"
    and rest: "foldM (settle_row t channel bid) acc srows u = (Inr (m', g'), s')"
    by (auto simp: bnd_ok)
  from settle_row_ok [OF one] obtain l where so: "same_orders (db s) (db u)" and l: "line_of_row ?ok l row"
    and acc: "acc = (m \<and> ?ok, case ?o of None \<Rightarrow> g | Some v \<Rightarrow> group_add (co_id v) l g)"
    by (auto simp: Let_def)
  let ?g = "case ?o of None \<Rightarrow> g | Some v \<Rightarrow> group_add (co_id v) l g"
  have dist: "distinct (map fst ?g)" using Cons.prems(2) by (auto simp: group_add_def intro: distinct_dset split: option.split)
  have keys: "fst ` set ?g = fst ` set g \<union> (case ?o of None \<Rightarrow> {} | Some v \<Rightarrow> {co_id v})"
    by (auto simp: group_add_def dom_map_of_conv_image_fst [symmetric] dget_dset dom_def split: option.split)
  have lines: "lines_of ?g oid = lines_of g oid @ (if map_option co_id ?o = Some oid then [l] else [])" for oid
    by (cases ?o) (auto simp: lines_of_add)
  note IH = Cons.IH [OF rest [unfolded acc] dist]
  have rows: "rows_for t channel (db u) oid srows = rows_for t channel (db s) oid srows" for oid
    using so by (simp add: rows_for_def find_same_orders)
  have all: "\<exists>new. lines_of g' oid = lines_of g oid @ new \<and>
      list_all2 (\<lambda>l row. line_of_row (row_matches (find_channel_order t channel (sr_external row) (db s)) row) l row)
        new (rows_for t channel (db s) oid (row # srows))" for oid
  proof -
    from IH obtain new where "lines_of g' oid = lines_of ?g oid @ new"
      "list_all2 (\<lambda>l row. line_of_row (row_matches (find_channel_order t channel (sr_external row) (db u)) row) l row)
        new (rows_for t channel (db u) oid srows)" by blast
    then show ?thesis
      using l lines [of oid] rows [of oid] so
      by (intro exI [of _ "(if map_option co_id ?o = Some oid then [l] else []) @ new"])
        (auto simp: find_same_orders rows_for_def)
  qed
  show ?case
  proof (intro conjI allI all)
    show "same_orders (db s) (db s')" using IH so by (simp add: same_orders_def)
    show "distinct (map fst g')" using IH by blast
    show "m' \<longleftrightarrow> m \<and> (\<forall>x \<in> set (row # srows). row_matches (find_channel_order t channel (sr_external x) (db s)) x)"
      using IH so by (auto simp: find_same_orders)
    show "fst ` set g' = fst ` set g \<union> {oid. rows_for t channel (db s) oid (row # srows) \<noteq> []}"
      using IH keys rows by (auto simp: rows_for_def split: option.splits)
  qed
qed

text \<open>The profit row of an order, as the second loop leaves it.\<close>

definition profit_is :: "string \<Rightarrow> string \<Rightarrow> string \<Rightarrow> int option \<Rightarrow> repo \<Rightarrow> bool" where
  "profit_is t bid oid realized r \<longleftrightarrow>
     map_option rp_realized_minor (dget (realized_profits r) (t, bid, oid)) = Some realized"

definition realized_of :: "channel_order \<Rightarrow> demo_settlement_line list \<Rightarrow> int option" where
  "realized_of order ls = (if reconciles order ls then Some (sum_list (map sl_amount_minor ls)) else None)"

lemma profit_is_save:
  "profit_is t bid oid' x (save_realized_profit p r) \<longleftrightarrow>
     (if (rp_tenant_id p, rp_batch_id p, rp_order_id p) = (t, bid, oid') then x = rp_realized_minor p else profit_is t bid oid' x r)"
  by (auto simp: profit_is_def save_realized_profit_def dget_dset)

lemma settle_order_ok:
  assumes "settle_order t bid now m (oid, ls) s = (Inr m', s')"
  shows "\<exists>v. dget (channel_orders (db s)) (t, oid) = Some v \<and> m' = (m \<and> reconciles v ls) \<and> same_orders (db s) (db s')
       \<and> (\<forall>oid' x. profit_is t bid oid' x (db s') \<longleftrightarrow>
            (if oid' = oid then x = realized_of v ls else profit_is t bid oid' x (db s)))"
proof -
  from assms obtain v p where "get_channel_order t oid (db s) = Inr v" and m: "m' = (m \<and> reconciles v ls)"
    and p: "db s' = save_realized_profit p (db s)" "rp_tenant_id p = t" "rp_batch_id p = bid" "rp_order_id p = oid"
      "rp_realized_minor p = realized_of v ls"
    by (fastforce simp: settle_order_def Let_def svc_ok realized_of_def)
  then have "dget (channel_orders (db s)) (t, oid) = Some v" by (simp add: get_channel_order_def split: option.splits)
  moreover have "profit_is t bid oid' x (db s') \<longleftrightarrow>
      (if oid' = oid then x = realized_of v ls else profit_is t bid oid' x (db s))" for oid' x
    unfolding p(1) profit_is_save p(2-5) by simp
  moreover have "same_orders (db s) (db s')" unfolding p(1) by (simp add: same_orders_def)
  ultimately show ?thesis using m by blast
qed

lemma settle_orders_ok:
  "foldM (settle_order t bid now) m groups s = (Inr m', s') \<Longrightarrow> distinct (map fst groups) \<Longrightarrow>
     same_orders (db s) (db s')
     \<and> (m' \<longleftrightarrow> m \<and> (\<forall>(oid, ls) \<in> set groups. \<exists>v. dget (channel_orders (db s)) (t, oid) = Some v \<and> reconciles v ls))
     \<and> (\<forall>(oid, ls) \<in> set groups. \<exists>v. dget (channel_orders (db s)) (t, oid) = Some v
          \<and> profit_is t bid oid (realized_of v ls) (db s'))
     \<and> (\<forall>oid x. oid \<notin> fst ` set groups \<longrightarrow> profit_is t bid oid x (db s') = profit_is t bid oid x (db s))"
proof (induction groups arbitrary: m s)
  case Nil
  then show ?case by (simp add: ret_ok same_orders_def)
next
  case (Cons g groups)
  obtain oid ls where g: "g = (oid, ls)" by (cases g)
  from Cons.prems(1) obtain m1 u where one: "settle_order t bid now m (oid, ls) s = (Inr m1, u)"
    and rest: "foldM (settle_order t bid now) m1 groups u = (Inr m', s')" by (auto simp: g bnd_ok)
  from settle_order_ok [OF one] obtain v where v: "dget (channel_orders (db s)) (t, oid) = Some v"
    "m1 = (m \<and> reconciles v ls)" and so: "same_orders (db s) (db u)"
    and pr: "\<And>oid' x. profit_is t bid oid' x (db u) \<longleftrightarrow>
            (if oid' = oid then x = realized_of v ls else profit_is t bid oid' x (db s))" by blast
  from Cons.prems(2) have d: "oid \<notin> fst ` set groups" "distinct (map fst groups)" by (auto simp: g)
  have co: "channel_orders (db u) = channel_orders (db s)" using so by (simp add: same_orders_def)
  note IH = Cons.IH [OF rest d(2), unfolded co]
  show ?case
  proof (intro conjI)
    show "same_orders (db s) (db s')" using IH so by (simp add: same_orders_def)
    show "m' \<longleftrightarrow> m \<and> (\<forall>(oid, ls) \<in> set (g # groups). \<exists>v. dget (channel_orders (db s)) (t, oid) = Some v \<and> reconciles v ls)"
      using IH v by (auto simp: g)
    have "profit_is t bid oid (realized_of v ls) (db s')" using IH d(1) pr by simp
    with IH v show "\<forall>(oid, ls) \<in> set (g # groups). \<exists>v. dget (channel_orders (db s)) (t, oid) = Some v
        \<and> profit_is t bid oid (realized_of v ls) (db s')" by (simp add: g)
    show "\<forall>oid x. oid \<notin> fst ` set (g # groups) \<longrightarrow> profit_is t bid oid x (db s') = profit_is t bid oid x (db s)"
      using IH pr by (auto simp: g)
  qed
qed

definition order_reconciles :: "channel_order \<Rightarrow> settlement_row list \<Rightarrow> bool" where
  "order_reconciles v srows \<longleftrightarrow> sum_list (map sr_amount (filter (\<lambda>row. sr_kind row = ''SALE'') srows)) = co_total_minor v
     \<and> (\<forall>row \<in> set srows. sr_currency row = co_currency v)"

lemma lines_sums:
  "list_all2 (\<lambda>l row. line_of_row (f row) l row) ls srows \<Longrightarrow>
     sum_list (map sl_amount_minor ls) = sum_list (map sr_amount srows)
     \<and> sum_list (map sl_amount_minor (filter (\<lambda>l. sl_kind l = ''SALE'') ls)) =
       sum_list (map sr_amount (filter (\<lambda>row. sr_kind row = ''SALE'') srows))
     \<and> (list_all (\<lambda>l. sl_match_status l = ''matched'') ls \<longleftrightarrow> (\<forall>row \<in> set srows. f row))"
  by (induction rule: list_all2_induct) (auto simp: line_of_row_def)


lemma save_batch_ok:
  "save_settlement_batch v r = Inr ((p, False), r') \<Longrightarrow>
     p = v \<and> r' = r\<lparr>settlement_batches := dset (sb_tenant_id v, sb_id v) v (settlement_batches r)\<rparr>"
  by (auto simp: save_settlement_batch_def split: option.splits if_splits)

lemma update_batch_db: "update_settlement_batch v n r = Inr (u, r') \<Longrightarrow> realized_profits r' = realized_profits r"
  by (auto simp: update_settlement_batch_def split: sum.splits if_splits)

lemma settle_close_ok:
  "seq (mutate (update_settlement_batch v 1)) (seq (audit t actor action target outcome meta) (
     seq (enqueue t topic i payload key now) (ret x))) s = (Inr y, s') \<Longrightarrow>
     y = x \<and> realized_profits (db s') = realized_profits (db s)"
  by (auto simp: call_ok Let_def append_audit_def put_event_def dest!: update_batch_db)

lemma settle_batch_ok:
  assumes "settle_batch ctx channel dg now srows batch s = (Inr (batch', b), s')"
  obtains m1 groups m u1 u2 where
    "foldM (settle_row (ctx_tenant_id ctx) channel (sb_id batch')) (True, []) srows s = (Inr (m1, groups), u1)"
    "foldM (settle_order (ctx_tenant_id ctx) (sb_id batch') now) m1 groups u1 = (Inr m, u2)"
    "sb_status batch' = (if m then Stl_RECONCILED else Stl_EXCEPTION)"
    "realized_profits (db s') = realized_profits (db u2)"
proof -
  from assms obtain acc u1 where
    rows: "foldM (settle_row (ctx_tenant_id ctx) channel (sb_id batch)) (True, []) srows s = (Inr acc, u1)"
    and rest: "(case acc of (m1, groups) \<Rightarrow> bnd (foldM (settle_order (ctx_tenant_id ctx) (sb_id batch) now) m1 groups) (\<lambda>m.
      let batch' = batch\<lparr>sb_status := (if m then Stl_RECONCILED else Stl_EXCEPTION), sb_version := sb_version batch + 1\<rparr> in
      seq (mutate (update_settlement_batch batch' 1)) (
      seq (audit (ctx_tenant_id ctx) (ctx_user_id ctx) ''settlement.imported'' (sb_id batch') ''succeeded''
            (JObj [(''status'', JStr (settlement_status_value (sb_status batch'))), (''source_digest'', JStr dg)])) (
      seq (enqueue (ctx_tenant_id ctx) ''settlement.imported'' (sb_id batch')
            (JObj [(''batch_id'', JStr (sb_id batch')), (''status'', JStr (settlement_status_value (sb_status batch')))])
            (''settlement:'' @ sb_id batch' @ '':imported'') now) (ret (batch', False)))))) u1 = (Inr (batch', b), s')"
    unfolding settle_batch_def Let_def bnd_ok by blast
  obtain m1 groups where acc: "acc = (m1, groups)" by (cases acc)
  from rest obtain m u2 where
    orders: "foldM (settle_order (ctx_tenant_id ctx) (sb_id batch) now) m1 groups u1 = (Inr m, u2)"
    and close: "(batch', b) = (batch\<lparr>sb_status := (if m then Stl_RECONCILED else Stl_EXCEPTION),
      sb_version := sb_version batch + 1\<rparr>, False) \<and> realized_profits (db s') = realized_profits (db u2)"
    unfolding acc prod.case bnd_ok Let_def by (blast dest: settle_close_ok)
  with rows acc show ?thesis by (intro that [of m1 groups u1 m u2]) simp_all
qed

lemma import_settlement_ok:
  "import_demo_settlement ctx channel period raw key s = (Inr (batch, False), s') \<Longrightarrow>
     \<exists>srows dg now v u. settle_batch ctx channel dg now srows v u = (Inr (batch, False), s')
       \<and> fold_check check_row raw [] = Inr srows \<and> channel_orders (db u) = channel_orders (db s)"
  unfolding import_demo_settlement_def Let_def
  by (auto simp: call_ok dest!: save_batch_ok split: if_splits prod.splits)
    ((rule exI conjI | assumption)+, simp_all)

lemma found_order:
  assumes "find_channel_order t c e r = Some v" "wf_repo r"
  shows "dget (channel_orders r) (t, co_id v) = Some v"
proof -
  have "keyed (\<lambda>v. (co_tenant_id v, co_id v)) (channel_orders r)"
    using wf_tableD [OF assms(2), of T_channel_orders] by simp
  then show ?thesis
    by (rule keyed_row_dget) (use assms(1) in \<open>auto simp: find_channel_order_def dest!: first_Some\<close>)
qed

lemma rows_for_found:
  assumes "rows_for t c r oid srows \<noteq> []" "wf_repo r"
  shows "\<exists>v. dget (channel_orders r) (t, oid) = Some v \<and> co_id v = oid \<and> (\<forall>row \<in> set (rows_for t c r oid srows).
           row \<in> set srows \<and> find_channel_order t c (sr_external row) r = Some v)"
proof -
  have one: "\<exists>v. find_channel_order t c (sr_external row) r = Some v \<and> dget (channel_orders r) (t, oid) = Some v
      \<and> co_id v = oid \<and> row \<in> set srows" if "row \<in> set (rows_for t c r oid srows)" for row
    using that found_order [OF _ assms(2)] by (auto simp: rows_for_def)
  from assms(1) obtain row where "row \<in> set (rows_for t c r oid srows)" by (cases "rows_for t c r oid srows") auto
  from one [OF this] obtain v where v: "dget (channel_orders r) (t, oid) = Some v" "co_id v = oid" by blast
  with one show ?thesis by (intro exI [of _ v]) fastforce
qed

definition named_orders :: "string \<Rightarrow> string \<Rightarrow> repo \<Rightarrow> settlement_row list \<Rightarrow> channel_order set" where
  "named_orders t c r srows = {v. \<exists>row \<in> set srows. find_channel_order t c (sr_external row) r = Some v}"

lemma named_orders_rows:
  assumes "wf_repo r"
  shows "v \<in> named_orders t c r srows \<longleftrightarrow> dget (channel_orders r) (t, co_id v) = Some v \<and> rows_for t c r (co_id v) srows \<noteq> []"
proof
  assume "v \<in> named_orders t c r srows"
  then show "dget (channel_orders r) (t, co_id v) = Some v \<and> rows_for t c r (co_id v) srows \<noteq> []"
    using found_order [OF _ assms] by (fastforce simp: named_orders_def rows_for_def filter_empty_conv)
next
  assume a: "dget (channel_orders r) (t, co_id v) = Some v \<and> rows_for t c r (co_id v) srows \<noteq> []"
  then obtain row where row: "row \<in> set (rows_for t c r (co_id v) srows)" by (cases "rows_for t c r (co_id v) srows") auto
  with rows_for_found [OF conjunct2 [OF a] assms] a have "find_channel_order t c (sr_external row) r = Some v" by auto
  with row show "v \<in> named_orders t c r srows" by (auto simp: named_orders_def rows_for_def)
qed

text \<open>What the first loop leaves: one group per named order, with a line per row of it.\<close>

definition groups_rows :: "string \<Rightarrow> string \<Rightarrow> repo \<Rightarrow> settlement_row list \<Rightarrow> (string, demo_settlement_line list) dict \<Rightarrow> bool" where
  "groups_rows t c r srows g \<longleftrightarrow> distinct (map fst g) \<and> fst ` set g = {oid. rows_for t c r oid srows \<noteq> []}
     \<and> (\<forall>oid. list_all2 (\<lambda>l row. line_of_row (row_matches (find_channel_order t c (sr_external row) r) row) l row)
          (lines_of g oid) (rows_for t c r oid srows))"

lemma groups_rows_order:
  assumes g: "groups_rows t c r srows g" and wf: "wf_repo r" and v: "v \<in> named_orders t c r srows"
  shows "(co_id v, lines_of g (co_id v)) \<in> set g \<and> dget (channel_orders r) (t, co_id v) = Some v
      \<and> (reconciles v (lines_of g (co_id v)) \<longleftrightarrow> order_reconciles v (rows_for t c r (co_id v) srows))
      \<and> sum_list (map sl_amount_minor (lines_of g (co_id v))) = sum_list (map sr_amount (rows_for t c r (co_id v) srows))"
proof -
  from v have d: "dget (channel_orders r) (t, co_id v) = Some v" "rows_for t c r (co_id v) srows \<noteq> []"
    using named_orders_rows [OF wf] by blast+
  with g have "co_id v \<in> fst ` set g" by (auto simp: groups_rows_def)
  then obtain k where k: "(co_id v, k) \<in> set g" by auto
  with g have "lines_of g (co_id v) = k" by (simp add: lines_of_def groups_rows_def)
  moreover have "row_matches (find_channel_order t c (sr_external row) r) row \<longleftrightarrow> sr_currency row = co_currency v"
    if "row \<in> set (rows_for t c r (co_id v) srows)" for row
    using rows_for_found [OF d(2) wf] d(1) that by (auto simp: row_matches_def)
  moreover have "list_all2 (\<lambda>l row. line_of_row (row_matches (find_channel_order t c (sr_external row) r) row) l row)
          (lines_of g (co_id v)) (rows_for t c r (co_id v) srows)" using g by (simp add: groups_rows_def)
  ultimately show ?thesis
    using d k by (auto simp: reconciles_def order_reconciles_def dest!: lines_sums)
qed

lemma groups_rows_named:
  assumes g: "groups_rows t c r srows g" and wf: "wf_repo r" and l: "(oid, l) \<in> set g"
  shows "\<exists>v \<in> named_orders t c r srows. oid = co_id v \<and> l = lines_of g (co_id v)"
proof -
  from l g have ne: "rows_for t c r oid srows \<noteq> []" by (force simp: groups_rows_def)
  then obtain row where "row \<in> set (rows_for t c r oid srows)" by (cases "rows_for t c r oid srows") auto
  with rows_for_found [OF ne wf] obtain v where "row \<in> set srows" "co_id v = oid"
    "find_channel_order t c (sr_external row) r = Some v" by blast
  with l g show ?thesis by (force simp: named_orders_def lines_of_def groups_rows_def)
qed

lemma groups_rows_all:
  assumes "groups_rows t c r srows g" "wf_repo r"
  shows "(\<forall>(oid, l) \<in> set g. \<exists>v. dget (channel_orders r) (t, oid) = Some v \<and> reconciles v l) \<longleftrightarrow>
     (\<forall>v \<in> named_orders t c r srows. order_reconciles v (rows_for t c r (co_id v) srows))" (is "?L \<longleftrightarrow> ?R")
proof
  assume ?L
  then show ?R using groups_rows_order [OF assms] by (fastforce split: prod.splits)
next
  assume ?R
  then show ?L using groups_rows_named [OF assms] groups_rows_order [OF assms] by blast
qed

lemma rows_matched:
  assumes all: "\<forall>v \<in> named_orders t c r srows. order_reconciles v (rows_for t c r (co_id v) srows)"
    and row: "row \<in> set srows"
  shows "row_matches (find_channel_order t c (sr_external row) r) row \<longleftrightarrow> find_channel_order t c (sr_external row) r \<noteq> None"
proof (cases "find_channel_order t c (sr_external row) r")
  case (Some v)
  with row have "v \<in> named_orders t c r srows" "row \<in> set (rows_for t c r (co_id v) srows)"
    by (auto simp: named_orders_def rows_for_def)
  with all have "sr_currency row = co_currency v" by (simp add: order_reconciles_def)
  with Some show ?thesis by (simp add: row_matches_def)
qed (simp add: row_matches_def)

lemma settle_rows_groups:
  assumes "foldM (settle_row t c bid) (True, []) srows u = (Inr (m, g), u')" "channel_orders (db u) = channel_orders r"
  shows "groups_rows t c r srows g \<and> channel_orders (db u') = channel_orders r
    \<and> (m \<longleftrightarrow> (\<forall>row \<in> set srows. row_matches (find_channel_order t c (sr_external row) r) row))"
proof -
  have find: "find_channel_order t c x (db u) = find_channel_order t c x r" for x
    using assms(2) by (simp add: find_channel_order_def)
  then have "rows_for t c (db u) oid srows = rows_for t c r oid srows" for oid by (simp add: rows_for_def)
  with settle_rows_ok [OF assms(1)] find assms(2) show ?thesis
    by (auto simp: groups_rows_def lines_of_def same_orders_def)
qed

text \<open>
  C18: A statement reconciles exactly when it should.  A new import is RECONCILED when every row
  names an order of the channel in its currency and the SALE rows of each named order add up to
  the order's total, and an EXCEPTION otherwise.  Each named order gets a profit: the sum of
  its rows when it reconciles, and none when it does not.
\<close>

theorem statement_reconciles:
  assumes run: "import_demo_settlement ctx channel period raw key s = (Inr (batch, False), s')" and wf: "wf_repo (db s)"
  shows "\<exists>srows. fold_check check_row raw [] = Inr srows \<and> (let t = ctx_tenant_id ctx in
     (sb_status batch = Stl_RECONCILED \<longleftrightarrow>
        (\<forall>row \<in> set srows. find_channel_order t channel (sr_external row) (db s) \<noteq> None) \<and>
        (\<forall>v \<in> named_orders t channel (db s) srows. order_reconciles v (rows_for t channel (db s) (co_id v) srows)))
     \<and> (\<forall>v \<in> named_orders t channel (db s) srows. profit_is t (sb_id batch) (co_id v)
          (if order_reconciles v (rows_for t channel (db s) (co_id v) srows)
           then Some (sum_list (map sr_amount (rows_for t channel (db s) (co_id v) srows))) else None) (db s')))"
proof -
  let ?t = "ctx_tenant_id ctx"
  let ?named = "named_orders ?t channel (db s)"
  from import_settlement_ok [OF run] obtain srows dg now b u where settle: "settle_batch ctx channel dg now srows b u = (Inr (batch, False), s')"
    and raw: "fold_check check_row raw [] = Inr srows" and co: "channel_orders (db u) = channel_orders (db s)" by blast
  from settle obtain m1 g m u1 u2 where
    l1: "foldM (settle_row ?t channel (sb_id batch)) (True, []) srows u = (Inr (m1, g), u1)" and
    l2: "foldM (settle_order ?t (sb_id batch) now) m1 g u1 = (Inr m, u2)" and
    st: "sb_status batch = (if m then Stl_RECONCILED else Stl_EXCEPTION)" "realized_profits (db s') = realized_profits (db u2)"
    by (rule settle_batch_ok)
  from settle_rows_groups [OF l1 co] have g: "groups_rows ?t channel (db s) srows g" and
    co1: "channel_orders (db u1) = channel_orders (db s)" and
    m1: "m1 \<longleftrightarrow> (\<forall>row \<in> set srows. row_matches (find_channel_order ?t channel (sr_external row) (db s)) row)" by blast+
  note r2 = settle_orders_ok [OF l2, unfolded co1]
  have d: "distinct (map fst g)" using g by (simp add: groups_rows_def)
  have "sb_status batch = Stl_RECONCILED \<longleftrightarrow>
        (\<forall>row \<in> set srows. find_channel_order ?t channel (sr_external row) (db s) \<noteq> None) \<and>
        (\<forall>v \<in> ?named srows. order_reconciles v (rows_for ?t channel (db s) (co_id v) srows))"
    using st(1) r2 [OF d] groups_rows_all [OF g wf] rows_matched [of ?t channel "db s" srows] m1 by auto
  moreover have "profit_is ?t (sb_id batch) (co_id v)
          (if order_reconciles v (rows_for ?t channel (db s) (co_id v) srows)
           then Some (sum_list (map sr_amount (rows_for ?t channel (db s) (co_id v) srows))) else None) (db s')"
    if "v \<in> ?named srows" for v
  proof -
    note gv = groups_rows_order [OF g wf that]
    with r2 [OF d] have "profit_is ?t (sb_id batch) (co_id v) (realized_of v (lines_of g (co_id v))) (db u2)" by fastforce
    with gv st(2) show ?thesis by (auto simp: profit_is_def realized_of_def)
  qed
  ultimately show ?thesis using raw by (intro exI [of _ srows]) (simp add: Let_def)
qed

text \<open>A shop with one accepted order of 30 KRW, and a statement that sells it.\<close>

definition demo_order :: channel_order where
  "demo_order = new_channel_order ''o1'' ''u0'' ''ch'' ''e1'' ''ref'' ''KRW'' 30 Ord_ACCEPTED 0 ''k1''"

definition demo_shop :: world where
  "demo_shop = demo_tenant\<lparr>db := (db demo_tenant)\<lparr>channel_orders := [((''u0'', ''o1''), demo_order)]\<rparr>\<rparr>"

definition demo_statement :: "json list" where
  "demo_statement = [JObj [(''external_order_key'', JStr ''e1''), (''kind'', JStr ''SALE''), (''amount_minor'', JInt 30),
     (''currency'', JStr ''KRW''), (''source_row_ref'', JStr ''r1'')]]"

lemma demo_shop_wf: "wf_repo (db demo_shop)"
proof -
  have "writes h ''u0'' {T_channel_orders} (db demo_tenant) (db demo_shop)" for h
    using W_channel_orders [of demo_order "''u0''" h "db demo_tenant"]
    by (auto simp: demo_shop_def demo_order_def new_channel_order_def demo_tenant_more intro: writes_one)
  then show ?thesis using demo_tenant_wf wf_writes by blast
qed

lemma demo_statement_rows:
  "fold_check check_row demo_statement [] = Inr [\<lparr>sr_external = ''e1'', sr_kind = ''SALE'', sr_amount = 30,
     sr_currency = ''KRW'', sr_source = ''r1''\<rparr>]"
  by code_simp

lemma demo_statement_arguments: "opaque ''ch''" "opaque ''p''" "demo_statement \<noteq> []" "\<not> blank ''k''"
  using strip_printable [of "''k''"]
  by (simp_all add: opaque_def opaque_with_def is_alnum_def is_digit_def is_upper_def is_lower_def demo_statement_def
      blank_def printable_def)

lemma demo_statement_run:
  "\<exists>b s'. import_demo_settlement demo_master ''ch'' ''p'' demo_statement ''k'' demo_shop = (Inr (b, False), s')"
  using demo_tenant_tables demo_statement_arguments
  by (simp add: import_demo_settlement_def Let_def op_simps demo_statement_rows demo_shop_def demo_order_def new_channel_order_def
      require_def membership_of_def demo_master_def get_membership_def new_membership_def member_capabilities_def
      demo_tenant_more digest_def save_settlement_batch_def prior_batch_def rows_def settle_batch_def settle_row_def
      find_channel_order_def row_matches_def group_add_def settle_order_def get_channel_order_def purchase_orders_for_def
      purchase_cost_def reconciles_def save_settlement_line_def save_realized_profit_def update_settlement_batch_def
      get_settlement_batch_def audit_run enqueue_def append_outbox_def new_outbox_event_def put_event_def append_audit_def
      py_len_def)

theorem statement_reconciles_witness:
  "\<exists>b s'. import_demo_settlement demo_master ''ch'' ''p'' demo_statement ''k'' demo_shop = (Inr (b, False), s')
     \<and> sb_status b = Stl_RECONCILED \<and> profit_is ''u0'' (sb_id b) ''o1'' (Some 30) (db s')"
proof -
  from demo_statement_run obtain b s' where run:
    "import_demo_settlement demo_master ''ch'' ''p'' demo_statement ''k'' demo_shop = (Inr (b, False), s')" by blast
  have "find_channel_order ''u0'' ''ch'' ''e1'' (db demo_shop) = Some demo_order"
    by (simp add: find_channel_order_def demo_shop_def demo_order_def new_channel_order_def rows_def)
  with statement_reconciles [OF run demo_shop_wf]
  have "sb_status b = Stl_RECONCILED \<and> profit_is ''u0'' (sb_id b) ''o1'' (Some 30) (db s')"
    by (simp add: demo_statement_rows Let_def demo_master_def named_orders_def rows_for_def order_reconciles_def
        demo_order_def new_channel_order_def)
  with run show ?thesis by blast
qed

end
