(* ===== verification/Budget.thy ===== *)
theory Budget
  imports Approvals Checks
begin

section \<open>Budgets, agent runs, keys brought by the tenant\<close>

text \<open>
  budget.py, the ledger half of gateway.py and the tables of repository.py behind them.  One
  ledger holds the reservations of every tenant; a run is charged when the tenant's policy and
  the platform's monthly cap both allow it, and the decision is recorded either way.
\<close>

definition platform_warning :: int where
  "platform_warning = 24000"

definition platform_hard_cap :: int where
  "platform_hard_cap = 30000"

definition sqlite_integer_max :: int where
  "sqlite_integer_max = 2 ^ 63 - 1"

subsection \<open>Untrusted JSON\<close>

text \<open>\<open>normalized_key\<close>: camel case to snake case, dashes to underscores, lower case.\<close>

fun snake :: "string \<Rightarrow> string" where
  "snake (c # d # s) = (if (is_lower c \<or> is_digit c) \<and> is_upper d then c # CHR ''_'' # snake (d # s) else c # snake (d # s))"
| "snake s = s"

definition normalized_key :: "string \<Rightarrow> string" where
  "normalized_key k = lower (map (\<lambda>c. if c = CHR ''-'' then CHR ''_'' else c) (snake k))"

fun split_on :: "char \<Rightarrow> string \<Rightarrow> string list" where
  "split_on sep [] = [[]]"
| "split_on sep (c # s) = (if c = sep then [] # split_on sep s
     else case split_on sep s of [] \<Rightarrow> [[c]] | p # ps \<Rightarrow> (c # p) # ps)"

definition secret_parts :: "string list" where
  "secret_parts = [''secret'', ''password'', ''authorization'', ''token'', ''credential'']"

definition secret_name :: "string \<Rightarrow> bool" where
  "secret_name k = (let parts = split_on (CHR ''_'') (normalized_key k) in
     list_ex (\<lambda>p. p \<in> set secret_parts) parts \<or> (''api'' \<in> set parts \<and> ''key'' \<in> set parts))"

definition secret_ref_value :: "json \<Rightarrow> bool" where
  "secret_ref_value v = (case v of
     JStr s \<Rightarrow> take 11 s = ''secret-ref:'' \<and> 1 \<le> length (drop 11 s) \<and> length (drop 11 s) \<le> 240
       \<and> list_all (\<lambda>c. is_alnum c \<or> c \<in> set ''_.:-'') (drop 11 s)
   | _ \<Rightarrow> False)"

fun no_secrets :: "json \<Rightarrow> bool" where
  "no_secrets (JObj kvs) = list_all (\<lambda>(k, v).
     (secret_name k \<longrightarrow> normalized_key k = ''secret_ref'' \<and> secret_ref_value v) \<and> no_secrets v) kvs"
| "no_secrets (JList xs) = list_all no_secrets xs"
| "no_secrets _ = True"

text \<open>\<open>_json\<close> of gateway.py.\<close>

definition gateway_json :: "string \<Rightarrow> json \<Rightarrow> err + string" where
  "gateway_json label v =
     check (no_secrets v) (ConflictError (''raw secret in '' @ label)) (
     check (finite_json v) (ConflictError (label @ '' must be finite JSON'')) (
     check (length (dumps v) \<le> 64 * 1024) (ConflictError (label @ '' too large'')) (
     Inr (dumps v))))"

definition gateway_digest :: "json \<Rightarrow> string svc" where
  "gateway_digest v = bnd (of_sum (gateway_json ''input'' v)) (\<lambda>_. digest v)"

subsection \<open>Repository methods\<close>

definition save_agent_run :: "demo_agent_run \<Rightarrow> repo \<Rightarrow> repo" where
  "save_agent_run v r = r\<lparr>agent_runs := dset (ar_tenant_id v, ar_id v) v (agent_runs r)\<rparr>"

definition agent_runs_for :: "string \<Rightarrow> repo \<Rightarrow> demo_agent_run list" where
  "agent_runs_for t r = rows t (agent_runs r)"

definition get_agent_run :: "string \<Rightarrow> string \<Rightarrow> repo \<Rightarrow> err + demo_agent_run" where
  "get_agent_run t i r = (case dget (agent_runs r) (t, i) of
     None \<Rightarrow> Inl (NotFoundError ''agent run not found'') | Some v \<Rightarrow> Inr v)"

definition save_byok_reference :: "demo_byok_reference \<Rightarrow> repo \<Rightarrow> err + (demo_byok_reference \<times> repo)" where
  "save_byok_reference v r = (let key = (byok_tenant_id v, byok_provider v) in
     case dget (byok_references r) key of
       Some p \<Rightarrow> if byok_secret_ref p \<noteq> byok_secret_ref v then Inl (ConflictError ''BYOK provider reference already exists'')
         else Inr (v, r\<lparr>byok_references := dset key v (byok_references r)\<rparr>)
     | None \<Rightarrow> Inr (v, r\<lparr>byok_references := dset key v (byok_references r)\<rparr>))"

definition byok_references_for :: "string \<Rightarrow> repo \<Rightarrow> demo_byok_reference list" where
  "byok_references_for t r = rows t (byok_references r)"

definition save_budget_policy :: "demo_budget_policy \<Rightarrow> repo \<Rightarrow> repo" where
  "save_budget_policy v r = r\<lparr>budget_policies := dset (bp_tenant_id v) v (budget_policies r)\<rparr>"

definition get_budget_policy :: "string \<Rightarrow> repo \<Rightarrow> demo_budget_policy option" where
  "get_budget_policy t r = dget (budget_policies r) t"

definition budget_entries_for :: "string \<Rightarrow> repo \<Rightarrow> demo_budget_ledger_entry list" where
  "budget_entries_for t r = rows t (budget_ledger r)"

definition all_budget_entries :: "repo \<Rightarrow> demo_budget_ledger_entry list" where
  "all_budget_entries r = map snd (budget_ledger r)"

definition ledger_amount_ok :: "int \<Rightarrow> bool" where
  "ledger_amount_ok n \<longleftrightarrow> 0 \<le> n \<and> n < platform_hard_cap"

abbreviation hard_cap :: err where
  "hard_cap \<equiv> ConflictError ''platform budget hard cap''"

definition prior_entry :: "demo_budget_ledger_entry \<Rightarrow> repo \<Rightarrow> demo_budget_ledger_entry option" where
  "prior_entry v r = first (\<lambda>e. bl_idempotency_key e = bl_idempotency_key v) (budget_entries_for (bl_tenant_id v) r)"

definition save_budget_entry :: "demo_budget_ledger_entry \<Rightarrow> repo \<Rightarrow> err + (demo_budget_ledger_entry \<times> repo)" where
  "save_budget_entry v r =
     check (ledger_amount_ok (bl_amount_minor v)) hard_cap (
     case prior_entry v r of
       Some p \<Rightarrow> check ((bl_run_id p, bl_amount_minor p, bl_occurred_at p) = (bl_run_id v, bl_amount_minor v, bl_occurred_at v))
         (ConflictError ''budget idempotency key reused'') (Inr (p, r))
     | None \<Rightarrow> Inr (v, r\<lparr>budget_ledger := dset (bl_tenant_id v, bl_id v) v (budget_ledger r)\<rparr>))"

definition find_budget_request :: "string \<Rightarrow> string \<Rightarrow> repo \<Rightarrow> demo_budget_request option" where
  "find_budget_request t key r = dget (budget_requests r) (t, key)"

definition save_budget_request :: "demo_budget_request \<Rightarrow> repo \<Rightarrow> err + (demo_budget_request \<times> repo)" where
  "save_budget_request v r =
     check (hex64 (br_request_digest v)) (ConflictError ''invalid budget request digest'') (
     case find_budget_request (br_tenant_id v) (br_idempotency_key v) r of
       Some p \<Rightarrow> check (p = v) (ConflictError ''budget idempotency key reused'') (Inr (p, r))
     | None \<Rightarrow> (case get_agent_run (br_tenant_id v) (br_run_id v) r of Inl e \<Rightarrow> Inl e
         | Inr _ \<Rightarrow> Inr (v, r\<lparr>budget_requests := dset (br_tenant_id v, br_idempotency_key v) v (budget_requests r)\<rparr>)))"

subsection \<open>The ledger\<close>

definition get_budget_request :: "string \<Rightarrow> string \<Rightarrow> string \<Rightarrow> repo \<Rightarrow> err + demo_budget_request option" where
  "get_budget_request t key dg r =
     check (hex64 dg) (ConflictError ''invalid budget request digest'') (
     case find_budget_request t key r of
       Some q \<Rightarrow> check (br_request_digest q = dg) (ConflictError ''budget idempotency key reused'') (Inr (Some q))
     | None \<Rightarrow> check (\<not> list_ex (\<lambda>e. bl_idempotency_key e = key) (budget_entries_for t r))
         (ConflictError ''legacy budget request cannot be verified'') (Inr None))"

definition month_total :: "(int \<times> int) \<Rightarrow> demo_budget_ledger_entry list \<Rightarrow> int" where
  "month_total ym es = sum_list (map bl_amount_minor (filter (\<lambda>e. year_month (bl_occurred_at e) = ym) es))"

definition platform_monthly_budget_total :: "time \<Rightarrow> repo \<Rightarrow> int" where
  "platform_monthly_budget_total now r = month_total (year_month now) (all_budget_entries r)"

text \<open>The snapshot: \<open>reserved_minor\<close> and \<open>computed_at\<close>.\<close>

definition platform_budget_snapshot :: "time \<Rightarrow> repo \<Rightarrow> int \<times> time" where
  "platform_budget_snapshot now r = (platform_monthly_budget_total now r, now)"

definition reserve_budget_entry :: "demo_budget_ledger_entry \<Rightarrow> repo \<Rightarrow> err + (demo_budget_ledger_entry \<times> repo)" where
  "reserve_budget_entry v r =
     check (ledger_amount_ok (bl_amount_minor v)) hard_cap (
     case prior_entry v r of
       Some p \<Rightarrow> save_budget_entry v r
     | None \<Rightarrow> check (platform_monthly_budget_total (bl_occurred_at v) r + bl_amount_minor v < platform_hard_cap) hard_cap
         (save_budget_entry v r))"

subsection \<open>Service operations\<close>

definition configure_demo_byok :: "tenant_context \<Rightarrow> string \<Rightarrow> string \<Rightarrow> string \<Rightarrow> demo_byok_reference svc" where
  "configure_demo_byok ctx provider secret_ref status = (let t = ctx_tenant_id ctx in
     seq (require ctx Cap_TENANT_ADMIN) (
     ensure (opaque_colon provider) (ConflictError ''invalid provider'') (
     ensure (opaque_colon secret_ref) (ConflictError ''invalid secret_ref'') (
     ensure (take 11 secret_ref = ''secret-ref:'' \<and> status \<in> {''UNVERIFIED'', ''VALID'', ''INVALID''})
       (ConflictError ''only opaque BYOK reference metadata is accepted'') (
     transaction (
       bnd uuid4 (\<lambda>i. bnd clock (\<lambda>now.
       bnd (mutate (save_byok_reference \<lparr>byok_id = i, byok_tenant_id = t, byok_provider = provider,
              byok_secret_ref = secret_ref, byok_validation_status = status, byok_created_at = now, byok_version = 1\<rparr>)) (\<lambda>v.
       seq (audit t (ctx_user_id ctx) ''byok.reference_configured'' (byok_id v) ''succeeded''
              (JObj [(''provider'', JStr provider), (''validation_status'', JStr status)])) (
       ret v))))))))))"

definition set_demo_budget_policy :: "tenant_context \<Rightarrow> int \<Rightarrow> int \<Rightarrow> int \<Rightarrow> int \<Rightarrow> int \<Rightarrow> int \<Rightarrow> string \<Rightarrow> demo_budget_policy svc" where
  "set_demo_budget_policy ctx daily monthly generations runs tokens calls tier = (let t = ctx_tenant_id ctx in
     seq (require ctx Cap_TENANT_ADMIN) (
     ensure (list_all (\<lambda>v. 0 \<le> v \<and> v \<le> sqlite_integer_max) [daily, monthly, generations, runs]
         \<and> 1 \<le> tokens \<and> tokens \<le> sqlite_integer_max \<and> 1 \<le> calls \<and> calls \<le> sqlite_integer_max
         \<and> tier \<in> {''economy'', ''balanced'', ''quality''}) (ConflictError ''invalid budget policy'') (
     transaction (
       bnd (reads (get_budget_policy t)) (\<lambda>prior.
       let version = (case prior of None \<Rightarrow> 1 | Some p \<Rightarrow> bp_version p + 1);
           v = \<lparr>bp_tenant_id = t, bp_daily_limit_minor = daily, bp_monthly_limit_minor = monthly,
                bp_generation_limit = generations, bp_agent_run_limit = runs, bp_max_tokens = tokens,
                bp_max_tool_calls = calls, bp_model_tier = tier, bp_version = version\<rparr> in
       seq (modify (save_budget_policy v)) (
       seq (audit t (ctx_user_id ctx) ''budget.policy_configured'' t ''succeeded'' (JObj [(''version'', JInt version)])) (
       ret v)))))))"

text \<open>The arguments of \<open>record_demo_agent_run\<close>.\<close>

record agent_run_request =
  rq_agent_id :: string
  rq_goal :: string
  rq_policy_version :: int
  rq_model :: string
  rq_prompt_version :: string
  rq_input :: json
  rq_decision :: json
  rq_confidence :: string
  rq_tool_calls :: int
  rq_cost :: int
  rq_key :: string
  rq_work_kind :: string

definition valid_agent_run :: "agent_run_request \<Rightarrow> bool" where
  "valid_agent_run q \<longleftrightarrow> \<not> blank (rq_goal q) \<and> 1 \<le> rq_policy_version q \<and> 0 \<le> rq_tool_calls q \<and> 0 \<le> rq_cost q
     \<and> rq_cost q \<le> sqlite_integer_max \<and> rq_confidence q \<in> {''low'', ''medium'', ''high''}
     \<and> rq_work_kind q \<in> {''optional'', ''growth''}"

text \<open>\<open>json.loads(json.dumps(v))\<close> prints as \<open>v\<close> does, so the request is digested from its values.\<close>

definition agent_run_material :: "agent_run_request \<Rightarrow> json" where
  "agent_run_material q = JObj [(''agent_id'', JStr (rq_agent_id q)), (''goal'', JStr (strip (rq_goal q))),
     (''policy_version'', JInt (rq_policy_version q)), (''model'', JStr (rq_model q)),
     (''prompt_version'', JStr (rq_prompt_version q)), (''input'', rq_input q), (''decision'', rq_decision q),
     (''confidence'', JStr (rq_confidence q)), (''tool_calls'', JInt (rq_tool_calls q)),
     (''estimated_cost_minor'', JInt (rq_cost q)), (''work_kind'', JStr (rq_work_kind q))]"

text \<open>
  Lines 148-176: the outcome, from the tenant's policy, its entries and runs, and the fresh
  snapshot of the platform's ledger.
\<close>

definition tenant_outcome :: "demo_budget_policy \<Rightarrow> demo_budget_ledger_entry list \<Rightarrow> nat \<Rightarrow> int \<Rightarrow> time \<Rightarrow> string" where
  "tenant_outcome policy entries runs cost now =
     (let today = filter (\<lambda>e. day_number (bl_occurred_at e) = day_number now) entries;
          daily = sum_list (map bl_amount_minor today);
          monthly = month_total (year_month now) entries
      in if daily + cost > bp_daily_limit_minor policy \<or> monthly + cost > bp_monthly_limit_minor policy
            \<or> int (length today) \<ge> bp_generation_limit policy \<or> int runs \<ge> bp_agent_run_limit policy
         then ''BLOCKED_BUDGET'' else ''RECORDED'')"

definition platform_outcome :: "int \<times> time \<Rightarrow> int \<Rightarrow> string \<Rightarrow> time \<Rightarrow> string \<Rightarrow> string" where
  "platform_outcome snapshot cost kind now outcome =
     (let (reserved, computed) = snapshot in
      if \<not> (0 \<le> reserved \<and> 0 \<le> now - computed \<and> now - computed \<le> seconds 60) then ''BLOCKED_TELEMETRY''
      else if reserved + cost \<ge> platform_hard_cap then ''BLOCKED_GLOBAL_HARD_CAP''
      else if reserved + cost \<ge> platform_warning then
        (if kind = ''growth'' then ''BLOCKED_GLOBAL_WARNING''
         else if outcome = ''RECORDED'' then ''RECORDED_WARNING'' else outcome)
      else outcome)"

definition accepted :: "string \<Rightarrow> bool" where
  "accepted outcome \<longleftrightarrow> outcome \<in> {''RECORDED'', ''RECORDED_WARNING''}"

text \<open>What is stored once the outcome is known.\<close>

definition store_agent_run :: "tenant_context \<Rightarrow> agent_run_request \<Rightarrow> string \<Rightarrow> string \<Rightarrow> string \<Rightarrow> string \<Rightarrow> time \<Rightarrow> demo_agent_run svc" where
  "store_agent_run ctx q outcome dg decision_json request_digest now = (let t = ctx_tenant_id ctx in
     bnd uuid4 (\<lambda>i.
     let run = \<lparr>ar_id = i, ar_tenant_id = t, ar_agent_id = rq_agent_id q, ar_goal = strip (rq_goal q),
           ar_policy_version = rq_policy_version q, ar_model = rq_model q, ar_prompt_version = rq_prompt_version q,
           ar_input_digest = dg, ar_decision_json = decision_json, ar_confidence = rq_confidence q,
           ar_tool_calls = rq_tool_calls q, ar_reviewer = None, ar_estimated_cost_minor = rq_cost q,
           ar_charged_cost_minor = (if accepted outcome then Some (rq_cost q) else None), ar_outcome = outcome,
           ar_created_at = now\<rparr> in
     seq (modify (save_agent_run run)) (
     seq (void (mutate (save_budget_request \<lparr>br_tenant_id = t, br_idempotency_key = rq_key q, br_request_digest = request_digest,
            br_run_id = i, br_outcome = outcome, br_created_at = now\<rparr>))) (
     seq (if accepted outcome then bnd uuid4 (\<lambda>e. void (mutate (reserve_budget_entry \<lparr>bl_id = e, bl_tenant_id = t,
            bl_run_id = i, bl_amount_minor = rq_cost q, bl_occurred_at = now, bl_idempotency_key = rq_key q\<rparr>))) else ret ()) (
     seq (audit t (ctx_user_id ctx) ''agent.run_recorded'' i (if accepted outcome then ''accepted'' else ''blocked'')
            (JObj [(''outcome'', JStr outcome), (''cost_minor'', JInt (rq_cost q))])) (
     ret run))))))"

definition record_demo_agent_run :: "tenant_context \<Rightarrow> agent_run_request \<Rightarrow> demo_agent_run svc" where
  "record_demo_agent_run ctx q = (let t = ctx_tenant_id ctx in
     seq (require ctx Cap_TENANT_ADMIN) (
     ensure (opaque_colon (rq_agent_id q)) (ConflictError ''invalid agent_id'') (
     ensure (opaque_colon (rq_model q)) (ConflictError ''invalid model'') (
     ensure (opaque_colon (rq_prompt_version q)) (ConflictError ''invalid prompt_version'') (
     ensure (opaque_colon (rq_key q)) (ConflictError ''invalid idempotency_key'') (
     ensure (valid_agent_run q) (ConflictError ''invalid agent run'') (
     bnd (of_sum (gateway_json ''input'' (rq_input q))) (\<lambda>_.
     bnd (of_sum (gateway_json ''decision'' (rq_decision q))) (\<lambda>decision_json.
     bnd (gateway_digest (rq_input q)) (\<lambda>dg.
     bnd (gateway_digest (agent_run_material q)) (\<lambda>request_digest.
     bnd clock (\<lambda>now. transaction (
       bnd (query (get_budget_request t (rq_key q) request_digest)) (\<lambda>prior.
       case prior of
         Some p \<Rightarrow> query (get_agent_run t (br_run_id p))
       | None \<Rightarrow>
       bnd (reads (get_budget_policy t)) (\<lambda>policy.
       case policy of
         None \<Rightarrow> throw (ConflictError ''budget policy is required'')
       | Some b \<Rightarrow>
       ensure (bp_version b = rq_policy_version q \<and> rq_tool_calls q \<le> bp_max_tool_calls b)
         (ConflictError ''budget policy or tool-call limit changed'') (
       bnd (reads (budget_entries_for t)) (\<lambda>entries.
       bnd (reads (agent_runs_for t)) (\<lambda>runs.
       bnd (reads (platform_budget_snapshot now)) (\<lambda>snapshot.
       store_agent_run ctx q (platform_outcome snapshot (rq_cost q) (rq_work_kind q) now
           (tenant_outcome b entries (length runs) (rq_cost q) now)) dg decision_json request_digest now)))))))))))))))))))"

subsection \<open>What the calls write\<close>

lemma acts_save_agent_run [acts_rules]:
  "ar_tenant_id v = t \<Longrightarrow> T_agent_runs \<in> L \<Longrightarrow> acts h t L (modify (save_agent_run v)) (\<lambda>_. True)"
  by (rule acts_modify) (auto simp: save_agent_run_def intro!: writes_one W_agent_runs)

lemma acts_save_budget_policy [acts_rules]:
  "bp_tenant_id v = t \<Longrightarrow> T_budget_policies \<in> L \<Longrightarrow> acts h t L (modify (save_budget_policy v)) (\<lambda>_. True)"
  by (rule acts_modify) (auto simp: save_budget_policy_def intro!: writes_one W_budget_policies)

lemma acts_save_byok_reference [acts_rules]:
  "byok_tenant_id v = t \<Longrightarrow> T_byok_references \<in> L \<Longrightarrow> acts h t L (mutate (save_byok_reference v)) (\<lambda>_. True)"
  by (rule acts_mutate)
    (auto simp: save_byok_reference_def Let_def split: option.splits if_splits intro!: writes_one W_byok_references)

lemma acts_save_budget_request [acts_rules]:
  "br_tenant_id v = t \<Longrightarrow> T_budget_requests \<in> L \<Longrightarrow> acts h t L (mutate (save_budget_request v)) (\<lambda>_. True)"
  by (rule acts_mutate)
    (auto simp: save_budget_request_def check_ok split: option.splits sum.splits intro: writes_one W_budget_requests)

lemma acts_reserve_budget_entry [acts_rules]:
  "bl_tenant_id v = t \<Longrightarrow> T_budget_ledger \<in> L \<Longrightarrow> acts h t L (mutate (reserve_budget_entry v)) (\<lambda>_. True)"
  by (rule acts_mutate)
    (auto simp: reserve_budget_entry_def save_budget_entry_def check_ok split: option.splits intro: writes_one W_budget_ledger)

abbreviation budget_tables :: "table set" where
  "budget_tables \<equiv> {T_agent_runs, T_budget_requests, T_budget_ledger, T_budget_policies, T_byok_references, T_audit_events}"

lemma acts_gateway_digest [acts_rules]: "acts h t L (gateway_digest v) (\<lambda>_. True)"
  unfolding gateway_digest_def by (rule acts_rules TrueI)+

lemma acts_configure_demo_byok:
  "budget_tables \<subseteq> L \<Longrightarrow> acts h (ctx_tenant_id ctx) L (configure_demo_byok ctx provider ref status) (\<lambda>_. True)"
  unfolding configure_demo_byok_def Let_def by (rule acts_rules TrueI | simp)+

lemma acts_set_demo_budget_policy:
  "budget_tables \<subseteq> L \<Longrightarrow> acts h (ctx_tenant_id ctx) L (set_demo_budget_policy ctx daily monthly gens runs tokens calls tier) (\<lambda>_. True)"
  unfolding set_demo_budget_policy_def Let_def by (rule acts_rules TrueI | simp)+

lemma acts_record_demo_agent_run:
  "budget_tables \<subseteq> L \<Longrightarrow> acts h (ctx_tenant_id ctx) L (record_demo_agent_run ctx q) (\<lambda>_. True)"
  unfolding record_demo_agent_run_def store_agent_run_def Let_def by (rule acts_rules acts_void TrueI | simp)+

end
