(* ===== verification/Budget_Laws.thy ===== *)
theory Budget_Laws
  imports Budget
begin

section \<open>Laws of the budget ledger\<close>

text \<open>
  The platform's monthly cap as an invariant of the ledger, when a run is charged, and the
  replay of a request.
\<close>

definition ledger_capped :: "repo \<Rightarrow> bool" where
  "ledger_capped r \<longleftrightarrow> (\<forall>e \<in> set (all_budget_entries r). 0 \<le> bl_amount_minor e)
     \<and> (\<forall>ym. month_total ym (all_budget_entries r) < platform_hard_cap)"

interpretation ledger_inv: table_invariant "{T_budget_ledger}" ledger_capped
  by unfold_locales (simp add: ledger_capped_def all_budget_entries_def)

lemma month_total_simps [simp]:
  "month_total ym [] = 0"
  "month_total ym (e # es) = (if year_month (bl_occurred_at e) = ym then bl_amount_minor e else 0) + month_total ym es"
  by (simp_all add: month_total_def)

lemma month_total_nonneg: "\<forall>e \<in> set es. 0 \<le> bl_amount_minor e \<Longrightarrow> 0 \<le> month_total ym es"
  by (induction es) auto

lemma month_total_dset:
  "\<forall>e \<in> set (map snd d). 0 \<le> bl_amount_minor e \<Longrightarrow>
     month_total ym (map snd (dset k v d)) \<le> month_total ym (map snd d) + month_total ym [v]"
  by (induction d) auto

lemma month_total_new: "dget d k = None \<Longrightarrow> month_total ym (map snd (dset k v d)) = month_total ym (map snd d) + month_total ym [v]"
  by (induction d) (auto split: if_splits)

lemma reserve_capped:
  assumes "reserve_budget_entry v r = Inr (e, r')" "ledger_capped r"
  shows "ledger_capped r'"
proof (cases "prior_entry v r")
  case (Some p)
  with assms show ?thesis by (auto simp: reserve_budget_entry_def save_budget_entry_def check_ok)
next
  case None
  with assms(1) have r': "r' = r\<lparr>budget_ledger := dset (bl_tenant_id v, bl_id v) v (budget_ledger r)\<rparr>"
    and v: "0 \<le> bl_amount_minor v" "month_total (year_month (bl_occurred_at v)) (all_budget_entries r) + bl_amount_minor v < platform_hard_cap"
    by (auto simp: reserve_budget_entry_def save_budget_entry_def check_ok ledger_amount_ok_def platform_monthly_budget_total_def)
  have "all_budget_entries r' = map snd (dset (bl_tenant_id v, bl_id v) v (budget_ledger r))"
    by (simp add: all_budget_entries_def r')
  moreover have "\<forall>e \<in> set (map snd (budget_ledger r)). 0 \<le> bl_amount_minor e"
    using assms(2) by (simp add: ledger_capped_def all_budget_entries_def)
  moreover note month_total_dset [OF this] set_dset_sub [of "(bl_tenant_id v, bl_id v)" v "budget_ledger r"]
  ultimately show ?thesis using assms(2) v
    by (fastforce simp: ledger_capped_def all_budget_entries_def intro: le_less_trans)
qed

lemma keeps_reserve:
  "keeps h (\<lambda>r. wf_repo r \<and> ledger_capped r) (mutate (reserve_budget_entry \<lparr>bl_id = e, bl_tenant_id = t, bl_run_id = i,
     bl_amount_minor = n, bl_occurred_at = now, bl_idempotency_key = key\<rparr>)) (\<lambda>_. True)"
  by (rule keeps_wf_mutate [OF acts_reserve_budget_entry [where t = t and L = UNIV]]) (auto intro: reserve_capped)

datatype budget_call =
    Byok tenant_context string string string
  | Policy tenant_context int int int int int int string
  | Agent_run tenant_context agent_run_request

fun budget_op :: "budget_call \<Rightarrow> unit svc" where
  "budget_op (Byok ctx p ref status) = void (configure_demo_byok ctx p ref status)"
| "budget_op (Policy ctx d m g n tk tc tier) = void (set_demo_budget_policy ctx d m g n tk tc tier)"
| "budget_op (Agent_run ctx q) = void (record_demo_agent_run ctx q)"

fun run_budget :: "budget_call list \<Rightarrow> world \<Rightarrow> world" where
  "run_budget [] s = s"
| "run_budget (c # cs) s = run_budget cs (snd (budget_op c s))"

lemma keeps_charge:
  "keeps h (\<lambda>r. wf_repo r \<and> ledger_capped r) (if ok then bnd uuid4 (\<lambda>e. void (mutate (reserve_budget_entry \<lparr>bl_id = e,
     bl_tenant_id = t, bl_run_id = i, bl_amount_minor = n, bl_occurred_at = now, bl_idempotency_key = key\<rparr>))) else ret ()) (\<lambda>_. True)"
  by (cases ok) (auto intro!: keeps_bnd [OF keeps_env(1)] keeps_void keeps_reserve keeps_ret)

lemma store_capped:
  "keeps h (\<lambda>r. wf_repo r \<and> ledger_capped r) (store_agent_run ctx q outcome dg decision_json request_digest now) (\<lambda>_. True)"
  unfolding store_agent_run_def Let_def
  by (rule keeps_seq [OF keeps_charge] ledger_inv.skips [where t = "ctx_tenant_id ctx"] acts_rules
      acts_void keeps_ret TrueI | simp)+

lemma record_capped: "keeps h (\<lambda>r. wf_repo r \<and> ledger_capped r) (record_demo_agent_run ctx q) (\<lambda>_. True)"
  unfolding record_demo_agent_run_def Let_def
  by (rule store_capped keeps_env(6) keeps_intros ledger_inv.skips [where t = "ctx_tenant_id ctx"] acts_rules TrueI | simp)+

lemma budget_op_capped: "keeps h (\<lambda>r. wf_repo r \<and> ledger_capped r) (budget_op c) (\<lambda>_. True)"
proof (cases c)
  case (Byok ctx p ref status)
  have "keeps h (\<lambda>r. wf_repo r \<and> ledger_capped r) (configure_demo_byok ctx p ref status) (\<lambda>_. True)"
    unfolding configure_demo_byok_def Let_def
    by (rule keeps_intros ledger_inv.skips [where t = "ctx_tenant_id ctx"] acts_rules TrueI | simp)+
  with Byok show ?thesis by (simp add: keeps_void)
next
  case (Policy ctx d m g n tk tc tier)
  have "keeps h (\<lambda>r. wf_repo r \<and> ledger_capped r) (set_demo_budget_policy ctx d m g n tk tc tier) (\<lambda>_. True)"
    unfolding set_demo_budget_policy_def Let_def
    by (rule keeps_intros ledger_inv.skips [where t = "ctx_tenant_id ctx"] acts_rules TrueI | simp)+
  with Policy show ?thesis by (simp add: keeps_void)
qed (simp add: keeps_void [OF record_capped])

text \<open>
  C24: The platform never spends its monthly cap.  Whatever runs, policies and keys the tenants
  record, in whatever order and at whatever times, the ledger entries of each calendar month
  add up to less than 30,000.
\<close>

theorem platform_cap_holds:
  assumes "wf_repo (db s)" "ledger_capped (db s)"
  shows "month_total ym (all_budget_entries (db (run_budget cs s))) < 30000"
proof -
  have "wf_repo (db (run_budget cs s)) \<and> ledger_capped (db (run_budget cs s))"
    using assms by (induction cs s rule: run_budget.induct) (simp_all add: keeps_run [OF budget_op_capped refl])
  then show ?thesis unfolding ledger_capped_def platform_hard_cap_def by blast
qed

subsection \<open>When a run is charged\<close>

definition tenant_allows :: "demo_budget_policy \<Rightarrow> demo_budget_ledger_entry list \<Rightarrow> nat \<Rightarrow> int \<Rightarrow> time \<Rightarrow> bool" where
  "tenant_allows p es runs cost now \<longleftrightarrow>
     (let today = filter (\<lambda>e. day_number (bl_occurred_at e) = day_number now) es in
      sum_list (map bl_amount_minor today) + cost \<le> bp_daily_limit_minor p
      \<and> month_total (year_month now) es + cost \<le> bp_monthly_limit_minor p
      \<and> int (length today) < bp_generation_limit p \<and> int runs < bp_agent_run_limit p)"

lemma tenant_outcome_alt: "tenant_outcome p es runs cost now = (if tenant_allows p es runs cost now then ''RECORDED'' else ''BLOCKED_BUDGET'')"
  by (auto simp: tenant_outcome_def tenant_allows_def Let_def)

lemma outcome_accepted:
  "0 \<le> reserved \<Longrightarrow> accepted (platform_outcome (reserved, now) cost kind now (tenant_outcome p es runs cost now)) \<longleftrightarrow>
     tenant_allows p es runs cost now \<and> reserved + cost < (if kind = ''growth'' then platform_warning else platform_hard_cap)"
  by (auto simp: platform_outcome_def tenant_outcome_alt accepted_def platform_warning_def platform_hard_cap_def seconds_def)

lemma reserve_new:
  "reserve_budget_entry v r = Inr (e, r') \<Longrightarrow> prior_entry v r = None \<Longrightarrow>
     r' = r\<lparr>budget_ledger := dset (bl_tenant_id v, bl_id v) v (budget_ledger r)\<rparr>"
  by (auto simp: reserve_budget_entry_def save_budget_entry_def check_ok)

lemma save_request_ledger: "save_budget_request v r = Inr (u, r') \<Longrightarrow> budget_ledger r' = budget_ledger r"
  by (auto simp: save_budget_request_def check_ok split: option.splits sum.splits)

lemma store_agent_run_ok:
  assumes run: "store_agent_run ctx q outcome dg dj rd now s = (Inr run, s')"
    and new: "\<not> list_ex (\<lambda>e. bl_idempotency_key e = rq_key q) (budget_entries_for (ctx_tenant_id ctx) (db s))"
  shows "ar_outcome run = outcome \<and> ar_charged_cost_minor run = (if accepted outcome then Some (rq_cost q) else None)
     \<and> (if accepted outcome then \<exists>i. budget_ledger (db s') = dset (ctx_tenant_id ctx, i) \<lparr>bl_id = i, bl_tenant_id = ctx_tenant_id ctx,
            bl_run_id = ar_id run, bl_amount_minor = rq_cost q, bl_occurred_at = now, bl_idempotency_key = rq_key q\<rparr> (budget_ledger (db s))
         else budget_ledger (db s') = budget_ledger (db s))"
proof -
  have none: "prior_entry v r = None" if "budget_ledger r = budget_ledger (db s)" "bl_tenant_id v = ctx_tenant_id ctx"
      "bl_idempotency_key v = rq_key q" for v r
    using new that by (auto simp: prior_entry_def budget_entries_for_def first_None list_ex_iff)
  show ?thesis
  proof (cases "accepted outcome")
    case True
    with run show ?thesis unfolding store_agent_run_def Let_def
      by (auto simp: svc_ok void_ok audit_ok append_audit_def save_agent_run_def dest!: save_request_ledger reserve_new [OF _ none])
  next
    case False
    with run show ?thesis unfolding store_agent_run_def Let_def
      by (auto simp: svc_ok void_ok audit_ok append_audit_def save_agent_run_def dest!: save_request_ledger)
  qed
qed

lemma get_budget_request_None:
  "get_budget_request t key dg r = Inr None \<Longrightarrow> \<not> list_ex (\<lambda>e. bl_idempotency_key e = key) (budget_entries_for t r)"
  by (auto simp: get_budget_request_def check_ok split: option.splits)

lemma record_new_ok:
  assumes run: "record_demo_agent_run ctx q s = (Inr run, s')"
    and new: "find_budget_request (ctx_tenant_id ctx) (rq_key q) (db s) = None"
  shows "\<exists>b dg dj rd u. store_agent_run ctx q (platform_outcome (platform_monthly_budget_total (clock_src s (clock_ctr s)) (db s), clock_src s (clock_ctr s))
       (rq_cost q) (rq_work_kind q) (clock_src s (clock_ctr s)) (tenant_outcome b (budget_entries_for (ctx_tenant_id ctx) (db s))
         (length (agent_runs_for (ctx_tenant_id ctx) (db s))) (rq_cost q) (clock_src s (clock_ctr s))))
       dg dj rd (clock_src s (clock_ctr s)) u = (Inr run, s')
     \<and> get_budget_policy (ctx_tenant_id ctx) (db s) = Some b \<and> db u = db s
     \<and> \<not> list_ex (\<lambda>e. bl_idempotency_key e = rq_key q) (budget_entries_for (ctx_tenant_id ctx) (db s))"
proof -
  have other: "get_budget_request t (rq_key q) d (db s) \<noteq> Inr (Some p)" if "t = ctx_tenant_id ctx" for t d p
    using new that by (auto simp: get_budget_request_def check_ok)
  from run show ?thesis
    unfolding record_demo_agent_run_def Let_def
    by (auto simp: svc_ok require_ok gateway_digest_def digest_def platform_budget_snapshot_def other option_ok
        dest!: get_budget_request_None) ((rule exI conjI | assumption)+, simp_all)
qed

text \<open>
  C25: A run is charged exactly when it may be.  For a new request the call charges the ledger
  one entry of the run's cost when the tenant's daily, monthly, generation and run limits and
  the platform's threshold (30,000, and 24,000 for growth work) leave room for it, and charges
  nothing otherwise; the outcome recorded with the run says which.
\<close>

theorem run_charged_exactly:
  assumes run: "record_demo_agent_run ctx q s = (Inr run, s')" and capped: "ledger_capped (db s)"
    and new: "find_budget_request (ctx_tenant_id ctx) (rq_key q) (db s) = None"
  shows "\<exists>b. get_budget_policy (ctx_tenant_id ctx) (db s) = Some b \<and>
     (let t = ctx_tenant_id ctx; now = clock_src s (clock_ctr s);
          ok = tenant_allows b (budget_entries_for t (db s)) (length (agent_runs_for t (db s))) (rq_cost q) now
            \<and> platform_monthly_budget_total now (db s) + rq_cost q < (if rq_work_kind q = ''growth'' then 24000 else 30000)
      in (accepted (ar_outcome run) \<longleftrightarrow> ok) \<and> ar_charged_cost_minor run = (if ok then Some (rq_cost q) else None)
         \<and> (if ok then \<exists>i. budget_ledger (db s') = dset (t, i) \<lparr>bl_id = i, bl_tenant_id = t, bl_run_id = ar_id run,
              bl_amount_minor = rq_cost q, bl_occurred_at = now, bl_idempotency_key = rq_key q\<rparr> (budget_ledger (db s))
            else budget_ledger (db s') = budget_ledger (db s)))"
proof -
  let ?t = "ctx_tenant_id ctx" and ?now = "clock_src s (clock_ctr s)"
  let ?total = "platform_monthly_budget_total ?now (db s)"
  from record_new_ok [OF run new] obtain b dg dj rd u where b: "get_budget_policy ?t (db s) = Some b" and u: "db u = db s"
    and unused: "\<not> list_ex (\<lambda>e. bl_idempotency_key e = rq_key q) (budget_entries_for ?t (db s))"
    and store: "store_agent_run ctx q (platform_outcome (?total, ?now) (rq_cost q) (rq_work_kind q) ?now
       (tenant_outcome b (budget_entries_for ?t (db s)) (length (agent_runs_for ?t (db s))) (rq_cost q) ?now))
       dg dj rd ?now u = (Inr run, s')" by blast
  have "0 \<le> ?total"
    using capped by (auto simp: platform_monthly_budget_total_def ledger_capped_def intro: month_total_nonneg)
  let ?ok = "tenant_allows b (budget_entries_for ?t (db s)) (length (agent_runs_for ?t (db s))) (rq_cost q) ?now
     \<and> ?total + rq_cost q < (if rq_work_kind q = ''growth'' then 24000 else 30000)"
  have ok: "accepted (platform_outcome (?total, ?now) (rq_cost q) (rq_work_kind q) ?now
       (tenant_outcome b (budget_entries_for ?t (db s)) (length (agent_runs_for ?t (db s))) (rq_cost q) ?now)) \<longleftrightarrow> ?ok"
    unfolding outcome_accepted [OF \<open>0 \<le> ?total\<close>] platform_warning_def platform_hard_cap_def by (rule refl)
  have "\<not> list_ex (\<lambda>e. bl_idempotency_key e = rq_key q) (budget_entries_for ?t (db u))" using unused u by simp
  note stored = store_agent_run_ok [OF store this, unfolded ok u]
  have "accepted (ar_outcome run) \<longleftrightarrow> ?ok" using stored ok by metis
  with stored b show ?thesis unfolding Let_def by (intro exI [of _ b]) blast
qed

lemma keeps_require: "keeps h I (require ctx c) (\<lambda>_. True)"
  by (auto simp: keeps_def require_def membership_of_def op_simps split: sum.splits prod.splits option.splits)

lemma keeps_gateway_digest: "keeps h I (gateway_digest v) (\<lambda>d. d = h (canonical v))"
  by (auto simp: keeps_def gateway_digest_def digest_def op_simps split: sum.splits)

text \<open>
  A replayed request is free.  When the key was recorded with the same request before, the
  call changes no table and returns the run stored then.
\<close>

theorem replayed_run_free:
  assumes run: "record_demo_agent_run ctx q s = (x, s')"
    and old: "find_budget_request (ctx_tenant_id ctx) (rq_key q) (db s) = Some p"
  shows "db s' = db s \<and> (\<forall>r. x = Inr r \<longrightarrow> dget (agent_runs (db s)) (ctx_tenant_id ctx, br_run_id p) = Some r
           \<and> br_request_digest p = sha256 s (canonical (agent_run_material q)))"
proof -
  let ?same = "\<lambda>r. r = db s"
  have found: "f = Some p \<and> br_request_digest p = d" if "get_budget_request (ctx_tenant_id ctx) (rq_key q) d (db s) = Inr f" for d f
    using that old by (auto simp: get_budget_request_def check_ok)
  have "keeps (sha256 s) ?same (record_demo_agent_run ctx q) (\<lambda>r. dget (agent_runs (db s)) (ctx_tenant_id ctx, br_run_id p) = Some r
           \<and> br_request_digest p = sha256 s (canonical (agent_run_material q)))"
    unfolding record_demo_agent_run_def Let_def
    apply (rule keeps_seq [OF keeps_require] keeps_ensure)+
    apply (rule keeps_bnd [OF keeps_env(7)])+
    apply (rule keeps_bnd [OF keeps_gateway_digest])+
    apply (rule keeps_bnd [OF keeps_env(2)], rule keeps_transaction)
    apply (rule keeps_bnd [OF keeps_query [where Q = "\<lambda>f. f = Some p \<and> br_request_digest p = sha256 s (canonical (agent_run_material q))"]])
     apply (blast dest: found)
    apply (auto simp: get_agent_run_def intro!: keeps_query split: option.splits)
    done
  from keepsD [OF this refl refl run] show ?thesis by auto
qed

subsection \<open>A tenant with a policy, and two runs\<close>

definition demo_policy :: demo_budget_policy where
  "demo_policy = \<lparr>bp_tenant_id = ''u0'', bp_daily_limit_minor = 500, bp_monthly_limit_minor = 9000, bp_generation_limit = 3,
     bp_agent_run_limit = 3, bp_max_tokens = 10, bp_max_tool_calls = 2, bp_model_tier = ''economy'', bp_version = 1\<rparr>"

definition demo_run :: agent_run_request where
  "demo_run = \<lparr>rq_agent_id = ''a'', rq_goal = ''g'', rq_policy_version = 1, rq_model = ''m'', rq_prompt_version = ''p'',
     rq_input = JNull, rq_decision = JNull, rq_confidence = ''high'', rq_tool_calls = 1, rq_cost = 100, rq_key = ''k'',
     rq_work_kind = ''optional''\<rparr>"

definition demo_funded :: world where
  "demo_funded = demo_tenant\<lparr>db := save_budget_policy demo_policy (db demo_tenant)\<rparr>"

definition demo_charged :: world where
  "demo_charged = snd (record_demo_agent_run demo_master demo_run demo_funded)"

lemma demo_funded_wf: "wf_repo (db demo_funded)"
proof -
  have "acts (sha256 demo_tenant) ''u0'' UNIV (modify (save_budget_policy demo_policy)) (\<lambda>_. True)"
    by (rule acts_save_budget_policy) (simp_all add: demo_policy_def)
  from actsD(2) [OF this refl demo_tenant_wf, of "Inr ()" demo_funded] show ?thesis
    by (simp add: modify_def demo_funded_def)
qed

lemma demo_ledger_capped: "ledger_capped (db demo_funded)"
  by (simp add: ledger_capped_def all_budget_entries_def demo_funded_def save_budget_policy_def demo_tenant_more platform_hard_cap_def)

lemma demo_material:
  "agent_run_material demo_run = JObj [(''agent_id'', JStr ''a''), (''goal'', JStr ''g''), (''policy_version'', JInt 1),
     (''model'', JStr ''m''), (''prompt_version'', JStr ''p''), (''input'', JNull), (''decision'', JNull),
     (''confidence'', JStr ''high''), (''tool_calls'', JInt 1), (''estimated_cost_minor'', JInt 100), (''work_kind'', JStr ''optional'')]"
  using strip_printable [of "''g''"] by (simp add: agent_run_material_def demo_run_def printable_def)

lemma demo_run_arguments:
  "opaque_colon ''a''" "opaque_colon ''m''" "opaque_colon ''p''" "opaque_colon ''k''"
  by (simp_all add: opaque_colon_def opaque_with_def is_alnum_def is_digit_def is_upper_def is_lower_def)

lemma demo_run_valid: "valid_agent_run demo_run"
  using strip_printable [of "''g''"] by (simp add: valid_agent_run_def demo_run_def blank_def printable_def sqlite_integer_max_def)

lemma demo_digits: "show_nat 100 = ''100''" "show_nat 1 = ''1''"
  by code_simp+

lemma demo_run_json:
  "\<exists>x. gateway_json l JNull = Inr x" "\<exists>x. gateway_json l (agent_run_material demo_run) = Inr x"
proof -
  have "no_secrets (agent_run_material demo_run)" "finite_json (agent_run_material demo_run)"
    unfolding demo_material by code_simp+
  moreover have "length (dumps (agent_run_material demo_run)) \<le> 65536"
    unfolding demo_material
    by (simp add: quote_def escape_char_def sort_key_def insort_key_def show_int_def demo_digits)
  ultimately show "\<exists>x. gateway_json l (agent_run_material demo_run) = Inr x" by (simp add: gateway_json_def check_def del: dumps.simps)
qed (simp add: gateway_json_def check_def)

lemma demo_hex: "hex64 (sha256 demo_tenant x)"
  by (simp add: demo_tenant_more demo_world_def hex64_def is_digit_def list_all_iff)

lemma store_agent_run_runs:
  assumes "hex64 rd" "find_budget_request (ctx_tenant_id ctx) (rq_key q) (db s) = None"
    "budget_entries_for (ctx_tenant_id ctx) (db s) = []" "ledger_amount_ok (rq_cost q)"
    "platform_monthly_budget_total now (db s) + rq_cost q < platform_hard_cap"
  shows "\<exists>r w p. store_agent_run ctx q outcome dg dj rd now s = (Inr r, w)
     \<and> find_budget_request (ctx_tenant_id ctx) (rq_key q) (db w) = Some p"
  using assms
  by (simp add: store_agent_run_def Let_def op_simps save_agent_run_def save_budget_request_def get_agent_run_def
      reserve_budget_entry_def prior_entry_def save_budget_entry_def check_def void_def audit_run find_budget_request_def
      budget_entries_for_def platform_monthly_budget_total_def all_budget_entries_def append_audit_def)

lemma demo_charged_run: "\<exists>r p. record_demo_agent_run demo_master demo_run demo_funded = (Inr r, demo_charged)
     \<and> find_budget_request ''u0'' ''k'' (db demo_charged) = Some p"
proof -
  obtain x y where j: "gateway_json ''input'' JNull = Inr x" "gateway_json ''decision'' JNull = Inr y" using demo_run_json(1) by blast
  obtain z where z: "gateway_json ''input'' (agent_run_material demo_run) = Inr z" using demo_run_json(2) by blast
  have args: "rq_agent_id demo_run = ''a''" "rq_model demo_run = ''m''" "rq_prompt_version demo_run = ''p''" "rq_key demo_run = ''k''"
    "rq_input demo_run = JNull" "rq_decision demo_run = JNull" "rq_policy_version demo_run = 1" "rq_tool_calls demo_run = 1"
    "rq_cost demo_run = 100" "rq_work_kind demo_run = ''optional''" by (simp_all add: demo_run_def)
  have db: "budget_policies (db demo_funded) = [(''u0'', demo_policy)]" "budget_requests (db demo_funded) = []"
    "budget_ledger (db demo_funded) = []" "agent_runs (db demo_funded) = []" "memberships (db demo_funded) = memberships (db demo_tenant)"
    "clock_src demo_funded = clock_src demo_world" "clock_ctr demo_funded = 2" "sha256 demo_funded = sha256 demo_tenant"
    by (simp_all add: demo_funded_def save_budget_policy_def demo_tenant_more demo_policy_def)
  let ?now = "clock_src demo_world 2" and ?w = "demo_funded\<lparr>clock_ctr := 3\<rparr>"
  have "record_demo_agent_run demo_master demo_run demo_funded = transaction (store_agent_run demo_master demo_run ''RECORDED''
      (sha256 demo_tenant (canonical JNull)) y (sha256 demo_tenant (canonical (agent_run_material demo_run))) ?now) ?w"
    unfolding record_demo_agent_run_def Let_def args
    by (simp add: op_simps demo_run_valid j z args db demo_run_arguments gateway_digest_def digest_def demo_hex require_def
        membership_of_def demo_master_def get_membership_def new_membership_def member_capabilities_def
        demo_tenant_tables get_budget_request_def find_budget_request_def check_def budget_entries_for_def rows_def get_budget_policy_def
        agent_runs_for_def platform_budget_snapshot_def platform_monthly_budget_total_def all_budget_entries_def
        demo_policy_def tenant_outcome_def month_total_def platform_outcome_def platform_hard_cap_def platform_warning_def seconds_def)
      (simp add: db split: prod.split sum.split)
  moreover have "\<exists>r w p. store_agent_run demo_master demo_run ''RECORDED''
      (sha256 demo_tenant (canonical JNull)) y (sha256 demo_tenant (canonical (agent_run_material demo_run))) ?now ?w = (Inr r, w)
      \<and> find_budget_request (ctx_tenant_id demo_master) (rq_key demo_run) (db w) = Some p"
    by (rule store_agent_run_runs) (simp_all add: demo_hex db args find_budget_request_def budget_entries_for_def rows_def
        ledger_amount_ok_def platform_hard_cap_def platform_monthly_budget_total_def all_budget_entries_def)
  ultimately show ?thesis
    by (auto simp: demo_charged_def transaction_def demo_master_def args)
qed

subsection \<open>Witnesses\<close>

theorem platform_cap_holds_witness:
  "month_total (1970, 1) (all_budget_entries (db (run_budget [Agent_run demo_master demo_run] demo_funded))) < 30000"
  by (rule platform_cap_holds [OF demo_funded_wf demo_ledger_capped])

theorem run_charged_exactly_witness:
  "\<exists>r. record_demo_agent_run demo_master demo_run demo_funded = (Inr r, demo_charged) \<and> ar_charged_cost_minor r = Some 100
     \<and> (\<exists>i. budget_ledger (db demo_charged) = [((''u0'', i), \<lparr>bl_id = i, bl_tenant_id = ''u0'', bl_run_id = ar_id r,
          bl_amount_minor = 100, bl_occurred_at = 2000000, bl_idempotency_key = ''k''\<rparr>)])"
proof -
  obtain r where run: "record_demo_agent_run demo_master demo_run demo_funded = (Inr r, demo_charged)" using demo_charged_run by blast
  have "find_budget_request (ctx_tenant_id demo_master) (rq_key demo_run) (db demo_funded) = None"
    by (simp add: find_budget_request_def demo_funded_def save_budget_policy_def demo_tenant_more)
  from run_charged_exactly [OF run demo_ledger_capped this] run show ?thesis
    by (simp add: demo_master_def demo_run_def demo_funded_def save_budget_policy_def demo_tenant_more get_budget_policy_def
        demo_policy_def tenant_allows_def budget_entries_for_def agent_runs_for_def rows_def month_total_def
        platform_monthly_budget_total_def all_budget_entries_def Let_def demo_world_def)
qed

theorem replayed_run_free_witness:
  "db (snd (record_demo_agent_run demo_master demo_run demo_charged)) = db demo_charged"
proof -
  obtain p where "find_budget_request (ctx_tenant_id demo_master) (rq_key demo_run) (db demo_charged) = Some p"
    using demo_charged_run by (auto simp: demo_master_def demo_run_def)
  from replayed_run_free [OF surjective_pairing this] show ?thesis by blast
qed

end
