(* ===== verification/Gateway.thy ===== *)
theory Gateway
  imports Budget Safety
begin

section \<open>The gateway for tool commands\<close>

text \<open>
  \<open>submit_demo_tool\<close> of gateway.py and the table of tool commands.  A mutating command is
  accepted only on a live approval of exactly its tool, target and input, and the approval is
  used up by it; the decision is stored under the caller's idempotency key either way.
\<close>

definition tools :: "string list" where
  "tools = [''publish_offer'', ''update_stock'', ''update_price'', ''create_purchase_order'', ''claim_action'',
     ''dispatch_shipment'', ''reconcile'', ''pause_scope'', ''resume_scope'']"

definition tool_targets :: "string list" where
  "tool_targets = [''offer'', ''order'', ''supplier'', ''channel'', ''tenant'', ''product'', ''shipment'']"

definition mutating :: "string \<Rightarrow> bool" where
  "mutating tool \<longleftrightarrow> tool \<in> set tools \<and> tool \<noteq> ''reconcile''"

definition tool_approval_kinds :: "string \<Rightarrow> approval_kind list" where
  "tool_approval_kinds tool =
     (if tool \<in> {''publish_offer'', ''update_stock'', ''update_price''} then [Kind_PRODUCT]
      else if tool \<in> {''create_purchase_order'', ''dispatch_shipment''} then [Kind_PURCHASE]
      else if tool = ''claim_action'' then [Kind_REFUND]
      else if tool \<in> {''pause_scope'', ''resume_scope''} then [Kind_PAUSE] else [])"

subsection \<open>Repository methods\<close>

definition tool_commands_for :: "string \<Rightarrow> repo \<Rightarrow> demo_tool_command list" where
  "tool_commands_for t r = rows t (tool_commands r)"

definition get_tool_command :: "string \<Rightarrow> string \<Rightarrow> repo \<Rightarrow> err + demo_tool_command" where
  "get_tool_command t i r = (case dget (tool_commands r) (t, i) of Some v \<Rightarrow> Inr v
   | None \<Rightarrow> if list_ex (\<lambda>k. snd k = i) (map fst (tool_commands r))
       then Inl (TenantBoundaryError ''cross-tenant tool command access denied'')
       else Inl (NotFoundError ''tool command not found''))"

definition same_tool_request :: "demo_tool_command \<Rightarrow> demo_tool_command \<Rightarrow> bool" where
  "same_tool_request p v \<longleftrightarrow> (tc_actor_type p, tc_actor_id p, tc_tool p, tc_target_type p, tc_target_id p, tc_input_json p,
      tc_requested_policy_version p, tc_approval_id p)
    = (tc_actor_type v, tc_actor_id v, tc_tool v, tc_target_type v, tc_target_id v, tc_input_json v,
      tc_requested_policy_version v, tc_approval_id v)"

definition prior_tool_command :: "demo_tool_command \<Rightarrow> repo \<Rightarrow> demo_tool_command option" where
  "prior_tool_command v r = first (\<lambda>p. tc_idempotency_key p = tc_idempotency_key v) (tool_commands_for (tc_tenant_id v) r)"

definition save_tool_command :: "demo_tool_command \<Rightarrow> repo \<Rightarrow> err + ((demo_tool_command \<times> bool) \<times> repo)" where
  "save_tool_command v r = (case prior_tool_command v r of
     Some p \<Rightarrow> check (same_tool_request p v) (ConflictError ''tool idempotency key reused'') (Inr ((p, True), r))
   | None \<Rightarrow> Inr ((v, False), r\<lparr>tool_commands := dset (tc_tenant_id v, tc_id v) v (tool_commands r)\<rparr>))"

text \<open>\<open>demo_stop_active\<close> called with no connection.\<close>

definition tenant_stopped :: "string \<Rightarrow> repo \<Rightarrow> bool" where
  "tenant_stopped t r = list_ex (\<lambda>c. sc_stopped c \<and> (sc_scope_type c = ''tenant'' \<or> sc_scope_type c = ''global''))
     (stop_controls_for t r)"

subsection \<open>Submitting a command\<close>

text \<open>The arguments of \<open>submit_demo_tool\<close>; the input is an object.\<close>

record tool_request =
  tq_actor_type :: string
  tq_actor_id :: string
  tq_tool :: string
  tq_target_type :: string
  tq_target_id :: string
  tq_input :: json
  tq_key :: string
  tq_policy :: int
  tq_approval :: "string option"

definition tool_stopped :: "string \<Rightarrow> tool_request \<Rightarrow> repo \<Rightarrow> bool" where
  "tool_stopped t q r = (if tq_target_type q = ''channel'' then demo_stop_active t (tq_target_id q) r else tenant_stopped t r)"

text \<open>\<open>_json\<close> of both payloads is compared; either may raise.\<close>

definition validated_tool_approval :: "tenant_context \<Rightarrow> string \<Rightarrow> tool_request \<Rightarrow> (string \<times> string) svc" where
  "validated_tool_approval ctx aid q = (let t = ctx_tenant_id ctx in
     bnd (query (get_approval t aid)) (\<lambda>a.
     bnd (query (get_command t (ap_command_id a))) (\<lambda>c.
     bnd (reads (get_approval_intent t (cmd_id c))) (\<lambda>intent.
     case intent of None \<Rightarrow> throw (ConflictError ''tool approval intent mismatch'')
     | Some i \<Rightarrow>
     ensure (cmd_kind c \<in> set (tool_approval_kinds (tq_tool q))) (ConflictError ''tool approval intent mismatch'') (
     ensure (cmd_target_ref c = tq_target_type q @ '':'' @ tq_target_id q) (ConflictError ''tool approval intent mismatch'') (
     bnd (of_sum (gateway_json ''input'' (cmd_payload c))) (\<lambda>approved.
     bnd (of_sum (gateway_json ''input'' (tq_input q))) (\<lambda>requested.
     ensure (approved = requested \<and> ai_policy_version i = tq_policy q) (ConflictError ''tool approval intent mismatch'') (
     bnd (reads (tool_commands_for t)) (\<lambda>cs.
     ensure (\<not> list_ex (\<lambda>v. tc_approval_id v = Some aid \<and> tc_state v = ''accepted'' \<and> tc_idempotency_key v \<noteq> tq_key q) cs)
       (ConflictError ''approval_already_used'') (
     bnd (prepare_execution ctx (cmd_id c) (tq_policy q) (ai_target_version i)) (\<lambda>(p, _).
     ensure (ep_canonical_digest p = ai_canonical_digest i) (ConflictError ''tool approval intent mismatch'') (
     ret (cmd_id c, ai_canonical_digest i))))))))))))))"

text \<open>
  The \<open>if\<close>/\<open>elif\<close> of the gateway: the state, the reason it is blocked, the approved command
  and the digest of its intent.
\<close>

definition blocked_by :: "err \<Rightarrow> string" where
  "blocked_by e = (if e = ConflictError ''approval_already_used'' then ''approval_already_used'' else ''approval_intent_mismatch'')"

definition judge_tool :: "tenant_context \<Rightarrow> tool_request \<Rightarrow> (string \<times> string option \<times> (string \<times> string) option) svc" where
  "judge_tool ctx q =
     bnd (reads (tool_stopped (ctx_tenant_id ctx) q)) (\<lambda>stopped.
     if stopped then ret (''blocked'', Some ''stop_active'', None)
     else if mutating (tq_tool q) then
       (case tq_approval q of None \<Rightarrow> ret (''approval_required'', Some ''approval_required'', None)
        | Some aid \<Rightarrow> catch (bnd (validated_tool_approval ctx aid q) (\<lambda>x. ret (''accepted'', None, Some x)))
            (\<lambda>e. if is_authorization e \<or> is_conflict e \<or> is_not_found e
              then ret (''blocked'', Some (blocked_by e), None) else throw e))
     else ret (''accepted'', None, None))"

definition tool_command_of :: "tenant_context \<Rightarrow> tool_request \<Rightarrow> string \<Rightarrow> string option \<Rightarrow> (string \<times> string) option \<Rightarrow>
    string \<Rightarrow> time \<Rightarrow> string \<Rightarrow> demo_tool_command" where
  "tool_command_of ctx q state blocked used i now encoded = \<lparr>tc_id = i, tc_tenant_id = ctx_tenant_id ctx,
     tc_actor_type = tq_actor_type q, tc_actor_id = tq_actor_id q, tc_tool = tq_tool q, tc_target_type = tq_target_type q,
     tc_target_id = tq_target_id q, tc_input_json = encoded, tc_idempotency_key = tq_key q,
     tc_requested_policy_version = tq_policy q,
     tc_approval_id = (if used = None then None else tq_approval q), tc_mode = ''DEMO'', tc_state = state,
     tc_blocked_reason = blocked, tc_created_at = now, tc_approval_command_id = map_option fst used,
     tc_intent_digest = map_option snd used\<rparr>"

text \<open>The answer; its other entries are constants.\<close>

record tool_response =
  tr_command_id :: string
  tr_state :: string
  tr_next_action :: "string option"

definition is_object :: "json \<Rightarrow> bool" where
  "is_object v = (case v of JObj _ \<Rightarrow> True | _ \<Rightarrow> False)"

definition announce_tool :: "tenant_context \<Rightarrow> demo_tool_command \<Rightarrow> string \<Rightarrow> (string \<times> string) option \<Rightarrow> unit svc" where
  "announce_tool ctx v state used = (let t = ctx_tenant_id ctx in
     seq (audit t (ctx_user_id ctx) (if state = ''accepted'' then ''tool.command_accepted'' else ''tool.command_blocked'')
            (tc_id v) (if state = ''accepted'' then ''accepted'' else ''blocked'')
            (JObj [(''tool'', JStr (tc_tool v)), (''mode'', JStr ''DEMO'')])) (
     case used of
       Some (_, dg) \<Rightarrow> if state = ''accepted'' then enqueue t ''tool.command'' (tc_id v)
           (JObj [(''command_id'', JStr (tc_id v)), (''state'', JStr state), (''mode'', JStr ''DEMO''), (''intent_digest'', JStr dg)])
           (''tool:'' @ tc_id v @ '':accepted'') (tc_created_at v) else ret ()
     | None \<Rightarrow> ret ()))"

definition submit_demo_tool :: "tenant_context \<Rightarrow> tool_request \<Rightarrow> tool_response svc" where
  "submit_demo_tool ctx q = (let t = ctx_tenant_id ctx in
     seq (require ctx Cap_TENANT_ADMIN) (
     ensure (tq_actor_type q \<in> {''user'', ''agent'', ''workflow''} \<and> is_object (tq_input q) \<and> tq_tool q \<in> set tools
         \<and> tq_target_type q \<in> set tool_targets \<and> 1 \<le> tq_policy q) (ConflictError ''invalid typed DEMO tool command'') (
     ensure (opaque_colon (tq_actor_id q)) (ConflictError ''invalid actor_id'') (
     ensure (opaque_colon (tq_target_id q)) (ConflictError ''invalid target_id'') (
     ensure (opaque_colon (tq_key q)) (ConflictError ''invalid idempotency_key'') (
     ensure (case tq_approval q of None \<Rightarrow> True | Some a \<Rightarrow> opaque_colon a) (ConflictError ''invalid approval_id'') (
     bnd (of_sum (gateway_json ''input'' (tq_input q))) (\<lambda>encoded.
     transaction (
       bnd (judge_tool ctx q) (\<lambda>(state, blocked, used).
       bnd uuid4 (\<lambda>i. bnd clock (\<lambda>now.
       bnd (mutate (save_tool_command (tool_command_of ctx q state blocked used i now encoded))) (\<lambda>(v, replay).
       seq (if replay then ret () else announce_tool ctx v state used) (
       ret \<lparr>tr_command_id = tc_id v, tr_state = tc_state v, tr_next_action = blocked\<rparr>))))))))))))))"

subsection \<open>What the call writes\<close>

abbreviation preparing_tables :: "table set" where
  "preparing_tables \<equiv> {T_execution_preparations, T_audit_events, T_outbox}"

lemma acts_save_tool_command [acts_rules]:
  "tc_tenant_id v = t \<Longrightarrow> T_tool_commands \<in> L \<Longrightarrow> acts h t L (mutate (save_tool_command v)) (\<lambda>_. True)"
  by (rule acts_mutate) (auto simp: save_tool_command_def check_ok split: option.splits intro: writes_one W_tool_commands)

lemma acts_validated_tool_approval:
  "preparing_tables \<subseteq> L \<Longrightarrow> acts h (ctx_tenant_id ctx) L (validated_tool_approval ctx aid q) (\<lambda>_. True)"
  unfolding validated_tool_approval_def Let_def by (rule acts_rules acts_prepare_execution TrueI | simp)+

lemma acts_judge_tool:
  "preparing_tables \<subseteq> L \<Longrightarrow> acts h (ctx_tenant_id ctx) L (judge_tool ctx q) (\<lambda>_. True)"
  unfolding judge_tool_def
  by (rule acts_rules acts_validated_tool_approval TrueI | simp)+

lemma acts_announce_tool:
  "T_audit_events \<in> L \<Longrightarrow> T_outbox \<in> L \<Longrightarrow> acts h (ctx_tenant_id ctx) L (announce_tool ctx v state used) (\<lambda>_. True)"
  unfolding announce_tool_def Let_def by (rule acts_rules acts_enqueue TrueI | simp)+

lemma acts_submit_demo_tool:
  "preparing_tables \<subseteq> L \<Longrightarrow> T_tool_commands \<in> L \<Longrightarrow>
     acts h (ctx_tenant_id ctx) L (submit_demo_tool ctx q) (\<lambda>_. True)"
  unfolding submit_demo_tool_def Let_def
  by (rule acts_rules acts_judge_tool acts_announce_tool TrueI | simp add: tool_command_of_def)+

end
