(* ===== verification/Gateway_Laws.thy ===== *)
theory Gateway_Laws
  imports Gateway Approval_Laws
begin

section \<open>Laws of the tool gateway\<close>

text \<open>
  What an accepted command rests on, the single use of approvals as an invariant of the table
  of commands, and what a stop does to new and to repeated requests.
\<close>

lemma get_approval_keys:
  "get_approval t aid r = Inr a \<Longrightarrow> wf_repo r \<Longrightarrow> dget (approvals r) (t, ap_command_id a) = Some a \<and> ap_id a = aid"
proof -
  assume a: "get_approval t aid r = Inr a" and "wf_repo r"
  then have "keyed (\<lambda>v. (ap_tenant_id v, ap_command_id v)) (approvals r)" using wf_tableD [of r T_approvals] by simp
  with a show ?thesis
    by (auto simp: get_approval_def dest!: first_Some split: option.splits dest: keyed_row_dget)
qed

text \<open>What a mutating command was accepted on.\<close>

definition approved_for :: "(string \<Rightarrow> string) \<Rightarrow> time \<Rightarrow> tenant_context \<Rightarrow> string \<Rightarrow> tool_request \<Rightarrow> string \<times> string \<Rightarrow> repo \<Rightarrow> bool" where
  "approved_for h now ctx aid q used r \<longleftrightarrow> (let t = ctx_tenant_id ctx in \<exists>a c i who m j.
     get_approval t aid r = Inr a \<and> ap_state a = Apr_APPROVED \<and> now < ap_expires_at a
     \<and> dget (commands r) (t, ap_command_id a) = Some c \<and> cmd_state c = Cmd_APPROVED
     \<and> cmd_kind c \<in> set (tool_approval_kinds (tq_tool q)) \<and> cmd_target_ref c = tq_target_type q @ '':'' @ tq_target_id q
     \<and> gateway_json ''input'' (cmd_payload c) = Inr j \<and> gateway_json ''input'' (tq_input q) = Inr j
     \<and> get_approval_intent t (cmd_id c) r = Some i \<and> intent_matches h c a i \<and> ai_policy_version i = tq_policy q
     \<and> ap_decided_by a = Some who \<and> dget (memberships r) (t, who) = Some m \<and> mb_active m
     \<and> approval_capability (cmd_kind c) \<in> member_capabilities m
     \<and> used = (cmd_id c, ai_canonical_digest i)
     \<and> \<not> list_ex (\<lambda>v. tc_approval_id v = Some aid \<and> tc_state v = ''accepted'' \<and> tc_idempotency_key v \<noteq> tq_key q)
         (tool_commands_for t r))"

lemma validated_ok:
  assumes run: "validated_tool_approval ctx aid q s = (Inr used, s')" and wf: "wf_repo (db s)"
  shows "approved_for (sha256 s) (clock_src s (clock_ctr s)) ctx aid q used (db s)"
proof -
  let ?t = "ctx_tenant_id ctx"
  have "\<exists>a c i j p b. prepare_execution ctx (cmd_id c) (tq_policy q) (ai_target_version i) s = (Inr (p, b), s')
     \<and> get_approval ?t aid (db s) = Inr a \<and> dget (commands (db s)) (?t, ap_command_id a) = Some c
     \<and> get_approval_intent ?t (cmd_id c) (db s) = Some i \<and> cmd_kind c \<in> set (tool_approval_kinds (tq_tool q))
     \<and> cmd_target_ref c = tq_target_type q @ '':'' @ tq_target_id q
     \<and> gateway_json ''input'' (cmd_payload c) = Inr j \<and> gateway_json ''input'' (tq_input q) = Inr j
     \<and> ai_policy_version i = tq_policy q \<and> used = (cmd_id c, ai_canonical_digest i)
     \<and> \<not> list_ex (\<lambda>v. tc_approval_id v = Some aid \<and> tc_state v = ''accepted'' \<and> tc_idempotency_key v \<noteq> tq_key q)
         (tool_commands_for ?t (db s))"
    using run unfolding validated_tool_approval_def Let_def
    by (auto simp: svc_ok option_ok get_command_ok split: prod.splits)
  then obtain a c i j p b where prep: "prepare_execution ctx (cmd_id c) (tq_policy q) (ai_target_version i) s = (Inr (p, b), s')"
    and g: "get_approval ?t aid (db s) = Inr a" "dget (commands (db s)) (?t, ap_command_id a) = Some c"
      "get_approval_intent ?t (cmd_id c) (db s) = Some i" "cmd_kind c \<in> set (tool_approval_kinds (tq_tool q))"
      "cmd_target_ref c = tq_target_type q @ '':'' @ tq_target_id q"
      "gateway_json ''input'' (cmd_payload c) = Inr j" "gateway_json ''input'' (tq_input q) = Inr j"
      "ai_policy_version i = tq_policy q" "used = (cmd_id c, ai_canonical_digest i)"
      "\<not> list_ex (\<lambda>v. tc_approval_id v = Some aid \<and> tc_state v = ''accepted'' \<and> tc_idempotency_key v \<noteq> tq_key q)
         (tool_commands_for ?t (db s))"
    by (elim exE conjE) (rule that; assumption)
  have "cmd_id c = ap_command_id a" using get_command_keys [OF wf] g(2) by (auto simp: get_command_ok)
  moreover note get_approval_keys [OF g(1) wf]
  ultimately obtain who m where "ap_state a = Apr_APPROVED" "clock_src s (clock_ctr s) < ap_expires_at a"
      "cmd_state c = Cmd_APPROVED" "intent_matches (sha256 s) c a i" "ap_decided_by a = Some who"
      "dget (memberships (db s)) (?t, who) = Some m" "mb_active m" "approval_capability (cmd_kind c) \<in> member_capabilities m"
    using prepare_execution_ok [OF prep] g(2,3) by auto
  with g show ?thesis unfolding approved_for_def Let_def by blast
qed

lemma judge_ok:
  assumes run: "judge_tool ctx q s = (Inr (state, blocked, used), s')" and wf: "wf_repo (db s)"
  shows "(used = None \<or> (\<exists>aid u. used = Some u \<and> tq_approval q = Some aid \<and> mutating (tq_tool q)
            \<and> approved_for (sha256 s) (clock_src s (clock_ctr s)) ctx aid q u (db s)))
     \<and> (state = ''accepted'' \<longrightarrow> \<not> tool_stopped (ctx_tenant_id ctx) q (db s) \<and> (mutating (tq_tool q) \<longrightarrow> used \<noteq> None))
     \<and> (tool_stopped (ctx_tenant_id ctx) q (db s) \<longrightarrow> state = ''blocked'' \<and> blocked = Some ''stop_active'' \<and> used = None)
     \<and> (used \<noteq> None \<longrightarrow> state = ''accepted'')
     \<and> tool_commands (db s') = tool_commands (db s)"
proof -
  have "tool_commands (db s') = tool_commands (db s)"
    using writes_frame [OF actsD(3) [OF acts_judge_tool [OF subset_refl] refl wf run], of T_tool_commands] by simp
  moreover have "(used = None \<or> (\<exists>aid u. used = Some u \<and> tq_approval q = Some aid \<and> mutating (tq_tool q)
            \<and> approved_for (sha256 s) (clock_src s (clock_ctr s)) ctx aid q u (db s)))
     \<and> (state = ''accepted'' \<longrightarrow> \<not> tool_stopped (ctx_tenant_id ctx) q (db s) \<and> (mutating (tq_tool q) \<longrightarrow> used \<noteq> None))
     \<and> (tool_stopped (ctx_tenant_id ctx) q (db s) \<longrightarrow> state = ''blocked'' \<and> blocked = Some ''stop_active'' \<and> used = None)
     \<and> (used \<noteq> None \<longrightarrow> state = ''accepted'')"
  proof (cases "tool_stopped (ctx_tenant_id ctx) q (db s) \<or> \<not> mutating (tq_tool q) \<or> tq_approval q = None")
    case True
    then have "(Inr (state, blocked, used), s') = (if tool_stopped (ctx_tenant_id ctx) q (db s)
        then (Inr (''blocked'', Some ''stop_active'', None), s) else if mutating (tq_tool q)
        then (Inr (''approval_required'', Some ''approval_required'', None), s) else (Inr (''accepted'', None, None), s))"
      using run by (auto simp: judge_tool_def op_simps)
    then show ?thesis by (simp split: if_splits)
  next
    case False
    then obtain aid where aid: "tq_approval q = Some aid" by auto
    with False run have "catch (bnd (validated_tool_approval ctx aid q) (\<lambda>x. ret (''accepted'', None, Some x)))
            (\<lambda>e. if is_authorization e \<or> is_conflict e \<or> is_not_found e
              then ret (''blocked'', Some (blocked_by e), None) else throw e) s = (Inr (state, blocked, used), s')"
      by (simp add: judge_tool_def op_simps)
    then consider (accepted) x where "validated_tool_approval ctx aid q s = (Inr x, s')" "used = Some x" "state = ''accepted''"
      | (refused) "used = None" "state = ''blocked''"
      by (cases used) (auto simp: catch_ok bnd_ok ret_ok throw_ok if_ok split: if_splits)
    then show ?thesis by cases (use False aid validated_ok [OF _ wf] in auto)
  qed
  ultimately show ?thesis by blast
qed

subsection \<open>Acceptance\<close>

lemma submit_ok:
  assumes run: "submit_demo_tool ctx q s = (Inr resp, s')"
  shows "\<exists>state blocked used u i now j v replay. judge_tool ctx q s = (Inr (state, blocked, used), u)
     \<and> gateway_json ''input'' (tq_input q) = Inr j
     \<and> (\<exists>r. save_tool_command (tool_command_of ctx q state blocked used i now j) (db u) = Inr ((v, replay), r)
        \<and> tool_commands (db s') = tool_commands r) \<and> resp = \<lparr>tr_command_id = tc_id v, tr_state = tc_state v, tr_next_action = blocked\<rparr>"
proof -
  from run obtain state blocked used u i now j v replay r w where
    j: "judge_tool ctx q s = (Inr (state, blocked, used), u)" "gateway_json ''input'' (tq_input q) = Inr j"
    and save: "save_tool_command (tool_command_of ctx q state blocked used i now j) (db u) = Inr ((v, replay), r)"
    and tail: "(if replay then ret () else announce_tool ctx v state used) w = (Inr (), s')" "db w = r"
    and resp: "resp = \<lparr>tr_command_id = tc_id v, tr_state = tc_state v, tr_next_action = blocked\<rparr>"
    unfolding submit_demo_tool_def Let_def
    by (auto simp: svc_ok require_ok split: prod.splits)
  have "tool_commands (db s') = tool_commands (db w)"
    using tail by (auto simp: announce_tool_def Let_def svc_ok audit_ok option_ok branch_ok enqueue_ok if_ok split: if_splits)
  with j save tail(2) resp show ?thesis by blast
qed

lemma tool_command_of_simps [simp]:
  "tc_tenant_id (tool_command_of ctx q state blocked used i now j) = ctx_tenant_id ctx"
  "tc_id (tool_command_of ctx q state blocked used i now j) = i"
  "tc_state (tool_command_of ctx q state blocked used i now j) = state"
  "tc_idempotency_key (tool_command_of ctx q state blocked used i now j) = tq_key q"
  "tc_approval_id (tool_command_of ctx q state blocked used i now j) = (if used = None then None else tq_approval q)"
  "tc_approval_command_id (tool_command_of ctx q state blocked used i now j) = map_option fst used"
  "tc_intent_digest (tool_command_of ctx q state blocked used i now j) = map_option snd used"
  by (simp_all add: tool_command_of_def)

lemma save_new_tool:
  "save_tool_command v r = Inr ((w, b), r') \<Longrightarrow> \<not> list_ex (\<lambda>p. tc_idempotency_key p = tc_idempotency_key v) (tool_commands_for (tc_tenant_id v) r)
     \<Longrightarrow> w = v \<and> \<not> b \<and> tool_commands r' = dset (tc_tenant_id v, tc_id v) v (tool_commands r)"
  by (auto simp: save_tool_command_def prior_tool_command_def first_None list_ex_iff dest: first_Some split: option.splits)

text \<open>
  C8: What an accepted tool command rests on.  A new request that is answered with the state
  accepted was made outside every stop on its target, and if its tool changes anything there is
  an approval, approved by a member who still holds the capability, unexpired, for exactly this
  tool's kind, this target, this input and this policy version, that no other accepted command
  has used; the stored command names it.
\<close>

theorem accepted_tool_authorized:
  assumes wf: "wf_repo (db s)" and run: "submit_demo_tool ctx q s = (Inr resp, s')" and acc: "tr_state resp = ''accepted''"
    and new: "\<not> list_ex (\<lambda>v. tc_idempotency_key v = tq_key q) (tool_commands_for (ctx_tenant_id ctx) (db s))"
  shows "\<not> tool_stopped (ctx_tenant_id ctx) q (db s) \<and> (mutating (tq_tool q) \<longrightarrow>
     (\<exists>aid used v. tq_approval q = Some aid \<and> approved_for (sha256 s) (clock_src s (clock_ctr s)) ctx aid q used (db s)
        \<and> dget (tool_commands (db s')) (ctx_tenant_id ctx, tr_command_id resp) = Some v
        \<and> tc_approval_id v = Some aid \<and> (tc_approval_command_id v, tc_intent_digest v) = (Some (fst used), Some (snd used))))"
proof -
  let ?t = "ctx_tenant_id ctx"
  from submit_ok [OF run] obtain state blocked used u i now j v replay r where
    judge: "judge_tool ctx q s = (Inr (state, blocked, used), u)"
    and save: "save_tool_command (tool_command_of ctx q state blocked used i now j) (db u) = Inr ((v, replay), r)"
    and cs: "tool_commands (db s') = tool_commands r"
    and resp: "resp = \<lparr>tr_command_id = tc_id v, tr_state = tc_state v, tr_next_action = blocked\<rparr>" by blast
  note ok = judge_ok [OF judge wf]
  have "tool_commands_for ?t (db u) = tool_commands_for ?t (db s)" using ok by (simp add: tool_commands_for_def)
  with save_new_tool [OF save] new have v: "v = tool_command_of ctx q state blocked used i now j"
    "tool_commands r = dset (?t, i) v (tool_commands (db u))" by simp_all
  have "state = ''accepted''" using acc resp v(1) by simp
  with ok have "\<not> tool_stopped ?t q (db s)" "mutating (tq_tool q) \<Longrightarrow> used \<noteq> None" by blast+
  moreover have "\<exists>aid w v. tq_approval q = Some aid \<and> approved_for (sha256 s) (clock_src s (clock_ctr s)) ctx aid q w (db s)
        \<and> dget (tool_commands (db s')) (?t, tr_command_id resp) = Some v
        \<and> tc_approval_id v = Some aid \<and> (tc_approval_command_id v, tc_intent_digest v) = (Some (fst w), Some (snd w))"
    if used: "used \<noteq> None"
  proof -
    from ok used obtain aid w where "used = Some w" "tq_approval q = Some aid"
      "approved_for (sha256 s) (clock_src s (clock_ctr s)) ctx aid q w (db s)" by blast
    with v cs resp show ?thesis by (intro exI [of _ aid] exI [of _ w] exI [of _ v]) simp
  qed
  ultimately show ?thesis by blast
qed

subsection \<open>Approvals are used once\<close>

definition used_once :: "repo \<Rightarrow> bool" where
  "used_once r \<longleftrightarrow> (\<forall>t. \<forall>v \<in> set (tool_commands_for t r). \<forall>w \<in> set (tool_commands_for t r).
     (tc_idempotency_key v = tc_idempotency_key w \<longrightarrow> v = w)
     \<and> (tc_approval_id v \<noteq> None \<longrightarrow> tc_state v = ''accepted'' \<and> (tc_approval_id v = tc_approval_id w \<longrightarrow> v = w)))"

lemma used_once_cong: "tool_commands r' = tool_commands r \<Longrightarrow> used_once r' \<longleftrightarrow> used_once r"
  by (simp only: used_once_def tool_commands_for_def)

interpretation tools_inv: table_invariant "{T_tool_commands}" used_once
  by unfold_locales (erule iffD2 [OF used_once_cong, rotated], simp)

lemma used_once_insert:
  assumes once: "used_once r" and rows: "\<And>u. set (tool_commands_for u r') \<subseteq> set (tool_commands_for u r) \<union> (if u = t then {v} else {})"
    and key: "\<And>w. w \<in> set (tool_commands_for t r) \<Longrightarrow> tc_idempotency_key w \<noteq> tc_idempotency_key v"
    and appr: "tc_approval_id v \<noteq> None \<Longrightarrow> tc_state v = ''accepted'' \<and> (\<forall>w \<in> set (tool_commands_for t r).
        tc_approval_id w = tc_approval_id v \<longrightarrow> tc_state w = ''accepted'' \<longrightarrow> tc_idempotency_key w = tc_idempotency_key v)"
  shows "used_once r'"
  unfolding used_once_def
proof (intro allI ballI)
  fix u x y assume x: "x \<in> set (tool_commands_for u r')" and y: "y \<in> set (tool_commands_for u r')"
  have old: "(tc_idempotency_key x = tc_idempotency_key y \<longrightarrow> x = y)
     \<and> (tc_approval_id x \<noteq> None \<longrightarrow> tc_state x = ''accepted'' \<and> (tc_approval_id x = tc_approval_id y \<longrightarrow> x = y))"
    if "x \<in> set (tool_commands_for u r)" "y \<in> set (tool_commands_for u r)" for x y
    using once that unfolding used_once_def by blast
  consider "x \<in> set (tool_commands_for u r)" "y \<in> set (tool_commands_for u r)" | "x = v" "y = v" "u = t"
    | "x = v" "u = t" "y \<in> set (tool_commands_for t r)" | "y = v" "u = t" "x \<in> set (tool_commands_for t r)"
    using x y rows [of u] by (fastforce split: if_splits)
  then show "(tc_idempotency_key x = tc_idempotency_key y \<longrightarrow> x = y)
     \<and> (tc_approval_id x \<noteq> None \<longrightarrow> tc_state x = ''accepted'' \<and> (tc_approval_id x = tc_approval_id y \<longrightarrow> x = y))"
  proof cases
    case 1 then show ?thesis by (rule old)
  next
    case 2 then show ?thesis using appr by simp
  next
    case 3
    with key appr old [of y y] show ?thesis by (metis option.distinct(1))
  next
    case 4
    with key appr old [of x x] show ?thesis by (metis option.distinct(1))
  qed
qed

lemma submit_used_once:
  assumes run: "submit_demo_tool ctx q s = (x, s')" and wf: "wf_repo (db s)" and once: "used_once (db s)"
  shows "used_once (db s')"
proof (cases x)
  case (Inl e)
  have "atomic (submit_demo_tool ctx q)"
    unfolding submit_demo_tool_def Let_def require_def membership_of_def by (rule atomic_rules)+
  with run Inl once show ?thesis by (simp add: atomicD)
next
  case (Inr resp)
  let ?t = "ctx_tenant_id ctx"
  from submit_ok [OF run [unfolded Inr]] obtain state blocked used u i now j v replay r where
    judge: "judge_tool ctx q s = (Inr (state, blocked, used), u)"
    and save: "save_tool_command (tool_command_of ctx q state blocked used i now j) (db u) = Inr ((v, replay), r)"
    and cs: "tool_commands (db s') = tool_commands r" by blast
  note ok = judge_ok [OF judge wf]
  have us: "tool_commands (db u) = tool_commands (db s)" using ok by blast
  show ?thesis
  proof (cases "list_ex (\<lambda>p. tc_idempotency_key p = tq_key q) (tool_commands_for ?t (db s))")
    case True
    with save us have "tool_commands r = tool_commands (db s)"
      by (auto simp: save_tool_command_def prior_tool_command_def check_ok tool_commands_for_def list_ex_iff first_None split: option.splits)
    with once cs show ?thesis by (simp add: used_once_cong [of "db s'" "db s"])
  next
    case False
    with save_new_tool [OF save] us have v: "v = tool_command_of ctx q state blocked used i now j"
      "tool_commands (db s') = dset (?t, i) v (tool_commands (db s))" using cs by (simp_all add: tool_commands_for_def)
    show ?thesis
    proof (rule used_once_insert [OF once, of "db s'" ?t v])
      show "set (tool_commands_for k (db s')) \<subseteq> set (tool_commands_for k (db s)) \<union> (if k = ?t then {v} else {})" for k
      proof (cases "k = ?t")
        case True
        then show ?thesis using rows_dset_sub [of k "(?t, i)" v "tool_commands (db s)"] by (simp add: tool_commands_for_def v(2))
      next
        case False
        then show ?thesis by (simp add: tool_commands_for_def v(2) rows_slice slice_dset_other)
      qed
    next
      show "tc_idempotency_key w \<noteq> tc_idempotency_key v" if "w \<in> set (tool_commands_for ?t (db s))" for w
        using False that by (simp add: v(1) list_ex_iff)
    next
      assume "tc_approval_id v \<noteq> None"
      then have "used \<noteq> None" by (auto simp: v(1) split: if_splits)
      with ok obtain aid w where "state = ''accepted''" "used = Some w" "tq_approval q = Some aid"
        "approved_for (sha256 s) (clock_src s (clock_ctr s)) ctx aid q w (db s)" by blast
      then show "tc_state v = ''accepted'' \<and> (\<forall>w \<in> set (tool_commands_for ?t (db s)). tc_approval_id w = tc_approval_id v \<longrightarrow>
          tc_state w = ''accepted'' \<longrightarrow> tc_idempotency_key w = tc_idempotency_key v)"
        by (auto simp: v(1) approved_for_def Let_def list_ex_iff)
    qed
  qed
qed

fun run_tools :: "(tenant_context \<times> tool_request) list \<Rightarrow> world \<Rightarrow> world" where
  "run_tools [] s = s"
| "run_tools ((ctx, q) # qs) s = run_tools qs (snd (submit_demo_tool ctx q s))"

text \<open>
  C12: An approval is used once.  Whatever tool requests are submitted, in whatever order and
  by whichever tenants, no two commands of a tenant rest on the same approval, and a command
  rests on an approval only if it was accepted.
\<close>

theorem approval_used_once:
  assumes "wf_repo (db s)" "used_once (db s)"
    and "v \<in> set (tool_commands_for t (db (run_tools qs s)))" "w \<in> set (tool_commands_for t (db (run_tools qs s)))"
    and "tc_approval_id v = Some a" "tc_approval_id w = Some a"
  shows "v = w \<and> tc_state v = ''accepted''"
proof -
  have "wf_repo (db (run_tools qs s)) \<and> used_once (db (run_tools qs s))"
    using assms(1,2)
  proof (induction qs s rule: run_tools.induct)
    case (2 ctx q qs s)
    have "wf_repo (db (snd (submit_demo_tool ctx q s)))"
      using actsD(2) [OF acts_submit_demo_tool [OF subset_UNIV] refl 2(2) surjective_pairing] by simp
    with 2 submit_used_once [OF surjective_pairing 2(2,3)] show ?case by simp
  qed simp
  then have "used_once (db (run_tools qs s))" by blast
  from this [unfolded used_once_def, THEN spec, THEN bspec, OF assms(3), THEN bspec, OF assms(4)] assms(5,6)
  show ?thesis by auto
qed

text \<open>
  C26: A retry under a stop is refused.  When a mutating command was accepted and its target is
  stopped afterwards, submitting the same request again under the same key raises the error for
  a reused key, although the request is the same.
\<close>

theorem retry_under_stop_conflicts:
  assumes prior: "first (\<lambda>p. tc_idempotency_key p = tq_key q) (tool_commands_for (ctx_tenant_id ctx) (db s)) = Some p"
    and used: "tc_approval_id p = Some a" and stop: "tool_stopped (ctx_tenant_id ctx) q (db s)"
  shows "\<exists>e. fst (submit_demo_tool ctx q s) = Inl e \<and> db (snd (submit_demo_tool ctx q s)) = db s"
proof (cases "submit_demo_tool ctx q s")
  case (Pair x s')
  have "atomic (submit_demo_tool ctx q)"
    unfolding submit_demo_tool_def Let_def require_def membership_of_def by (rule atomic_rules)+
  moreover have "\<exists>e. x = Inl e"
  proof (cases x)
    case (Inr resp)
    from submit_ok [OF Pair [unfolded Inr]] obtain state blocked used u i now j v replay r where
      judge: "judge_tool ctx q s = (Inr (state, blocked, used), u)"
      and save: "save_tool_command (tool_command_of ctx q state blocked used i now j) (db u) = Inr ((v, replay), r)" by blast
    from judge stop have "used = None" "u = s" by (auto simp: judge_tool_def op_simps)
    with save prior used show ?thesis
      by (auto simp: save_tool_command_def prior_tool_command_def check_ok same_tool_request_def)
  qed blast
  ultimately show ?thesis using Pair atomicD by fastforce
qed

subsection \<open>A command on an approved offer\<close>

definition demo_tool :: tool_request where
  "demo_tool = \<lparr>tq_actor_type = ''user'', tq_actor_id = ''a'', tq_tool = ''publish_offer'', tq_target_type = ''offer'',
     tq_target_id = ''1'', tq_input = JObj [(''price'', JInt 5)], tq_key = ''k'', tq_policy = 1, tq_approval = Some ''u5''\<rparr>"

definition demo_submitted :: world where
  "demo_submitted = snd (submit_demo_tool demo_master demo_tool demo_decided)"

lemma demo_price_json: "\<exists>x. gateway_json l (JObj [(''price'', JInt 5)]) = Inr x"
proof -
  have "no_secrets (JObj [(''price'', JInt 5)])" by code_simp
  moreover have "length (dumps (JObj [(''price'', JInt 5)])) \<le> 65536"
    by (simp add: quote_def escape_char_def show_int_def)
  ultimately show ?thesis by (simp add: gateway_json_def check_def del: dumps.simps)
qed

lemma demo_tool_words:
  "opaque_colon ''a''" "opaque_colon ''1''" "opaque_colon ''k''" "opaque_colon ''u5''" "show_nat 12 = ''12''"
  "show_nat 13 = ''13''" "show_nat 14 = ''14''" "show_nat 15 = ''15''" "show_nat 16 = ''16''" "show_nat 17 = ''17''"
  "show_nat 18 = ''18''" "show_nat 19 = ''19''"
  by code_simp+

lemma demo_submitted_run:
  "\<exists>r v. submit_demo_tool demo_master demo_tool demo_decided = (Inr r, demo_submitted) \<and> tr_state r = ''accepted''
     \<and> tool_commands (db demo_submitted) = [((''u0'', tr_command_id r), v)] \<and> tc_approval_id v = Some ''u5'' \<and> tc_idempotency_key v = ''k''"
proof -
  obtain j where j: "gateway_json ''input'' (JObj [(''price'', JInt 5)]) = Inr j" using demo_price_json by blast
  have rest: "stop_controls (db demo_decided) = []" "tool_commands (db demo_decided) = []"
    using demo_decided_untouched [of T_stop_controls] demo_decided_untouched [of T_tool_commands] by (simp_all add: demo_tenant_more)
  show ?thesis
    unfolding demo_submitted_def submit_demo_tool_def
    using demo_tenant_tables j rest demo_decided_rest demo_decided_runs(2,3)
    by (simp add: demo_simps demo_tool_words demo_tool_def judge_tool_def validated_tool_approval_def
        tools_def tool_targets_def tool_stopped_def tenant_stopped_def stop_controls_for_def mutating_def is_object_def
        get_approval_def rows_def get_approval_intent_def tool_approval_kinds_def tool_commands_for_def prepare_execution_def
        get_approval_for_command_def check_intent_def context_for_def get_execution_preparation_def save_execution_preparation_def
        save_tool_command_def prior_tool_command_def announce_tool_def put_event_def tool_command_of_def append_audit_def)
qed

theorem accepted_tool_authorized_witness:
  "\<exists>r v. submit_demo_tool demo_master demo_tool demo_decided = (Inr r, demo_submitted) \<and> tr_state r = ''accepted''
     \<and> dget (tool_commands (db demo_submitted)) (''u0'', tr_command_id r) = Some v \<and> tc_approval_id v = Some ''u5''"
proof -
  from demo_submitted_run obtain r where run: "submit_demo_tool demo_master demo_tool demo_decided = (Inr r, demo_submitted)"
    and r: "tr_state r = ''accepted''" by blast
  have "\<not> list_ex (\<lambda>v. tc_idempotency_key v = tq_key demo_tool) (tool_commands_for (ctx_tenant_id demo_master) (db demo_decided))"
    using demo_decided_untouched [of T_tool_commands] by (simp add: demo_tenant_more tool_commands_for_def rows_def)
  from accepted_tool_authorized [OF demo_decided_wf run r this] run r show ?thesis
    by (auto simp: demo_tool_def mutating_def tools_def demo_master_def)
qed

lemma demo_decided_unused: "used_once (db demo_decided)"
  using demo_decided_untouched [of T_tool_commands] by (simp add: demo_tenant_more used_once_def tool_commands_for_def rows_def)

theorem approval_used_once_witness:
  "\<exists>v. tool_commands_for ''u0'' (db (run_tools [(demo_master, demo_tool)] demo_decided)) = [v] \<and> tc_state v = ''accepted''"
proof -
  from demo_submitted_run obtain r :: tool_response and v where v: "tool_commands (db demo_submitted) = [((''u0'', tr_command_id r), v)]" "tc_approval_id v = Some ''u5''"
    by blast
  then have cs: "tool_commands_for ''u0'' (db (run_tools [(demo_master, demo_tool)] demo_decided)) = [v]"
    by (simp add: demo_submitted_def [symmetric] tool_commands_for_def rows_def)
  then have "v \<in> set (tool_commands_for ''u0'' (db (run_tools [(demo_master, demo_tool)] demo_decided)))" by simp
  from approval_used_once [OF demo_decided_wf demo_decided_unused this this v(2) v(2)] cs show ?thesis by blast
qed

definition demo_stopped :: world where
  "demo_stopped = demo_submitted\<lparr>db := (db demo_submitted)\<lparr>stop_controls := [((''u0'', ''tenant'', ''u0''),
     \<lparr>sc_tenant_id = ''u0'', sc_scope_type = ''tenant'', sc_scope_ref = ''u0'', sc_stopped = True, sc_reason = ''r'',
      sc_version = 1, sc_updated_at = 0\<rparr>)]\<rparr>\<rparr>"

theorem retry_under_stop_conflicts_witness:
  "\<exists>e. fst (submit_demo_tool demo_master demo_tool demo_stopped) = Inl e"
proof -
  from demo_submitted_run obtain r :: tool_response and v where v: "tool_commands (db demo_submitted) = [((''u0'', tr_command_id r), v)]"
    "tc_approval_id v = Some ''u5''" "tc_idempotency_key v = ''k''" by blast
  have "first (\<lambda>p. tc_idempotency_key p = tq_key demo_tool) (tool_commands_for (ctx_tenant_id demo_master) (db demo_stopped)) = Some v"
    using v by (simp add: demo_stopped_def tool_commands_for_def rows_def demo_master_def demo_tool_def)
  moreover have "tool_stopped (ctx_tenant_id demo_master) demo_tool (db demo_stopped)"
    by (simp add: tool_stopped_def demo_tool_def tenant_stopped_def stop_controls_for_def demo_stopped_def demo_master_def rows_def)
  ultimately show ?thesis using retry_under_stop_conflicts [OF _ v(2)] by blast
qed

end
