(* ===== verification/Provider.thy ===== *)
theory Provider
  imports Checks
begin

section \<open>The durable synthetic provider\<close>

text \<open>
  synthetic_provider.py: a ledger of effects in a database of its own, one row per tenant and
  operation key, and seven modes in which it answers.  Each call is one immediate database
  transaction, so it is a function from the provider to the outcome and the new provider; a
  call that raises inside the transaction leaves the ledger as it was.
\<close>

datatype provider_mode = Success | Refusal | Timeout_before | Timeout_after | Delayed_lookup | Lookup_unavailable | Stale_response

fun provider_mode_value :: "provider_mode \<Rightarrow> string" where
  "provider_mode_value Success = ''success''"
| "provider_mode_value Refusal = ''refusal''"
| "provider_mode_value Timeout_before = ''timeout_before''"
| "provider_mode_value Timeout_after = ''timeout_after''"
| "provider_mode_value Delayed_lookup = ''delayed_lookup''"
| "provider_mode_value Lookup_unavailable = ''lookup_unavailable''"
| "provider_mode_value Stale_response = ''stale_response''"

definition provider_modes :: "provider_mode list" where
  "provider_modes = [Success, Refusal, Timeout_before, Timeout_after, Delayed_lookup, Lookup_unavailable, Stale_response]"

record effect =
  ef_intent_digest :: string
  ef_kind :: string
  ef_reference :: string
  ef_hidden_lookups :: int

record provider =
  pv_mode :: provider_mode
  pv_authoritative_absence :: bool
  pv_effects :: "(string \<times> string, effect) dict"

text \<open>The setters of \<open>mode\<close> and \<open>authoritative_absence\<close>; the second keeps \<open>True\<close> only.\<close>

definition set_mode :: "string \<Rightarrow> provider \<Rightarrow> err + provider" where
  "set_mode v p = (case first (\<lambda>m. provider_mode_value m = v) provider_modes of
     None \<Rightarrow> Inl (ValueError ''Unsupported synthetic mode'') | Some m \<Rightarrow> Inr (p\<lparr>pv_mode := m\<rparr>))"

definition set_authoritative_absence :: "json \<Rightarrow> provider \<Rightarrow> provider" where
  "set_authoritative_absence v p = p\<lparr>pv_authoritative_absence := (v = JBool True)\<rparr>"

text \<open>The answer is a dictionary; the caller reads it as one.\<close>

definition provider_result :: "(string \<Rightarrow> string) \<Rightarrow> string \<Rightarrow> string \<Rightarrow> string \<Rightarrow> string \<Rightarrow> string option \<Rightarrow> bool \<Rightarrow> (string \<times> json) list" where
  "provider_result h kind t key dg reference authoritative =
     (let ref = (case reference of None \<Rightarrow> JNull | Some r \<Rightarrow> JStr r) in
      [(''kind'', JStr kind),
       (''response_digest'', JStr (h (dumps (JList [JStr kind, JStr t, JStr key, JStr dg, ref, JBool authoritative])))),
       (''provider_reference'', ref), (''authoritative_absence'', JBool authoritative)])"

definition existing_effect :: "string \<Rightarrow> string \<Rightarrow> string \<Rightarrow> provider \<Rightarrow> err + effect option" where
  "existing_effect t key dg p =
     check (t \<noteq> [] \<and> key \<noteq> [] \<and> dg \<noteq> []) (ValueError ''Nonempty tenant, operation key and intent digest required'') (
     case dget (pv_effects p) (t, key) of
       None \<Rightarrow> Inr None
     | Some e \<Rightarrow> check (ef_intent_digest e = dg) (ConflictError ''Synthetic operation key already binds a different intent'')
         (Inr (Some e)))"

definition new_effect :: "(string \<Rightarrow> string) \<Rightarrow> string \<Rightarrow> string \<Rightarrow> string \<Rightarrow> provider_mode \<Rightarrow> effect" where
  "new_effect h t key dg mode = \<lparr>ef_intent_digest = dg,
     ef_kind = (if mode = Refusal then ''FOUND_FAILURE'' else ''FOUND_SUCCESS''),
     ef_reference = h (dumps (JList [JStr t, JStr key])), ef_hidden_lookups = (if mode = Delayed_lookup then 1 else 0)\<rparr>"

text \<open>The answer after the commit.\<close>

definition executed :: "(string \<Rightarrow> string) \<Rightarrow> string \<Rightarrow> string \<Rightarrow> string \<Rightarrow> effect \<Rightarrow> provider_mode \<Rightarrow> err + (string \<times> json) list" where
  "executed h t key dg e mode =
     (if mode \<in> {Timeout_after, Delayed_lookup, Lookup_unavailable} then Inl (TimeoutError ''Synthetic response lost after durable effect'')
      else if mode = Stale_response then Inr (provider_result h ''INCONCLUSIVE'' t key dg None False)
      else Inr (provider_result h (ef_kind e) t key dg (Some (ef_reference e)) False))"

definition execute :: "(string \<Rightarrow> string) \<Rightarrow> string \<Rightarrow> string \<Rightarrow> string \<Rightarrow> (provider, (string \<times> json) list) op" where
  "execute h t key dg p = (case existing_effect t key dg p of
     Inl e \<Rightarrow> (Inl e, p)
   | Inr (Some e) \<Rightarrow> (executed h t key dg e (pv_mode p), p)
   | Inr None \<Rightarrow>
       if pv_mode p = Timeout_before then (Inl (TimeoutError ''Synthetic timeout before effect''), p)
       else (let e = new_effect h t key dg (pv_mode p) in
         (executed h t key dg e (pv_mode p), p\<lparr>pv_effects := dset (t, key) e (pv_effects p)\<rparr>)))"

definition lookup :: "(string \<Rightarrow> string) \<Rightarrow> string \<Rightarrow> string \<Rightarrow> string \<Rightarrow> (provider, (string \<times> json) list) op" where
  "lookup h t key dg p = (case existing_effect t key dg p of
     Inl e \<Rightarrow> (Inl e, p)
   | Inr row \<Rightarrow>
       if pv_mode p \<in> {Lookup_unavailable, Stale_response} then (Inr (provider_result h ''INCONCLUSIVE'' t key dg None False), p)
       else case row of
         None \<Rightarrow> (Inr (provider_result h ''ABSENT'' t key dg None (pv_authoritative_absence p)), p)
       | Some e \<Rightarrow>
           if ef_hidden_lookups e \<noteq> 0
           then (Inr (provider_result h ''INCONCLUSIVE'' t key dg None False),
             p\<lparr>pv_effects := dset (t, key) (e\<lparr>ef_hidden_lookups := ef_hidden_lookups e - 1\<rparr>) (pv_effects p)\<rparr>)
           else (Inr (provider_result h (ef_kind e) t key dg (Some (ef_reference e)) False), p))"

definition effect_count :: "string \<Rightarrow> provider \<Rightarrow> nat" where
  "effect_count t p = length (filter (\<lambda>e. ef_kind e = ''FOUND_SUCCESS'') (rows t (pv_effects p)))"

subsection \<open>What a call does to the ledger\<close>

lemma execute_ledger:
  "execute h t key dg p = (x, p') \<Longrightarrow>
     p' = p \<or> (dget (pv_effects p) (t, key) = None \<and> p' = p\<lparr>pv_effects := dset (t, key) (new_effect h t key dg (pv_mode p)) (pv_effects p)\<rparr>)"
  by (auto simp: execute_def existing_effect_def check_def Let_def split: sum.splits option.splits if_splits)

lemma lookup_ledger:
  "lookup h t key dg p = (x, p') \<Longrightarrow>
     p' = p \<or> (\<exists>e. dget (pv_effects p) (t, key) = Some e \<and> p' = p\<lparr>pv_effects := dset (t, key) (e\<lparr>ef_hidden_lookups := ef_hidden_lookups e - 1\<rparr>) (pv_effects p)\<rparr>)"
  by (auto simp: lookup_def existing_effect_def check_def split: sum.splits option.splits if_splits)

end
