(* ===== verification/Execution.thy ===== *)
theory Execution
  imports Provider Approvals Ingestion Safety
begin

section \<open>Execution attempts\<close>

text \<open>
  \<open>DemoExecutionControlPlane\<close> of execution.py and its tables.  An attempt carries an approved
  intent to the provider: it is prepared, leased to a worker with a fencing token, dispatched,
  and observed; what cannot be observed is reconciled later.  Two databases take part, the
  repository's and the provider's, and no transaction spans them.
\<close>

subsection \<open>Repository methods\<close>

definition save_demo_control :: "demo_execution_control \<Rightarrow> repo \<Rightarrow> err + (unit \<times> repo)" where
  "save_demo_control v r = (case get_command (ec_tenant_id v) (ec_command_id v) r of Inl e \<Rightarrow> Inl e
     | Inr _ \<Rightarrow> Inr ((), r\<lparr>demo_controls := dset (ec_tenant_id v, ec_command_id v) v (demo_controls r)\<rparr>))"

definition get_demo_control :: "string \<Rightarrow> string \<Rightarrow> repo \<Rightarrow> err + demo_execution_control" where
  "get_demo_control t cid r = (case dget (demo_controls r) (t, cid) of
     None \<Rightarrow> Inl (NotFoundError ''demo execution control missing'') | Some v \<Rightarrow> Inr v)"

definition attempt_for_key :: "string \<Rightarrow> string \<Rightarrow> repo \<Rightarrow> execution_attempt option" where
  "attempt_for_key t key r = first (\<lambda>v. ea_operation_key v = key) (rows t (attempts r))"

definition insert_attempt :: "execution_attempt \<Rightarrow> repo \<Rightarrow> err + (unit \<times> repo)" where
  "insert_attempt v r = (case get_execution_preparation (ea_tenant_id v) (ea_command_id v) r of
     None \<Rightarrow> Inl (NotFoundError ''preparation not found'')
   | Some p \<Rightarrow> check (ep_id p = ea_preparation_id v) (NotFoundError ''preparation not found'') (
       check (attempt_for_key (ea_tenant_id v) (ea_operation_key v) r = None \<and> dget (attempts r) (ea_tenant_id v, ea_id v) = None)
         (ConflictError ''attempt already exists'')
         (Inr ((), r\<lparr>attempts := dset (ea_tenant_id v, ea_id v) v (attempts r)\<rparr>))))"

definition get_attempt_row :: "string \<Rightarrow> string \<Rightarrow> repo \<Rightarrow> err + execution_attempt" where
  "get_attempt_row t i r = (case dget (attempts r) (t, i) of
     None \<Rightarrow> Inl (NotFoundError ''attempt not found'') | Some v \<Rightarrow> Inr v)"

definition update_attempt :: "execution_attempt \<Rightarrow> int \<Rightarrow> repo \<Rightarrow> err + (unit \<times> repo)" where
  "update_attempt v expected r = (case get_attempt_row (ea_tenant_id v) (ea_id v) r of Inl e \<Rightarrow> Inl e
     | Inr c \<Rightarrow> check (ea_version c = expected \<and> ea_version v = expected + 1) (ConflictError ''attempt version conflict'')
         (Inr ((), r\<lparr>attempts := dset (ea_tenant_id v, ea_id v) v (attempts r)\<rparr>)))"

definition observation_rows :: "string \<Rightarrow> string \<Rightarrow> repo \<Rightarrow> attempt_observation list" where
  "observation_rows t i r = (case dget (observations r) (t, i) of None \<Rightarrow> [] | Some os \<Rightarrow> os)"

definition append_observation :: "attempt_observation \<Rightarrow> repo \<Rightarrow> err + (unit \<times> repo)" where
  "append_observation v r = (let t = ao_tenant_id v; i = ao_attempt_id v; os = observation_rows t i r in
     case get_attempt_row t i r of Inl e \<Rightarrow> Inl e
     | Inr _ \<Rightarrow> check (\<not> list_ex (\<lambda>o'. ao_id o' = ao_id v) os) (ConflictError ''observation already exists'')
         (Inr ((), r\<lparr>observations := dset (t, i) (os @ [v]) (observations r)\<rparr>)))"

definition observations_for :: "string \<Rightarrow> string \<Rightarrow> repo \<Rightarrow> err + attempt_observation list" where
  "observations_for t i r = (case get_attempt_row t i r of Inl e \<Rightarrow> Inl e | Inr _ \<Rightarrow> Inr (observation_rows t i r))"

subsection \<open>Controls and gates\<close>

definition set_demo_control :: "tenant_context \<Rightarrow> string \<Rightarrow> int \<Rightarrow> int \<Rightarrow> bool \<Rightarrow> unit svc" where
  "set_demo_control ctx cid policy tv stopped = (let t = ctx_tenant_id ctx in transaction (
     seq (require ctx Cap_TENANT_ADMIN) (
     seq (void (query (get_command t cid))) (
     ensure (1 \<le> policy \<and> 1 \<le> tv) (ConflictError ''invalid demo control'') (
     seq (mutate (save_demo_control \<lparr>ec_tenant_id = t, ec_command_id = cid, ec_policy_version = policy,
            ec_target_version = tv, ec_stopped = stopped\<rparr>)) (
     audit t (ctx_user_id ctx) ''demo.control_updated'' cid ''accepted'' (JObj [(''stopped'', JBool stopped)])))))))"

definition gate :: "tenant_context \<Rightarrow> string \<Rightarrow> string \<Rightarrow> execution_preparation svc" where
  "gate ctx cid connection = (let t = ctx_tenant_id ctx in
     bnd (reads (demo_stop_active t connection)) (\<lambda>stopped.
     ensure (\<not> stopped) (ConflictError ''DEMO scope stopped'') (
     bnd (query (get_demo_control t cid)) (\<lambda>control.
     ensure (\<not> ec_stopped control) (ConflictError ''demo execution stopped'') (
     bnd (prepare_execution ctx cid (ec_policy_version control) (ec_target_version control)) (\<lambda>(p, _). ret p))))))"

definition execution_manifest :: "tenant_context \<Rightarrow> string \<Rightarrow> string \<Rightarrow> string \<Rightarrow> unit svc" where
  "execution_manifest ctx provider connection adapter =
     bnd (query (get_adapter_manifest (ctx_tenant_id ctx) provider connection)) (\<lambda>m.
     ensure (am_adapter_version m = adapter \<and> {Adp_DEMO_EXECUTE, Adp_DEMO_LOOKUP} \<subseteq> am_capabilities m)
       (ConflictError ''explicit matching DEMO execution/lookup manifest required'') (ret ()))"

definition attempt_event :: "tenant_context \<Rightarrow> execution_attempt \<Rightarrow> string \<Rightarrow> unit svc" where
  "attempt_event ctx v topic = (let t = ctx_tenant_id ctx; st = attempt_state_value (ea_state v) in
     seq (audit t (ctx_user_id ctx) topic (ea_id v) ''accepted'' (JObj [(''state'', JStr st)])) (
     bnd uuid4 (\<lambda>i. bnd clock (\<lambda>now.
     mutate (append_outbox (new_outbox_event i t topic (ea_id v)
       (JObj [(''attempt_id'', JStr (ea_id v)), (''state'', JStr st)])
       (topic @ '':'' @ ea_id v @ '':'' @ show_int (ea_version v)) Obx_PENDING now))))))"

subsection \<open>Preparing and claiming\<close>

definition operation_material :: "string \<Rightarrow> string \<Rightarrow> json" where
  "operation_material t cid = JObj [(''tenant'', JStr t), (''command'', JStr cid), (''operation_version'', JInt 1)]"

text \<open>The end of \<open>prepare_attempt\<close>: the attempt bound to the key, or a new one.\<close>

definition bind_attempt :: "tenant_context \<Rightarrow> string \<Rightarrow> string \<Rightarrow> string \<Rightarrow> string \<Rightarrow> execution_preparation \<Rightarrow> string \<Rightarrow> (execution_attempt \<times> bool) svc" where
  "bind_attempt ctx cid adapter provider connection preparation key = (let t = ctx_tenant_id ctx in
     bnd (reads (attempt_for_key t key)) (\<lambda>prior.
     case prior of
       Some p \<Rightarrow> ensure ((ea_adapter_version p, ea_provider p, ea_connection_id p) = (adapter, provider, connection))
         (ConflictError ''logical operation already bound to another adapter'') (ret (p, True))
     | None \<Rightarrow>
       bnd uuid4 (\<lambda>i.
       let v = new_execution_attempt i t cid (ep_id preparation) key (ep_canonical_digest preparation) adapter provider connection in
       seq (mutate (insert_attempt v)) (
       seq (attempt_event ctx v ''attempt.prepared'') (
       ret (v, False))))))"

definition prepare_attempt :: "tenant_context \<Rightarrow> string \<Rightarrow> int \<Rightarrow> int \<Rightarrow> string \<Rightarrow> string \<Rightarrow> string \<Rightarrow> (execution_attempt \<times> bool) svc" where
  "prepare_attempt ctx cid policy tv adapter provider connection = transaction (
     seq (require ctx Cap_TENANT_ADMIN) (
     ensure (opaque provider \<and> opaque connection \<and> opaque adapter) (ConflictError ''invalid opaque inbound identifier'') (
     seq (execution_manifest ctx provider connection adapter) (
     bnd (gate ctx cid connection) (\<lambda>preparation.
     seq (void (prepare_execution ctx cid policy tv)) (
     bnd (strict_intent_digest (operation_material (ctx_tenant_id ctx) cid)) (\<lambda>key.
     bind_attempt ctx cid adapter provider connection preparation key)))))))"

definition get_attempt :: "tenant_context \<Rightarrow> string \<Rightarrow> execution_attempt svc" where
  "get_attempt ctx i = seq (require ctx Cap_TENANT_ADMIN) (query (get_attempt_row (ctx_tenant_id ctx) i))"

definition terminal_state :: "attempt_state \<Rightarrow> bool" where
  "terminal_state st \<longleftrightarrow> st \<in> {Att_VERIFIED_SUCCESS, Att_VERIFIED_FAILURE, Att_MANUAL_REVIEW}"

definition after :: "time option \<Rightarrow> time \<Rightarrow> bool" where
  "after x now \<longleftrightarrow> (case x of None \<Rightarrow> False | Some u \<Rightarrow> u > now)"

definition in_flight :: "execution_attempt \<Rightarrow> bool" where
  "in_flight v \<longleftrightarrow> ea_state v \<in> {Att_DISPATCHING, Att_RECONCILING}"

definition claimed_attempt :: "execution_attempt \<Rightarrow> string \<Rightarrow> time \<Rightarrow> execution_attempt" where
  "claimed_attempt v worker until = v\<lparr>ea_state := (if in_flight v then Att_UNKNOWN else ea_state v),
     ea_version := ea_version v + 1, ea_fencing_token := ea_fencing_token v + 1, ea_lease_owner := Some worker,
     ea_lease_until := Some until\<rparr>"

definition advanced :: "execution_attempt \<Rightarrow> attempt_state \<Rightarrow> execution_attempt" where
  "advanced v st = v\<lparr>ea_version := ea_version v + 1, ea_state := st\<rparr>"

definition claim_attempt :: "tenant_context \<Rightarrow> string \<Rightarrow> string \<Rightarrow> int \<Rightarrow> int \<Rightarrow> execution_attempt svc" where
  "claim_attempt ctx i worker expected lease_seconds = transaction (
     seq (require ctx Cap_TENANT_ADMIN) (
     ensure (opaque worker) (ConflictError ''invalid opaque inbound identifier'') (
     ensure (1 \<le> lease_seconds \<and> lease_seconds \<le> 300) (ConflictError ''invalid lease/version'') (
     bnd (query (get_attempt_row (ctx_tenant_id ctx) i)) (\<lambda>v.
     bnd clock (\<lambda>now.
     ensure (ea_version v = expected) (ConflictError ''attempt version conflict'') (
     ensure (\<not> terminal_state (ea_state v)) (ConflictError ''attempt terminal'') (
     ensure (\<not> after (ea_lease_until v) now) (ConflictError ''attempt leased'') (
     ensure (\<not> after (ea_next_check_at v) now) (ConflictError ''reconciliation not yet due'') (
     let v' = claimed_attempt v worker (now + seconds lease_seconds) in
     seq (mutate (update_attempt v' expected)) (
     seq (if in_flight v then attempt_event ctx v' ''attempt.recovered_unknown'' else ret ()) (
     ret v'))))))))))))"

subsection \<open>Under the lease\<close>

definition stale_lease :: err where
  "stale_lease = ConflictError ''stale or expired attempt lease''"

definition leased :: "tenant_context \<Rightarrow> string \<Rightarrow> string \<Rightarrow> int \<Rightarrow> execution_attempt svc" where
  "leased ctx i worker token =
     seq (require ctx Cap_TENANT_ADMIN) (
     bnd (query (get_attempt_row (ctx_tenant_id ctx) i)) (\<lambda>v.
     ensure (ea_lease_owner v = Some worker \<and> ea_fencing_token v = token) stale_lease (
     case ea_lease_until v of None \<Rightarrow> throw stale_lease
     | Some u \<Rightarrow> bnd clock (\<lambda>now. ensure (now < u) stale_lease (ret v)))))"

definition begin_dispatch :: "tenant_context \<Rightarrow> string \<Rightarrow> string \<Rightarrow> int \<Rightarrow> execution_attempt svc" where
  "begin_dispatch ctx i worker token = transaction (
     bnd (leased ctx i worker token) (\<lambda>v.
     ensure (ea_state v = Att_PREPARED) (ConflictError ''dispatch requires prepared state'') (
     bnd (gate ctx (ea_command_id v) (ea_connection_id v)) (\<lambda>p.
     ensure (ep_canonical_digest p = ea_intent_digest v) (ConflictError ''attempt intent mismatch'') (
     seq (execution_manifest ctx (ea_provider v) (ea_connection_id v) (ea_adapter_version v)) (
     let v' = advanced v Att_DISPATCHING in
     seq (mutate (update_attempt v' (ea_version v))) (
     seq (attempt_event ctx v' ''attempt.dispatching'') (
     ret v'))))))))"

definition begin_reconciliation :: "tenant_context \<Rightarrow> string \<Rightarrow> string \<Rightarrow> int \<Rightarrow> execution_attempt svc" where
  "begin_reconciliation ctx i worker token = transaction (
     bnd (leased ctx i worker token) (\<lambda>v.
     ensure (ea_state v = Att_UNKNOWN) (ConflictError ''reconciliation requires UNKNOWN'') (
     let v' = advanced v Att_RECONCILING in
     seq (mutate (update_attempt v' (ea_version v))) (
     seq (attempt_event ctx v' ''attempt.reconciling'') (
     ret v')))))"

subsection \<open>Observing\<close>

text \<open>An observation is a dictionary from outside; what \<open>record_observation\<close> reads of it.\<close>

record observed =
  od_kind :: string
  od_digest :: string
  od_reference :: "string option"
  od_absence :: bool

definition observation_kinds :: "string list" where
  "observation_kinds = [''FOUND_SUCCESS'', ''FOUND_FAILURE'', ''ABSENT'', ''INCONCLUSIVE'']"

definition read_observation :: "(string \<times> json) list \<Rightarrow> bool \<Rightarrow> err + observed" where
  "read_observation obs reconciling = (let d = JObj obs in
     check (finite_json d) (ConflictError ''intent must be finite canonical JSON'') (
     need (that hex64 (js_str (jget d ''response_digest''))) (ConflictError ''invalid response digest'') (\<lambda>dg.
     check (case jget d ''provider_reference'' of None \<Rightarrow> True | Some JNull \<Rightarrow> True | Some (JStr x) \<Rightarrow> opaque x | _ \<Rightarrow> False)
       (ConflictError ''invalid opaque inbound identifier'') (
     check (case jget d ''kind'' of Some (JList _) \<Rightarrow> False | Some (JObj _) \<Rightarrow> False | _ \<Rightarrow> True)
       (OtherError ''TypeError'' ''unhashable type'') (
     need (that (\<lambda>k. k \<in> set observation_kinds) (js_str (jget d ''kind''))) (ConflictError ''invalid observation kind'') (\<lambda>kind.
     check (kind = ''ABSENT'' \<longrightarrow> reconciling) (ConflictError ''absence is lookup-only'') (
     Inr \<lparr>od_kind = kind, od_digest = dg, od_reference = js_str (jget d ''provider_reference''),
          od_absence = (jget d ''authoritative_absence'' = Some (JBool True))\<rparr>)))))))"

text \<open>The state an observation leads to.  The gate is asked again before a second dispatch is allowed.\<close>

definition observed_state :: "tenant_context \<Rightarrow> execution_attempt \<Rightarrow> observed \<Rightarrow> attempt_state svc" where
  "observed_state ctx v d =
     (if od_kind d = ''FOUND_SUCCESS'' then ret Att_VERIFIED_SUCCESS
      else if od_kind d = ''FOUND_FAILURE'' then ret Att_VERIFIED_FAILURE
      else if od_kind d = ''ABSENT'' then
        (if od_absence d then
           catch (seq (void (gate ctx (ea_command_id v) (ea_connection_id v))) (ret Att_PREPARED))
             (\<lambda>e. if is_authorization e \<or> is_conflict e then ret Att_MANUAL_REVIEW else throw e)
         else ret Att_MANUAL_REVIEW)
      else ret Att_UNKNOWN)"

definition backoff :: "nat \<Rightarrow> time" where
  "backoff prior = seconds (min 300 (30 * 2 ^ min prior 4))"

definition observed_attempt :: "execution_attempt \<Rightarrow> attempt_state \<Rightarrow> string option \<Rightarrow> time \<Rightarrow> time option \<Rightarrow> execution_attempt" where
  "observed_attempt v st ref seen next = v\<lparr>ea_version := ea_version v + 1, ea_state := st,
     ea_provider_reference := (case ref of Some r \<Rightarrow> Some r | None \<Rightarrow> ea_provider_reference v),
     ea_last_observed_at := Some seen, ea_next_check_at := next, ea_lease_owner := None, ea_lease_until := None\<rparr>"

definition next_check :: "attempt_state \<Rightarrow> nat \<Rightarrow> time option svc" where
  "next_check st prior = (if st = Att_UNKNOWN then bnd clock (\<lambda>now. ret (Some (now + backoff prior))) else ret None)"

definition settled_state :: "attempt_state \<Rightarrow> nat \<Rightarrow> attempt_state" where
  "settled_state st prior = (if st = Att_UNKNOWN \<and> prior \<ge> 4 then Att_MANUAL_REVIEW else st)"

text \<open>The writes at the end of \<open>record_observation\<close>.\<close>

definition store_observation :: "tenant_context \<Rightarrow> execution_attempt \<Rightarrow> observed \<Rightarrow> attempt_state \<Rightarrow> nat \<Rightarrow> execution_attempt svc" where
  "store_observation ctx v d st prior =
     bnd clock (\<lambda>seen.
     bnd (next_check st prior) (\<lambda>next.
     let v' = observed_attempt v st (od_reference d) seen next in
     seq (mutate (update_attempt v' (ea_version v))) (
     bnd uuid4 (\<lambda>oid. bnd clock (\<lambda>at. bnd uuid4 (\<lambda>corr.
     seq (mutate (append_observation \<lparr>ao_id = oid, ao_tenant_id = ctx_tenant_id ctx, ao_attempt_id = ea_id v,
            ao_observation_kind = od_kind d, ao_response_digest = od_digest d, ao_observed_at = at, ao_correlation_id = corr\<rparr>)) (
     seq (attempt_event ctx v' ''attempt.observed'') (
     ret v'))))))))"

definition record_observation :: "tenant_context \<Rightarrow> string \<Rightarrow> string \<Rightarrow> int \<Rightarrow> (string \<times> json) list \<Rightarrow> execution_attempt svc" where
  "record_observation ctx i worker token obs = transaction (
     bnd (leased ctx i worker token) (\<lambda>v.
     ensure (in_flight v) (ConflictError ''observation requires dispatch/reconciliation'') (
     bnd (of_sum (read_observation obs (ea_state v = Att_RECONCILING))) (\<lambda>d.
     bnd (observed_state ctx v d) (\<lambda>st.
     bnd (query (observations_for (ctx_tenant_id ctx) (ea_id v))) (\<lambda>prior.
     store_observation ctx v d (settled_state st (length prior)) (length prior)))))))"

subsection \<open>Dispatching to the provider\<close>

type_synonym platform = "world \<times> provider"

definition local :: "'a svc \<Rightarrow> (platform, 'a) op" where
  "local m s = (case m (fst s) of (x, w) \<Rightarrow> (x, (w, snd s)))"

definition remote :: "((string \<Rightarrow> string) \<Rightarrow> (provider, 'a) op) \<Rightarrow> (platform, 'a) op" where
  "remote m s = (case m (sha256 (fst s)) (snd s) of (x, p) \<Rightarrow> (x, (fst s, p)))"

definition adapter_version :: string where
  "adapter_version = ''synthetic-v1''"

definition check_provider :: "execution_attempt \<Rightarrow> (platform, unit) op" where
  "check_provider v = ensure (ea_adapter_version v = adapter_version) (ConflictError ''only durable synthetic DEMO provider allowed'') (ret ())"

definition unknown_result :: "((string \<times> json) list) svc" where
  "unknown_result = bnd (strict_intent_digest (JObj [(''result'', JStr ''unknown'')])) (\<lambda>dg.
     ret [(''kind'', JStr ''INCONCLUSIVE''), (''response_digest'', JStr dg), (''provider_reference'', JNull)])"

definition or_unknown :: "(platform, (string \<times> json) list) op \<Rightarrow> (platform, (string \<times> json) list) op" where
  "or_unknown m = catch m (\<lambda>e. case e of TimeoutError _ \<Rightarrow> local unknown_result | _ \<Rightarrow> throw e)"

definition dispatch_demo :: "tenant_context \<Rightarrow> string \<Rightarrow> string \<Rightarrow> int \<Rightarrow> (platform, execution_attempt) op" where
  "dispatch_demo ctx i worker token =
     bnd (local (get_attempt ctx i)) (\<lambda>v0.
     seq (check_provider v0) (
     bnd (local (begin_dispatch ctx i worker token)) (\<lambda>v.
     bnd (or_unknown (remote (\<lambda>h. execute h (ea_tenant_id v) (ea_operation_key v) (ea_intent_digest v)))) (\<lambda>result.
     local (record_observation ctx i worker token result)))))"

definition reconcile_attempt :: "tenant_context \<Rightarrow> string \<Rightarrow> string \<Rightarrow> int \<Rightarrow> (platform, execution_attempt) op" where
  "reconcile_attempt ctx i worker token =
     bnd (local (get_attempt ctx i)) (\<lambda>v0.
     seq (check_provider v0) (
     bnd (local (begin_reconciliation ctx i worker token)) (\<lambda>v.
     bnd (or_unknown (remote (\<lambda>h. lookup h (ea_tenant_id v) (ea_operation_key v) (ea_intent_digest v)))) (\<lambda>result.
     local (record_observation ctx i worker token result)))))"

subsection \<open>Fields of the updated attempts\<close>

lemma attempt_keys [simp]:
  "ea_id (claimed_attempt v w u) = ea_id v" "ea_tenant_id (claimed_attempt v w u) = ea_tenant_id v"
  "ea_version (claimed_attempt v w u) = ea_version v + 1" "ea_fencing_token (claimed_attempt v w u) = ea_fencing_token v + 1"
  "ea_id (advanced v st) = ea_id v" "ea_tenant_id (advanced v st) = ea_tenant_id v"
  "ea_version (advanced v st) = ea_version v + 1" "ea_state (advanced v st) = st"
  "ea_fencing_token (advanced v st) = ea_fencing_token v"
  "ea_id (observed_attempt v st r a n) = ea_id v" "ea_tenant_id (observed_attempt v st r a n) = ea_tenant_id v"
  "ea_version (observed_attempt v st r a n) = ea_version v + 1" "ea_state (observed_attempt v st r a n) = st"
  "ea_fencing_token (observed_attempt v st r a n) = ea_fencing_token v"
  by (simp_all add: claimed_attempt_def advanced_def observed_attempt_def)

end
