(* ===== verification/Execution_Laws.thy ===== *)
theory Execution_Laws
  imports Execution
begin

section \<open>Laws of execution attempts\<close>

subsection \<open>What the calls write\<close>

lemma acts_save_demo_control [acts_rules]:
  "ec_tenant_id v = t \<Longrightarrow> T_demo_controls \<in> L \<Longrightarrow> acts h t L (mutate (save_demo_control v)) (\<lambda>_. True)"
  by (rule acts_mutate) (auto simp: save_demo_control_def split: sum.splits intro: writes_one W_demo_controls)

lemma acts_insert_attempt [acts_rules]:
  "ea_tenant_id v = t \<Longrightarrow> T_attempts \<in> L \<Longrightarrow> acts h t L (mutate (insert_attempt v)) (\<lambda>_. True)"
  by (rule acts_mutate) (auto simp: insert_attempt_def check_ok split: option.splits intro: writes_one W_attempts)

lemma acts_update_attempt [acts_rules]:
  "ea_tenant_id v = t \<Longrightarrow> T_attempts \<in> L \<Longrightarrow> acts h t L (mutate (update_attempt v n)) (\<lambda>_. True)"
  by (rule acts_mutate) (auto simp: update_attempt_def check_ok split: sum.splits intro: writes_one W_attempts)

lemma observation_rows_keys:
  "wf_repo r \<Longrightarrow> v \<in> set (observation_rows t i r) \<Longrightarrow> ao_tenant_id v = t \<and> ao_attempt_id v = i"
  using wf_tableD [of r T_observations] keyed_lists_dget [of "\<lambda>v. (ao_tenant_id v, ao_attempt_id v)" "observations r" "(t, i)"]
  by (cases "dget (observations r) (t, i)") (auto simp: observation_rows_def)

lemma acts_append_observation [acts_rules]:
  "ao_tenant_id v = t \<Longrightarrow> T_observations \<in> L \<Longrightarrow> acts h t L (mutate (append_observation v)) (\<lambda>_. True)"
  by (rule acts_mutate)
    (auto simp: append_observation_def Let_def check_ok split: sum.splits intro!: writes_one W_observations dest: observation_rows_keys)

lemma get_attempt_row_ok: "get_attempt_row t i r = Inr v \<longleftrightarrow> dget (attempts r) (t, i) = Some v"
  by (auto simp: get_attempt_row_def split: option.splits)

lemma attempt_row_keys: "wf_repo r \<Longrightarrow> dget (attempts r) (t, i) = Some v \<Longrightarrow> ea_tenant_id v = t \<and> ea_id v = i"
  using keyed_dget [where d = "attempts r"] wf_tableD [of r T_attempts] by fastforce

lemma acts_get_attempt_row: "acts h t L (query (get_attempt_row t i)) (\<lambda>v. ea_tenant_id v = t \<and> ea_id v = i)"
  by (rule acts_query) (auto simp: get_attempt_row_ok dest: attempt_row_keys)

abbreviation execution_tables :: "table set" where
  "execution_tables \<equiv> {T_attempts, T_observations, T_demo_controls, T_execution_preparations, T_audit_events, T_outbox}"

abbreviation gate_tables :: "table set" where
  "gate_tables \<equiv> {T_execution_preparations, T_audit_events, T_outbox}"

lemma acts_gate: "gate_tables \<subseteq> L \<Longrightarrow> acts h (ctx_tenant_id ctx) L (gate ctx cid connection) (\<lambda>_. True)"
  unfolding gate_def Let_def by (rule acts_bnd_any [OF acts_prepare_execution] acts_rules TrueI | simp)+

lemma acts_execution_manifest: "acts h t L (execution_manifest ctx p c a) (\<lambda>_. True)"
  unfolding execution_manifest_def by (rule acts_rules TrueI)+

lemma acts_append_outbox [acts_rules]:
  "T_outbox \<in> L \<Longrightarrow> acts h t L (mutate (append_outbox (new_outbox_event i t topic a p key st now))) (\<lambda>_. True)"
proof (rule acts_mutate)
  fix r x r'
  let ?e = "new_outbox_event i t topic a p key st now"
  assume "T_outbox \<in> L" "append_outbox ?e r = Inr (x, r')"
  with writes_append_outbox [of ?e r r' L h] show "writes h t L r r' \<and> True" by (simp add: new_outbox_event_def)
qed

lemma acts_attempt_event:
  "T_audit_events \<in> L \<Longrightarrow> T_outbox \<in> L \<Longrightarrow> acts h (ctx_tenant_id ctx) L (attempt_event ctx v topic) (\<lambda>_. True)"
  unfolding attempt_event_def Let_def by (rule acts_rules TrueI | simp)+

lemma acts_set_demo_control:
  "execution_tables \<subseteq> L \<Longrightarrow> acts h (ctx_tenant_id ctx) L (set_demo_control ctx cid policy tv stopped) (\<lambda>_. True)"
  unfolding set_demo_control_def Let_def by (rule acts_rules acts_void TrueI | simp)+

lemma acts_prepare_attempt:
  "execution_tables \<subseteq> L \<Longrightarrow> acts h (ctx_tenant_id ctx) L (prepare_attempt ctx cid policy tv a p c) (\<lambda>_. True)"
  unfolding prepare_attempt_def bind_attempt_def Let_def
  by (rule acts_bnd_any [OF acts_gate] acts_seq [OF acts_execution_manifest] acts_seq [OF acts_void [OF acts_prepare_execution]]
      acts_attempt_event acts_rules TrueI | simp add: new_execution_attempt_def)+

lemma acts_leased: "acts h (ctx_tenant_id ctx) L (leased ctx i worker token) (\<lambda>v. ea_tenant_id v = ctx_tenant_id ctx \<and> ea_id v = i)"
  unfolding leased_def by (rule acts_bnd [OF acts_get_attempt_row] acts_rules | simp)+

lemma acts_claim_attempt:
  "execution_tables \<subseteq> L \<Longrightarrow> acts h (ctx_tenant_id ctx) L (claim_attempt ctx i worker n l) (\<lambda>_. True)"
  unfolding claim_attempt_def Let_def
  by (rule acts_bnd [OF acts_get_attempt_row] acts_attempt_event acts_rules TrueI | simp)+

lemma acts_begin_dispatch:
  "execution_tables \<subseteq> L \<Longrightarrow> acts h (ctx_tenant_id ctx) L (begin_dispatch ctx i worker token) (\<lambda>_. True)"
  unfolding begin_dispatch_def Let_def
  by (rule acts_bnd [OF acts_leased] acts_bnd_any [OF acts_gate] acts_seq [OF acts_execution_manifest] acts_attempt_event acts_rules TrueI | simp)+

lemma acts_begin_reconciliation:
  "execution_tables \<subseteq> L \<Longrightarrow> acts h (ctx_tenant_id ctx) L (begin_reconciliation ctx i worker token) (\<lambda>_. True)"
  unfolding begin_reconciliation_def Let_def
  by (rule acts_bnd [OF acts_leased] acts_attempt_event acts_rules TrueI | simp)+

lemma acts_observed_state: "gate_tables \<subseteq> L \<Longrightarrow> acts h (ctx_tenant_id ctx) L (observed_state ctx v d) (\<lambda>_. True)"
  unfolding observed_state_def by (rule acts_seq [OF acts_void [OF acts_gate]] acts_rules TrueI | simp)+

lemma acts_record_observation:
  "execution_tables \<subseteq> L \<Longrightarrow> acts h (ctx_tenant_id ctx) L (record_observation ctx i worker token obs) (\<lambda>_. True)"
  unfolding record_observation_def store_observation_def next_check_def Let_def
  by (rule acts_bnd [OF acts_leased] acts_bnd_any [OF acts_observed_state] acts_attempt_event acts_rules TrueI | simp)+

subsection \<open>The life of an attempt\<close>

text \<open>The specification: what may happen to an attempt in one step, whatever the tables hold.\<close>

inductive attempt_step :: "execution_attempt \<Rightarrow> execution_attempt \<Rightarrow> bool" where
  claimed: "\<not> terminal_state (ea_state v) \<Longrightarrow> attempt_step v (claimed_attempt v worker until)"
| dispatching: "ea_state v = Att_PREPARED \<Longrightarrow> ea_lease_owner v \<noteq> None \<Longrightarrow> attempt_step v (advanced v Att_DISPATCHING)"
| reconciling: "ea_state v = Att_UNKNOWN \<Longrightarrow> ea_lease_owner v \<noteq> None \<Longrightarrow> attempt_step v (advanced v Att_RECONCILING)"
| observed: "in_flight v \<Longrightarrow> ea_lease_owner v \<noteq> None \<Longrightarrow> st \<notin> {Att_DISPATCHING, Att_RECONCILING} \<Longrightarrow>
     st = Att_PREPARED \<longrightarrow> ea_state v = Att_RECONCILING \<Longrightarrow> attempt_step v (observed_attempt v st ref seen next)"

inductive_cases attempt_stepE: "attempt_step v v'"

lemma attempt_step_keeps:
  "attempt_step v v' \<Longrightarrow> \<not> terminal_state (ea_state v) \<and> ea_version v' = ea_version v + 1 \<and> ea_fencing_token v \<le> ea_fencing_token v'
     \<and> ea_id v' = ea_id v \<and> ea_tenant_id v' = ea_tenant_id v \<and> ea_operation_key v' = ea_operation_key v
     \<and> ea_intent_digest v' = ea_intent_digest v \<and> ea_command_id v' = ea_command_id v
     \<and> (ea_fencing_token v' = ea_fencing_token v \<longrightarrow> ea_lease_owner v' \<noteq> None \<longrightarrow>
          ea_lease_owner v' = ea_lease_owner v \<and> ea_lease_until v' = ea_lease_until v)"
  by (erule attempt_stepE) (auto simp: terminal_state_def in_flight_def claimed_attempt_def advanced_def observed_attempt_def)

lemma attempt_event_ok:
  "attempt_event ctx v topic s = (Inr u, s') \<Longrightarrow> attempts (db s') = attempts (db s) \<and> observations (db s') = observations (db s)
     \<and> sha256 s' = sha256 s \<and> execution_preparations (db s') = execution_preparations (db s)
     \<and> approval_intents (db s') = approval_intents (db s)"
  by (auto simp: attempt_event_def Let_def svc_ok audit_ok append_outbox_def put_event_def split: if_splits)

lemma update_attempt_ok:
  "update_attempt v n r = Inr (u, r') \<longleftrightarrow> (\<exists>c. dget (attempts r) (ea_tenant_id v, ea_id v) = Some c \<and> ea_version c = n) \<and> ea_version v = n + 1
     \<and> r' = r\<lparr>attempts := dset (ea_tenant_id v, ea_id v) v (attempts r)\<rparr>"
  by (auto simp: update_attempt_def get_attempt_row_def check_ok split: option.splits sum.splits)

lemma leased_ok:
  "leased ctx i worker token s = (Inr v, s') \<Longrightarrow> dget (attempts (db s)) (ctx_tenant_id ctx, i) = Some v
     \<and> ea_lease_owner v = Some worker \<and> ea_fencing_token v = token
     \<and> (\<exists>u. ea_lease_until v = Some u \<and> clock_src s (clock_ctr s) < u) \<and> s' = s\<lparr>clock_ctr := Suc (clock_ctr s)\<rparr>"
  by (auto simp: leased_def svc_ok require_ok get_attempt_row_ok option_ok)

lemma claim_attempt_ok:
  assumes "claim_attempt ctx i worker n l s = (Inr v', s')"
  shows "\<exists>v. dget (attempts (db s)) (ctx_tenant_id ctx, i) = Some v \<and> \<not> terminal_state (ea_state v) \<and> ea_version v = n
     \<and> \<not> after (ea_lease_until v) (clock_src s (clock_ctr s)) \<and> \<not> after (ea_next_check_at v) (clock_src s (clock_ctr s))
     \<and> v' = claimed_attempt v worker (clock_src s (clock_ctr s) + seconds l)
     \<and> attempts (db s') = dset (ea_tenant_id v, ea_id v) v' (attempts (db s)) \<and> observations (db s') = observations (db s)"
  using assms unfolding claim_attempt_def Let_def
  by (auto simp: svc_ok require_ok get_attempt_row_ok update_attempt_ok branch_ok dest!: attempt_event_ok)

lemma gate_keeps:
  assumes "gate ctx cid connection s = (x, s')" "wf_repo (db s)"
  shows "attempts (db s') = attempts (db s)" "observations (db s') = observations (db s)" "sha256 s' = sha256 s"
    "approval_intents (db s') = approval_intents (db s)"
  using writes_frame [OF actsD(3) [OF acts_gate [OF subset_refl] refl assms(2,1)], of T_attempts]
    writes_frame [OF actsD(3) [OF acts_gate [OF subset_refl] refl assms(2,1)], of T_observations]
    writes_frame [OF actsD(3) [OF acts_gate [OF subset_refl] refl assms(2,1)], of T_approval_intents]
    actsD(1) [OF acts_gate [OF subset_refl] refl assms(2,1)] by simp_all

lemma execution_manifest_ok: "execution_manifest ctx p c a s = (Inr u, s') \<Longrightarrow> s' = s"
  by (auto simp: execution_manifest_def svc_ok)

lemma begin_dispatch_ok:
  assumes run: "begin_dispatch ctx i worker token s = (Inr v', s')" and wf: "wf_repo (db s)"
  shows "\<exists>v p u. leased ctx i worker token s = (Inr v, s\<lparr>clock_ctr := Suc (clock_ctr s)\<rparr>) \<and> ea_state v = Att_PREPARED
     \<and> gate ctx (ea_command_id v) (ea_connection_id v) (s\<lparr>clock_ctr := Suc (clock_ctr s)\<rparr>) = (Inr p, u)
     \<and> ep_canonical_digest p = ea_intent_digest v \<and> v' = advanced v Att_DISPATCHING
     \<and> attempts (db s') = dset (ea_tenant_id v, ea_id v) v' (attempts (db s))
     \<and> observations (db s') = observations (db s) \<and> sha256 s' = sha256 s"
proof -
  from run obtain v w p u where l: "leased ctx i worker token s = (Inr v, w)" and st: "ea_state v = Att_PREPARED"
    and g: "gate ctx (ea_command_id v) (ea_connection_id v) w = (Inr p, u)" "ep_canonical_digest p = ea_intent_digest v"
    and v': "v' = advanced v Att_DISPATCHING"
    and e: "attempts (db s') = dset (ea_tenant_id v, ea_id v) v' (attempts (db u))" "observations (db s') = observations (db u)" "sha256 s' = sha256 u"
    unfolding begin_dispatch_def Let_def
    by (auto simp: svc_ok update_attempt_ok dest!: attempt_event_ok execution_manifest_ok)
  from leased_ok [OF l] have w: "w = s\<lparr>clock_ctr := Suc (clock_ctr s)\<rparr>" by blast
  then have "wf_repo (db w)" using wf by simp
  note k = gate_keeps [OF g(1) this]
  show ?thesis using l st g v' e k w by (intro exI [of _ v] exI [of _ p] exI [of _ u]) simp
qed

lemma begin_reconciliation_ok:
  assumes run: "begin_reconciliation ctx i worker token s = (Inr v', s')"
  shows "\<exists>v. leased ctx i worker token s = (Inr v, s\<lparr>clock_ctr := Suc (clock_ctr s)\<rparr>) \<and> ea_state v = Att_UNKNOWN
     \<and> v' = advanced v Att_RECONCILING \<and> attempts (db s') = dset (ea_tenant_id v, ea_id v) v' (attempts (db s))
     \<and> observations (db s') = observations (db s) \<and> sha256 s' = sha256 s"
proof -
  from run obtain v w where l: "leased ctx i worker token s = (Inr v, w)" and st: "ea_state v = Att_UNKNOWN"
    and v': "v' = advanced v Att_RECONCILING" and e: "attempts (db s') = dset (ea_tenant_id v, ea_id v) v' (attempts (db w))"
      "observations (db s') = observations (db w)" "sha256 s' = sha256 w"
    unfolding begin_reconciliation_def Let_def
    by (auto simp: svc_ok update_attempt_ok dest!: attempt_event_ok)
  from leased_ok [OF l] have "w = s\<lparr>clock_ctr := Suc (clock_ctr s)\<rparr>" by blast
  with l st v' e show ?thesis by (intro exI [of _ v]) simp
qed

lemma observed_state_keeps:
  assumes "observed_state ctx v d s = (x, s')" "wf_repo (db s)"
  shows "attempts (db s') = attempts (db s)" "observations (db s') = observations (db s)" "sha256 s' = sha256 s"
    "approval_intents (db s') = approval_intents (db s)"
  using writes_frame [OF actsD(3) [OF acts_observed_state [OF subset_refl] refl assms(2,1)], of T_attempts]
    writes_frame [OF actsD(3) [OF acts_observed_state [OF subset_refl] refl assms(2,1)], of T_observations]
    writes_frame [OF actsD(3) [OF acts_observed_state [OF subset_refl] refl assms(2,1)], of T_approval_intents]
    actsD(1) [OF acts_observed_state [OF subset_refl] refl assms(2,1)] by simp_all

lemma observed_state_ok:
  "observed_state ctx v d s = (Inr st, s') \<Longrightarrow>
     od_kind d = ''FOUND_SUCCESS'' \<and> st = Att_VERIFIED_SUCCESS \<or> od_kind d = ''FOUND_FAILURE'' \<and> st = Att_VERIFIED_FAILURE
     \<or> od_kind d = ''ABSENT'' \<and> st = Att_MANUAL_REVIEW \<or> od_kind d = ''ABSENT'' \<and> od_absence d \<and> st = Att_PREPARED
     \<or> od_kind d \<notin> {''FOUND_SUCCESS'', ''FOUND_FAILURE'', ''ABSENT''} \<and> st = Att_UNKNOWN"
  unfolding observed_state_def by (auto simp: svc_ok catch_ok branch_ok split: if_splits)

lemma read_observation_ok:
  "read_observation obs rec = Inr d \<Longrightarrow> od_kind d \<in> set observation_kinds \<and> hex64 (od_digest d) \<and> (od_kind d = ''ABSENT'' \<longrightarrow> rec)
     \<and> jget (JObj obs) ''kind'' = Some (JStr (od_kind d)) \<and> jget (JObj obs) ''response_digest'' = Some (JStr (od_digest d))
     \<and> od_reference d = js_str (jget (JObj obs) ''provider_reference'')"
  unfolding read_observation_def Let_def by (auto simp: checks_ok)

lemma next_check_ok:
  "next_check st n s = (Inr next, s') \<Longrightarrow> db s' = db s \<and> sha256 s' = sha256 s
     \<and> (case next of None \<Rightarrow> st \<noteq> Att_UNKNOWN | Some u \<Rightarrow> st = Att_UNKNOWN \<and> (\<exists>now. u = now + backoff n))"
  by (auto simp: next_check_def svc_ok split: if_splits)

lemma append_observation_ok:
  "append_observation v r = Inr (u, r') \<Longrightarrow> r' = r\<lparr>observations := dset (ao_tenant_id v, ao_attempt_id v)
     (observation_rows (ao_tenant_id v) (ao_attempt_id v) r @ [v]) (observations r)\<rparr>"
  by (auto simp: append_observation_def Let_def check_ok split: sum.splits)

lemma observations_for_ok: "observations_for t i r = Inr os \<Longrightarrow> os = observation_rows t i r"
  by (auto simp: observations_for_def split: sum.splits)

lemma store_observation_ok:
  "store_observation ctx v d st n s = (Inr v', s') \<Longrightarrow> \<exists>seen next ob. v' = observed_attempt v st (od_reference d) seen next
     \<and> (case next of None \<Rightarrow> st \<noteq> Att_UNKNOWN | Some u \<Rightarrow> st = Att_UNKNOWN \<and> (\<exists>now. u = now + backoff n))
     \<and> attempts (db s') = dset (ea_tenant_id v, ea_id v) v' (attempts (db s)) \<and> sha256 s' = sha256 s
     \<and> ao_observation_kind ob = od_kind d \<and> ao_response_digest ob = od_digest d
     \<and> observations (db s') = dset (ctx_tenant_id ctx, ea_id v) (observation_rows (ctx_tenant_id ctx) (ea_id v) (db s) @ [ob]) (observations (db s))"
  unfolding store_observation_def Let_def
  apply (simp only: svc_ok update_attempt_ok)
  apply (elim exE conjE)
  apply (drule next_check_ok, drule attempt_event_ok, drule append_observation_ok)
  apply clarify
  apply (intro exI conjI)
        apply (rule refl)
       apply assumption
      apply (simp_all add: observation_rows_def)
  done

lemma record_observation_ok:
  assumes run: "record_observation ctx i worker token obs s = (Inr v', s')" and wf: "wf_repo (db s)"
  shows "\<exists>v d st0 st seen next ob. leased ctx i worker token s = (Inr v, s\<lparr>clock_ctr := Suc (clock_ctr s)\<rparr>) \<and> in_flight v
     \<and> read_observation obs (ea_state v = Att_RECONCILING) = Inr d
     \<and> observed_state ctx v d (s\<lparr>clock_ctr := Suc (clock_ctr s)\<rparr>) = st0
     \<and> (\<exists>x. fst st0 = Inr x \<and> st = settled_state x (length (observation_rows (ctx_tenant_id ctx) i (db s))))
     \<and> v' = observed_attempt v st (od_reference d) seen next
     \<and> (case next of None \<Rightarrow> st \<noteq> Att_UNKNOWN | Some u \<Rightarrow> st = Att_UNKNOWN
          \<and> (\<exists>now. u = now + backoff (length (observation_rows (ctx_tenant_id ctx) i (db s)))))
     \<and> attempts (db s') = dset (ea_tenant_id v, ea_id v) v' (attempts (db s)) \<and> sha256 s' = sha256 s
     \<and> ao_observation_kind ob = od_kind d \<and> ao_response_digest ob = od_digest d
     \<and> observations (db s') = dset (ctx_tenant_id ctx, i) (observation_rows (ctx_tenant_id ctx) i (db s) @ [ob]) (observations (db s))"
proof -
  let ?t = "ctx_tenant_id ctx" and ?w = "s\<lparr>clock_ctr := Suc (clock_ctr s)\<rparr>"
  from run obtain v w d st0 u prior where l: "leased ctx i worker token s = (Inr v, w)" and fl: "in_flight v"
    and d: "read_observation obs (ea_state v = Att_RECONCILING) = Inr d" and st0: "observed_state ctx v d w = (Inr st0, u)"
    and prior: "observations_for ?t (ea_id v) (db u) = Inr prior"
    and store: "store_observation ctx v d (settled_state st0 (length prior)) (length prior) u = (Inr v', s')"
    unfolding record_observation_def by (auto simp: svc_ok)
  from leased_ok [OF l] have w: "w = ?w" and row: "dget (attempts (db s)) (?t, i) = Some v" by blast+
  from attempt_row_keys [OF wf row] have keys: "ea_tenant_id v = ?t" "ea_id v = i" by simp_all
  have "wf_repo (db w)" using w wf by simp
  note k = observed_state_keeps [OF st0 this]
  have os: "prior = observation_rows ?t i (db s)" "observation_rows ?t i (db u) = observation_rows ?t i (db s)"
    using observations_for_ok [OF prior] k(2) w by (simp_all add: keys observation_rows_def)
  from store_observation_ok [OF store] obtain seen due ob where
    so: "v' = observed_attempt v (settled_state st0 (length prior)) (od_reference d) seen due"
    "case due of None \<Rightarrow> settled_state st0 (length prior) \<noteq> Att_UNKNOWN
       | Some x \<Rightarrow> settled_state st0 (length prior) = Att_UNKNOWN \<and> (\<exists>now. x = now + backoff (length prior))"
    "attempts (db s') = dset (ea_tenant_id v, ea_id v) v' (attempts (db u))" "sha256 s' = sha256 u"
    "ao_observation_kind ob = od_kind d" "ao_response_digest ob = od_digest d"
    "observations (db s') = dset (?t, ea_id v) (observation_rows ?t (ea_id v) (db u) @ [ob]) (observations (db u))" by blast
  show ?thesis
    apply (rule exI [of _ v], rule exI [of _ d], rule exI [of _ "(Inr st0, u)"],
        rule exI [of _ "settled_state st0 (length prior)"], rule exI [of _ seen], rule exI [of _ due], rule exI [of _ ob])
    using l fl d st0 so k w os by (cases due) (simp_all add: keys)
qed

lemma insert_attempt_ok:
  "insert_attempt v r = Inr (u, r') \<Longrightarrow> attempt_for_key (ea_tenant_id v) (ea_operation_key v) r = None
     \<and> dget (attempts r) (ea_tenant_id v, ea_id v) = None \<and> r' = r\<lparr>attempts := dset (ea_tenant_id v, ea_id v) v (attempts r)\<rparr>"
  by (auto simp: insert_attempt_def check_ok split: option.splits)

lemma new_execution_attempt_simps [simp]:
  "ea_id (new_execution_attempt i t c p k d a pr co) = i" "ea_tenant_id (new_execution_attempt i t c p k d a pr co) = t"
  "ea_operation_key (new_execution_attempt i t c p k d a pr co) = k" "ea_intent_digest (new_execution_attempt i t c p k d a pr co) = d"
  "ea_command_id (new_execution_attempt i t c p k d a pr co) = c" "ea_state (new_execution_attempt i t c p k d a pr co) = Att_PREPARED"
  by (simp_all add: new_execution_attempt_def)

lemma bind_attempt_ok:
  "bind_attempt ctx cid a p c e key s = (Inr (v, replay), s') \<Longrightarrow>
     (replay \<and> attempt_for_key (ctx_tenant_id ctx) key (db s) = Some v \<and> s' = s)
     \<or> (\<not> replay \<and> (\<exists>i. v = new_execution_attempt i (ctx_tenant_id ctx) cid (ep_id e) key (ep_canonical_digest e) a p c
         \<and> attempt_for_key (ctx_tenant_id ctx) key (db s) = None \<and> dget (attempts (db s)) (ctx_tenant_id ctx, i) = None
         \<and> attempts (db s') = dset (ctx_tenant_id ctx, i) v (attempts (db s))))"
  unfolding bind_attempt_def Let_def
  by (auto simp: svc_ok option_ok dest!: attempt_event_ok insert_attempt_ok)

lemma prepare_execution_attempts:
  assumes "prepare_execution ctx cid policy tv s = (x, s')" "wf_repo (db s)"
  shows "attempts (db s') = attempts (db s)"
  using writes_frame [OF actsD(3) [OF acts_prepare_execution [OF subset_refl] refl assms(2,1)], of T_attempts] by simp

lemma prepare_attempt_ok:
  assumes run: "prepare_attempt ctx cid policy tv a p c s = (Inr (v, replay), s')" and wf: "wf_repo (db s)"
  shows "(replay \<and> attempts (db s') = attempts (db s) \<and> v \<in> set (rows (ctx_tenant_id ctx) (attempts (db s))))
     \<or> (\<not> replay \<and> (\<exists>i e u. gate ctx cid c s = (Inr e, u)
         \<and> v = new_execution_attempt i (ctx_tenant_id ctx) cid (ep_id e) (sha256 s (canonical (operation_material (ctx_tenant_id ctx) cid)))
           (ep_canonical_digest e) a p c
         \<and> attempt_for_key (ctx_tenant_id ctx) (ea_operation_key v) (db s) = None \<and> dget (attempts (db s)) (ctx_tenant_id ctx, i) = None
         \<and> attempts (db s') = dset (ctx_tenant_id ctx, i) v (attempts (db s))))"
proof -
  let ?t = "ctx_tenant_id ctx"
  from run obtain e u x w where g: "gate ctx cid c s = (Inr e, u)" and p: "prepare_execution ctx cid policy tv u = (Inr x, w)"
    and b: "bind_attempt ctx cid a p c e (sha256 w (canonical (operation_material ?t cid))) w = (Inr (v, replay), s')"
    unfolding prepare_attempt_def
    by (auto simp: svc_ok void_ok require_ok strict_intent_digest_ok dest!: execution_manifest_ok)
  note gk = gate_keeps [OF g wf]
  have wu: "wf_repo (db u)" by (rule actsD(2) [OF acts_gate [OF subset_refl] refl wf g])
  have "attempts (db w) = attempts (db s)" "sha256 w = sha256 s"
    using gk prepare_execution_attempts [OF p wu] actsD(1) [OF acts_prepare_execution [OF subset_refl] refl wu p] by simp_all
  with bind_attempt_ok [OF b] g show ?thesis by (fastforce simp: attempt_for_key_def dest: first_Some)
qed

subsection \<open>Relations every step keeps\<close>

text \<open>
  A reflexive and transitive relation between the state before and after, whether a call
  returns or raises, is shown for a composed call from its steps.
\<close>

locale step_relation =
  fixes R :: "'s \<Rightarrow> 's \<Rightarrow> bool"
  assumes R_refl: "R s s" and R_trans: "R s t \<Longrightarrow> R t u \<Longrightarrow> R s u"
begin

definition steady :: "('s, 'a) op \<Rightarrow> bool" where
  "steady m \<longleftrightarrow> (\<forall>s. R s (snd (m s)))"

lemma steadyD: "steady m \<Longrightarrow> m s = (x, s') \<Longrightarrow> R s s'"
  unfolding steady_def by (metis snd_conv)

lemma steadyI: "(\<And>s x s'. m s = (x, s') \<Longrightarrow> R s s') \<Longrightarrow> steady m"
  unfolding steady_def by (metis surjective_pairing)

lemma steady_basic: "steady (ret a)" "steady (throw e)" "steady (of_sum c)"
  by (simp_all add: steady_def op_simps R_refl)

lemma steady_bnd: "steady m \<Longrightarrow> (\<And>a. steady (f a)) \<Longrightarrow> steady (bnd m f)"
proof (rule steadyI)
  fix s x s' assume m: "steady m" "\<And>a. steady (f a)" and run: "bnd m f s = (x, s')"
  from run show "R s s'"
    by (cases rule: bnd_cases) (metis steadyD R_trans m)+
qed

lemma steady_bnd_from:
  assumes "steady m" and "\<And>s a s'. m s = (Inr a, s') \<Longrightarrow> R s s' \<Longrightarrow> R s (snd (f a s'))"
  shows "steady (bnd m f)"
proof (rule steadyI)
  fix s x s' assume run: "bnd m f s = (x, s')"
  from run show "R s s'"
    by (cases rule: bnd_cases) (use assms steadyD in \<open>metis snd_conv\<close>)+
qed

lemma steady_seq: "steady m \<Longrightarrow> steady k \<Longrightarrow> steady (seq m k)"
  by (simp add: seq_def steady_bnd)

lemma steady_ensure: "steady k \<Longrightarrow> steady (ensure b e k)"
  by (simp add: ensure_def steady_basic)

lemma steady_catch: "steady m \<Longrightarrow> (\<And>e. steady (k e)) \<Longrightarrow> steady (catch m k)"
proof (rule steadyI)
  fix s x s' assume m: "steady m" "\<And>e. steady (k e)" and run: "catch m k s = (x, s')"
  show "R s s'"
  proof (cases "m s")
    case (Pair y u)
    with run show ?thesis
      by (cases y) (auto simp: catch_def dest: steadyD [OF m(1)] steadyD [OF m(2)] intro: R_trans)
  qed
qed

lemma steady_void: "steady m \<Longrightarrow> steady (void m)"
  by (simp add: void_def steady_bnd steady_basic)

lemma steady_run: "(\<And>c. steady (f c)) \<Longrightarrow> R s (fold (\<lambda>c s. snd (f c s)) cs s)"
proof (induction cs arbitrary: s)
  case (Cons c cs)
  from Cons.prems [of c] have "R s (snd (f c s))" by (simp add: steady_def)
  with Cons.IH [of "snd (f c s)"] Cons.prems show ?case by (auto intro: R_trans)
qed (simp add: R_refl)

end

subsection \<open>Every call follows the life cycle\<close>

datatype execution_call =
    Control tenant_context string int int bool
  | Prepare_attempt tenant_context string int int string string string
  | Claim tenant_context string string int int
  | Begin_dispatch tenant_context string string int
  | Begin_reconciliation tenant_context string string int
  | Observe tenant_context string string int "(string \<times> json) list"
  | Dispatch tenant_context string string int
  | Reconcile tenant_context string string int
  | Mode string
  | Absence json

fun execution_op :: "execution_call \<Rightarrow> (platform, unit) op" where
  "execution_op (Control ctx cid policy tv stopped) = local (set_demo_control ctx cid policy tv stopped)"
| "execution_op (Prepare_attempt ctx cid policy tv a p c) = void (local (prepare_attempt ctx cid policy tv a p c))"
| "execution_op (Claim ctx i worker n l) = void (local (claim_attempt ctx i worker n l))"
| "execution_op (Begin_dispatch ctx i worker token) = void (local (begin_dispatch ctx i worker token))"
| "execution_op (Begin_reconciliation ctx i worker token) = void (local (begin_reconciliation ctx i worker token))"
| "execution_op (Observe ctx i worker token obs) = void (local (record_observation ctx i worker token obs))"
| "execution_op (Dispatch ctx i worker token) = void (dispatch_demo ctx i worker token)"
| "execution_op (Reconcile ctx i worker token) = void (reconcile_attempt ctx i worker token)"
| "execution_op (Mode v) = (\<lambda>s. case set_mode v (snd s) of Inl e \<Rightarrow> (Inl e, s) | Inr p \<Rightarrow> (Inr (), (fst s, p)))"
| "execution_op (Absence v) = (\<lambda>s. (Inr (), (fst s, set_authoritative_absence v (snd s))))"

definition run_execution :: "execution_call list \<Rightarrow> platform \<Rightarrow> platform" where
  "run_execution cs s = fold (\<lambda>c s. snd (execution_op c s)) cs s"

definition follows :: "platform \<Rightarrow> platform \<Rightarrow> bool" where
  "follows s s' \<longleftrightarrow> (wf_repo (db (fst s)) \<longrightarrow> wf_repo (db (fst s')) \<and>
     (\<forall>k v. dget (attempts (db (fst s))) k = Some v \<longrightarrow> (\<exists>v'. dget (attempts (db (fst s'))) k = Some v' \<and> attempt_step\<^sup>*\<^sup>* v v')))"

interpretation life: step_relation follows
proof
  show "follows s s" for s by (simp add: follows_def)
  show "follows s t \<Longrightarrow> follows t u \<Longrightarrow> follows s u" for s t u
    unfolding follows_def by (meson rtranclp_trans)
qed

lemma follows_dset:
  assumes "attempts (db (fst s')) = dset k v' (attempts (db (fst s)))" "wf_repo (db (fst s'))"
    and "\<And>v. dget (attempts (db (fst s))) k = Some v \<Longrightarrow> attempt_step v v'"
  shows "follows s s'"
  using assms unfolding follows_def by (auto simp: dget_dset intro: r_into_rtranclp)

lemma follows_same: "attempts (db (fst s')) = attempts (db (fst s)) \<Longrightarrow> wf_repo (db (fst s')) \<Longrightarrow> follows s s'"
  unfolding follows_def by auto

text \<open>A call of the repository's side, from what it does when it returns.\<close>

lemma steady_local:
  assumes atomic: "atomic m" and acts: "\<And>h. acts h t UNIV m (\<lambda>_. True)"
    and ok: "\<And>s a s' p. m s = (Inr a, s') \<Longrightarrow> wf_repo (db s) \<Longrightarrow> wf_repo (db s') \<Longrightarrow> follows (s, p) (s', p)"
  shows "life.steady (local m)"
proof (rule life.steadyI)
  fix s x s' assume run: "local m s = (x, s')"
  obtain y w where m: "m (fst s) = (y, w)" by (cases "m (fst s)") auto
  then have s': "s' = (w, snd s)" using run by (simp add: local_def)
  show "follows s s'"
  proof (cases "wf_repo (db (fst s))")
    case True
    then have w: "wf_repo (db w)" using actsD(2) [OF acts refl _ m] by blast
    show ?thesis
    proof (cases y)
      case (Inl e)
      with m atomicD [OF atomic] s' True show ?thesis by (auto simp: follows_def)
    next
      case (Inr a)
      from ok [OF m [unfolded Inr] True w, of "snd s"] s' show ?thesis by simp
    qed
  qed (simp add: follows_def)
qed

lemma follows_db: "db (fst s') = db (fst s) \<Longrightarrow> follows s s'"
  unfolding follows_def by auto

lemma steady_remote: "life.steady (remote m)"
  by (rule life.steadyI) (auto simp: remote_def intro!: follows_db split: prod.splits)

lemma transactions_atomic:
  "atomic (set_demo_control ctx cid policy tv stopped)" "atomic (prepare_attempt ctx cid policy tv a p c)"
  "atomic (claim_attempt ctx i worker n l)" "atomic (begin_dispatch ctx i worker token)"
  "atomic (begin_reconciliation ctx i worker token)" "atomic (record_observation ctx i worker token obs)"
  by (simp_all add: set_demo_control_def Let_def prepare_attempt_def claim_attempt_def begin_dispatch_def
      begin_reconciliation_def record_observation_def atomic_transaction)

lemma steady_control: "life.steady (local (set_demo_control ctx cid policy tv stopped))"
proof (rule steady_local [OF transactions_atomic(1) acts_set_demo_control [OF subset_UNIV]])
  fix s :: world and a s' p
  assume "set_demo_control ctx cid policy tv stopped s = (Inr a, s')" and "wf_repo (db s')"
  then show "follows (s, p) (s', p)"
    by (intro follows_same) (auto simp: set_demo_control_def Let_def svc_ok void_ok require_ok audit_ok save_demo_control_def split: sum.splits)
qed

lemma steady_prepare: "life.steady (local (prepare_attempt ctx cid policy tv a p c))"
proof (rule steady_local [OF transactions_atomic(2) acts_prepare_attempt [OF subset_UNIV]])
  fix s :: world and r s' q
  assume run: "prepare_attempt ctx cid policy tv a p c s = (Inr r, s')" and wf: "wf_repo (db s)" and wf': "wf_repo (db s')"
  obtain v replay where r: "r = (v, replay)" by fastforce
  from prepare_attempt_ok [OF run [unfolded r] wf] show "follows (s, q) (s', q)"
  proof (elim disjE conjE exE)
    fix i assume "dget (attempts (db s)) (ctx_tenant_id ctx, i) = None" "attempts (db s') = dset (ctx_tenant_id ctx, i) v (attempts (db s))"
    then show ?thesis using wf' by (intro follows_dset [where k = "(ctx_tenant_id ctx, i)" and v' = v]) auto
  qed (use wf' in \<open>simp add: follows_same\<close>)
qed

text \<open>The row a leased worker reads is the stored one.\<close>

lemma leased_row:
  assumes "leased ctx i worker token s = (Inr v, s')" "wf_repo (db s)"
  shows "dget (attempts (db s)) (ea_tenant_id v, ea_id v) = Some v" "ea_lease_owner v \<noteq> None" "ea_tenant_id v = ctx_tenant_id ctx" "ea_id v = i"
  using leased_ok [OF assms(1)] attempt_row_keys [OF assms(2)] by auto

lemma steady_claim: "life.steady (local (claim_attempt ctx i worker n l))"
proof (rule steady_local [OF transactions_atomic(3) acts_claim_attempt [OF subset_UNIV]])
  fix s :: world and v' s' p
  assume run: "claim_attempt ctx i worker n l s = (Inr v', s')" and wf: "wf_repo (db s)" and wf': "wf_repo (db s')"
  from claim_attempt_ok [OF run] obtain v u where v: "dget (attempts (db s)) (ctx_tenant_id ctx, i) = Some v"
    "\<not> terminal_state (ea_state v)" "v' = claimed_attempt v worker u"
    "attempts (db s') = dset (ea_tenant_id v, ea_id v) v' (attempts (db s))" by blast
  have "attempt_step v v'" unfolding v(3) by (rule claimed [OF v(2)])
  with v attempt_row_keys [OF wf v(1)] wf' show "follows (s, p) (s', p)"
    by (intro follows_dset [where k = "(ea_tenant_id v, ea_id v)" and v' = v']) auto
qed

lemma steady_dispatch: "life.steady (local (begin_dispatch ctx i worker token))"
proof (rule steady_local [OF transactions_atomic(4) acts_begin_dispatch [OF subset_UNIV]])
  fix s :: world and v' s' p
  assume run: "begin_dispatch ctx i worker token s = (Inr v', s')" and wf: "wf_repo (db s)" and wf': "wf_repo (db s')"
  from begin_dispatch_ok [OF run wf] obtain v w where v: "leased ctx i worker token s = (Inr v, w)" "ea_state v = Att_PREPARED"
    "v' = advanced v Att_DISPATCHING" "attempts (db s') = dset (ea_tenant_id v, ea_id v) v' (attempts (db s))" by blast
  note row = leased_row [OF v(1) wf]
  have "attempt_step v v'" unfolding v(3) by (rule dispatching [OF v(2) row(2)])
  with v row wf' show "follows (s, p) (s', p)"
    by (intro follows_dset [where k = "(ea_tenant_id v, ea_id v)" and v' = v']) auto
qed

lemma steady_reconciliation: "life.steady (local (begin_reconciliation ctx i worker token))"
proof (rule steady_local [OF transactions_atomic(5) acts_begin_reconciliation [OF subset_UNIV]])
  fix s :: world and v' s' p
  assume run: "begin_reconciliation ctx i worker token s = (Inr v', s')" and wf: "wf_repo (db s)" and wf': "wf_repo (db s')"
  from begin_reconciliation_ok [OF run] obtain v w where v: "leased ctx i worker token s = (Inr v, w)" "ea_state v = Att_UNKNOWN"
    "v' = advanced v Att_RECONCILING" "attempts (db s') = dset (ea_tenant_id v, ea_id v) v' (attempts (db s))" by blast
  note row = leased_row [OF v(1) wf]
  have "attempt_step v v'" unfolding v(3) by (rule reconciling [OF v(2) row(2)])
  with v row wf' show "follows (s, p) (s', p)"
    by (intro follows_dset [where k = "(ea_tenant_id v, ea_id v)" and v' = v']) auto
qed

lemma observed_step:
  assumes "observed_state ctx v d w = st0" "fst st0 = Inr x" "read_observation obs (ea_state v = Att_RECONCILING) = Inr d"
  shows "settled_state x n \<notin> {Att_DISPATCHING, Att_RECONCILING}" "settled_state x n = Att_PREPARED \<longrightarrow> ea_state v = Att_RECONCILING"
proof -
  obtain u where "observed_state ctx v d w = (Inr x, u)" using assms(1,2) by (cases st0) auto
  from observed_state_ok [OF this] read_observation_ok [OF assms(3)]
  show "settled_state x n \<notin> {Att_DISPATCHING, Att_RECONCILING}" "settled_state x n = Att_PREPARED \<longrightarrow> ea_state v = Att_RECONCILING"
    by (auto simp: settled_state_def)
qed

lemma steady_observe: "life.steady (local (record_observation ctx i worker token obs))"
proof (rule steady_local [OF transactions_atomic(6) acts_record_observation [OF subset_UNIV]])
  fix s :: world and v' s' p
  assume run: "record_observation ctx i worker token obs s = (Inr v', s')" and wf: "wf_repo (db s)" and wf': "wf_repo (db s')"
  from record_observation_ok [OF run wf] obtain v w d st0 x seen due where v: "leased ctx i worker token s = (Inr v, w)" "in_flight v"
    "read_observation obs (ea_state v = Att_RECONCILING) = Inr d" "observed_state ctx v d w = st0" "fst st0 = Inr x"
    "v' = observed_attempt v (settled_state x (length (observation_rows (ctx_tenant_id ctx) i (db s)))) (od_reference d) seen due"
    "attempts (db s') = dset (ea_tenant_id v, ea_id v) v' (attempts (db s))" by blast
  note row = leased_row [OF v(1) wf] and st = observed_step [OF v(4,5,3)]
  have "attempt_step v v'" unfolding v(6) by (rule observed [OF v(2) row(2) st])
  with v(7) row wf' show "follows (s, p) (s', p)"
    by (intro follows_dset [where k = "(ea_tenant_id v, ea_id v)" and v' = v']) auto
qed

lemma steady_readonly: "readonly m \<Longrightarrow> (\<And>h. acts h t UNIV m (\<lambda>_. True)) \<Longrightarrow> life.steady (local m)"
  by (rule life.steadyI) (auto simp: local_def dest: readonlyD intro!: follows_db split: prod.splits)

lemma steady_get_attempt: "life.steady (local (get_attempt ctx i))"
proof (rule steady_readonly)
  show "readonly (get_attempt ctx i)"
    unfolding get_attempt_def require_def membership_of_def by (rule atomic_rules)+
  show "acts h (ctx_tenant_id ctx) UNIV (get_attempt ctx i) (\<lambda>_. True)" for h
    unfolding get_attempt_def by (rule acts_rules TrueI)+
qed

lemma steady_or_unknown: "life.steady m \<Longrightarrow> life.steady (or_unknown m)"
proof -
  have "readonly unknown_result" "acts h t UNIV unknown_result (\<lambda>_. True)" for h t
    unfolding unknown_result_def strict_intent_digest_def by (rule atomic_rules acts_rules TrueI)+
  note u = steady_readonly [OF this]
  show "life.steady m \<Longrightarrow> life.steady (or_unknown m)"
    unfolding or_unknown_def by (rule life.steady_catch) (auto intro: u life.steady_basic split: err.split)
qed

lemma steady_check_provider: "life.steady (check_provider v)"
  unfolding check_provider_def by (rule life.steady_ensure life.steady_basic)+

lemmas steady_steps = life.steady_bnd life.steady_seq life.steady_void steady_control steady_prepare steady_claim steady_dispatch
  steady_reconciliation steady_observe steady_get_attempt steady_check_provider steady_or_unknown steady_remote

lemma steady_execution_op: "life.steady (execution_op c)"
proof (cases c)
  case (Mode v)
  then show ?thesis by (auto simp: life.steady_def intro: follows_db split: sum.split)
next
  case (Absence v)
  then show ?thesis by (simp add: life.steady_def follows_db)
qed (simp_all only: execution_op.simps dispatch_demo_def reconcile_attempt_def, (rule steady_steps)+)

lemma run_follows: "follows s (run_execution cs s)"
  unfolding run_execution_def by (rule life.steady_run [OF steady_execution_op])

lemma steps_keep:
  "attempt_step\<^sup>*\<^sup>* v v' \<Longrightarrow> ea_version v \<le> ea_version v' \<and> ea_fencing_token v \<le> ea_fencing_token v'
     \<and> (terminal_state (ea_state v) \<longrightarrow> v' = v)"
  by (induction rule: rtranclp_induct) (auto dest!: attempt_step_keeps)

text \<open>
  C6: The store's attempts refine the life cycle \<open>attempt_step\<close>.  Whatever calls are made, by
  whichever workers, with whatever the provider answers, every attempt there is stays, and
  what becomes of it is a sequence of steps of the specification.
\<close>

theorem attempts_follow_life_cycle:
  assumes "wf_repo (db (fst s))" "dget (attempts (db (fst s))) k = Some v"
  shows "\<exists>v'. dget (attempts (db (fst (run_execution cs s)))) k = Some v' \<and> attempt_step\<^sup>*\<^sup>* v v'"
  using run_follows [of s cs] assms unfolding follows_def by blast

text \<open>
  An attempt that was verified or handed to a person is final: no call changes it again.
\<close>

theorem finished_attempt_is_final:
  assumes "wf_repo (db (fst s))" "dget (attempts (db (fst s))) k = Some v" "terminal_state (ea_state v)"
  shows "dget (attempts (db (fst (run_execution cs s)))) k = Some v"
  using run_follows [of s cs] assms steps_keep unfolding follows_def by metis

text \<open>
  C27: Fencing of attempts.  Once a worker has claimed an attempt, a worker that still holds a
  smaller token can neither dispatch nor reconcile nor record an observation, whatever happened
  in between: each of the calls raises and changes no table.
\<close>

theorem stale_worker_is_fenced:
  assumes wf: "wf_repo (db (fst s))" and row: "dget (attempts (db (fst s))) (ctx_tenant_id ctx, i) = Some v"
    and old: "token < ea_fencing_token v"
  shows "let w = fst (run_execution cs s) in
     (\<exists>e. fst (begin_dispatch ctx i worker token w) = Inl e) \<and> db (snd (begin_dispatch ctx i worker token w)) = db w
     \<and> (\<exists>e. fst (begin_reconciliation ctx i worker token w) = Inl e) \<and> db (snd (begin_reconciliation ctx i worker token w)) = db w
     \<and> (\<exists>e. fst (record_observation ctx i worker token obs w) = Inl e) \<and> db (snd (record_observation ctx i worker token obs w)) = db w"
proof -
  define w where "w = fst (run_execution cs s)"
  from run_follows [of s cs] wf row obtain v' where wf': "wf_repo (db w)" and v': "dget (attempts (db w)) (ctx_tenant_id ctx, i) = Some v'"
    "attempt_step\<^sup>*\<^sup>* v v'" unfolding follows_def w_def by blast
  have "leased ctx i worker token w \<noteq> (Inr x, u)" for x u
    using leased_ok [of ctx i worker token w x u] v'(1) steps_keep [OF v'(2)] old by auto
  then have "fst (begin_dispatch ctx i worker token w) \<noteq> Inr x" "fst (begin_reconciliation ctx i worker token w) \<noteq> Inr x"
    "fst (record_observation ctx i worker token obs w) \<noteq> Inr x" for x
    using begin_dispatch_ok [OF _ wf'] begin_reconciliation_ok record_observation_ok [OF _ wf'] by (metis prod.collapse)+
  then have "\<exists>e. fst (begin_dispatch ctx i worker token w) = Inl e" "\<exists>e. fst (begin_reconciliation ctx i worker token w) = Inl e"
    "\<exists>e. fst (record_observation ctx i worker token obs w) = Inl e" by (metis sum.exhaust)+
  moreover from this transactions_atomic(4,5,6) have "db (snd (begin_dispatch ctx i worker token w)) = db w"
    "db (snd (begin_reconciliation ctx i worker token w)) = db w" "db (snd (record_observation ctx i worker token obs w)) = db w"
    by (metis atomicD prod.collapse)+
  ultimately show ?thesis unfolding w_def [symmetric] Let_def by blast
qed


subsection \<open>A leased attempt\<close>

definition demo_attempt :: "attempt_state \<Rightarrow> execution_attempt" where
  "demo_attempt st = (new_execution_attempt ''x1'' ''u0'' ''c1'' ''e1'' (replicate 64 CHR ''0'') (replicate 64 CHR ''0'')
     ''synthetic-v1'' ''synthetic'' ''demo'')\<lparr>ea_state := st, ea_fencing_token := 1, ea_lease_owner := Some ''w'', ea_lease_until := Some 60000000\<rparr>"

definition demo_floor :: "attempt_state \<Rightarrow> world" where
  "demo_floor st = demo_tenant\<lparr>db := (db demo_tenant)\<lparr>attempts := [((''u0'', ''x1''), demo_attempt st)]\<rparr>\<rparr>"

definition demo_provider :: provider where
  "demo_provider = \<lparr>pv_mode = Timeout_after, pv_authoritative_absence = False, pv_effects = []\<rparr>"

definition demo_answer :: "(string \<times> json) list" where
  "demo_answer = [(''kind'', JStr ''INCONCLUSIVE''), (''response_digest'', JStr (replicate 64 CHR ''0''))]"

lemma demo_floor_wf: "wf_repo (db (demo_floor st))"
proof -
  have "writes h ''u0'' {T_attempts} (db demo_tenant) (db (demo_floor st))" for h
    using W_attempts [of "demo_attempt st" "''u0''" h "db demo_tenant"]
    by (auto simp: demo_floor_def demo_attempt_def new_execution_attempt_def demo_tenant_more intro: writes_one)
  then show ?thesis using demo_tenant_wf wf_writes by blast
qed

lemma demo_floor_row: "dget (attempts (db (demo_floor st))) (''u0'', ''x1'') = Some (demo_attempt st)"
  by (simp add: demo_floor_def)

theorem attempts_follow_life_cycle_witness:
  "\<exists>v'. dget (attempts (db (fst (run_execution [Claim demo_master ''x1'' ''v'' 1 60, Dispatch demo_master ''x1'' ''v'' 2]
       (demo_floor Att_PREPARED, demo_provider))))) (''u0'', ''x1'') = Some v' \<and> attempt_step\<^sup>*\<^sup>* (demo_attempt Att_PREPARED) v'"
  by (rule attempts_follow_life_cycle) (simp_all add: demo_floor_wf demo_floor_row)

theorem finished_attempt_is_final_witness:
  "dget (attempts (db (fst (run_execution [Claim demo_master ''x1'' ''v'' 1 60] (demo_floor Att_VERIFIED_SUCCESS, demo_provider)))))
     (''u0'', ''x1'') = Some (demo_attempt Att_VERIFIED_SUCCESS)"
  by (rule finished_attempt_is_final)
    (simp_all add: demo_floor_wf demo_floor_row terminal_state_def demo_attempt_def)

theorem stale_worker_is_fenced_witness:
  "\<exists>e. fst (begin_dispatch demo_master ''x1'' ''w'' 0 (fst (run_execution [] (demo_floor Att_PREPARED, demo_provider)))) = Inl e"
  using stale_worker_is_fenced [of "(demo_floor Att_PREPARED, demo_provider)" demo_master "''x1''" "demo_attempt Att_PREPARED" 0]
  by (simp add: demo_floor_wf demo_floor_row demo_master_def demo_attempt_def Let_def)

lemma demo_observed:
  "\<exists>v s'. record_observation demo_master ''x1'' ''w'' 1 demo_answer (demo_floor Att_DISPATCHING) = (Inr v, s') \<and> ea_state v = Att_UNKNOWN"
proof -
  have read: "\<exists>d. read_observation demo_answer rec = Inr d \<and> od_kind d = ''INCONCLUSIVE''" for rec
    by (simp add: read_observation_def demo_answer_def Let_def checks_ok that_def need_def check_def observation_kinds_def
        hex64_def is_digit_def list_all_iff)
  then obtain d where d: "read_observation demo_answer False = Inr d" "od_kind d = ''INCONCLUSIVE''" by blast
  have db: "attempts (db (demo_floor Att_DISPATCHING)) = [((''u0'', ''x1''), demo_attempt Att_DISPATCHING)]"
    "observations (db (demo_floor Att_DISPATCHING)) = []" "outbox_idempotency (db (demo_floor Att_DISPATCHING)) = []"
    "memberships (db (demo_floor Att_DISPATCHING)) = memberships (db demo_tenant)"
    "clock_src (demo_floor Att_DISPATCHING) = clock_src demo_world" "clock_ctr (demo_floor Att_DISPATCHING) = 2"
    by (simp_all add: demo_floor_def demo_tenant_more)
  show ?thesis
    using d demo_tenant_tables
    by (simp add: record_observation_def leased_def op_simps db require_def membership_of_def demo_master_def get_membership_def
        new_membership_def member_capabilities_def get_attempt_row_def demo_attempt_def new_execution_attempt_def demo_world_def
        in_flight_def observed_state_def observations_for_def observation_rows_def settled_state_def store_observation_def
        next_check_def update_attempt_def check_def observed_attempt_def append_observation_def Let_def attempt_event_def audit_run
        append_outbox_def put_event_def new_outbox_event_def)
qed


end
