(* ===== verification/Effects.thy ===== *)
theory Effects
  imports Execution_Laws
begin

section \<open>Effects at the provider\<close>

text \<open>
  The two databases together: every effect in the provider's ledger carries the digest of an
  approval intent, under the operation key of its command, and stays as it was made.
\<close>

subsection \<open>Preparations carry the digest of the intent\<close>

definition preparations_match :: "repo \<Rightarrow> bool" where
  "preparations_match r \<longleftrightarrow> (\<forall>k p. dget (execution_preparations r) k = Some p \<longrightarrow>
     (\<exists>i. dget (approval_intents r) k = Some i \<and> ep_canonical_digest p = ai_canonical_digest i))"

interpretation preps: table_invariant "{T_approval_intents, T_execution_preparations}" preparations_match
proof
  fix r r' assume same: "\<And>x. x \<in> {T_approval_intents, T_execution_preparations} \<Longrightarrow> same_table x r r'" and "preparations_match r"
  with same [of T_approval_intents] same [of T_execution_preparations] show "preparations_match r'" by (simp add: preparations_match_def)
qed

lemma prepare_execution_digest:
  assumes "prepare_execution ctx cid policy tv s = (Inr (p, b), s')" "preparations_match (db s)" "wf_repo (db s)"
  shows "\<exists>i. dget (approval_intents (db s)) (ctx_tenant_id ctx, cid) = Some i \<and> ep_canonical_digest p = ai_canonical_digest i
     \<and> preparations_match (db s')"
proof -
  let ?k = "(ctx_tenant_id ctx, cid)"
  from prepare_execution_ok [OF assms(1)] obtain i where i: "dget (approval_intents (db s)) ?k = Some i"
    "approval_intents (db s') = approval_intents (db s)"
    "(b \<and> db s' = db s \<and> dget (execution_preparations (db s)) ?k = Some p)
     \<or> (\<not> b \<and> execution_preparations (db s') = dset ?k p (execution_preparations (db s)) \<and> ep_canonical_digest p = ai_canonical_digest i)"
    unfolding get_approval_intent_def by blast
  with assms(2) have "ep_canonical_digest p = ai_canonical_digest i" unfolding preparations_match_def by force
  moreover from this i assms(2) have "preparations_match (db s')" unfolding preparations_match_def by (auto simp: dget_dset split: if_splits)
  ultimately show ?thesis using i(1) by blast
qed

lemma keeps_prepare_execution: "keeps h (\<lambda>r. wf_repo r \<and> preparations_match r) (prepare_execution ctx cid policy tv) (\<lambda>_. True)"
proof (rule keepsI)
  fix s s' :: world and x
  assume h: "sha256 s = h" and inv: "wf_repo (db s) \<and> preparations_match (db s)" and run: "prepare_execution ctx cid policy tv s = (x, s')"
  note eff = actsD [OF acts_prepare_execution [OF subset_UNIV] h conjunct1 [OF inv] run]
  have "preparations_match (db s')"
  proof (cases x)
    case (Inl e)
    with run inv show ?thesis by (auto simp: prepare_execution_def dest: transaction_atomic)
  next
    case (Inr y)
    with run inv prepare_execution_digest [of ctx cid policy tv s "fst y" "snd y" s'] show ?thesis by auto
  qed
  with eff show "sha256 s' = h \<and> (wf_repo (db s') \<and> preparations_match (db s')) \<and> (\<forall>a. x = Inr a \<longrightarrow> True)" by blast
qed

lemma keeps_gate: "keeps h (\<lambda>r. wf_repo r \<and> preparations_match r) (gate ctx cid connection) (\<lambda>_. True)"
  unfolding gate_def Let_def
  by (rule keeps_bnd [OF keeps_prepare_execution] keeps_env(6) keeps_intros preps.skips [where t = "ctx_tenant_id ctx"] acts_rules TrueI | simp)+

lemma gate_digest:
  assumes "gate ctx cid connection s = (Inr p, s')" "preparations_match (db s)" "wf_repo (db s)"
  shows "\<exists>i. dget (approval_intents (db s)) (ctx_tenant_id ctx, cid) = Some i \<and> ep_canonical_digest p = ai_canonical_digest i"
  using assms prepare_execution_digest unfolding gate_def Let_def by (auto simp: svc_ok split: prod.splits) metis

lemma keeps_set_demo_control: "keeps h (\<lambda>r. wf_repo r \<and> preparations_match r) (set_demo_control ctx cid policy tv stopped) (\<lambda>_. True)"
  unfolding set_demo_control_def Let_def
  by (rule keeps_intros preps.skips [where t = "ctx_tenant_id ctx"] preps.skip [where t = "ctx_tenant_id ctx"] acts_rules acts_void TrueI | simp)+

lemma keeps_bind_attempt: "keeps h (\<lambda>r. wf_repo r \<and> preparations_match r) (bind_attempt ctx cid a p c e key) (\<lambda>_. True)"
  unfolding bind_attempt_def Let_def
  by (rule keeps_intros preps.skips [where t = "ctx_tenant_id ctx"] acts_rules acts_attempt_event TrueI | simp)+

lemma keeps_prepare_attempt: "keeps h (\<lambda>r. wf_repo r \<and> preparations_match r) (prepare_attempt ctx cid policy tv a p c) (\<lambda>_. True)"
  unfolding prepare_attempt_def
  by (rule keeps_bnd [OF keeps_gate] keeps_seq [OF keeps_void [OF keeps_prepare_execution]] keeps_bind_attempt keeps_intros
      preps.skips [where t = "ctx_tenant_id ctx"] acts_rules acts_execution_manifest TrueI | simp)+

lemma keeps_leased: "keeps h (\<lambda>r. wf_repo r \<and> preparations_match r) (leased ctx i worker token) (\<lambda>v. ea_tenant_id v = ctx_tenant_id ctx \<and> ea_id v = i)"
  by (rule preps.skip [OF acts_leased])

lemma keeps_claim_attempt: "keeps h (\<lambda>r. wf_repo r \<and> preparations_match r) (claim_attempt ctx i worker n l) (\<lambda>_. True)"
  unfolding claim_attempt_def Let_def
  by (rule keeps_bnd [OF preps.skip [OF acts_get_attempt_row]] keeps_intros preps.skips [where t = "ctx_tenant_id ctx"] acts_rules acts_attempt_event TrueI | simp)+

lemma keeps_begin_dispatch: "keeps h (\<lambda>r. wf_repo r \<and> preparations_match r) (begin_dispatch ctx i worker token) (\<lambda>_. True)"
  unfolding begin_dispatch_def Let_def
  by (rule keeps_bnd [OF keeps_leased] keeps_bnd [OF keeps_gate] keeps_intros preps.skips [where t = "ctx_tenant_id ctx"] acts_rules
      acts_execution_manifest acts_attempt_event TrueI | simp)+

lemma keeps_begin_reconciliation: "keeps h (\<lambda>r. wf_repo r \<and> preparations_match r) (begin_reconciliation ctx i worker token) (\<lambda>_. True)"
  unfolding begin_reconciliation_def Let_def
  by (rule keeps_bnd [OF keeps_leased] keeps_intros preps.skips [where t = "ctx_tenant_id ctx"] acts_rules acts_attempt_event TrueI | simp)+

lemma keeps_observed_state: "keeps h (\<lambda>r. wf_repo r \<and> preparations_match r) (observed_state ctx v d) (\<lambda>_. True)"
  unfolding observed_state_def
  by (rule keeps_seq [OF keeps_void [OF keeps_gate]] keeps_catch keeps_intros TrueI | simp)+

lemma keeps_record_observation: "keeps h (\<lambda>r. wf_repo r \<and> preparations_match r) (record_observation ctx i worker token obs) (\<lambda>_. True)"
  unfolding record_observation_def store_observation_def next_check_def Let_def
  by (rule keeps_bnd [OF keeps_leased] keeps_bnd [OF keeps_observed_state] keeps_intros preps.skips [where t = "ctx_tenant_id ctx"] acts_rules
      acts_attempt_event TrueI | simp)+

subsection \<open>Attempts carry the digest of the intent, effects that of the attempt\<close>

definition bound_to :: "(string \<Rightarrow> string) \<Rightarrow> repo \<Rightarrow> string \<Rightarrow> execution_attempt \<Rightarrow> bool" where
  "bound_to h r t v \<longleftrightarrow> ea_operation_key v = h (canonical (operation_material t (ea_command_id v)))
     \<and> (\<exists>i. dget (approval_intents r) (t, ea_command_id v) = Some i \<and> ai_canonical_digest i = ea_intent_digest v)"

definition attempts_bound :: "(string \<Rightarrow> string) \<Rightarrow> repo \<Rightarrow> bool" where
  "attempts_bound h r \<longleftrightarrow> (\<forall>t i v. dget (attempts r) (t, i) = Some v \<longrightarrow> bound_to h r t v)"

definition effects_bound :: "repo \<Rightarrow> provider \<Rightarrow> bool" where
  "effects_bound r p \<longleftrightarrow> (\<forall>t key e. dget (pv_effects p) (t, key) = Some e \<longrightarrow>
     (\<exists>i v. dget (attempts r) (t, i) = Some v \<and> ea_operation_key v = key \<and> ea_intent_digest v = ef_intent_digest e))"

definition approved_state :: "platform \<Rightarrow> bool" where
  "approved_state s \<longleftrightarrow> wf_repo (db (fst s)) \<and> preparations_match (db (fst s)) \<and> attempts_bound (sha256 (fst s)) (db (fst s))
     \<and> effects_bound (db (fst s)) (snd s)"

definition effects_kept :: "provider \<Rightarrow> provider \<Rightarrow> bool" where
  "effects_kept p p' \<longleftrightarrow> (\<forall>k e. dget (pv_effects p) k = Some e \<longrightarrow>
     (\<exists>n. dget (pv_effects p') k = Some (e\<lparr>ef_hidden_lookups := n\<rparr>)))"

lemma effects_kept_refl: "effects_kept p p"
  unfolding effects_kept_def by (metis effect.surjective effect.update_convs(4))

lemma effects_kept_trans: "effects_kept p q \<Longrightarrow> effects_kept q r \<Longrightarrow> effects_kept p r"
  unfolding effects_kept_def by (metis (no_types, lifting) effect.surjective effect.update_convs(4))

text \<open>A call keeps the approved state, and what the provider has done.\<close>

definition safe_step :: "platform \<Rightarrow> platform \<Rightarrow> bool" where
  "safe_step s s' \<longleftrightarrow> (approved_state s \<longrightarrow> approved_state s' \<and> sha256 (fst s') = sha256 (fst s)) \<and> effects_kept (snd s) (snd s')"

interpretation safe: step_relation safe_step
proof
  show "safe_step s s" for s by (simp add: safe_step_def effects_kept_refl)
  show "safe_step s t \<Longrightarrow> safe_step t u \<Longrightarrow> safe_step s u" for s t u
    unfolding safe_step_def using effects_kept_trans by (metis (no_types))
qed

lemma approved_state_dset:
  assumes "approved_state (s, p)" "wf_repo (db s')" "preparations_match (db s')" "sha256 s' = sha256 s"
    and "approval_intents (db s') = approval_intents (db s)" "attempts (db s') = dset (t, i) v' (attempts (db s))"
    and "bound_to (sha256 s) (db s) t v'"
    and "\<And>v. dget (attempts (db s)) (t, i) = Some v \<Longrightarrow> ea_operation_key v' = ea_operation_key v \<and> ea_intent_digest v' = ea_intent_digest v"
  shows "approved_state (s', p)"
proof -
  have "bound_to (sha256 s') (db s') u v \<longleftrightarrow> bound_to (sha256 s) (db s) u v" for u v
    using assms(4,5) by (simp add: bound_to_def)
  then have "attempts_bound (sha256 s') (db s')"
    using assms(1,6,7) by (auto simp: approved_state_def attempts_bound_def dget_dset split: if_splits)
  moreover have "effects_bound (db s') p"
    unfolding effects_bound_def
  proof (intro allI impI)
    fix u key e assume "dget (pv_effects p) (u, key) = Some e"
    with assms(1) obtain j v where v: "dget (attempts (db s)) (u, j) = Some v" "ea_operation_key v = key" "ea_intent_digest v = ef_intent_digest e"
      unfolding approved_state_def effects_bound_def fst_conv snd_conv by blast
    show "\<exists>i v. dget (attempts (db s')) (u, i) = Some v \<and> ea_operation_key v = key \<and> ea_intent_digest v = ef_intent_digest e"
    proof (cases "(u, j) = (t, i)")
      case True
      with v assms(8) show ?thesis by (intro exI [of _ i] exI [of _ v']) (simp add: assms(6))
    next
      case False
      with v show ?thesis by (intro exI [of _ j] exI [of _ v]) (simp add: assms(6))
    qed
  qed
  ultimately show ?thesis using assms(2,3) by (simp add: approved_state_def)
qed

lemma bound_row: "approved_state (s, p) \<Longrightarrow> dget (attempts (db s)) (t, i) = Some v \<Longrightarrow> bound_to (sha256 s) (db s) t v"
  by (simp add: approved_state_def attempts_bound_def)

text \<open>At most one attempt is stored, new or under its old key and digest.\<close>

definition rebinds :: "world \<Rightarrow> world \<Rightarrow> bool" where
  "rebinds s s' \<longleftrightarrow> attempts (db s') = attempts (db s) \<or> (\<exists>t i v'. attempts (db s') = dset (t, i) v' (attempts (db s)) \<and> bound_to (sha256 s) (db s) t v'
         \<and> (\<forall>v. dget (attempts (db s)) (t, i) = Some v \<longrightarrow> ea_operation_key v' = ea_operation_key v \<and> ea_intent_digest v' = ea_intent_digest v))"

lemma safe_local:
  assumes atomic: "atomic m" and acts: "\<And>h. acts h t (- {T_approval_intents}) m (\<lambda>_. True)"
    and keeps: "\<And>h. keeps h (\<lambda>r. wf_repo r \<and> preparations_match r) m (\<lambda>_. True)"
    and ok: "\<And>s a s' p. m s = (Inr a, s') \<Longrightarrow> approved_state (s, p) \<Longrightarrow>
       rebinds s s'"
  shows "safe.steady (local m)"
proof (rule safe.steadyI)
  fix s x s' assume run: "local m s = (x, s')"
  obtain r p where s: "s = (r, p)" by fastforce
  obtain y w where m: "m r = (y, w)" by (cases "m r") auto
  then have s': "s' = (w, p)" using run s by (simp add: local_def)
  have "approved_state (w, p) \<and> sha256 w = sha256 r" if a: "approved_state (r, p)"
  proof -
    from a have wf: "wf_repo (db r)" "preparations_match (db r)" by (simp_all add: approved_state_def)
    note k = keepsD [OF keeps refl conjI [OF wf] m]
    note h = conjunct1 [OF k]
    note i = writes_frame [OF actsD(3) [OF acts refl wf(1) m], of T_approval_intents]
    have "approved_state (w, p)"
    proof (cases y)
      case (Inl e)
      with m atomicD [OF atomic] have "db w = db r" by blast
      with a h show ?thesis by (simp add: approved_state_def)
    next
      case (Inr v)
      from ok [OF m [unfolded Inr] a] show ?thesis unfolding rebinds_def
      proof (elim disjE exE conjE)
        assume "attempts (db w) = attempts (db r)"
        with a h k i show ?thesis by (simp add: approved_state_def attempts_bound_def effects_bound_def bound_to_def)
      next
        fix t i v' assume "attempts (db w) = dset (t, i) v' (attempts (db r))" "bound_to (sha256 r) (db r) t v'"
          "\<forall>v. dget (attempts (db r)) (t, i) = Some v \<longrightarrow> ea_operation_key v' = ea_operation_key v \<and> ea_intent_digest v' = ea_intent_digest v"
        then show ?thesis using a h k i by (intro approved_state_dset [OF a]) auto
      qed
    qed
    with h show ?thesis by simp
  qed
  with s s' show "safe_step s s'" by (simp add: safe_step_def effects_kept_refl)
qed

lemma bound_to_same:
  "bound_to h r t v \<Longrightarrow> ea_operation_key v' = ea_operation_key v \<Longrightarrow> ea_intent_digest v' = ea_intent_digest v \<Longrightarrow>
     ea_command_id v' = ea_command_id v \<Longrightarrow> bound_to h r t v'"
  by (simp add: bound_to_def)

lemma identity_fields [simp]:
  "ea_operation_key (claimed_attempt v w u) = ea_operation_key v" "ea_intent_digest (claimed_attempt v w u) = ea_intent_digest v"
  "ea_command_id (claimed_attempt v w u) = ea_command_id v" "ea_operation_key (advanced v st) = ea_operation_key v"
  "ea_intent_digest (advanced v st) = ea_intent_digest v" "ea_command_id (advanced v st) = ea_command_id v"
  "ea_operation_key (observed_attempt v st r a n) = ea_operation_key v"
  "ea_intent_digest (observed_attempt v st r a n) = ea_intent_digest v"
  "ea_command_id (observed_attempt v st r a n) = ea_command_id v"
  by (simp_all add: claimed_attempt_def advanced_def observed_attempt_def)

text \<open>An update that keeps an attempt's key, digest and command keeps it bound.\<close>

lemma bound_update:
  assumes "approved_state (s, p)" "dget (attempts (db s)) (ea_tenant_id v, ea_id v) = Some v"
    "attempts (db s') = dset (ea_tenant_id v, ea_id v) v' (attempts (db s))"
    "ea_operation_key v' = ea_operation_key v" "ea_intent_digest v' = ea_intent_digest v" "ea_command_id v' = ea_command_id v"
  shows "rebinds s s'"
  unfolding rebinds_def using bound_to_same [OF bound_row [OF assms(1,2)] assms(4-6)] assms(2-5)
  by (intro disjI2 exI [of _ "ea_tenant_id v"] exI [of _ "ea_id v"] exI [of _ v']) simp

abbreviation written_tables :: "table set" where
  "written_tables \<equiv> - {T_approval_intents}"

lemma safe_control: "safe.steady (local (set_demo_control ctx cid policy tv stopped))"
proof (rule safe_local [OF transactions_atomic(1) acts_set_demo_control keeps_set_demo_control])
  fix s :: world and a s'
  assume "set_demo_control ctx cid policy tv stopped s = (Inr a, s')"
  then have "attempts (db s') = attempts (db s)"
    by (auto simp: set_demo_control_def Let_def svc_ok void_ok require_ok audit_ok save_demo_control_def split: sum.splits)
  then show "rebinds s s'" by (simp add: rebinds_def)
qed simp

lemma safe_claim: "safe.steady (local (claim_attempt ctx i worker n l))"
proof (rule safe_local [OF transactions_atomic(3) acts_claim_attempt keeps_claim_attempt])
  fix s :: world and v' s' p
  assume run: "claim_attempt ctx i worker n l s = (Inr v', s')" and a: "approved_state (s, p)"
  from claim_attempt_ok [OF run] obtain v u where v: "dget (attempts (db s)) (ctx_tenant_id ctx, i) = Some v"
    "v' = claimed_attempt v worker u" "attempts (db s') = dset (ea_tenant_id v, ea_id v) v' (attempts (db s))" by blast
  have "dget (attempts (db s)) (ea_tenant_id v, ea_id v) = Some v"
    using attempt_row_keys [OF _ v(1)] v(1) a by (simp add: approved_state_def)
  from bound_update [OF a this v(3)] show "rebinds s s'" by (simp add: v(2))
qed simp

lemma safe_dispatch: "safe.steady (local (begin_dispatch ctx i worker token))"
proof (rule safe_local [OF transactions_atomic(4) acts_begin_dispatch keeps_begin_dispatch])
  fix s :: world and v' s' p
  assume run: "begin_dispatch ctx i worker token s = (Inr v', s')" and a: "approved_state (s, p)"
  then have wf: "wf_repo (db s)" by (simp add: approved_state_def)
  from begin_dispatch_ok [OF run wf] obtain v w where v: "leased ctx i worker token s = (Inr v, w)"
    "v' = advanced v Att_DISPATCHING" "attempts (db s') = dset (ea_tenant_id v, ea_id v) v' (attempts (db s))" by blast
  from bound_update [OF a leased_row(1) [OF v(1) wf] v(3)]
  show "rebinds s s'" by (simp add: v(2))
qed simp

lemma safe_reconciliation: "safe.steady (local (begin_reconciliation ctx i worker token))"
proof (rule safe_local [OF transactions_atomic(5) acts_begin_reconciliation keeps_begin_reconciliation])
  fix s :: world and v' s' p
  assume run: "begin_reconciliation ctx i worker token s = (Inr v', s')" and a: "approved_state (s, p)"
  then have wf: "wf_repo (db s)" by (simp add: approved_state_def)
  from begin_reconciliation_ok [OF run] obtain v w where v: "leased ctx i worker token s = (Inr v, w)"
    "v' = advanced v Att_RECONCILING" "attempts (db s') = dset (ea_tenant_id v, ea_id v) v' (attempts (db s))" by blast
  from bound_update [OF a leased_row(1) [OF v(1) wf] v(3)]
  show "rebinds s s'" by (simp add: v(2))
qed simp

lemma safe_observe: "safe.steady (local (record_observation ctx i worker token obs))"
proof (rule safe_local [OF transactions_atomic(6) acts_record_observation keeps_record_observation])
  fix s :: world and v' s' p
  assume run: "record_observation ctx i worker token obs s = (Inr v', s')" and a: "approved_state (s, p)"
  then have wf: "wf_repo (db s)" by (simp add: approved_state_def)
  from record_observation_ok [OF run wf] obtain v w st seen due and d :: observed where v: "leased ctx i worker token s = (Inr v, w)"
    "v' = observed_attempt v st (od_reference d) seen due" "attempts (db s') = dset (ea_tenant_id v, ea_id v) v' (attempts (db s))" by blast
  from bound_update [OF a leased_row(1) [OF v(1) wf] v(3)]
  show "rebinds s s'" by (simp add: v(2))
qed simp

lemma safe_prepare: "safe.steady (local (prepare_attempt ctx cid policy tv a p c))"
proof (rule safe_local [OF transactions_atomic(2) acts_prepare_attempt keeps_prepare_attempt])
  fix s :: world and r s' q
  assume run: "prepare_attempt ctx cid policy tv a p c s = (Inr r, s')" and ap: "approved_state (s, q)"
  then have wf: "wf_repo (db s)" "preparations_match (db s)" by (simp_all add: approved_state_def)
  obtain v replay where r: "r = (v, replay)" by fastforce
  from prepare_attempt_ok [OF run [unfolded r] wf(1)]
  show "rebinds s s'"
  proof (elim disjE conjE exE)
    fix i e u assume g: "gate ctx cid c s = (Inr e, u)" and new: "dget (attempts (db s)) (ctx_tenant_id ctx, i) = None"
      "attempts (db s') = dset (ctx_tenant_id ctx, i) v (attempts (db s))"
      and v: "v = new_execution_attempt i (ctx_tenant_id ctx) cid (ep_id e) (sha256 s (canonical (operation_material (ctx_tenant_id ctx) cid)))
           (ep_canonical_digest e) a p c"
    from gate_digest [OF g wf(2,1)] have "bound_to (sha256 s) (db s) (ctx_tenant_id ctx) v" by (auto simp: bound_to_def v)
    with new show ?thesis unfolding rebinds_def by (intro disjI2 exI [of _ "ctx_tenant_id ctx"] exI [of _ i] exI [of _ v]) simp
  qed (simp add: rebinds_def)
qed simp

subsection \<open>The provider's part of a call\<close>

lemma safe_same: "db (fst s') = db (fst s) \<Longrightarrow> sha256 (fst s') = sha256 (fst s) \<Longrightarrow> pv_effects (snd s') = pv_effects (snd s) \<Longrightarrow> safe_step s s'"
  using effects_kept_refl [of "snd s"] by (auto simp: safe_step_def approved_state_def effects_bound_def effects_kept_def)

lemma unknown_result_world: "unknown_result s = (x, s') \<Longrightarrow> s' = s"
  by (auto simp: unknown_result_def strict_intent_digest_def digest_def op_simps split: if_splits)

lemma or_unknown_remote:
  assumes "or_unknown (remote m) s = (x, s')"
  shows "s' = (fst s, snd (m (sha256 (fst s)) (snd s)))"
proof -
  obtain y p where m: "m (sha256 (fst s)) (snd s) = (y, p)" by fastforce
  show ?thesis
  proof (cases y)
    case (Inr a)
    with assms m show ?thesis by (simp add: or_unknown_def catch_def remote_def)
  next
    case (Inl e)
    with assms m show ?thesis
      by (cases e) (auto simp: or_unknown_def catch_def remote_def local_def throw_def dest: unknown_result_world split: prod.splits)
  qed
qed

text \<open>What a call to the provider may do for an attempt that is stored.\<close>

definition answers_for :: "execution_attempt \<Rightarrow> (provider, 'a) op \<Rightarrow> bool" where
  "answers_for v m \<longleftrightarrow> (\<forall>p. effects_kept p (snd (m p)) \<and> (\<forall>k e. dget (pv_effects (snd (m p))) k = Some e \<longrightarrow>
     (\<exists>e0. dget (pv_effects p) k = Some e0 \<and> ef_intent_digest e0 = ef_intent_digest e)
     \<or> (k = (ea_tenant_id v, ea_operation_key v) \<and> ef_intent_digest e = ea_intent_digest v)))"

lemma execute_answers: "answers_for v (execute h (ea_tenant_id v) (ea_operation_key v) (ea_intent_digest v))"
  unfolding answers_for_def
proof (intro allI)
  fix p
  let ?k = "(ea_tenant_id v, ea_operation_key v)"
  let ?p = "snd (execute h (ea_tenant_id v) (ea_operation_key v) (ea_intent_digest v) p)"
  obtain x where run: "execute h (ea_tenant_id v) (ea_operation_key v) (ea_intent_digest v) p = (x, ?p)" by (metis prod.collapse)
  from execute_ledger [OF run] show "effects_kept p ?p \<and> (\<forall>k e. dget (pv_effects ?p) k = Some e \<longrightarrow>
     (\<exists>e0. dget (pv_effects p) k = Some e0 \<and> ef_intent_digest e0 = ef_intent_digest e)
     \<or> (k = ?k \<and> ef_intent_digest e = ea_intent_digest v))"
  proof
    assume "?p = p" then show ?thesis by (auto simp: effects_kept_refl)
  next
    assume new: "dget (pv_effects p) ?k = None \<and> ?p = p\<lparr>pv_effects := dset ?k (new_effect h (ea_tenant_id v) (ea_operation_key v) (ea_intent_digest v) (pv_mode p)) (pv_effects p)\<rparr>"
    then have "effects_kept p ?p"
      using effects_kept_refl [of p] unfolding effects_kept_def by (auto simp: dget_dset)
    with new show ?thesis by (auto simp: dget_dset new_effect_def)
  qed
qed

lemma lookup_answers: "answers_for v (lookup h (ea_tenant_id v) (ea_operation_key v) (ea_intent_digest v))"
  unfolding answers_for_def
proof (intro allI)
  fix p
  let ?k = "(ea_tenant_id v, ea_operation_key v)"
  let ?p = "snd (lookup h (ea_tenant_id v) (ea_operation_key v) (ea_intent_digest v) p)"
  obtain x where run: "lookup h (ea_tenant_id v) (ea_operation_key v) (ea_intent_digest v) p = (x, ?p)" by (metis prod.collapse)
  from lookup_ledger [OF run] show "effects_kept p ?p \<and> (\<forall>k e. dget (pv_effects ?p) k = Some e \<longrightarrow>
     (\<exists>e0. dget (pv_effects p) k = Some e0 \<and> ef_intent_digest e0 = ef_intent_digest e)
     \<or> (k = ?k \<and> ef_intent_digest e = ea_intent_digest v))"
  proof
    assume "?p = p" then show ?thesis by (auto simp: effects_kept_refl)
  next
    assume "\<exists>e. dget (pv_effects p) ?k = Some e \<and> ?p = p\<lparr>pv_effects := dset ?k (e\<lparr>ef_hidden_lookups := ef_hidden_lookups e - 1\<rparr>) (pv_effects p)\<rparr>"
    then obtain e where e: "dget (pv_effects p) ?k = Some e" "?p = p\<lparr>pv_effects := dset ?k (e\<lparr>ef_hidden_lookups := ef_hidden_lookups e - 1\<rparr>) (pv_effects p)\<rparr>" by blast
    then have "effects_kept p ?p"
      using effects_kept_refl [of p] unfolding effects_kept_def by (auto simp: dget_dset)
    with e show ?thesis by (auto simp: dget_dset split: if_splits)
  qed
qed

lemma safe_remote:
  assumes row: "dget (attempts (db (fst s))) (ea_tenant_id v, i) = Some v" and m: "answers_for v (m (sha256 (fst s)))"
    and run: "or_unknown (remote m) s = (x, s')"
  shows "safe_step s s'"
proof -
  note s' = or_unknown_remote [OF run]
  have kept: "effects_kept (snd s) (snd s')" using m by (simp add: answers_for_def s')
  have "effects_bound (db (fst s)) (snd s')" if bound: "effects_bound (db (fst s)) (snd s)"
    unfolding effects_bound_def
  proof (intro allI impI)
    fix t key e assume "dget (pv_effects (snd s')) (t, key) = Some e"
    then consider e0 where "dget (pv_effects (snd s)) (t, key) = Some e0" "ef_intent_digest e0 = ef_intent_digest e"
      | "(t, key) = (ea_tenant_id v, ea_operation_key v)" "ef_intent_digest e = ea_intent_digest v"
      using m unfolding answers_for_def s' by fastforce
    then show "\<exists>i v. dget (attempts (db (fst s))) (t, i) = Some v \<and> ea_operation_key v = key \<and> ea_intent_digest v = ef_intent_digest e"
      by cases (use bound row in \<open>force simp: effects_bound_def\<close>)+
  qed
  with kept show ?thesis by (auto simp: safe_step_def approved_state_def s')
qed

lemma safe_get_attempt: "safe.steady (local (get_attempt ctx i))"
  by (rule safe.steadyI)
    (auto simp: local_def get_attempt_def require_def membership_of_def op_simps intro!: safe_same split: prod.splits sum.splits if_splits)

lemma safe_check_provider: "safe.steady (check_provider v)"
  unfolding check_provider_def by (rule safe.steady_ensure safe.steady_basic)+

lemma advanced_row:
  assumes "leased ctx i worker token s = (Inr v, w)" "wf_repo (db s)" "attempts (db s') = dset (ea_tenant_id v, ea_id v) (advanced v st) (attempts (db s))"
  shows "dget (attempts (db s')) (ea_tenant_id (advanced v st), i) = Some (advanced v st)"
  using leased_row(4) [OF assms(1,2)] by (simp add: assms(3))

text \<open>
  A call to the provider for an attempt that was just stored, and the record of its answer.
  When the tables are not well formed there is nothing to show beyond the ledger's part.
\<close>

lemma safe_call:
  assumes opened: "safe.steady (local b)" and m: "\<And>v h. answers_for v (m v h)"
    and row: "\<And>s v s'. b s = (Inr v, s') \<Longrightarrow> wf_repo (db s) \<Longrightarrow> dget (attempts (db s')) (ea_tenant_id v, i) = Some v"
  shows "safe.steady (bnd (local b) (\<lambda>v. bnd (or_unknown (remote (m v))) (\<lambda>result. local (record_observation ctx i worker token result))))"
proof (rule safe.steady_bnd_from [OF opened])
  fix s s' :: platform and v
  assume b: "local b s = (Inr v, s')" and step: "safe_step s s'"
  let ?f = "bnd (or_unknown (remote (m v))) (\<lambda>result. local (record_observation ctx i worker token result))"
  obtain x t where call: "or_unknown (remote (m v)) s' = (x, t)" by (rule prod.exhaust)
  have rest: "safe_step t (snd (?f s'))"
  proof (cases x)
    case (Inl e)
    with call show ?thesis by (simp add: bnd_def safe.R_refl)
  next
    case (Inr result)
    with call spec [OF safe_observe [of ctx i worker token result, unfolded safe.steady_def], of t] show ?thesis by (simp add: bnd_def)
  qed
  have kept: "effects_kept (snd s') (snd t)"
    using m by (simp add: or_unknown_remote [OF call] answers_for_def)
  show "safe_step s (snd (?f s'))"
  proof (cases "approved_state s")
    case True
    obtain w where "b (fst s) = (Inr v, w)" "s' = (w, snd s)" using b by (auto simp: local_def split: prod.splits)
    with row True have "dget (attempts (db (fst s'))) (ea_tenant_id v, i) = Some v" by (simp add: approved_state_def)
    from safe_remote [OF this m call] step rest show ?thesis by (meson safe.R_trans)
  next
    case False
    with step rest kept show ?thesis unfolding safe_step_def using effects_kept_trans by (metis (no_types))
  qed
qed

lemma safe_dispatch_demo: "safe.steady (dispatch_demo ctx i worker token)"
  unfolding dispatch_demo_def
proof (intro safe.steady_bnd [OF safe_get_attempt] safe.steady_seq [OF safe_check_provider] safe_call)
  fix s v s' assume run: "begin_dispatch ctx i worker token s = (Inr v, s')" and wf: "wf_repo (db s)"
  from begin_dispatch_ok [OF run wf] advanced_row [OF _ wf]
  show "dget (attempts (db s')) (ea_tenant_id v, i) = Some v" by blast
qed (rule safe_dispatch execute_answers)+

lemma safe_reconcile_attempt: "safe.steady (reconcile_attempt ctx i worker token)"
  unfolding reconcile_attempt_def
proof (intro safe.steady_bnd [OF safe_get_attempt] safe.steady_seq [OF safe_check_provider] safe_call)
  fix s v s' assume run: "begin_reconciliation ctx i worker token s = (Inr v, s')" and wf: "wf_repo (db s)"
  from begin_reconciliation_ok [OF run] advanced_row [OF _ wf]
  show "dget (attempts (db s')) (ea_tenant_id v, i) = Some v" by blast
qed (rule safe_reconciliation lookup_answers)+

lemma safe_execution_op: "safe.steady (execution_op c)"
proof (cases c)
  case (Mode v)
  then show ?thesis
    by (auto simp: safe.steady_def set_mode_def intro!: safe_same split: sum.split option.split)
next
  case (Absence v)
  then show ?thesis by (simp add: safe.steady_def safe_same set_authoritative_absence_def)
qed (auto intro!: safe.steady_void safe_control safe_prepare safe_claim safe_dispatch safe_reconciliation safe_observe
    safe_dispatch_demo safe_reconcile_attempt)

lemma run_safe: "safe_step s (run_execution cs s)"
  unfolding run_execution_def by (rule safe.steady_run [OF safe_execution_op])


text \<open>
  C5: An operation takes effect at most once.  What the provider did under an operation key is
  never done again and never changed, however often the attempt is retried, recovered or
  dispatched a second time: its kind, its reference and its intent stay the first ones.
\<close>

theorem effect_happens_once:
  assumes "dget (pv_effects (snd s)) (t, key) = Some e"
  shows "\<exists>n. dget (pv_effects (snd (run_execution cs s))) (t, key) = Some (e\<lparr>ef_hidden_lookups := n\<rparr>)"
  using run_safe [of s cs] assms unfolding safe_step_def effects_kept_def by blast

subsection \<open>An effect that was approved\<close>

definition demo_bound_intent :: approval_intent where
  "demo_bound_intent = \<lparr>ai_tenant_id = ''u0'', ai_command_id = ''c1'', ai_canonical_digest = replicate 64 CHR ''0'',
     ai_policy_version = 1, ai_target_version = 1, ai_created_at = 0\<rparr>"

definition demo_effect :: effect where
  "demo_effect = \<lparr>ef_intent_digest = replicate 64 CHR ''0'', ef_kind = ''FOUND_SUCCESS'', ef_reference = ''r1'', ef_hidden_lookups = 0\<rparr>"

definition demo_platform :: platform where
  "demo_platform = (demo_tenant\<lparr>db := (db demo_tenant)\<lparr>approval_intents := [((''u0'', ''c1''), demo_bound_intent)],
       attempts := [((''u0'', ''x1''), demo_attempt Att_UNKNOWN)]\<rparr>\<rparr>,
     demo_provider\<lparr>pv_effects := [((''u0'', replicate 64 CHR ''0''), demo_effect)]\<rparr>)"

lemma demo_platform_approved: "approved_state demo_platform"
proof -
  let ?r = "(db demo_tenant)\<lparr>approval_intents := [((''u0'', ''c1''), demo_bound_intent)]\<rparr>"
  have "writes h ''u0'' {T_approval_intents} (db demo_tenant) ?r" for h
    using W_approval_intents [of demo_bound_intent "''u0''" h "db demo_tenant"]
    by (auto simp: demo_bound_intent_def demo_tenant_more intro: writes_one)
  then have "wf_repo ?r" using demo_tenant_wf wf_writes by blast
  moreover have "writes h ''u0'' {T_attempts} ?r (db (fst demo_platform))" for h
    using W_attempts [of "demo_attempt Att_UNKNOWN" "''u0''" h ?r]
    by (auto simp: demo_platform_def demo_attempt_def new_execution_attempt_def demo_tenant_more intro: writes_one)
  ultimately have "wf_repo (db (fst demo_platform))" using wf_writes by blast
  then show ?thesis
    by (auto simp: approved_state_def demo_platform_def preparations_match_def demo_tenant_more attempts_bound_def bound_to_def
        demo_attempt_def new_execution_attempt_def demo_bound_intent_def effects_bound_def demo_effect_def demo_world_def split: if_splits)
qed


theorem effect_happens_once_witness:
  "\<exists>n. dget (pv_effects (snd (run_execution [Reconcile demo_master ''x1'' ''w'' 1, Dispatch demo_master ''x1'' ''w'' 1] demo_platform)))
     (''u0'', replicate 64 CHR ''0'') = Some (demo_effect\<lparr>ef_hidden_lookups := n\<rparr>)"
  by (rule effect_happens_once) (simp add: demo_platform_def)

end
