(* ===== verification/Tool_Worker.thy ===== *)
theory Tool_Worker
  imports Execution Gateway
begin

section \<open>The tool command worker\<close>

text \<open>
  \<open>DemoToolCommandWorker\<close> of tool_worker.py: it claims an outbox event of an accepted tool
  command, prepares, leases and dispatches or reconciles the attempt of the approved command,
  and checkpoints the event, which is complete when the attempt has ended.
\<close>

record tool_worker =
  tw_id :: string
  tw_lease :: int

definition new_tool_worker :: "string \<Rightarrow> int \<Rightarrow> err + tool_worker" where
  "new_tool_worker worker lease_seconds =
     check (opaque worker) (ConflictError ''invalid opaque inbound identifier'') (
     check (1 \<le> lease_seconds \<and> lease_seconds \<le> 300) (ConflictError ''invalid worker lease'') (
     Inr \<lparr>tw_id = worker, tw_lease = lease_seconds\<rparr>))"

text \<open>\<open>str(exc)\<close>.\<close>

fun err_text :: "err \<Rightarrow> string" where
  "err_text (DomainError m) = m"
| "err_text (AuthorizationError m) = m"
| "err_text (TenantBoundaryError m) = m"
| "err_text (ConflictError m) = m"
| "err_text (NotFoundError m) = m"
| "err_text (ValueError m) = m"
| "err_text (KeyError m) = CHR 0x27 # m @ [CHR 0x27]"
| "err_text (TimeoutError m) = m"
| "err_text (AssertionError m) = m"
| "err_text (OtherError c m) = m"

definition bound_event :: "outbox_event \<Rightarrow> demo_tool_command \<Rightarrow> bool" where
  "bound_event e v \<longleftrightarrow> ob_aggregate_ref e = tc_id v \<and> tc_state v = ''accepted'' \<and> tc_mode v = ''DEMO''
     \<and> tc_approval_command_id v \<notin> {None, Some []} \<and> tc_intent_digest v \<notin> {None, Some []}
     \<and> jget (ob_payload e) ''mode'' = Some (JStr ''DEMO'') \<and> jget (ob_payload e) ''state'' = Some (JStr ''accepted'')
     \<and> jget (ob_payload e) ''intent_digest'' = map_option JStr (tc_intent_digest v)"

text \<open>The approved command and the target version of its intent.\<close>

definition bound_command :: "tenant_context \<Rightarrow> outbox_event \<Rightarrow> (demo_tool_command \<times> string \<times> int) svc" where
  "bound_command ctx e = (let t = ctx_tenant_id ctx in
     ensure (ob_topic e = ''tool.command'') (ConflictError ''processable tool command event required'') (
     bnd (of_sum (need (js_str (jget (ob_payload e) ''command_id'')) (NotFoundError ''tool command not found'') Inr)) (\<lambda>cid.
     bnd (query (get_tool_command t cid)) (\<lambda>v.
     ensure (bound_event e v) (ConflictError ''tool command event binding mismatch'') (
     bnd (of_sum (need (tc_approval_command_id v) (ConflictError ''tool command event binding mismatch'') Inr)) (\<lambda>acid.
     bnd (reads (get_approval_intent t acid)) (\<lambda>intent.
     case intent of None \<Rightarrow> throw (ConflictError ''approved command intent missing or changed'')
     | Some i \<Rightarrow> ensure (Some (ai_canonical_digest i) = tc_intent_digest v) (ConflictError ''approved command intent missing or changed'') (
         ret (v, acid, ai_target_version i)))))))))"

text \<open>One step for the attempt: a dispatch of a prepared one, a reconciliation of an unknown one.\<close>

definition advance_attempt :: "tenant_context \<Rightarrow> tool_worker \<Rightarrow> execution_attempt \<Rightarrow> (platform, execution_attempt) op" where
  "advance_attempt ctx w a =
     (if ea_state a = Att_PREPARED then
        bnd (local (claim_attempt ctx (ea_id a) (tw_id w) (ea_version a) (tw_lease w))) (\<lambda>l.
        dispatch_demo ctx (ea_id l) (tw_id w) (ea_fencing_token l))
      else if ea_state a = Att_UNKNOWN then
        bnd (local (claim_attempt ctx (ea_id a) (tw_id w) (ea_version a) (tw_lease w))) (\<lambda>l.
        reconcile_attempt ctx (ea_id l) (tw_id w) (ea_fencing_token l))
      else ret a)"

definition drive :: "tenant_context \<Rightarrow> tool_worker \<Rightarrow> outbox_event \<Rightarrow> (platform, execution_attempt) op" where
  "drive ctx w e =
     bnd (local (bound_command ctx e)) (\<lambda>(v, acid, tv).
     bnd (local (prepare_attempt ctx acid (tc_requested_policy_version v) tv adapter_version ''synthetic'' ''demo'')) (\<lambda>(a, _).
     bnd (advance_attempt ctx w a) (\<lambda>a'.
     bnd (local clock) (\<lambda>now.
     seq (void (local (mutate (checkpoint_outbox (ctx_tenant_id ctx) (ob_id e) (tw_id w) (ob_fencing_token e)
            (JObj [(''attempt_id'', JStr (ea_id a')), (''state'', JStr (attempt_state_value (ea_state a')))]) now
            (terminal_state (ea_state a')))))) (
     ret a')))))"

definition process :: "tenant_context \<Rightarrow> tool_worker \<Rightarrow> string \<Rightarrow> (platform, execution_attempt) op" where
  "process ctx w event_id =
     seq (local (require ctx Cap_TENANT_ADMIN)) (
     bnd (local clock) (\<lambda>now.
     bnd (local (mutate (claim_outbox (ctx_tenant_id ctx) event_id (tw_id w) now (now + seconds (tw_lease w))))) (\<lambda>e.
     drive ctx w e)))"

definition process_next :: "tenant_context \<Rightarrow> tool_worker \<Rightarrow> int \<Rightarrow> (platform, execution_attempt option) op" where
  "process_next ctx w max_attempts =
     seq (local (require ctx Cap_TENANT_ADMIN)) (
     bnd (local clock) (\<lambda>now.
     bnd (local (mutate (claim_next_outbox (ctx_tenant_id ctx) (tw_id w) now (now + seconds (tw_lease w))))) (\<lambda>claimed.
     case claimed of None \<Rightarrow> ret None
     | Some e \<Rightarrow> catch (bnd (drive ctx w e) (\<lambda>a. ret (Some a)))
         (\<lambda>x. bnd (local clock) (\<lambda>later.
            bnd (local (mutate (fail_outbox (ctx_tenant_id ctx) (ob_id e) (tw_id w) (ob_fencing_token e) (err_text x) later max_attempts))) (\<lambda>_.
            ret None))))))"

end
