(* ===== verification/Inventory.thy ===== *)
theory Inventory
  imports Identity Checks
begin

section \<open>Inventory and projected prices\<close>

text \<open>
  inventory.py and the two tables of repository.py behind it.  Prices are computed in Python's
  \<open>decimal\<close> with its default context: every operation rounds its result to 28 significant
  digits, half to even, and \<open>quantize\<close> raises when the result would need more.
\<close>

subsection \<open>Decimals\<close>

text \<open>A finite decimal: a signed coefficient and a power of ten.\<close>

type_synonym decimal = "int \<times> int"

definition digit_count :: "int \<Rightarrow> nat" where
  "digit_count n = length (show_nat (nat \<bar>n\<bar>))"

definition pow10 :: "int \<Rightarrow> int" where
  "pow10 k = 10 ^ nat k"

definition dec_round :: "decimal \<Rightarrow> decimal" where
  "dec_round d = (case d of (c, e) \<Rightarrow>
     if digit_count c \<le> 28 then d
     else let k = int (digit_count c) - 28; q = \<bar>c\<bar> div pow10 k; r = \<bar>c\<bar> mod pow10 k;
              q' = (if 2 * r > pow10 k \<or> (2 * r = pow10 k \<and> odd q) then q + 1 else q)
          in (sgn c * q', e + k))"

definition dec_int :: "int \<Rightarrow> decimal" where
  "dec_int n = (n, 0)"

definition dec_at :: "int \<Rightarrow> decimal \<Rightarrow> int" where
  "dec_at e d = fst d * pow10 (snd d - e)"

definition dec_sub :: "decimal \<Rightarrow> decimal \<Rightarrow> decimal" where
  "dec_sub a b = (let e = min (snd a) (snd b) in dec_round (dec_at e a - dec_at e b, e))"

definition dec_mult :: "decimal \<Rightarrow> decimal \<Rightarrow> decimal" where
  "dec_mult a b = dec_round (fst a * fst b, snd a + snd b)"

definition dec_le :: "decimal \<Rightarrow> decimal \<Rightarrow> bool" where
  "dec_le a b = (let e = min (snd a) (snd b) in dec_at e a \<le> dec_at e b)"

text \<open>The quotient: 29 or 30 digits with a sticky last one, then rounded.\<close>

definition dec_div :: "decimal \<Rightarrow> decimal \<Rightarrow> decimal" where
  "dec_div a b = (let shift = int (digit_count (fst b)) - int (digit_count (fst a)) + 29;
     n = \<bar>fst a\<bar> * pow10 shift; m = \<bar>fst b\<bar> * pow10 (- shift);
     q = n div m; q' = (if n mod m \<noteq> 0 \<and> q mod 5 = 0 then q + 1 else q)
     in dec_round (sgn (fst a) * sgn (fst b) * q', snd a - snd b - shift))"

text \<open>\<open>quantize\<close> to \<open>10 ^ k\<close>, half up: the sign and the coefficient.\<close>

definition dec_quantize :: "int \<Rightarrow> decimal \<Rightarrow> err + bool \<times> int" where
  "dec_quantize k d = (let p = pow10 (k - snd d);
     n = (if snd d \<ge> k then \<bar>fst d\<bar> * pow10 (snd d - k) else (2 * \<bar>fst d\<bar> + p) div (2 * p))
     in check (digit_count n \<le> 28) (OtherError ''InvalidOperation'' ''quantize result has too many digits'')
       (Inr (fst d < 0, n)))"

definition signed :: "bool \<times> int \<Rightarrow> int" where
  "signed x = (if fst x then - snd x else snd x)"

text \<open>\<open>str\<close> of a decimal with exponent -4.\<close>

definition margin_text :: "bool \<times> int \<Rightarrow> string" where
  "margin_text x = (if fst x then ''-'' else []) @ show_int (snd x div 10000) @ ''.'' @ pad 4 (nat (snd x mod 10000))"

text \<open>
  \<open>str\<close> of a non-negative decimal: plain when the exponent is not positive and the first digit
  is not further than six places behind the point, else scientific.
\<close>

definition dec_text :: "decimal \<Rightarrow> string" where
  "dec_text d = (let ds = show_int (fst d); n = int (length ds); left = snd d + n in
     if snd d \<le> 0 \<and> left > -6 then
       (if left \<le> 0 then ''0.'' @ replicate (nat (- left)) (CHR ''0'') @ ds
        else if snd d = 0 then ds else take (nat left) ds @ ''.'' @ drop (nat left) ds)
     else take 1 ds @ (if n = 1 then [] else ''.'' @ drop 1 ds) @ ''E'' @ (if left \<ge> 1 then ''+'' else []) @ show_int (left - 1))"

text \<open>\<open>Decimal(text)\<close> for digits with a point and an exponent.\<close>

definition digit_value :: "char \<Rightarrow> int" where
  "digit_value c = of_char c - 48"

fun digits_value :: "int \<Rightarrow> string \<Rightarrow> int" where
  "digits_value n [] = n"
| "digits_value n (c # s) = digits_value (10 * n + digit_value c) s"

fun take_digits :: "string \<Rightarrow> string \<times> string" where
  "take_digits (c # s) = (if is_digit c then (let (d, r) = take_digits s in (c # d, r)) else ([], c # s))"
| "take_digits [] = ([], [])"

definition parse_sign :: "string \<Rightarrow> int \<times> string" where
  "parse_sign s = (case s of c # r \<Rightarrow> if c = CHR ''-'' then (-1, r) else if c = CHR ''+'' then (1, r) else (1, s) | [] \<Rightarrow> (1, s))"

definition parse_decimal :: "string \<Rightarrow> decimal option" where
  "parse_decimal text = (let s = filter (\<lambda>c. c \<noteq> CHR ''_'') (strip text); (sg, s1) = parse_sign s; (whole, s2) = take_digits s1;
     (frac, s3) = (case s2 of c # r \<Rightarrow> if c = CHR ''.'' then take_digits r else ([], s2) | [] \<Rightarrow> ([], s2)) in
     if whole @ frac = [] then None
     else let c = sg * digits_value 0 (whole @ frac); e = - int (length frac) in
       case s3 of [] \<Rightarrow> Some (c, e)
       | x # r \<Rightarrow> if x \<in> set ''eE'' then (let (esg, ds) = parse_sign r; (ed, rest) = take_digits ds in
             if ed = [] \<or> rest \<noteq> [] then None else Some (c, e + esg * digits_value 0 ed)) else None)"

subsection \<open>The price guard\<close>

record price_calculation =
  pc_selling :: int
  pc_supply :: int
  pc_variable :: int
  pc_rate :: decimal
  pc_contribution :: int
  pc_margin :: "bool \<times> int"
  pc_status :: string

text \<open>
  The fee rate is a string or a decimal.  The value read from it is a number, an infinity or
  not-a-number (\<open>is_finite\<close> is the test), or nothing at all.
\<close>

datatype fee_rate = Rate_text string | Rate_decimal decimal

datatype reading = Finite decimal | Not_finite

definition not_finite :: "string \<Rightarrow> bool" where
  "not_finite text = (let (_, s) = parse_sign (filter (\<lambda>c. c \<noteq> CHR ''_'') (strip text)); w = lower s in
     w = ''inf'' \<or> w = ''infinity'' \<or> (take 3 w = ''nan'' \<and> list_all is_digit (drop 3 w)) \<or>
     (take 4 w = ''snan'' \<and> list_all is_digit (drop 4 w)))"

fun rate_of :: "fee_rate \<Rightarrow> reading option" where
  "rate_of (Rate_text s) = (if not_finite s then Some Not_finite else map_option Finite (parse_decimal s))"
| "rate_of (Rate_decimal d) = Some (Finite d)"

fun usable_rate :: "reading \<Rightarrow> decimal option" where
  "usable_rate (Finite d) = (if 0 \<le> fst d \<and> \<not> dec_le (dec_int 1) d then Some d else None)"
| "usable_rate Not_finite = None"

definition contribution :: "int \<Rightarrow> int \<Rightarrow> int \<Rightarrow> decimal \<Rightarrow> decimal" where
  "contribution selling supply variable rate =
     dec_sub (dec_sub (dec_sub (dec_int selling) (dec_int supply)) (dec_int variable)) (dec_mult (dec_int selling) rate)"

definition price_eligible :: "int \<Rightarrow> decimal \<Rightarrow> bool" where
  "price_eligible selling c = dec_le (dec_mult (dec_int selling) (10, -2)) c"

definition calculate_demo_price :: "int \<Rightarrow> int \<Rightarrow> int \<Rightarrow> fee_rate \<Rightarrow> err + price_calculation" where
  "calculate_demo_price selling supply variable fee =
     check (0 \<le> selling \<and> 0 \<le> supply \<and> 0 \<le> variable) (ConflictError ''invalid DEMO price inputs'') (
     need (rate_of fee) (ConflictError ''invalid fee rate'') (\<lambda>reading.
     need (usable_rate reading) (ConflictError ''invalid fee rate or selling price'') (\<lambda>rate.
     check (0 < selling) (ConflictError ''invalid fee rate or selling price'') (
     let c = contribution selling supply variable rate in
     case dec_quantize 0 c of Inl e \<Rightarrow> Inl e | Inr minor \<Rightarrow>
     case dec_quantize (-4) (dec_div c (dec_int selling)) of Inl e \<Rightarrow> Inl e | Inr margin \<Rightarrow>
       Inr \<lparr>pc_selling = selling, pc_supply = supply, pc_variable = variable, pc_rate = rate,
            pc_contribution = signed minor, pc_margin = margin,
            pc_status = (if price_eligible selling c then ''READY'' else ''BLOCKED'')\<rparr>))))"

subsection \<open>Recording\<close>

definition save_inventory_snapshot :: "demo_inventory_snapshot \<Rightarrow> repo \<Rightarrow> repo" where
  "save_inventory_snapshot v r = r\<lparr>inventory_snapshots := dset (iv_tenant_id v, iv_id v) v (inventory_snapshots r)\<rparr>"

definition inventory_snapshots_for :: "string \<Rightarrow> string option \<Rightarrow> repo \<Rightarrow> demo_inventory_snapshot list" where
  "inventory_snapshots_for t sku r = filter (\<lambda>v. sku \<in> {None, Some (iv_sku v)}) (rows t (inventory_snapshots r))"

definition save_price_projection :: "demo_price_projection \<Rightarrow> repo \<Rightarrow> repo" where
  "save_price_projection v r = r\<lparr>price_projections := dset (pp_tenant_id v, pp_id v) v (price_projections r)\<rparr>"

definition price_projections_for :: "string \<Rightarrow> string option \<Rightarrow> repo \<Rightarrow> demo_price_projection list" where
  "price_projections_for t sku r = filter (\<lambda>v. sku \<in> {None, Some (pp_sku v)}) (rows t (price_projections r))"

definition observe_demo_inventory :: "string \<Rightarrow> string \<Rightarrow> int \<Rightarrow> stamp \<Rightarrow> err + time" where
  "observe_demo_inventory sku supplier quantity at =
     check (opaque sku \<and> opaque supplier \<and> 0 \<le> quantity \<and> is_aware at) (ConflictError ''invalid DEMO inventory observation'')
       (Inr (instant at))"

definition record_demo_inventory :: "tenant_context \<Rightarrow> string \<Rightarrow> string \<Rightarrow> int \<Rightarrow> stamp option \<Rightarrow> demo_inventory_snapshot svc" where
  "record_demo_inventory ctx sku supplier quantity at = (let t = ctx_tenant_id ctx in
     seq (require ctx Cap_TENANT_ADMIN) (
     bnd (case at of Some x \<Rightarrow> ret x | None \<Rightarrow> bnd clock (\<lambda>now. ret (Aware now))) (\<lambda>x.
     bnd (of_sum (observe_demo_inventory sku supplier quantity x)) (\<lambda>seen.
     transaction (
       bnd uuid4 (\<lambda>i.
       let v = \<lparr>iv_id = i, iv_tenant_id = t, iv_sku = sku, iv_supplier_id = supplier, iv_quantity = quantity, iv_observed_at = seen\<rparr> in
       seq (modify (save_inventory_snapshot v)) (
       seq (audit t (ctx_user_id ctx) ''inventory.observed_demo'' i ''succeeded''
              (JObj [(''sku'', JStr sku), (''supplier_id'', JStr supplier)])) (
       ret v))))))))"

definition record_demo_price_projection :: "tenant_context \<Rightarrow> string \<Rightarrow> int \<Rightarrow> int \<Rightarrow> int \<Rightarrow> fee_rate \<Rightarrow> demo_price_projection svc" where
  "record_demo_price_projection ctx sku selling supply variable fee = (let t = ctx_tenant_id ctx in
     seq (require ctx Cap_TENANT_ADMIN) (
     ensure (opaque sku) (ConflictError ''invalid sku'') (
     bnd (of_sum (calculate_demo_price selling supply variable fee)) (\<lambda>c.
     transaction (
       bnd uuid4 (\<lambda>i. bnd clock (\<lambda>now.
       let v = \<lparr>pp_id = i, pp_tenant_id = t, pp_sku = sku, pp_selling_price_minor = pc_selling c,
             pp_supply_cost_minor = pc_supply c, pp_variable_cost_minor = pc_variable c, pp_fee_rate = dec_text (pc_rate c),
             pp_projected_contribution_minor = pc_contribution c, pp_projected_margin = margin_text (pc_margin c),
             pp_status = pc_status c, pp_calculated_at = now\<rparr> in
       seq (modify (save_price_projection v)) (
       seq (audit t (ctx_user_id ctx) ''price.projected_demo'' i (if pc_status c = ''READY'' then ''succeeded'' else ''blocked'')
              (JObj [(''sku'', JStr sku), (''status'', JStr (pc_status c))])) (
       ret v)))))))))"

subsection \<open>What these calls may write\<close>

lemma acts_save_inventory [acts_rules]:
  "iv_tenant_id v = t \<Longrightarrow> T_inventory_snapshots \<in> L \<Longrightarrow> acts h t L (modify (save_inventory_snapshot v)) (\<lambda>_. True)"
  by (rule acts_modify) (auto simp: save_inventory_snapshot_def intro!: writes_one W_inventory_snapshots)

lemma acts_save_projection [acts_rules]:
  "pp_tenant_id v = t \<Longrightarrow> T_price_projections \<in> L \<Longrightarrow> acts h t L (modify (save_price_projection v)) (\<lambda>_. True)"
  by (rule acts_modify) (auto simp: save_price_projection_def intro!: writes_one W_price_projections)

lemma wf_saved:
  "wf_repo r \<Longrightarrow> wf_repo (save_inventory_snapshot v r)" "wf_repo r \<Longrightarrow> wf_repo (save_price_projection w r)"
  unfolding save_inventory_snapshot_def save_price_projection_def
  by (rule wf_write [OF W_inventory_snapshots [OF refl]] wf_write [OF W_price_projections [OF refl]], assumption)+

lemma acts_record_demo_inventory:
  "{T_audit_events, T_inventory_snapshots} \<subseteq> L \<Longrightarrow> t = ctx_tenant_id ctx \<Longrightarrow>
     acts h t L (record_demo_inventory ctx sku supplier quantity at) (\<lambda>_. True)"
  unfolding record_demo_inventory_def Let_def
  by (rule acts_rules TrueI | simp)+

lemma acts_record_demo_price_projection:
  "{T_audit_events, T_price_projections} \<subseteq> L \<Longrightarrow> t = ctx_tenant_id ctx \<Longrightarrow>
     acts h t L (record_demo_price_projection ctx sku selling supply variable fee) (\<lambda>_. True)"
  unfolding record_demo_price_projection_def Let_def
  by (rule acts_rules TrueI | simp split del: if_split)+

subsection \<open>The guard is exact where no operation has to round\<close>

lemma show_nat_length: "n < 10 ^ k \<Longrightarrow> 0 < k \<Longrightarrow> length (show_nat n) \<le> k"
proof (induction n arbitrary: k rule: show_nat.induct)
  case (1 n)
  show ?case
  proof (cases "n < 10")
    case True
    with 1(3) show ?thesis by (subst show_nat.simps) simp
  next
    case False
    with 1(2) obtain j where k: "k = Suc j" "0 < j"
      by (cases k) (use power_0 in \<open>fastforce intro: gr0I\<close>)+
    have "n div 10 < 10 ^ j" using 1(2) k by (simp add: div_less_iff_less_mult mult.commute)
    from 1(1) [OF False this k(2)] show ?thesis using False k by (subst show_nat.simps) simp
  qed
qed

lemma show_nat_length_ge: "10 ^ k \<le> n \<Longrightarrow> k < length (show_nat n)"
proof (induction k arbitrary: n)
  case (Suc k)
  then have "10 ^ k \<le> n div 10" by (simp add: less_eq_div_iff_mult_less_eq mult.commute)
  moreover have "\<not> n < 10" using Suc.prems one_le_power [of "10 :: nat" k] unfolding power_Suc by linarith
  ultimately show ?case using Suc.IH [of "n div 10"] by (subst show_nat.simps) simp
qed (subst show_nat.simps, simp)

lemma digit_count_is: "10 ^ k \<le> \<bar>n\<bar> \<Longrightarrow> \<bar>n\<bar> < 10 ^ Suc k \<Longrightarrow> digit_count n = Suc k"
proof -
  assume a: "10 ^ k \<le> \<bar>n\<bar>" "\<bar>n\<bar> < 10 ^ Suc k"
  have "int (10 ^ k) \<le> int (nat \<bar>n\<bar>)" "int (nat \<bar>n\<bar>) < int (10 ^ Suc k)" using a by simp_all
  then have "10 ^ k \<le> nat \<bar>n\<bar>" "nat \<bar>n\<bar> < 10 ^ Suc k" unfolding of_nat_le_iff of_nat_less_iff .
  from show_nat_length_ge [OF this(1)] show_nat_length [OF this(2)] show ?thesis by (simp add: digit_count_def)
qed

lemma dec_round_exact: "\<bar>fst d\<bar> < 10 ^ 28 \<Longrightarrow> dec_round d = d"
proof -
  assume "\<bar>fst d\<bar> < 10 ^ 28"
  then have "nat \<bar>fst d\<bar> < 10 ^ 28" by simp
  from show_nat_length [OF this] have "digit_count (fst d) \<le> 28" by (simp add: digit_count_def)
  then show ?thesis by (cases d) (simp add: dec_round_def)
qed

text \<open>Eligibility over the integers: everything in units of \<open>10 ^ -(k + 1)\<close>.\<close>

definition exactly_eligible :: "int \<Rightarrow> int \<Rightarrow> int \<Rightarrow> int \<Rightarrow> nat \<Rightarrow> bool" where
  "exactly_eligible selling supply variable r k \<longleftrightarrow>
     selling * 10 ^ k \<le> 10 * ((selling - supply - variable) * 10 ^ k - selling * r)"

lemma contribution_exact:
  assumes b: "0 \<le> selling" "0 \<le> supply" "0 \<le> variable" "selling < 10 ^ 18" "supply < 10 ^ 18" "variable < 10 ^ 18"
    and r: "0 \<le> r" "r < 10 ^ k" "k \<le> 9"
  shows "contribution selling supply variable (r, - int k) =
     ((selling - supply - variable) * 10 ^ k - selling * r, - int k)"
proof -
  have p: "(1 :: int) \<le> 10 ^ k" "(10 :: int) ^ k \<le> 10 ^ 9"
    using power_increasing [OF r(3), of "10 :: int"] by simp_all
  have sr: "0 \<le> selling * r" "selling * r < 10 ^ 27"
    using mult_mono [of selling "10 ^ 18" r "10 ^ 9"] mult_strict_mono [of selling "10 ^ 18" r "10 ^ 9"] b r p by auto
  define w where "w = selling - supply - variable"
  have w: "\<bar>w\<bar> \<le> 2 * 10 ^ 18" using b unfolding w_def by linarith
  have "\<bar>w * 10 ^ k\<bar> \<le> (2 * 10 ^ 18) * 10 ^ 9"
    unfolding abs_mult using w p by (intro mult_mono) auto
  then have d: "\<bar>w * 10 ^ k - selling * r\<bar> < 10 ^ 28" using sr by (simp add: abs_if split: if_splits)
  have one: "dec_sub (dec_int selling) (dec_int supply) = (selling - supply, 0)"
    using b by (simp add: dec_sub_def dec_int_def dec_at_def pow10_def dec_round_exact)
  have two: "dec_sub (selling - supply, 0) (dec_int variable) = (w, 0)"
    using w by (simp add: dec_sub_def dec_int_def dec_at_def pow10_def dec_round_exact w_def)
  have three: "dec_mult (dec_int selling) (r, - int k) = (selling * r, - int k)"
    using sr by (simp add: dec_mult_def dec_int_def dec_round_exact)
  have "dec_sub (w, 0) (selling * r, - int k) = (w * 10 ^ k - selling * r, - int k)"
    using d by (simp add: dec_sub_def dec_at_def pow10_def dec_round_exact)
  then show ?thesis by (simp add: contribution_def one two three w_def)
qed

lemma price_eligible_exact:
  assumes s: "0 \<le> selling" "selling < 10 ^ 18"
  shows "price_eligible selling (c, - int k) \<longleftrightarrow> selling * 10 ^ k \<le> 10 * c"
proof -
  have m: "dec_mult (dec_int selling) (10, -2) = (10 * selling, -2)"
    using s by (simp add: dec_mult_def dec_int_def dec_round_exact)
  show ?thesis
  proof (cases "2 \<le> k")
    case True
    then obtain j where k: "k = j + 2" by (metis add.commute le_Suc_ex)
    have "nat (int k - 2) = j" using k by simp
    then show ?thesis using k by (simp add: price_eligible_def m dec_le_def dec_at_def pow10_def power_add) auto
  next
    case False
    then have "k = 0 \<or> k = 1" by auto
    then show ?thesis by (auto simp: price_eligible_def m dec_le_def dec_at_def pow10_def)
  qed
qed

text \<open>
  C31: for amounts below \<open>10 ^ 18\<close> and a fee rate of at most nine decimal places no step of the price
  guard rounds: a calculation it returns is READY exactly when the true contribution, selling
  price less costs less fee, is at least a tenth of the selling price.
\<close>

theorem price_guard_exact:
  assumes run: "calculate_demo_price selling supply variable (Rate_decimal (r, - int k)) = Inr v"
    and b: "selling < 10 ^ 18" "supply < 10 ^ 18" "variable < 10 ^ 18" "k \<le> 9"
  shows "pc_status v = ''READY'' \<longleftrightarrow> exactly_eligible selling supply variable r k"
proof -
  from run have n: "0 \<le> selling" "0 \<le> supply" "0 \<le> variable" and r: "0 \<le> r" "\<not> dec_le (dec_int 1) (r, - int k)"
    and v: "pc_status v = (if price_eligible selling (contribution selling supply variable (r, - int k)) then ''READY'' else ''BLOCKED'')"
    by (auto simp: calculate_demo_price_def checks_ok Let_def split: if_splits sum.splits)
  have "r < 10 ^ k" using r(2) by (simp add: dec_le_def dec_at_def dec_int_def pow10_def)
  from contribution_exact [OF n b(1-3) r(1) this b(4)] price_eligible_exact [OF n(1) b(1)] v
  show ?thesis by (simp add: exactly_eligible_def)
qed

lemma demo_projection:
  "calculate_demo_price 10000 8000 500 (Rate_decimal (5, - int 2)) = Inr \<lparr>pc_selling = 10000, pc_supply = 8000,
     pc_variable = 500, pc_rate = (5, - int 2), pc_contribution = 1000, pc_margin = (False, 1000), pc_status = ''READY''\<rparr>"
proof -
  have c: "contribution 10000 8000 500 (5, - int 2) = (100000, -2)"
    using contribution_exact [of 10000 8000 500 5 2] by simp
  have n: "digit_count 100000 = 6" "digit_count 10000 = 5" "digit_count 1000 = 4" "digit_count (10 ^ 29) = 30"
    using digit_count_is [of 5 100000] digit_count_is [of 4 10000] digit_count_is [of 3 1000] digit_count_is [of 29 "10 ^ 29"]
    by simp_all
  have q: "dec_quantize 0 (100000, -2) = Inr (False, 1000)"
    by (simp add: dec_quantize_def pow10_def n check_def)
  have "dec_div (100000, -2) (dec_int 10000) = dec_round (10 ^ 29, -30)"
    by (simp add: pow10_def n dec_div_def dec_int_def)
  also have "\<dots> = (10 ^ 27, -28)"
    using n(4) by (simp add: dec_round_def pow10_def)
  finally have m: "dec_quantize (-4) (dec_div (100000, -2) (dec_int 10000)) = Inr (False, 1000)"
    by (simp add: dec_quantize_def pow10_def n check_def)
  have e: "price_eligible 10000 (100000, -2)"
    using price_eligible_exact [of 10000 100000 2] by simp
  have u: "usable_rate (Finite (5, - int 2)) = Some (5, - int 2)"
    by (simp add: dec_le_def dec_at_def dec_int_def pow10_def)
  show ?thesis unfolding calculate_demo_price_def
    by (simp add: check_def need_def c q m e u signed_def del: usable_rate.simps of_nat_numeral)
qed

theorem price_guard_exact_witness:
  "(\<exists>v. calculate_demo_price 10000 8000 500 (Rate_decimal (5, - int 2)) = Inr v \<and> pc_status v = ''READY'')
     \<and> exactly_eligible 10000 8000 500 5 2"
  using price_guard_exact [OF demo_projection] demo_projection by simp

end
