(* ===== verification/Catalog.thy ===== *)
theory Catalog
  imports Approvals Inventory
begin

section \<open>Catalog, offers and their approval\<close>

text \<open>
  catalog.py and the five tables of repository.py behind it: an import stores a snapshot, a
  canonical product and a lineage row per catalog row; a product is projected to an offer for a
  channel; an offer is approved on fresh margin and stock evidence, and an approved offer is
  read back against what was approved.  Freshness windows are within the range of \<open>timedelta\<close>.
\<close>

subsection \<open>Repository methods\<close>

definition prior_import :: "demo_catalog_import \<Rightarrow> repo \<Rightarrow> demo_catalog_import option" where
  "prior_import v r = first (\<lambda>p. ci_idempotency_key p = ci_idempotency_key v) (rows (ci_tenant_id v) (catalog_imports r))"

definition same_import :: "demo_catalog_import \<Rightarrow> demo_catalog_import \<Rightarrow> bool" where
  "same_import p v \<longleftrightarrow> ci_source_digest p = ci_source_digest v \<and> ci_supplier_id p = ci_supplier_id v"

definition save_catalog_import :: "demo_catalog_import \<Rightarrow> repo \<Rightarrow> err + ((demo_catalog_import \<times> bool) \<times> repo)" where
  "save_catalog_import v r = (case prior_import v r of
     Some p \<Rightarrow> check (same_import p v) (ConflictError ''catalog idempotency key reused'') (Inr ((p, True), r))
   | None \<Rightarrow> Inr ((v, False), r\<lparr>catalog_imports := dset (ci_tenant_id v, ci_id v) v (catalog_imports r)\<rparr>))"

definition get_catalog_import :: "string \<Rightarrow> string \<Rightarrow> repo \<Rightarrow> err + demo_catalog_import" where
  "get_catalog_import t i r = (case dget (catalog_imports r) (t, i) of
     None \<Rightarrow> Inl (NotFoundError ''catalog import not found'') | Some v \<Rightarrow> Inr v)"

definition save_catalog_snapshot :: "demo_catalog_snapshot \<Rightarrow> repo \<Rightarrow> err + (demo_catalog_snapshot \<times> repo)" where
  "save_catalog_snapshot v r = (let key = (sn_tenant_id v, sn_id v) in
     case dget (catalog_snapshots r) key of
       Some p \<Rightarrow> check (sn_payload_json p = sn_payload_json v) (ConflictError ''catalog snapshot identity reused'') (Inr (p, r))
     | None \<Rightarrow> Inr (v, r\<lparr>catalog_snapshots := dset key v (catalog_snapshots r)\<rparr>))"

definition catalog_snapshots_for :: "string \<Rightarrow> string \<Rightarrow> repo \<Rightarrow> err + demo_catalog_snapshot list" where
  "catalog_snapshots_for t i r = (case get_catalog_import t i r of Inl e \<Rightarrow> Inl e
     | Inr _ \<Rightarrow> Inr (filter (\<lambda>v. sn_import_id v = i) (rows t (catalog_snapshots r))))"

definition same_product :: "demo_canonical_product \<Rightarrow> demo_canonical_product \<Rightarrow> bool" where
  "same_product p v \<longleftrightarrow> (cp_title p, cp_category p, cp_price_minor p, cp_currency p, cp_attributes_json p) =
     (cp_title v, cp_category v, cp_price_minor v, cp_currency v, cp_attributes_json v)"

definition prior_product :: "demo_canonical_product \<Rightarrow> repo \<Rightarrow> demo_canonical_product option" where
  "prior_product v r = first (\<lambda>p. cp_sku p = cp_sku v) (rows (cp_tenant_id v) (canonical_products r))"

definition save_canonical_product :: "demo_canonical_product \<Rightarrow> repo \<Rightarrow> err + (demo_canonical_product \<times> repo)" where
  "save_canonical_product v r = (case prior_product v r of
     Some p \<Rightarrow> check (same_product p v) (ConflictError ''canonical SKU reused with different content'') (Inr (p, r))
   | None \<Rightarrow> Inr (v, r\<lparr>canonical_products := dset (cp_tenant_id v, cp_id v) v (canonical_products r)\<rparr>))"

definition get_canonical_product :: "string \<Rightarrow> string \<Rightarrow> repo \<Rightarrow> err + demo_canonical_product" where
  "get_canonical_product t i r = (case dget (canonical_products r) (t, i) of
     None \<Rightarrow> Inl (NotFoundError ''canonical product not found'') | Some v \<Rightarrow> Inr v)"

definition save_product_lineage :: "demo_product_lineage \<Rightarrow> repo \<Rightarrow> err + (demo_product_lineage \<times> repo)" where
  "save_product_lineage v r = (let key = (pl_tenant_id v, pl_source_snapshot_id v) in
     case dget (product_lineage r) key of
       Some p \<Rightarrow> check (pl_canonical_product_id p = pl_canonical_product_id v) (ConflictError ''catalog lineage conflict'') (Inr (p, r))
     | None \<Rightarrow> Inr (v, r\<lparr>product_lineage := dset key v (product_lineage r)\<rparr>))"

definition lineage_for :: "string \<Rightarrow> string \<Rightarrow> repo \<Rightarrow> err + demo_product_lineage list" where
  "lineage_for t i r = (case get_canonical_product t i r of Inl e \<Rightarrow> Inl e
     | Inr _ \<Rightarrow> Inr (filter (\<lambda>v. pl_canonical_product_id v = i) (rows t (product_lineage r))))"

definition prior_offer :: "demo_channel_offer \<Rightarrow> repo \<Rightarrow> demo_channel_offer option" where
  "prior_offer v r = first (\<lambda>p. ofr_channel_id p = ofr_channel_id v \<and> ofr_canonical_product_id p = ofr_canonical_product_id v)
     (rows (ofr_tenant_id v) (channel_offers r))"

definition same_offer :: "demo_channel_offer \<Rightarrow> demo_channel_offer \<Rightarrow> bool" where
  "same_offer p v \<longleftrightarrow> (ofr_price_minor p, ofr_currency p) = (ofr_price_minor v, ofr_currency v)"

definition save_channel_offer :: "demo_channel_offer \<Rightarrow> repo \<Rightarrow> err + ((demo_channel_offer \<times> bool) \<times> repo)" where
  "save_channel_offer v r = (case prior_offer v r of
     Some p \<Rightarrow> check (same_offer p v) (ConflictError ''channel offer already exists with different content'') (Inr ((p, True), r))
   | None \<Rightarrow> Inr ((v, False), r\<lparr>channel_offers := dset (ofr_tenant_id v, ofr_id v) v (channel_offers r)\<rparr>))"

definition get_channel_offer :: "string \<Rightarrow> string \<Rightarrow> repo \<Rightarrow> err + demo_channel_offer" where
  "get_channel_offer t i r = (case dget (channel_offers r) (t, i) of
     None \<Rightarrow> Inl (NotFoundError ''channel offer not found'') | Some v \<Rightarrow> Inr v)"

definition channel_offers_for :: "string \<Rightarrow> string \<Rightarrow> repo \<Rightarrow> err + demo_channel_offer list" where
  "channel_offers_for t i r = (case get_canonical_product t i r of Inl e \<Rightarrow> Inl e
     | Inr _ \<Rightarrow> Inr (filter (\<lambda>v. ofr_canonical_product_id v = i) (rows t (channel_offers r))))"

subsection \<open>Normalizing catalog rows\<close>

abbreviation invalid :: "string \<Rightarrow> err" where
  "invalid label \<equiv> ConflictError (''invalid '' @ label)"

definition catalog_id :: "json option \<Rightarrow> string \<Rightarrow> err + string" where
  "catalog_id v label = need (js_str v) (invalid label) (\<lambda>s. check (opaque s) (invalid label) (Inr s))"

definition catalog_text :: "json option \<Rightarrow> string \<Rightarrow> err + string" where
  "catalog_text v label = need (js_str v) (invalid label) (\<lambda>s.
     check (\<not> blank s \<and> py_len s \<le> 500 \<and> CHR 0x00 \<notin> set s) (invalid label) (Inr (strip s)))"

definition pii_names :: "string list" where
  "pii_names = [''email'', ''phone'', ''address'', ''name'', ''customer'', ''buyer'', ''recipient'']"

fun free_of_pii :: "json \<Rightarrow> bool" where
  "free_of_pii (JObj kvs) = list_all (\<lambda>(k, v). lower k \<notin> set pii_names \<and> free_of_pii v) kvs"
| "free_of_pii (JList xs) = list_all free_of_pii xs"
| "free_of_pii _ = True"

fun is_mapping :: "json option \<Rightarrow> bool" where
  "is_mapping (Some (JObj _)) = True"
| "is_mapping _ = False"

definition catalog_attributes :: "json option \<Rightarrow> err + json" where
  "catalog_attributes v = (let bad = ConflictError ''invalid or PII catalog attributes'' in
     need v bad (\<lambda>x.
     check (is_mapping v \<and> free_of_pii x) bad (
     check (finite_json x) (ConflictError ''catalog attributes must be finite JSON'') (
     check (length (dumps x) \<le> 16 * 1024) (ConflictError ''catalog attributes too large'') (Inr x)))))"

record catalog_row =
  cr_external_key :: string
  cr_sku :: string
  cr_title :: string
  cr_category :: string
  cr_price_minor :: int
  cr_currency :: string
  cr_attributes :: json

definition catalog_fields :: "string list" where
  "catalog_fields = [''external_key'', ''sku'', ''title'', ''category'', ''price_minor'', ''currency'', ''attributes'']"

definition currencies :: "string list" where
  "currencies = [''KRW'', ''USD'', ''JPY'', ''EUR'', ''GBP'', ''CNY'']"

definition row_schema :: "json \<Rightarrow> bool" where
  "row_schema v = (case js_keys v of Some ks \<Rightarrow> set ks = set catalog_fields | None \<Rightarrow> False)"

text \<open>\<open>row["currency"] not in _CURRENCIES\<close> hashes the value first.\<close>

definition catalog_currency :: "json option \<Rightarrow> err + string" where
  "catalog_currency v = (case v of
     Some (JList _) \<Rightarrow> Inl (OtherError ''TypeError'' ''unhashable type'')
   | Some (JObj _) \<Rightarrow> Inl (OtherError ''TypeError'' ''unhashable type'')
   | _ \<Rightarrow> need (js_str v) (ConflictError ''invalid catalog price or currency'') (\<lambda>s.
       check (s \<in> set currencies) (ConflictError ''invalid catalog price or currency'') (Inr s)))"

definition normalize_row :: "json \<Rightarrow> catalog_row list \<Rightarrow> err + catalog_row list" where
  "normalize_row v done = 
     check (row_schema v) (ConflictError ''invalid catalog row schema'') (
     case catalog_id (jget v ''external_key'') ''external_key'' of Inl e \<Rightarrow> Inl e | Inr external \<Rightarrow>
     case catalog_id (jget v ''sku'') ''sku'' of Inl e \<Rightarrow> Inl e | Inr sku \<Rightarrow>
     check (external \<notin> set (map cr_external_key done) \<and> sku \<notin> set (map cr_sku done)) (ConflictError ''duplicate catalog key'') (
     need (js_int (jget v ''price_minor'')) (ConflictError ''invalid catalog price or currency'') (\<lambda>price.
     check (0 \<le> price) (ConflictError ''invalid catalog price or currency'') (
     case catalog_currency (jget v ''currency'') of Inl e \<Rightarrow> Inl e | Inr currency \<Rightarrow>
     case catalog_text (jget v ''title'') ''title'' of Inl e \<Rightarrow> Inl e | Inr title \<Rightarrow>
     case catalog_text (jget v ''category'') ''category'' of Inl e \<Rightarrow> Inl e | Inr category \<Rightarrow>
     case catalog_attributes (jget v ''attributes'') of Inl e \<Rightarrow> Inl e | Inr attributes \<Rightarrow>
     Inr (done @ [\<lparr>cr_external_key = external, cr_sku = sku, cr_title = title, cr_category = category,
       cr_price_minor = price, cr_currency = currency, cr_attributes = attributes\<rparr>])))))"

definition normalize :: "json \<Rightarrow> err + catalog_row list" where
  "normalize v = need (js_list (Some v)) (ConflictError ''catalog rows are required'') (\<lambda>xs.
     check (xs \<noteq> [] \<and> length xs \<le> 10000) (ConflictError ''catalog rows are required'') (fold_check normalize_row xs []))"

definition catalog_row_json :: "catalog_row \<Rightarrow> json" where
  "catalog_row_json x = JObj [(''external_key'', JStr (cr_external_key x)), (''sku'', JStr (cr_sku x)), (''title'', JStr (cr_title x)),
     (''category'', JStr (cr_category x)), (''price_minor'', JInt (cr_price_minor x)), (''currency'', JStr (cr_currency x)),
     (''attributes'', cr_attributes x)]"

subsection \<open>Import\<close>

definition import_row :: "string \<Rightarrow> string \<Rightarrow> demo_catalog_import \<Rightarrow> time \<Rightarrow> catalog_row \<Rightarrow> unit svc" where
  "import_row t supplier batch now x =
     bnd uuid4 (\<lambda>sid. bnd (digest (catalog_row_json x)) (\<lambda>dg.
     bnd (mutate (save_catalog_snapshot \<lparr>sn_id = sid, sn_tenant_id = t, sn_import_id = ci_id batch, sn_supplier_id = supplier,
            sn_external_key = cr_external_key x, sn_source_digest = dg, sn_payload_json = dumps (catalog_row_json x), sn_created_at = now\<rparr>)) (\<lambda>_.
     bnd uuid4 (\<lambda>pid.
     bnd (mutate (save_canonical_product \<lparr>cp_id = pid, cp_tenant_id = t, cp_sku = cr_sku x, cp_title = cr_title x,
            cp_category = cr_category x, cp_price_minor = cr_price_minor x, cp_currency = cr_currency x,
            cp_attributes_json = dumps (cr_attributes x), cp_source_snapshot_id = sid, cp_version = 1, cp_created_at = now\<rparr>)) (\<lambda>product.
     bnd uuid4 (\<lambda>lid.
     void (mutate (save_product_lineage \<lparr>pl_id = lid, pl_tenant_id = t, pl_source_snapshot_id = sid,
            pl_canonical_product_id = cp_id product, pl_transform_version = 1, pl_created_at = now\<rparr>))))))))"

definition ingest_demo_catalog :: "tenant_context \<Rightarrow> string \<Rightarrow> json \<Rightarrow> string \<Rightarrow> (demo_catalog_import \<times> bool) svc" where
  "ingest_demo_catalog ctx supplier_id rows_json key = (let t = ctx_tenant_id ctx in
     seq (require ctx Cap_TENANT_ADMIN) (
     bnd (of_sum (catalog_id (Some (JStr supplier_id)) ''supplier_id'')) (\<lambda>supplier.
     bnd (of_sum (catalog_text (Some (JStr key)) ''idempotency_key'')) (\<lambda>k.
     ensure (py_len k \<le> 255) (ConflictError ''invalid idempotency_key'') (
     bnd (of_sum (normalize rows_json)) (\<lambda>xs.
     bnd (digest (JList (map catalog_row_json xs))) (\<lambda>dg.
     bnd clock (\<lambda>now.
     transaction (
       bnd uuid4 (\<lambda>i.
       bnd (mutate (save_catalog_import \<lparr>ci_id = i, ci_tenant_id = t, ci_supplier_id = supplier, ci_source_digest = dg,
              ci_idempotency_key = k, ci_created_at = now\<rparr>)) (\<lambda>(batch, replay).
       if replay then ret (batch, True) else
       seq (foreach xs (import_row t supplier batch now)) (
       seq (audit t (ctx_user_id ctx) ''catalog.imported'' (ci_id batch) ''succeeded''
              (JObj [(''source_digest'', JStr dg), (''row_count'', JInt (int (length xs)))])) (
       seq (enqueue t ''catalog.imported'' (ci_id batch)
              (JObj [(''import_id'', JStr (ci_id batch)), (''source_digest'', JStr dg)])
              (''catalog:'' @ ci_id batch @ '':imported'') now) (
       ret (batch, False)))))))))))))))"

subsection \<open>Gates\<close>

definition last_of :: "'a list \<Rightarrow> 'a option" where
  "last_of xs = (if xs = [] then None else Some (last xs))"

record offer_evidence =
  ev_projection :: "demo_price_projection option"
  ev_inventory :: "demo_inventory_snapshot option"

text \<open>The evidence at a time: without a price the gates are lenient, with one they are strict.\<close>

definition gates_at :: "demo_price_projection option \<Rightarrow> demo_inventory_snapshot option \<Rightarrow> int \<Rightarrow> int option \<Rightarrow> time \<Rightarrow> err + offer_evidence" where
  "gates_at p v max_age price now = (let cutoff = now - seconds max_age in
     check (pred_option (\<lambda>x. cutoff \<le> pp_calculated_at x) p) (ConflictError ''DEMO price projection is stale; reapproval required'') (
     check (pred_option (\<lambda>x. cutoff \<le> iv_observed_at x) v) (ConflictError ''DEMO inventory observation is stale; reapproval required'') (
     check (pred_option (\<lambda>n. pred_option (\<lambda>x. pp_selling_price_minor x = n) p) price)
       (ConflictError ''margin was projected for a different price; reapproval required'') (
     check (price = None \<or> pred_option (\<lambda>x. 1 \<le> iv_quantity x) v) (ConflictError ''no DEMO inventory observed for the offer'') (
     Inr \<lparr>ev_projection = p, ev_inventory = v\<rparr>)))))"

definition gates :: "tenant_context \<Rightarrow> string \<Rightarrow> int \<Rightarrow> int option \<Rightarrow> offer_evidence svc" where
  "gates ctx sku max_age price = (let t = ctx_tenant_id ctx in
     bnd (reads (\<lambda>r. last_of (price_projections_for t (Some sku) r))) (\<lambda>p.
     bnd (reads (\<lambda>r. last_of (inventory_snapshots_for t (Some sku) r))) (\<lambda>v.
     ensure (price = None \<or> p \<noteq> None \<and> v \<noteq> None) (ConflictError ''approval requires DEMO margin and inventory evidence'') (
     ensure (pred_option (\<lambda>x. pp_status x = ''READY'') p) (ConflictError ''projected margin below DEMO threshold'') (
     bnd clock (\<lambda>now. of_sum (gates_at p v max_age price now)))))))"

definition evidence_items :: "offer_evidence \<Rightarrow> (string \<times> json) list" where
  "evidence_items e = [
     (''price_projection_id'', opt_str (map_option pp_id (ev_projection e))),
     (''projected_margin'', opt_str (map_option pp_projected_margin (ev_projection e))),
     (''inventory_snapshot_id'', opt_str (map_option iv_id (ev_inventory e))),
     (''inventory_quantity'', case ev_inventory e of None \<Rightarrow> JNull | Some x \<Rightarrow> JInt (iv_quantity x))]"

subsection \<open>Offers\<close>

definition project_demo_offer :: "tenant_context \<Rightarrow> string \<Rightarrow> string \<Rightarrow> int option \<Rightarrow> int \<Rightarrow> (demo_channel_offer \<times> bool) svc" where
  "project_demo_offer ctx product_id channel_id price max_age = (let t = ctx_tenant_id ctx in
     seq (require ctx Cap_TENANT_ADMIN) (
     bnd (of_sum (catalog_id (Some (JStr channel_id)) ''channel_id'')) (\<lambda>channel.
     ensure (1 \<le> max_age) (ConflictError ''invalid freshness window'') (
     transaction (
       bnd (of_sum (catalog_id (Some (JStr product_id)) ''canonical_product_id'')) (\<lambda>pid.
       bnd (query (get_canonical_product t pid)) (\<lambda>product.
       let amount = (case price of None \<Rightarrow> cp_price_minor product | Some n \<Rightarrow> n) in
       ensure (0 \<le> amount) (ConflictError ''invalid offer price'') (
       seq (void (gates ctx (cp_sku product) max_age None)) (
       bnd uuid4 (\<lambda>i. bnd clock (\<lambda>now.
       bnd (mutate (save_channel_offer \<lparr>ofr_id = i, ofr_tenant_id = t, ofr_channel_id = channel,
              ofr_canonical_product_id = cp_id product, ofr_source_snapshot_id = cp_source_snapshot_id product,
              ofr_external_key = cp_sku product, ofr_price_minor = amount, ofr_currency = cp_currency product,
              ofr_version = 1, ofr_created_at = now\<rparr>)) (\<lambda>(offer, replay).
       if replay then ret (offer, replay) else
       seq (audit t (ctx_user_id ctx) ''catalog.offer_projected'' (ofr_id offer) ''succeeded''
              (JObj [(''channel_id'', JStr channel), (''canonical_product_id'', JStr (cp_id product))])) (
       bnd clock (\<lambda>at.
       seq (enqueue t ''catalog.offer_projected'' (ofr_id offer)
              (JObj [(''offer_id'', JStr (ofr_id offer)), (''channel_id'', JStr channel)])
              (''catalog:offer:'' @ ofr_id offer @ '':projected'') at) (
       ret (offer, replay))))))))))))))))"

definition offer_payload :: "demo_channel_offer \<Rightarrow> demo_canonical_product \<Rightarrow> json" where
  "offer_payload offer product = JObj [(''offer_id'', JStr (ofr_id offer)), (''channel_id'', JStr (ofr_channel_id offer)),
     (''canonical_product_id'', JStr (cp_id product)), (''source_snapshot_id'', JStr (ofr_source_snapshot_id offer)),
     (''sku'', JStr (cp_sku product)), (''title'', JStr (cp_title product)), (''price_minor'', JInt (ofr_price_minor offer)),
     (''currency'', JStr (ofr_currency offer)), (''mode'', JStr ''DEMO''), (''external_write_authorized'', JBool False)]"

text \<open>The offer, its product, and the payload an approval of it carries.\<close>

definition offer_intent :: "tenant_context \<Rightarrow> string \<Rightarrow> (demo_channel_offer \<times> demo_canonical_product \<times> json) svc" where
  "offer_intent ctx offer_id = (let t = ctx_tenant_id ctx in
     bnd (of_sum (catalog_id (Some (JStr offer_id)) ''offer_id'')) (\<lambda>i.
     bnd (query (get_channel_offer t i)) (\<lambda>offer.
     bnd (query (get_canonical_product t (ofr_canonical_product_id offer))) (\<lambda>product.
     ensure (ofr_source_snapshot_id offer = cp_source_snapshot_id product \<and> ofr_currency offer = cp_currency product)
       (ConflictError ''offer no longer matches its canonical product; reapproval required'') (
     ret (offer, product, offer_payload offer product))))))"

definition offer_target :: "demo_channel_offer \<Rightarrow> string" where
  "offer_target offer = ''offer:'' @ ofr_id offer"

definition request_demo_offer_approval :: "tenant_context \<Rightarrow> string \<Rightarrow> string \<Rightarrow> int \<Rightarrow> (command \<times> approval) svc" where
  "request_demo_offer_approval ctx offer_id key max_age =
     seq (require ctx Cap_TENANT_ADMIN) (
     ensure (1 \<le> max_age) (ConflictError ''invalid freshness window'') (
     bnd (of_sum (catalog_text (Some (JStr key)) ''idempotency_key'')) (\<lambda>k.
     transaction (
       bnd (offer_intent ctx offer_id) (\<lambda>(offer, product, payload).
       bnd (gates ctx (cp_sku product) max_age (Some (ofr_price_minor offer))) (\<lambda>ev.
       request_approval ctx Kind_PRODUCT (offer_target offer) payload k 1 (ofr_version offer)
         [JObj ((''risk'', JStr ''DEMO_ONLY'') # evidence_items ev)]))))))"

text \<open>What an approval must say of an offer for it to be usable.\<close>

definition approves :: "demo_channel_offer \<Rightarrow> command \<Rightarrow> approval \<Rightarrow> err + unit" where
  "approves offer c a =
     check (cmd_kind c = Kind_PRODUCT \<and> cmd_target_ref c = offer_target offer) (ConflictError ''approval is not for this offer'') (
     check (cmd_state c = Cmd_APPROVED \<and> ap_state a = Apr_APPROVED) (ConflictError ''offer is not approved'') (Inr ()))"

definition verify_approved_demo_offer :: "tenant_context \<Rightarrow> string \<Rightarrow> string \<Rightarrow> int \<Rightarrow> json svc" where
  "verify_approved_demo_offer ctx offer_id command_id max_age = (let t = ctx_tenant_id ctx in
     seq (require ctx Cap_TENANT_ADMIN) (
     bnd (offer_intent ctx offer_id) (\<lambda>(offer, product, payload).
     bnd (of_sum (catalog_id (Some (JStr command_id)) ''command_id'')) (\<lambda>cid.
     bnd (query (get_command t cid)) (\<lambda>c.
     bnd (query (get_approval_for_command t (cmd_id c))) (\<lambda>a.
     bnd (of_sum (approves offer c a)) (\<lambda>_.
     bnd clock (\<lambda>now.
     ensure (now < ap_expires_at a) (ConflictError ''offer approval expired; reapproval required'') (
     bnd (digest (cmd_payload c)) (\<lambda>approved.
     bnd (digest payload) (\<lambda>current.
     ensure (approved = current) (ConflictError ''offer changed since approval; reapproval required'') (
     bnd (reads (get_approval_intent t (cmd_id c))) (\<lambda>intent.
     ensure (map_option ai_target_version intent = Some (ofr_version offer)) (ConflictError ''offer approval target version is stale'') (
     bnd (gates ctx (cp_sku product) max_age (Some (ofr_price_minor offer))) (\<lambda>ev.
     ret (JObj ([(''offer_id'', JStr (ofr_id offer)), (''command_id'', JStr (cmd_id c)),
           (''approved_by'', opt_str (ap_decided_by a)), (''mode'', JStr ''DEMO''),
           (''external_write_authorized'', JBool False)] @ evidence_items ev)))))))))))))))))"

subsection \<open>What these calls may write\<close>

lemma acts_save_catalog_import:
  "ci_tenant_id v = t \<Longrightarrow> T_catalog_imports \<in> L \<Longrightarrow> acts h t L (mutate (save_catalog_import v)) (\<lambda>_. True)"
  by (rule acts_mutate) (auto simp: save_catalog_import_def checks_ok split: option.splits intro!: writes_one W_catalog_imports)

lemma acts_save_catalog_snapshot:
  "sn_tenant_id v = t \<Longrightarrow> T_catalog_snapshots \<in> L \<Longrightarrow> acts h t L (mutate (save_catalog_snapshot v)) (\<lambda>_. True)"
  by (rule acts_mutate) (auto simp: save_catalog_snapshot_def Let_def checks_ok split: option.splits intro!: writes_one W_catalog_snapshots)

lemma acts_save_canonical_product:
  "cp_tenant_id v = t \<Longrightarrow> T_canonical_products \<in> L \<Longrightarrow> acts h t L (mutate (save_canonical_product v)) (\<lambda>_. True)"
  by (rule acts_mutate) (auto simp: save_canonical_product_def checks_ok split: option.splits intro!: writes_one W_canonical_products)

lemma acts_save_product_lineage:
  "pl_tenant_id v = t \<Longrightarrow> T_product_lineage \<in> L \<Longrightarrow> acts h t L (mutate (save_product_lineage v)) (\<lambda>_. True)"
  by (rule acts_mutate) (auto simp: save_product_lineage_def Let_def checks_ok split: option.splits intro!: writes_one W_product_lineage)

lemma acts_save_channel_offer:
  "ofr_tenant_id v = t \<Longrightarrow> T_channel_offers \<in> L \<Longrightarrow> acts h t L (mutate (save_channel_offer v)) (\<lambda>_. True)"
  by (rule acts_mutate) (auto simp: save_channel_offer_def checks_ok split: option.splits intro!: writes_one W_channel_offers)

lemmas acts_catalog_saves [acts_rules] = acts_save_catalog_import acts_save_catalog_snapshot acts_save_canonical_product
  acts_save_product_lineage acts_save_channel_offer

abbreviation import_tables :: "table set" where
  "import_tables \<equiv> {T_catalog_imports, T_catalog_snapshots, T_canonical_products, T_product_lineage, T_audit_events, T_outbox}"

lemma acts_import_row: "import_tables \<subseteq> L \<Longrightarrow> acts h t L (import_row t supplier batch now x) (\<lambda>_. True)"
  unfolding import_row_def by (rule acts_rules TrueI | simp)+

lemma acts_ingest_demo_catalog:
  "import_tables \<subseteq> L \<Longrightarrow> acts h (ctx_tenant_id ctx) L (ingest_demo_catalog ctx supplier xs key) (\<lambda>_. True)"
  unfolding ingest_demo_catalog_def Let_def by (rule acts_import_row acts_rules TrueI | assumption | simp)+

lemma acts_gates [acts_rules]: "acts h t L (gates ctx sku max_age price) (\<lambda>_. True)"
  unfolding gates_def Let_def by (rule acts_rules TrueI | simp)+

lemma acts_offer_intent [acts_rules]: "acts h t L (offer_intent ctx offer_id) (\<lambda>_. True)"
  unfolding offer_intent_def Let_def by (rule acts_rules TrueI | simp)+

lemma acts_project_demo_offer:
  "{T_channel_offers, T_audit_events, T_outbox} \<subseteq> L \<Longrightarrow>
     acts h (ctx_tenant_id ctx) L (project_demo_offer ctx pid channel price max_age) (\<lambda>_. True)"
  unfolding project_demo_offer_def Let_def by (rule acts_rules TrueI | simp)+

lemma acts_request_demo_offer_approval:
  "approval_tables \<subseteq> L \<Longrightarrow> T_approval_intents \<in> L \<Longrightarrow>
     acts h (ctx_tenant_id ctx) L (request_demo_offer_approval ctx offer_id key max_age) (\<lambda>_. True)"
  unfolding request_demo_offer_approval_def Let_def
  by (rule acts_any [OF acts_request_approval] acts_rules TrueI | assumption | simp)+

lemma acts_verify_approved_demo_offer: "acts h t L (verify_approved_demo_offer ctx offer_id cid max_age) (\<lambda>_. True)"
  unfolding verify_approved_demo_offer_def Let_def by (rule acts_rules TrueI | simp)+

end
