(* ===== verification/Catalog_Laws.thy ===== *)
theory Catalog_Laws
  imports Catalog Approval_Laws Versioned
begin

section \<open>Laws of the catalog\<close>

text \<open>
  A product exists once per SKU and an offer once per channel and product, whatever catalog
  calls are made; an import raises without a trace; and an approved offer is read back exactly
  when it is still what was approved and its evidence is fresh.
\<close>

subsection \<open>Saving once\<close>

interpretation import_saved: saved_once prior_import save_catalog_import same_import
  by unfold_locales
    (auto simp: save_catalog_import_def same_import_def prior_import_def check_def first_dset_new split: option.splits if_splits)

interpretation offer_saved: saved_once prior_offer save_channel_offer same_offer
  by unfold_locales
    (auto simp: save_channel_offer_def same_offer_def prior_offer_def check_def first_dset_new split: option.splits if_splits)

subsection \<open>One product per SKU, one offer per channel\<close>

definition offer_key :: "demo_channel_offer \<Rightarrow> string \<times> string" where
  "offer_key v = (ofr_channel_id v, ofr_canonical_product_id v)"

definition catalog_unique :: "repo \<Rightarrow> bool" where
  "catalog_unique r \<longleftrightarrow> (\<forall>t. distinct (map cp_sku (rows t (canonical_products r))) \<and>
     distinct (map offer_key (rows t (channel_offers r))))"

interpretation catalog_inv: table_invariant "{T_canonical_products, T_channel_offers}" catalog_unique
proof
  fix r r' assume same: "\<And>x. x \<in> {T_canonical_products, T_channel_offers} \<Longrightarrow> same_table x r r'" and u: "catalog_unique r"
  from same [of T_canonical_products] same [of T_channel_offers] u show "catalog_unique r'" by (simp add: catalog_unique_def)
qed

text \<open>A row with a new key leaves the keys distinct, even where it takes the place of another row.\<close>

lemma distinct_rows_dset:
  "distinct (map f (rows t d)) \<Longrightarrow> (\<And>u. fst k = t \<Longrightarrow> u \<in> set (rows t d) \<Longrightarrow> f u \<noteq> f v) \<Longrightarrow> distinct (map f (rows t (dset k v d)))"
proof (induction d)
  case (Cons x d)
  have "f (snd x) \<notin> f ` set (rows t (dset k v d))" if "fst (fst x) = t" "fst k = t"
  proof
    assume "f (snd x) \<in> f ` set (rows t (dset k v d))"
    then obtain u where "u \<in> insert v (set (rows t d))" "f (snd x) = f u" using rows_dset_sub [of t k v d] by blast
    moreover have "f (snd x) \<noteq> f v" "f (snd x) \<notin> f ` set (rows t d)"
      using Cons.prems that by (auto simp: rows_Cons)
    ultimately show False by auto
  qed
  moreover have "rows t (dset k v d) = rows t d" if "fst k \<noteq> t"
    using that by (induction d) (auto simp: rows_def)
  moreover have "f v \<notin> f ` set (rows t d)" if "fst k = t"
    using Cons.prems(2) [OF that] by (fastforce simp: rows_Cons split: if_splits)
  ultimately show ?case using Cons by (cases x) (auto simp: rows_Cons split: if_splits)
qed (simp add: rows_def)

lemma save_product_unique:
  "save_canonical_product v r = Inr (p, r') \<Longrightarrow> catalog_unique r \<Longrightarrow> catalog_unique r'"
  by (auto simp: save_canonical_product_def prior_product_def catalog_unique_def checks_ok first_None split: option.splits
      intro!: distinct_rows_dset)

lemma save_offer_unique:
  "save_channel_offer v r = Inr (pb, r') \<Longrightarrow> catalog_unique r \<Longrightarrow> catalog_unique r'"
  by (auto simp: save_channel_offer_def prior_offer_def catalog_unique_def checks_ok first_None offer_key_def split: option.splits
      intro!: distinct_rows_dset)

lemma keeps_save_product:
  "keeps h (\<lambda>r. wf_repo r \<and> catalog_unique r) (mutate (save_canonical_product v)) (\<lambda>_. True)"
  by (rule keeps_wf_mutate [OF acts_save_canonical_product [OF refl, where L = UNIV]]) (auto intro: save_product_unique)

lemma keeps_save_offer:
  "keeps h (\<lambda>r. wf_repo r \<and> catalog_unique r) (mutate (save_channel_offer v)) (\<lambda>_. True)"
  by (rule keeps_wf_mutate [OF acts_save_channel_offer [OF refl, where L = UNIV]]) (auto intro: save_offer_unique)

lemma keeps_import_row:
  "keeps h (\<lambda>r. wf_repo r \<and> catalog_unique r) (import_row t supplier batch now x) (\<lambda>_. True)"
  unfolding import_row_def
  by (rule keeps_bnd [OF keeps_save_product] keeps_intros catalog_inv.skips [where t = t]
      catalog_inv.skip [where t = t] acts_rules TrueI | simp)+

datatype catalog_call =
    Import tenant_context string json string
  | Project tenant_context string string "int option" int
  | Ask tenant_context string string int
  | Verify tenant_context string string int

fun catalog_op :: "catalog_call \<Rightarrow> unit svc" where
  "catalog_op (Import ctx supplier xs key) = void (ingest_demo_catalog ctx supplier xs key)"
| "catalog_op (Project ctx pid channel price age) = void (project_demo_offer ctx pid channel price age)"
| "catalog_op (Ask ctx oid key age) = void (request_demo_offer_approval ctx oid key age)"
| "catalog_op (Verify ctx oid cid age) = void (verify_approved_demo_offer ctx oid cid age)"

fun run_catalog :: "catalog_call list \<Rightarrow> world \<Rightarrow> world" where
  "run_catalog [] s = s"
| "run_catalog (c # cs) s = run_catalog cs (snd (catalog_op c s))"

lemma catalog_op_unique: "keeps h (\<lambda>r. wf_repo r \<and> catalog_unique r) (catalog_op c) (\<lambda>_. True)"
proof (cases c)
  case (Import ctx supplier xs key)
  have "keeps h (\<lambda>r. wf_repo r \<and> catalog_unique r) (ingest_demo_catalog ctx supplier xs key) (\<lambda>_. True)"
    unfolding ingest_demo_catalog_def Let_def
    by (rule keeps_seq [OF keeps_foreach [OF keeps_import_row]] keeps_intros
        catalog_inv.skips [where t = "ctx_tenant_id ctx"] acts_rules TrueI | simp)+
  then show ?thesis by (simp add: Import keeps_void)
next
  case (Project ctx pid channel price age)
  have "keeps h (\<lambda>r. wf_repo r \<and> catalog_unique r) (project_demo_offer ctx pid channel price age) (\<lambda>_. True)"
    unfolding project_demo_offer_def Let_def
    by (rule keeps_bnd [OF keeps_save_offer] keeps_intros catalog_inv.skips [where t = "ctx_tenant_id ctx"]
        acts_rules TrueI | simp)+
  then show ?thesis by (simp add: Project keeps_void)
next
  case (Ask ctx oid key age)
  then show ?thesis
    using keeps_void [OF catalog_inv.acts_keep [OF acts_request_demo_offer_approval [of "insert T_approval_intents approval_tables"]]]
    by simp
next
  case (Verify ctx oid cid age)
  then show ?thesis
    using keeps_void [OF catalog_inv.acts_keep [OF acts_verify_approved_demo_offer [where L = "{}"]]] by simp
qed

text \<open>
  C30: A SKU is one product and a channel carries a product once.  Whatever imports, projections and
  approvals the members of whatever tenants make in whatever order, no two canonical products
  of a tenant have the same SKU and no two of its offers the same channel and product.
\<close>

theorem catalog_keys_unique:
  assumes "wf_repo (db s)" "catalog_unique (db s)"
  shows "catalog_unique (db (run_catalog cs s))"
proof -
  have "wf_repo (db (run_catalog cs s)) \<and> catalog_unique (db (run_catalog cs s))"
    using assms
    by (induction cs s rule: run_catalog.induct) (simp_all add: keeps_run [OF catalog_op_unique refl])
  then show ?thesis by simp
qed

subsection \<open>Reading an approved offer back\<close>

definition offer_stored :: "repo \<Rightarrow> string \<Rightarrow> string \<Rightarrow> demo_channel_offer \<Rightarrow> demo_canonical_product \<Rightarrow> bool" where
  "offer_stored r t oid offer p \<longleftrightarrow> dget (channel_offers r) (t, oid) = Some offer
     \<and> dget (canonical_products r) (t, ofr_canonical_product_id offer) = Some p
     \<and> ofr_source_snapshot_id offer = cp_source_snapshot_id p \<and> ofr_currency offer = cp_currency p"

text \<open>A live approval of exactly this content, at this version.\<close>

definition approved_as :: "(string \<Rightarrow> string) \<Rightarrow> repo \<Rightarrow> string \<Rightarrow> string \<Rightarrow> demo_channel_offer \<Rightarrow> json \<Rightarrow> time \<Rightarrow> bool" where
  "approved_as h r t cid offer payload now \<longleftrightarrow> (\<exists>c a i. dget (commands r) (t, cid) = Some c
     \<and> dget (approvals r) (t, cid) = Some a \<and> dget (approval_intents r) (t, cid) = Some i
     \<and> cmd_kind c = Kind_PRODUCT \<and> cmd_target_ref c = offer_target offer
     \<and> cmd_state c = Cmd_APPROVED \<and> ap_state a = Apr_APPROVED \<and> now < ap_expires_at a
     \<and> h (canonical (cmd_payload c)) = h (canonical payload) \<and> ai_target_version i = ofr_version offer)"

text \<open>The latest projection was READY at exactly this price, the latest count is positive, both are fresh.\<close>

definition evidence_good :: "repo \<Rightarrow> string \<Rightarrow> string \<Rightarrow> int \<Rightarrow> int \<Rightarrow> time \<Rightarrow> bool" where
  "evidence_good r t sku price age now \<longleftrightarrow>
     (case (last_of (price_projections_for t (Some sku) r), last_of (inventory_snapshots_for t (Some sku) r)) of
        (Some x, Some q) \<Rightarrow> pp_status x = ''READY'' \<and> pp_selling_price_minor x = price \<and> now - seconds age \<le> pp_calculated_at x
          \<and> now - seconds age \<le> iv_observed_at q \<and> 1 \<le> iv_quantity q
      | _ \<Rightarrow> False)"

definition may_release :: "tenant_context \<Rightarrow> string \<Rightarrow> string \<Rightarrow> int \<Rightarrow> world \<Rightarrow> bool" where
  "may_release ctx oid cid age s \<longleftrightarrow> (let t = ctx_tenant_id ctx; now = clock_src s (clock_ctr s); later = clock_src s (Suc (clock_ctr s)) in
     require ctx Cap_TENANT_ADMIN s = (Inr (), s) \<and> opaque oid \<and> opaque cid
     \<and> (\<exists>offer p. offer_stored (db s) t oid offer p \<and> approved_as (sha256 s) (db s) t cid offer (offer_payload offer p) now
          \<and> evidence_good (db s) t (cp_sku p) (ofr_price_minor offer) age later))"

lemma gates_ok:
  "(\<exists>ev s'. gates ctx sku age (Some n) s = (Inr ev, s')) \<longleftrightarrow>
     evidence_good (db s) (ctx_tenant_id ctx) sku n age (clock_src s (clock_ctr s))"
  unfolding gates_def Let_def
  by (auto simp: svc_ok evidence_good_def gates_at_def checks_ok Let_def split: option.splits)

lemma offer_intent_ok:
  "offer_intent ctx oid s = (Inr x, s') \<longleftrightarrow> s' = s \<and> opaque oid
     \<and> (\<exists>offer p. offer_stored (db s) (ctx_tenant_id ctx) oid offer p \<and> x = (offer, p, offer_payload offer p))"
  unfolding offer_intent_def Let_def
  by (auto simp: svc_ok catalog_id_def checks_ok offer_stored_def get_channel_offer_def
      get_canonical_product_def split: option.splits)

lemma approval_for_stored:
  "wf_repo r \<Longrightarrow> dget (commands r) (t, cid) = Some c \<Longrightarrow>
     get_approval_for_command t (cmd_id c) r = Inr a \<longleftrightarrow> dget (approvals r) (t, cid) = Some a"
proof -
  assume "wf_repo r" and c: "dget (commands r) (t, cid) = Some c"
  then have "cmd_id c = cid" "get_command t cid r = Inr c" using get_command_keys [of r t cid c] by (simp_all add: get_command_ok)
  then show ?thesis by (auto simp: get_approval_for_command_def split: option.splits)
qed

text \<open>
  C29: An approved offer is released exactly when it still may be.  \<open>verify_approved_demo_offer\<close> returns
  for an administrator exactly when the stored offer still matches its product, the command is
  an approved, unexpired PRODUCT approval of this offer whose payload has the digest of the
  offer as it is now and whose intent has its version, and the latest evidence is good.
\<close>

theorem offer_released_exactly:
  assumes "wf_repo (db s)"
  shows "(\<exists>v s'. verify_approved_demo_offer ctx oid cid age s = (Inr v, s')) \<longleftrightarrow> may_release ctx oid cid age s"
proof -
  let ?t = "ctx_tenant_id ctx"
  have g: "(\<exists>ev s'. gates ctx sku age (Some n) (s\<lparr>clock_ctr := Suc (clock_ctr s)\<rparr>) = (Inr ev, s')) \<longleftrightarrow>
      evidence_good (db s) ?t sku n age (clock_src s (Suc (clock_ctr s)))" for sku n
    by (subst gates_ok) simp
  have "(\<exists>v s'. verify_approved_demo_offer ctx oid cid age s = (Inr v, s')) \<longleftrightarrow>
      (\<exists>offer p c a i. require ctx Cap_TENANT_ADMIN s = (Inr (), s) \<and> opaque oid \<and> offer_stored (db s) ?t oid offer p \<and> opaque cid
        \<and> dget (commands (db s)) (?t, cid) = Some c \<and> get_approval_for_command ?t (cmd_id c) (db s) = Inr a
        \<and> approves offer c a = Inr () \<and> clock_src s (clock_ctr s) < ap_expires_at a
        \<and> sha256 s (canonical (cmd_payload c)) = sha256 s (canonical (offer_payload offer p))
        \<and> get_approval_intent ?t (cmd_id c) (db s) = Some i \<and> ai_target_version i = ofr_version offer
        \<and> (\<exists>ev s'. gates ctx (cp_sku p) age (Some (ofr_price_minor offer)) (s\<lparr>clock_ctr := Suc (clock_ctr s)\<rparr>) = (Inr ev, s')))"
    unfolding verify_approved_demo_offer_def Let_def
    by (auto simp: svc_ok offer_intent_ok get_command_ok digest_ok catalog_id_def checks_ok require_ok)
      (blast, fastforce)
  also have "\<dots> \<longleftrightarrow> may_release ctx oid cid age s"
    unfolding g may_release_def Let_def approved_as_def approves_def
    using get_command_keys [OF assms, of ?t cid] approval_for_stored [OF assms, of ?t cid]
    by (auto simp: checks_ok get_approval_intent_def get_command_ok) blast+
  finally show ?thesis .
qed

subsection \<open>A catalog with an approved offer\<close>

definition demo_product :: demo_canonical_product where
  "demo_product = \<lparr>cp_id = ''p1'', cp_tenant_id = ''u0'', cp_sku = ''s1'', cp_title = ''Mug'', cp_category = ''Home'',
     cp_price_minor = 500, cp_currency = ''KRW'', cp_attributes_json = ''{}'', cp_source_snapshot_id = ''n1'', cp_version = 1, cp_created_at = 0\<rparr>"

definition demo_offer :: demo_channel_offer where
  "demo_offer = \<lparr>ofr_id = ''1'', ofr_tenant_id = ''u0'', ofr_channel_id = ''c1'', ofr_canonical_product_id = ''p1'',
     ofr_source_snapshot_id = ''n1'', ofr_external_key = ''s1'', ofr_price_minor = 500, ofr_currency = ''KRW'', ofr_version = 1, ofr_created_at = 0\<rparr>"

definition demo_ready :: demo_price_projection where
  "demo_ready = \<lparr>pp_id = ''j1'', pp_tenant_id = ''u0'', pp_sku = ''s1'', pp_selling_price_minor = 500, pp_supply_cost_minor = 100,
     pp_variable_cost_minor = 0, pp_fee_rate = ''0'', pp_projected_contribution_minor = 400, pp_projected_margin = ''0.8000'',
     pp_status = ''READY'', pp_calculated_at = 5000000\<rparr>"

definition demo_stock :: demo_inventory_snapshot where
  "demo_stock = \<lparr>iv_id = ''v1'', iv_tenant_id = ''u0'', iv_sku = ''s1'', iv_supplier_id = ''sup'', iv_quantity = 3, iv_observed_at = 5000000\<rparr>"

definition demo_offered :: world where
  "demo_offered = demo_decided\<lparr>db := save_price_projection demo_ready (save_inventory_snapshot demo_stock ((db demo_decided)\<lparr>
     canonical_products := [((''u0'', ''p1''), demo_product)], channel_offers := [((''u0'', ''1''), demo_offer)]\<rparr>))\<rparr>"

lemma demo_decided_catalog:
  "canonical_products (db demo_decided) = []" "channel_offers (db demo_decided) = []"
  "price_projections (db demo_decided) = []" "inventory_snapshots (db demo_decided) = []"
  using demo_decided_untouched [of T_canonical_products] demo_decided_untouched [of T_channel_offers]
    demo_decided_untouched [of T_price_projections] demo_decided_untouched [of T_inventory_snapshots]
  by (simp_all add: demo_tenant_more)

lemma demo_offered_wf: "wf_repo (db demo_offered)"
proof -
  let ?r = "(db demo_decided)\<lparr>canonical_products := [((''u0'', ''p1''), demo_product)]\<rparr>"
  have "repo_write h ''u0'' T_canonical_products (db demo_decided) ?r" for h
    using W_canonical_products [of demo_product "''u0''" h "db demo_decided"] by (simp add: demo_product_def demo_decided_catalog)
  then have a: "wf_repo ?r" using wf_write demo_decided_wf by blast
  have "repo_write h ''u0'' T_channel_offers ?r (?r\<lparr>channel_offers := [((''u0'', ''1''), demo_offer)]\<rparr>)" for h
    using W_channel_offers [of demo_offer "''u0''" h ?r] by (simp add: demo_offer_def demo_decided_catalog)
  then have "wf_repo (?r\<lparr>channel_offers := [((''u0'', ''1''), demo_offer)]\<rparr>)" using wf_write a by blast
  then show ?thesis by (simp add: demo_offered_def wf_saved)
qed

lemma demo_may_release: "may_release demo_master ''1'' ''u4'' 60 demo_offered"
proof -
  have "offer_stored (db demo_offered) ''u0'' ''1'' demo_offer demo_product"
    by (simp add: offer_stored_def demo_offered_def save_price_projection_def save_inventory_snapshot_def demo_offer_def demo_product_def)
  moreover have "approved_as (sha256 demo_offered) (db demo_offered) ''u0'' ''u4'' demo_offer (offer_payload demo_offer demo_product) 7000000"
    by (simp add: approved_as_def demo_offered_def save_price_projection_def save_inventory_snapshot_def demo_decided_runs
        demo_decided_rest demo_simps demo_offer_def offer_target_def)
  moreover have "evidence_good (db demo_offered) ''u0'' ''s1'' 500 60 8000000"
    by (simp add: evidence_good_def demo_offered_def save_price_projection_def save_inventory_snapshot_def demo_decided_catalog
        price_projections_for_def inventory_snapshots_for_def rows_def demo_ready_def demo_stock_def last_of_def seconds_def)
  moreover have "require demo_master Cap_TENANT_ADMIN demo_offered = (Inr (), demo_offered)"
    by (simp add: require_ok demo_master_def demo_offered_def save_price_projection_def save_inventory_snapshot_def demo_decided_rest
        demo_tenant_tables new_membership_def member_capabilities_def)
  moreover have "clock_src demo_offered (clock_ctr demo_offered) = 7000000" "clock_src demo_offered (Suc (clock_ctr demo_offered)) = 8000000"
    "ctx_tenant_id demo_master = ''u0''" "opaque ''1''" "opaque ''u4''" "cp_sku demo_product = ''s1''" "ofr_price_minor demo_offer = 500"
    by (simp_all add: demo_offered_def demo_decided_rest demo_world_def demo_master_def opaque_def opaque_with_def is_alnum_def
        is_digit_def is_lower_def demo_product_def demo_offer_def)
  ultimately show ?thesis unfolding may_release_def by (metis (no_types, lifting))
qed

theorem offer_released_exactly_witness:
  "\<exists>v s'. verify_approved_demo_offer demo_master ''1'' ''u4'' 60 demo_offered = (Inr v, s')"
  using offer_released_exactly [OF demo_offered_wf] demo_may_release by simp

theorem catalog_keys_unique_witness:
  "catalog_unique (db (run_catalog [Project demo_master ''p1'' ''c2'' (Some 700) 60, Verify demo_master ''1'' ''u4'' 60] demo_offered))"
  by (rule catalog_keys_unique [OF demo_offered_wf])
    (simp add: catalog_unique_def demo_offered_def save_price_projection_def save_inventory_snapshot_def rows_def)

end
