(* ===== verification/Browser.thy ===== *)
theory Browser
  imports Purchasing
begin

section \<open>Browser sessions and confirmation nonces\<close>

text \<open>
  browser_auth.py and its two tables: a session is stored under the digest of its token and
  carries the membership version it was issued for; a decision through the browser needs a
  nonce issued to that session for that approval, which it uses up.  The service clock is
  aware of its time zone, so the check of issue_browser_session for it never fails.
\<close>

subsection \<open>Repository methods\<close>

definition save_browser_session :: "browser_session \<Rightarrow> repo \<Rightarrow> err + (unit \<times> repo)" where
  "save_browser_session v r = (if dget (browser_sessions r) (bs_token_digest v) \<noteq> None
     then Inl (ConflictError ''browser session already exists'')
     else Inr ((), r\<lparr>browser_sessions := dset (bs_token_digest v) v (browser_sessions r)\<rparr>))"

definition get_browser_session :: "string \<Rightarrow> repo \<Rightarrow> browser_session option" where
  "get_browser_session d r = dget (browser_sessions r) d"

definition save_nonce :: "approval_confirmation_nonce \<Rightarrow> repo \<Rightarrow> err + (unit \<times> repo)" where
  "save_nonce v r = (if dget (approval_confirmation_nonces r) (nc_token_digest v) \<noteq> None
     then Inl (ConflictError ''approval confirmation nonce already exists'')
     else Inr ((), r\<lparr>approval_confirmation_nonces := dset (nc_token_digest v) v (approval_confirmation_nonces r)\<rparr>))"

definition consume_nonce :: "string \<Rightarrow> string \<Rightarrow> string \<Rightarrow> string \<Rightarrow> string \<Rightarrow> time \<Rightarrow> repo \<Rightarrow> err + (unit \<times> repo)" where
  "consume_nonce d session t aid cid now r = (let bad = ConflictError ''invalid or expired approval confirmation nonce'' in
     case dget (approval_confirmation_nonces r) d of
       None \<Rightarrow> Inl bad
     | Some v \<Rightarrow> check (nc_session_digest v = session \<and> nc_tenant_id v = t \<and> nc_approval_id v = aid \<and> nc_command_id v = cid
           \<and> nc_consumed_at v = None \<and> now < nc_expires_at v) bad (
         Inr ((), r\<lparr>approval_confirmation_nonces := dset d (v\<lparr>nc_consumed_at := Some now\<rparr>) (approval_confirmation_nonces r)\<rparr>)))"

subsection \<open>Operations\<close>

definition is_token :: "string \<Rightarrow> bool" where
  "is_token s \<longleftrightarrow> 32 \<le> length s \<and> length s \<le> 128 \<and> list_all (\<lambda>c. is_alnum c \<or> c \<in> set ''_-'') s"

definition token_digest :: "string \<Rightarrow> string svc" where
  "token_digest token = ensure (is_token token) (AuthorizationError ''invalid browser credential'') (sha256_hex token)"

definition browser_session_cookie :: "string \<Rightarrow> int \<Rightarrow> bool \<Rightarrow> err + string" where
  "browser_session_cookie token max_age secure =
     check (is_token token) (AuthorizationError ''invalid browser credential'') (
     check (60 \<le> max_age \<and> max_age \<le> 86400) (ConflictError ''invalid browser session cookie lifetime'') (
     Inr (''store_session='' @ token @ ''; Max-Age='' @ show_int max_age @ ''; Path=/; HttpOnly; SameSite=Strict''
       @ (if secure then ''; Secure'' else []))))"

definition issue_browser_session :: "tenant_context \<Rightarrow> string \<Rightarrow> int \<Rightarrow> (string \<times> time) svc" where
  "issue_browser_session ctx assertion ttl =
     ensure (opaque_colon assertion \<and> seconds 60 \<le> ttl \<and> ttl \<le> hours 24) (ConflictError ''invalid verified identity assertion'') (
     bnd (membership_of ctx) (\<lambda>m.
     bnd clock (\<lambda>now. bnd token_urlsafe (\<lambda>token.
     let expires = now + ttl in
     seq (transaction (
       seq (void (membership_of ctx)) (
       bnd (token_digest token) (\<lambda>d.
       mutate (save_browser_session \<lparr>bs_token_digest = d, bs_tenant_id = ctx_tenant_id ctx, bs_user_id = ctx_user_id ctx,
         bs_membership_version = mb_version m, bs_identity_assertion_ref = assertion, bs_issued_at = now, bs_expires_at = expires\<rparr>)))))
     (ret (token, expires))))))"

definition session_context :: "browser_session \<Rightarrow> tenant_context" where
  "session_context v = \<lparr>ctx_tenant_id = bs_tenant_id v, ctx_user_id = bs_user_id v, ctx_membership_version = bs_membership_version v\<rparr>"

definition authenticate_browser_session :: "string \<Rightarrow> tenant_context svc" where
  "authenticate_browser_session token =
     bnd (token_digest token) (\<lambda>d.
     bnd (reads (get_browser_session d)) (\<lambda>session.
     case session of None \<Rightarrow> throw (AuthorizationError ''browser session expired or unknown'')
     | Some v \<Rightarrow>
       bnd clock (\<lambda>now.
       ensure (now < bs_expires_at v) (AuthorizationError ''browser session expired or unknown'') (
       seq (void (membership_of (session_context v))) (
       ret (session_context v))))))"

definition issue_nonce :: "string \<Rightarrow> string \<Rightarrow> int \<Rightarrow> (string \<times> time) svc" where
  "issue_nonce session_token aid ttl =
     ensure (opaque_colon aid \<and> seconds 30 \<le> ttl \<and> ttl \<le> seconds 600) (ConflictError ''invalid approval confirmation request'') (
     bnd (authenticate_browser_session session_token) (\<lambda>ctx. let t = ctx_tenant_id ctx in
     transaction (
       bnd (query (get_approval t aid)) (\<lambda>a.
       seq (require ctx (approval_capability (ap_kind a))) (
       bnd (query (get_command t (ap_command_id a))) (\<lambda>c.
       bnd clock (\<lambda>now.
       ensure (ap_state a = Apr_PENDING \<and> now < ap_expires_at a) (ConflictError ''approval is not pending'') (
       bnd token_urlsafe (\<lambda>token.
       let expires = min (now + ttl) (ap_expires_at a) in
       bnd (token_digest token) (\<lambda>d. bnd (token_digest session_token) (\<lambda>sd.
       seq (mutate (save_nonce \<lparr>nc_token_digest = d, nc_session_digest = sd, nc_tenant_id = t, nc_approval_id = ap_id a,
              nc_command_id = cmd_id c, nc_issued_at = now, nc_expires_at = expires, nc_consumed_at = None\<rparr>)) (
       ret (token, expires)))))))))))))"

text \<open>The transaction that uses the nonce up; it is committed before the decision is made.\<close>

definition confirm :: "tenant_context \<Rightarrow> string \<Rightarrow> string \<Rightarrow> string \<Rightarrow> approval svc" where
  "confirm ctx session_token aid nonce = (let t = ctx_tenant_id ctx in
     transaction (
       bnd (query (get_approval t aid)) (\<lambda>a.
       seq (require ctx (approval_capability (ap_kind a))) (
       bnd (token_digest nonce) (\<lambda>d. bnd (token_digest session_token) (\<lambda>sd.
       bnd clock (\<lambda>now.
       seq (mutate (consume_nonce d sd t (ap_id a) (ap_command_id a) now)) (
       ret a))))))))"

definition decide_approval_authenticated :: "string \<Rightarrow> string \<Rightarrow> bool \<Rightarrow> string \<Rightarrow> string \<Rightarrow> approval svc" where
  "decide_approval_authenticated session_token aid approve reason nonce =
     ensure (\<not> blank reason \<and> py_len reason \<le> 1000) (ConflictError ''invalid approval decision'') (
     bnd (authenticate_browser_session session_token) (\<lambda>ctx.
     bnd (confirm ctx session_token aid nonce) (\<lambda>a.
     decide ctx (ap_command_id a) approve reason)))"

end
