(* ===== verification/Browser_Laws.thy ===== *)
theory Browser_Laws
  imports Browser Approval_Laws
begin

section \<open>Laws of the browser boundary\<close>

text \<open>
  What a decision through the browser rests on, and that the nonce it uses is spent for good.
\<close>

subsection \<open>What these calls write\<close>

lemma acts_token_digest [acts_rules]: "acts h t L (token_digest token) (\<lambda>_. True)"
  unfolding token_digest_def by (rule acts_rules TrueI)+

lemma acts_authenticate [acts_rules]: "acts h t L (authenticate_browser_session token) (\<lambda>_. True)"
  unfolding authenticate_browser_session_def by (rule acts_rules TrueI)+

lemma acts_save_nonce:
  "nc_tenant_id v = t \<Longrightarrow> T_approval_confirmation_nonces \<in> L \<Longrightarrow> acts h t L (mutate (save_nonce v)) (\<lambda>_. True)"
  by (rule acts_mutate) (auto simp: save_nonce_def split: if_splits intro!: writes_one W_approval_confirmation_nonces)

lemma acts_consume_nonce:
  "T_approval_confirmation_nonces \<in> L \<Longrightarrow> acts h t L (mutate (consume_nonce d sd t aid cid now)) (\<lambda>_. True)"
proof (rule acts_mutate)
  fix r a r' assume L: "T_approval_confirmation_nonces \<in> L" and wf: "wf_repo r" and run: "consume_nonce d sd t aid cid now r = Inr (a, r')"
  then obtain v where v: "dget (approval_confirmation_nonces r) d = Some v" "nc_tenant_id v = t"
    and r': "r' = r\<lparr>approval_confirmation_nonces := dset d (v\<lparr>nc_consumed_at := Some now\<rparr>) (approval_confirmation_nonces r)\<rparr>"
    by (auto simp: consume_nonce_def Let_def checks_ok split: option.splits)
  have "keyed nc_token_digest (approval_confirmation_nonces r)"
    using wf_tableD [OF wf, of T_approval_confirmation_nonces] by simp
  then have d: "nc_token_digest v = d" using v(1) keyed_dget by metis
  have "repo_write h t T_approval_confirmation_nonces r r'"
    unfolding r' using W_approval_confirmation_nonces [of "v\<lparr>nc_consumed_at := Some now\<rparr>" t r h] v d by simp
  then show "writes h t L r r' \<and> True" using L writes_one by blast
qed

lemma acts_save_session:
  "bs_tenant_id v = t \<Longrightarrow> T_browser_sessions \<in> L \<Longrightarrow> acts h t L (mutate (save_browser_session v)) (\<lambda>_. True)"
  by (rule acts_mutate) (auto simp: save_browser_session_def split: if_splits intro!: writes_one W_browser_sessions)

lemma acts_issue_browser_session:
  "T_browser_sessions \<in> L \<Longrightarrow> acts h (ctx_tenant_id ctx) L (issue_browser_session ctx assertion ttl) (\<lambda>_. True)"
  unfolding issue_browser_session_def Let_def
  by (rule acts_save_session acts_rules TrueI | simp)+

subsection \<open>A nonce is spent for good\<close>

definition spent :: "string \<Rightarrow> repo \<Rightarrow> bool" where
  "spent d r \<longleftrightarrow> (\<exists>v. dget (approval_confirmation_nonces r) d = Some v \<and> nc_consumed_at v \<noteq> None)"

interpretation nonce_inv: table_invariant "{T_approval_confirmation_nonces}" "spent d" for d
  by unfold_locales (auto simp: spent_def)

lemma keeps_save_nonce: "keeps h (\<lambda>r. wf_repo r \<and> spent d r) (mutate (save_nonce v)) (\<lambda>_. True)"
  by (rule keeps_wf_mutate [OF acts_save_nonce [OF refl, where L = UNIV]])
    (auto simp: save_nonce_def spent_def dget_dset split: if_splits)

lemma keeps_consume_nonce:
  "keeps h (\<lambda>r. wf_repo r \<and> spent d r) (mutate (consume_nonce e sd t aid cid now)) (\<lambda>_. True)"
  by (rule keeps_wf_mutate [OF acts_consume_nonce [where L = UNIV]])
    (auto simp: consume_nonce_def Let_def spent_def dget_dset checks_ok split: option.splits if_splits)

lemma keeps_confirm: "keeps h (\<lambda>r. wf_repo r \<and> spent d r) (confirm ctx st aid nonce) (\<lambda>_. True)"
  unfolding confirm_def Let_def
  by (rule keeps_seq [OF keeps_consume_nonce] keeps_intros nonce_inv.skips [where t = "ctx_tenant_id ctx"] acts_rules TrueI | simp)+

lemma keeps_confirm_wf: "keeps h wf_repo (confirm ctx st aid nonce) (\<lambda>_. True)"
proof (rule keepsI)
  fix s s' :: world and x
  have "acts h (ctx_tenant_id ctx) UNIV (confirm ctx st aid nonce) (\<lambda>_. True)"
    unfolding confirm_def Let_def by (rule acts_consume_nonce acts_rules TrueI | simp)+
  moreover assume "sha256 s = h" "wf_repo (db s)" "confirm ctx st aid nonce s = (x, s')"
  ultimately show "sha256 s' = h \<and> wf_repo (db s') \<and> (\<forall>a. x = Inr a \<longrightarrow> True)" using actsD by blast
qed

lemma keeps_decide_spent: "keeps h (\<lambda>r. wf_repo r \<and> spent d r) (decide ctx cid approve reason) (\<lambda>_. True)"
  by (rule nonce_inv.acts_keep [OF acts_decide [OF subset_refl]]) simp

lemma keeps_decide_authenticated:
  "keeps h (\<lambda>r. wf_repo r \<and> spent d r) (decide_approval_authenticated st aid approve reason nonce) (\<lambda>_. True)"
  unfolding decide_approval_authenticated_def
  by (rule keeps_bnd [OF keeps_confirm] keeps_decide_spent keeps_intros nonce_inv.skips [where t = "[]"] acts_rules TrueI | simp)+

lemma keeps_issue_nonce: "keeps h (\<lambda>r. wf_repo r \<and> spent d r) (issue_nonce st aid ttl) (\<lambda>_. True)"
  unfolding issue_nonce_def Let_def
  by (rule keeps_seq [OF keeps_save_nonce] keeps_intros nonce_inv.skips [where t = "[]"] acts_rules TrueI | simp)+

datatype browser_call =
    Login tenant_context string int
  | Nonce string string int
  | Decide_with string string bool string string
  | Decide_as tenant_context string bool string

fun browser_op :: "browser_call \<Rightarrow> unit svc" where
  "browser_op (Login ctx assertion ttl) = void (issue_browser_session ctx assertion ttl)"
| "browser_op (Nonce st aid ttl) = void (issue_nonce st aid ttl)"
| "browser_op (Decide_with st aid approve reason nonce) = void (decide_approval_authenticated st aid approve reason nonce)"
| "browser_op (Decide_as ctx cid approve reason) = void (decide ctx cid approve reason)"

fun run_browser :: "browser_call list \<Rightarrow> world \<Rightarrow> world" where
  "run_browser [] s = s"
| "run_browser (c # cs) s = run_browser cs (snd (browser_op c s))"

lemma browser_op_spent: "keeps h (\<lambda>r. wf_repo r \<and> spent d r) (browser_op c) (\<lambda>_. True)"
proof (cases c)
  case (Login ctx assertion ttl)
  then show ?thesis
    using keeps_void [OF nonce_inv.acts_keep [OF acts_issue_browser_session [of "{T_browser_sessions}"]]] by simp
qed (simp_all add: keeps_void [OF keeps_issue_nonce] keeps_void [OF keeps_decide_authenticated] keeps_void [OF keeps_decide_spent])

lemma run_browser_spent:
  "wf_repo (db s) \<Longrightarrow> spent d (db s) \<Longrightarrow>
     wf_repo (db (run_browser cs s)) \<and> spent d (db (run_browser cs s)) \<and> sha256 (run_browser cs s) = sha256 s"
  by (induction cs s rule: run_browser.induct) (simp_all add: keeps_run [OF browser_op_spent refl])

subsection \<open>What a decision rests on\<close>

lemma token_digest_ok: "token_digest x s = (Inr d, s') \<longleftrightarrow> is_token x \<and> d = sha256 s x \<and> s' = s"
  by (auto simp: token_digest_def svc_ok)

definition session_live :: "world \<Rightarrow> string \<Rightarrow> browser_session \<Rightarrow> bool" where
  "session_live s token v \<longleftrightarrow> is_token token \<and> dget (browser_sessions (db s)) (sha256 s token) = Some v
     \<and> clock_src s (clock_ctr s) < bs_expires_at v
     \<and> (\<exists>m. dget (memberships (db s)) (bs_tenant_id v, bs_user_id v) = Some m \<and> mb_active m
          \<and> mb_version m = bs_membership_version v)"

lemma authenticate_ok:
  "authenticate_browser_session token s = (Inr ctx, s') \<longleftrightarrow> s' = s\<lparr>clock_ctr := Suc (clock_ctr s)\<rparr>
     \<and> (\<exists>v. session_live s token v \<and> ctx = session_context v)"
  unfolding authenticate_browser_session_def
  by (auto simp: call_ok token_digest_ok get_browser_session_def session_live_def session_context_def)

lemma readonly_authenticate: "readonly (authenticate_browser_session token)"
  unfolding authenticate_browser_session_def token_digest_def void_def membership_of_def by (rule atomic_rules)+

definition nonce_valid :: "world \<Rightarrow> string \<Rightarrow> string \<Rightarrow> string \<Rightarrow> approval \<Rightarrow> time \<Rightarrow> bool" where
  "nonce_valid s nonce token t a now \<longleftrightarrow> is_token nonce \<and> (\<exists>n. dget (approval_confirmation_nonces (db s)) (sha256 s nonce) = Some n
     \<and> nc_session_digest n = sha256 s token \<and> nc_tenant_id n = t \<and> nc_approval_id n = ap_id a
     \<and> nc_command_id n = ap_command_id a \<and> nc_consumed_at n = None \<and> now < nc_expires_at n)"

lemma confirm_ok:
  "confirm ctx token aid nonce s = (Inr a, s') \<Longrightarrow> get_approval (ctx_tenant_id ctx) aid (db s) = Inr a
     \<and> require ctx (approval_capability (ap_kind a)) s = (Inr (), s)
     \<and> nonce_valid s nonce token (ctx_tenant_id ctx) a (clock_src s (clock_ctr s)) \<and> spent (sha256 s nonce) (db s')
     \<and> sha256 s' = sha256 s"
  unfolding confirm_def Let_def
  by (auto simp: svc_ok require_ok token_digest_ok consume_nonce_def Let_def checks_ok nonce_valid_def spent_def split: option.splits)

lemma atomic_confirm: "atomic (confirm ctx token aid nonce)"
  unfolding confirm_def Let_def by (rule atomic_rules)

text \<open>A decision through the browser either changes nothing or went through a confirmation.\<close>

lemma decide_authenticated_cases:
  assumes "decide_approval_authenticated token aid approve reason nonce s = (x, s')"
  obtains (raised) e where "x = Inl e" "db s' = db s"
    | (went) v a u where "session_live s token v" "confirm (session_context v) token aid nonce (s\<lparr>clock_ctr := Suc (clock_ctr s)\<rparr>) = (Inr a, u)"
        "decide (session_context v) (ap_command_id a) approve reason u = (x, s')"
proof (cases "\<not> blank reason \<and> py_len reason \<le> 1000")
  case False
  with assms raised show thesis by (auto simp: decide_approval_authenticated_def ensure_run)
next
  case True
  with assms have "bnd (authenticate_browser_session token) (\<lambda>ctx. bnd (confirm ctx token aid nonce) (\<lambda>a.
      decide ctx (ap_command_id a) approve reason)) s = (x, s')"
    by (simp add: decide_approval_authenticated_def ensure_run)
  then show thesis
  proof (cases rule: bnd_cases)
    case (raised e)
    with readonlyD [OF readonly_authenticate] show thesis by (intro that(1)) auto
  next
    case (went ctx w)
    then obtain v where w: "w = s\<lparr>clock_ctr := Suc (clock_ctr s)\<rparr>" "session_live s token v" "ctx = session_context v"
      unfolding authenticate_ok by blast
    from went(2) show thesis
    proof (cases rule: bnd_cases)
      case (raised e)
      with atomicD [OF atomic_confirm, of ctx token aid nonce w e s'] w show thesis by (intro that(1)) auto
    next
      case (went a u)
      with w show thesis by (intro that(2)) auto
    qed
  qed
qed

text \<open>
  C33: A confirmation nonce works once.  After it has been used, whatever sessions and nonces are
  issued and whatever is decided, a decision with it raises and changes nothing.
\<close>

theorem nonce_single_use:
  assumes "wf_repo (db s)" "spent (sha256 s nonce) (db s)"
  shows "\<exists>e s'. decide_approval_authenticated token aid approve reason nonce (run_browser cs s) = (Inl e, s')
     \<and> db s' = db (run_browser cs s)"
proof -
  let ?w = "run_browser cs s"
  have h: "spent (sha256 ?w nonce) (db ?w)" using run_browser_spent [OF assms, of cs] by simp
  obtain x s' where run: "decide_approval_authenticated token aid approve reason nonce ?w = (x, s')" by fastforce
  then show ?thesis
  proof (cases rule: decide_authenticated_cases)
    case (went v a u)
    with confirm_ok [OF went(2)] h have False by (auto simp: nonce_valid_def spent_def)
    then show ?thesis ..
  qed (use run in auto)
qed

text \<open>
  C32: What a browser decision rests on.  If the call changes anything, returning or raising, the
  token belongs to an unexpired session whose member is active with the version the session
  was issued for and has the capability of the approval's kind, the nonce was issued to this
  session for this approval and its command, was neither used nor expired, and is used now.
\<close>

theorem decision_confirmed:
  assumes run: "decide_approval_authenticated token aid approve reason nonce s = (x, s')"
    and wf: "wf_repo (db s)" and changed: "db s' \<noteq> db s"
  shows "\<exists>v a. session_live s token v \<and> get_approval (bs_tenant_id v) aid (db s) = Inr a
     \<and> require (session_context v) (approval_capability (ap_kind a)) s = (Inr (), s)
     \<and> nonce_valid s nonce token (bs_tenant_id v) a (clock_src s (Suc (clock_ctr s))) \<and> spent (sha256 s nonce) (db s')"
  using run
proof (cases rule: decide_authenticated_cases)
  case (raised e)
  with changed show ?thesis by simp
next
  case (went v a u)
  let ?s = "s\<lparr>clock_ctr := Suc (clock_ctr s)\<rparr>"
  note c = confirm_ok [OF went(2)]
  have "keeps (sha256 s) wf_repo (confirm (session_context v) token aid nonce) (\<lambda>_. True)"
    by (rule keeps_confirm_wf)
  from keepsD [OF this _ _ went(2)] wf have "wf_repo (db u)" by simp
  with c keepsD [OF keeps_decide_spent [of "sha256 s" "sha256 s nonce"] _ _ went(3)] have "spent (sha256 s nonce) (db s')"
    by simp
  with went(1) c show ?thesis
    by (intro exI [of _ v] exI [of _ a]) (auto simp: session_context_def require_ok nonce_valid_def)
qed

subsection \<open>A session with a confirmed decision\<close>

definition demo_token :: string where
  "demo_token = replicate 43 CHR ''a''"

definition demo_session :: browser_session where
  "demo_session = \<lparr>bs_token_digest = replicate 64 CHR ''0'', bs_tenant_id = ''u0'', bs_user_id = ''u1'', bs_membership_version = 1,
     bs_identity_assertion_ref = ''idp:1'', bs_issued_at = 0, bs_expires_at = 28800000000\<rparr>"

definition demo_nonce :: approval_confirmation_nonce where
  "demo_nonce = \<lparr>nc_token_digest = replicate 64 CHR ''0'', nc_session_digest = replicate 64 CHR ''0'', nc_tenant_id = ''u0'',
     nc_approval_id = ''u5'', nc_command_id = ''u4'', nc_issued_at = 4000000, nc_expires_at = 304000000, nc_consumed_at = None\<rparr>"

definition demo_browsing :: world where
  "demo_browsing = demo_requested\<lparr>db := (db demo_requested)\<lparr>browser_sessions := [(replicate 64 CHR ''0'', demo_session)],
     approval_confirmation_nonces := [(replicate 64 CHR ''0'', demo_nonce)]\<rparr>\<rparr>"

lemma demo_requested_browser:
  "browser_sessions (db demo_requested) = []" "approval_confirmation_nonces (db demo_requested) = []"
  using demo_requested_untouched [of T_browser_sessions] demo_requested_untouched [of T_approval_confirmation_nonces]
  by (simp_all add: demo_tenant_more)

lemma demo_browsing_wf: "wf_repo (db demo_browsing)"
proof -
  let ?r = "(db demo_requested)\<lparr>browser_sessions := [(replicate 64 CHR ''0'', demo_session)]\<rparr>"
  have "repo_write h ''u0'' T_browser_sessions (db demo_requested) ?r" for h
    using W_browser_sessions [of demo_session "''u0''" "db demo_requested" h] by (simp add: demo_session_def demo_requested_browser)
  then have "wf_repo ?r" using wf_write demo_requested_wf by blast
  moreover have "repo_write h ''u0'' T_approval_confirmation_nonces ?r (db demo_browsing)" for h
    using W_approval_confirmation_nonces [of demo_nonce "''u0''" ?r h]
    by (simp add: demo_nonce_def demo_requested_browser demo_browsing_def)
  ultimately show ?thesis using wf_write by blast
qed

lemma demo_token_ok: "is_token demo_token"
  by code_simp

lemma demo_confirms:
  "\<exists>u. confirm (session_context demo_session) demo_token ''u5'' demo_token (demo_browsing\<lparr>clock_ctr := Suc (clock_ctr demo_browsing)\<rparr>)
     = (Inr demo_approval, u)"
  unfolding confirm_def Let_def
  by (simp add: op_simps token_digest_def demo_token_ok get_approval_def demo_browsing_def demo_requested_tables rows_def
      demo_approval_def new_approval_def require_def membership_of_def get_membership_def session_context_def demo_session_def
      demo_tenant_tables new_membership_def member_capabilities_def consume_nonce_def demo_world_def demo_nonce_def check_def transaction_def)

definition demo_used :: world where
  "demo_used = snd (decide_approval_authenticated demo_token ''u5'' True ''looks good'' demo_token demo_browsing)"

lemma demo_confirmed:
  "wf_repo (db demo_used)" "spent (sha256 demo_used demo_token) (db demo_used)" "db demo_used \<noteq> db demo_browsing"
proof -
  let ?s = "demo_browsing\<lparr>clock_ctr := Suc (clock_ctr demo_browsing)\<rparr>" and ?c = "session_context demo_session"
  obtain u where u: "confirm ?c demo_token ''u5'' demo_token ?s = (Inr demo_approval, u)" using demo_confirms by blast
  have "authenticate_browser_session demo_token demo_browsing = (Inr ?c, ?s)"
    unfolding authenticate_ok session_live_def
    by (auto simp: demo_token_ok demo_browsing_def demo_requested_tables demo_world_def demo_session_def demo_tenant_tables new_membership_def)
  then have run: "decide_approval_authenticated demo_token ''u5'' True ''looks good'' demo_token demo_browsing
      = decide ?c (ap_command_id demo_approval) True ''looks good'' u"
    using u by (simp add: decide_approval_authenticated_def ensure_run bnd_run demo_len blank_def strip_printable printable_def)
  obtain x s' where d: "decide ?c (ap_command_id demo_approval) True ''looks good'' u = (x, s')" by fastforce
  have "wf_repo (db u)" using keepsD [OF keeps_confirm_wf _ _ u] demo_browsing_wf by simp
  with confirm_ok [OF u] keepsD [OF keeps_decide_spent [of "sha256 u" "sha256 u demo_token"] _ _ d]
  have "wf_repo (db s')" "spent (sha256 s' demo_token) (db s')" by simp_all
  moreover have "\<not> spent (sha256 s' demo_token) (db demo_browsing)"
    by (simp add: spent_def demo_browsing_def demo_nonce_def)
  moreover have "demo_used = s'" using run d by (simp add: demo_used_def)
  ultimately show "wf_repo (db demo_used)" "spent (sha256 demo_used demo_token) (db demo_used)" "db demo_used \<noteq> db demo_browsing"
    by auto
qed

theorem nonce_single_use_witness:
  "\<exists>e s'. decide_approval_authenticated demo_token ''u5'' False ''no'' demo_token
     (run_browser [Nonce demo_token ''u5'' 60000000] demo_used) = (Inl e, s')"
  using nonce_single_use [OF demo_confirmed(1,2), of demo_token "''u5''" False "''no''" "[Nonce demo_token ''u5'' 60000000]"]
  by blast

theorem decision_confirmed_witness: "\<exists>v. session_live demo_browsing demo_token v"
proof -
  have "decide_approval_authenticated demo_token ''u5'' True ''looks good'' demo_token demo_browsing
      = (fst (decide_approval_authenticated demo_token ''u5'' True ''looks good'' demo_token demo_browsing), demo_used)"
    by (simp add: demo_used_def)
  from decision_confirmed [OF this demo_browsing_wf demo_confirmed(3)] show ?thesis by blast
qed

end
