(* ===== verification/Notifications.thy ===== *)
theory Notifications
  imports Approvals Checks
begin

section \<open>Notifications and incidents\<close>

text \<open>
  notifications.py and its three tables: a notification is tried on the preferred channels in
  order until one is not among the failed ones; each attempt is stored once under its
  idempotency key.  An incident is acknowledged once per key.
\<close>

subsection \<open>Repository methods\<close>

definition save_notification_preference :: "demo_notification_preference \<Rightarrow> repo \<Rightarrow> err + (demo_notification_preference \<times> repo)" where
  "save_notification_preference v r = (let key = (pf_tenant_id v, pf_notification_key v) in
     check (pred_option (\<lambda>p. pf_version v = pf_version p + 1) (dget (notification_preferences r) key))
       (ConflictError ''notification preference version conflict'') (
     Inr (v, r\<lparr>notification_preferences := dset key v (notification_preferences r)\<rparr>)))"

definition get_notification_preference :: "string \<Rightarrow> string \<Rightarrow> repo \<Rightarrow> demo_notification_preference option" where
  "get_notification_preference t key r = dget (notification_preferences r) (t, key)"

definition prior_delivery :: "demo_notification_delivery \<Rightarrow> repo \<Rightarrow> demo_notification_delivery option" where
  "prior_delivery v r = first (\<lambda>p. nd_idempotency_key p = nd_idempotency_key v) (rows (nd_tenant_id v) (notification_deliveries r))"

definition same_delivery :: "demo_notification_delivery \<Rightarrow> demo_notification_delivery \<Rightarrow> bool" where
  "same_delivery p v \<longleftrightarrow> nd_payload_json p = nd_payload_json v"

definition save_notification_delivery :: "demo_notification_delivery \<Rightarrow> repo \<Rightarrow> err + ((demo_notification_delivery \<times> bool) \<times> repo)" where
  "save_notification_delivery v r = (case prior_delivery v r of
     Some p \<Rightarrow> check (same_delivery p v) (ConflictError ''notification idempotency key reused'') (Inr ((p, True), r))
   | None \<Rightarrow> Inr ((v, False), r\<lparr>notification_deliveries := dset (nd_tenant_id v, nd_id v) v (notification_deliveries r)\<rparr>))"

definition notification_deliveries_for :: "string \<Rightarrow> repo \<Rightarrow> demo_notification_delivery list" where
  "notification_deliveries_for t r = rows t (notification_deliveries r)"

definition prior_acknowledgement :: "demo_incident_acknowledgement \<Rightarrow> repo \<Rightarrow> demo_incident_acknowledgement option" where
  "prior_acknowledgement v r = first (\<lambda>p. ik_idempotency_key p = ik_idempotency_key v) (rows (ik_tenant_id v) (incident_acknowledgements r))"

definition same_incident :: "demo_incident_acknowledgement \<Rightarrow> demo_incident_acknowledgement \<Rightarrow> bool" where
  "same_incident p v \<longleftrightarrow> ik_incident_id p = ik_incident_id v"

definition save_incident_acknowledgement :: "demo_incident_acknowledgement \<Rightarrow> repo \<Rightarrow> err + ((demo_incident_acknowledgement \<times> bool) \<times> repo)" where
  "save_incident_acknowledgement v r = (case prior_acknowledgement v r of
     Some p \<Rightarrow> check (same_incident p v) (ConflictError ''acknowledgement idempotency key reused'') (Inr ((p, True), r))
   | None \<Rightarrow> Inr ((v, False), r\<lparr>incident_acknowledgements := dset (ik_tenant_id v, ik_id v) v (incident_acknowledgements r)\<rparr>))"

definition acknowledgements_for :: "string \<Rightarrow> string \<Rightarrow> repo \<Rightarrow> demo_incident_acknowledgement list" where
  "acknowledgements_for t i r = filter (\<lambda>v. ik_incident_id v = i) (rows t (incident_acknowledgements r))"

subsection \<open>Preferences\<close>

definition all_channels :: "string list" where
  "all_channels = [''app_push'', ''email'', ''chatgpt'']"

definition notification_id :: "string \<Rightarrow> string \<Rightarrow> err + string" where
  "notification_id v label = check (opaque_colon v) (ConflictError (''invalid '' @ label)) (Inr v)"

definition set_demo_notification_preference ::
    "tenant_context \<Rightarrow> string \<Rightarrow> string list \<Rightarrow> bool \<Rightarrow> demo_notification_preference svc" where
  "set_demo_notification_preference ctx key channels muted = (let t = ctx_tenant_id ctx in
     seq (require ctx Cap_TENANT_ADMIN) (
     bnd (of_sum (notification_id key ''notification_key'')) (\<lambda>k.
     ensure (channels \<noteq> [] \<and> distinct channels \<and> set channels \<subseteq> set all_channels) (ConflictError ''invalid notification preference'') (
     transaction (
       bnd (reads (get_notification_preference t k)) (\<lambda>prior.
       bnd (mutate (save_notification_preference \<lparr>pf_tenant_id = t, pf_notification_key = k, pf_channels = channels, pf_muted = muted,
              pf_version = (case prior of None \<Rightarrow> 1 | Some p \<Rightarrow> pf_version p + 1)\<rparr>)) (\<lambda>v.
       seq (audit t (ctx_user_id ctx) ''notification.preference_changed'' k ''succeeded'' (JObj [(''muted'', JBool muted)])) (
       ret v))))))))"

subsection \<open>Delivery with fallback\<close>

record notice =
  nt_state :: string
  nt_channel :: string
  nt_deliveries :: "demo_notification_delivery list"
  nt_replayed :: bool

text \<open>
  The loop over the channels, from the channel numbered \<open>n\<close> on: the deliveries in order, the
  state computed for each, and whether all of them were replays.
\<close>

definition attempt_delivery :: "tenant_context \<Rightarrow> string \<Rightarrow> string \<Rightarrow> string \<Rightarrow> string \<Rightarrow> string \<Rightarrow> int \<Rightarrow> string option \<Rightarrow>
    (demo_notification_delivery \<times> bool) svc" where
  "attempt_delivery ctx nkey key encoded channel state n previous =
     bnd uuid4 (\<lambda>i. bnd clock (\<lambda>now.
     mutate (save_notification_delivery \<lparr>nd_id = i, nd_tenant_id = ctx_tenant_id ctx, nd_notification_key = nkey,
       nd_channel = channel, nd_payload_json = encoded, nd_state = state, nd_attempt = n, nd_fallback_from = previous,
       nd_idempotency_key = key, nd_created_at = now\<rparr>)))"

fun fall_back :: "tenant_context \<Rightarrow> string \<Rightarrow> string \<Rightarrow> string \<Rightarrow> string list \<Rightarrow> string list \<Rightarrow> int \<Rightarrow> string option \<Rightarrow>
    (demo_notification_delivery list \<times> bool) svc" where
  "fall_back ctx nkey key encoded failed [] n previous = ret ([], True)"
| "fall_back ctx nkey key encoded failed (c # cs) n previous = (let state = (if c \<in> set failed then ''FAILED'' else ''DELIVERED'') in
     bnd (attempt_delivery ctx nkey (key @ '':'' @ c) encoded c state n previous) (\<lambda>(d, replay).
     if state = ''DELIVERED'' then ret ([d], replay)
     else bnd (fall_back ctx nkey key encoded failed cs (n + 1) (Some c)) (\<lambda>(ds, replays).
       ret (d # ds, replay \<and> replays))))"

definition default_preference :: "string \<Rightarrow> string \<Rightarrow> demo_notification_preference" where
  "default_preference t key = \<lparr>pf_tenant_id = t, pf_notification_key = key, pf_channels = all_channels, pf_muted = False, pf_version = 1\<rparr>"

definition encode_payload :: "json \<Rightarrow> err + string" where
  "encode_payload payload =
     check (finite_json payload) (ConflictError ''notification payload must be finite JSON'') (
     check (length (dumps payload) \<le> 16 * 1024) (ConflictError ''notification payload too large'') (Inr (dumps payload)))"

text \<open>What is announced of a delivery that is not a replay.\<close>

definition announce_delivery :: "tenant_context \<Rightarrow> string \<Rightarrow> string \<Rightarrow> demo_notification_delivery \<Rightarrow> unit svc" where
  "announce_delivery ctx nkey key final = (let t = ctx_tenant_id ctx in
     seq (audit t (ctx_user_id ctx) ''notification.simulated'' nkey (if nd_state final = ''DELIVERED'' then ''succeeded'' else ''blocked'')
            (JObj [(''channel'', JStr (nd_channel final)), (''state'', JStr (nd_state final))])) (
     enqueue t ''notification.simulated'' nkey (JObj [(''notification_key'', JStr nkey), (''state'', JStr (nd_state final)),
         (''channel'', JStr (nd_channel final))]) (''notification:'' @ key @ '':simulated'') (nd_created_at final)))"

definition notify_muted :: "tenant_context \<Rightarrow> string \<Rightarrow> string \<Rightarrow> string \<Rightarrow> notice svc" where
  "notify_muted ctx nkey key encoded =
     bnd (attempt_delivery ctx nkey key encoded ''none'' ''MUTED'' 1 None) (\<lambda>(d, replay).
     ret \<lparr>nt_state = nd_state d, nt_channel = nd_channel d, nt_deliveries = [d], nt_replayed = replay\<rparr>)"

definition notify_channels :: "tenant_context \<Rightarrow> string \<Rightarrow> string \<Rightarrow> string \<Rightarrow> string list \<Rightarrow> string list \<Rightarrow> notice svc" where
  "notify_channels ctx nkey key encoded failed channels =
     bnd (fall_back ctx nkey key encoded failed channels 1 None) (\<lambda>(ds, replayed).
     ensure (ds \<noteq> []) (OtherError ''IndexError'' ''list index out of range'') (let final = last ds; notice = \<lparr>nt_state = nd_state final, nt_channel = nd_channel final, nt_deliveries = ds, nt_replayed = replayed\<rparr> in
         if replayed then ret notice else seq (announce_delivery ctx nkey key final) (ret notice)))"

definition notify_demo :: "tenant_context \<Rightarrow> string \<Rightarrow> json \<Rightarrow> string \<Rightarrow> string list \<Rightarrow> notice svc" where
  "notify_demo ctx notification_key payload idempotency_key failed = (let t = ctx_tenant_id ctx in
     seq (require ctx Cap_TENANT_ADMIN) (
     bnd (of_sum (notification_id notification_key ''notification_key'')) (\<lambda>nkey.
     bnd (of_sum (notification_id idempotency_key ''idempotency_key'')) (\<lambda>key.
     ensure (js_keys payload \<noteq> None \<and> set failed \<subseteq> set all_channels) (ConflictError ''invalid DEMO notification'') (
     bnd (of_sum (encode_payload payload)) (\<lambda>encoded.
     transaction (
       bnd (reads (get_notification_preference t nkey)) (\<lambda>stored.
       let pref = (case stored of Some p \<Rightarrow> p | None \<Rightarrow> default_preference t nkey) in
       if pf_muted pref then notify_muted ctx nkey key encoded
       else notify_channels ctx nkey key encoded failed (pf_channels pref)))))))))"

definition acknowledge_demo_incident :: "tenant_context \<Rightarrow> string \<Rightarrow> string \<Rightarrow> string \<Rightarrow> (demo_incident_acknowledgement \<times> bool) svc" where
  "acknowledge_demo_incident ctx incident note idempotency_key = (let t = ctx_tenant_id ctx in
     seq (require ctx Cap_TENANT_ADMIN) (
     bnd (of_sum (notification_id incident ''incident_id'')) (\<lambda>inc.
     bnd (of_sum (notification_id idempotency_key ''idempotency_key'')) (\<lambda>key.
     ensure (\<not> blank note \<and> py_len note \<le> 1000) (ConflictError ''acknowledgement note is required'') (
     transaction (
       bnd uuid4 (\<lambda>i. bnd clock (\<lambda>now.
       bnd (mutate (save_incident_acknowledgement \<lparr>ik_id = i, ik_tenant_id = t, ik_incident_id = inc, ik_acknowledged_by = ctx_user_id ctx,
              ik_note = strip note, ik_idempotency_key = key, ik_acknowledged_at = now\<rparr>)) (\<lambda>(v, replay).
       if replay then ret (v, replay) else
       seq (audit t (ctx_user_id ctx) ''incident.acknowledged'' inc ''succeeded'' (JObj [])) (
       ret (v, replay)))))))))))"

subsection \<open>What these calls write\<close>

lemma delivery_row_keys: "wf_repo r \<Longrightarrow> v \<in> set (rows t (notification_deliveries r)) \<Longrightarrow> nd_tenant_id v = t"
  using keyed_in [where d = "notification_deliveries r"] wf_tableD [of r T_notification_deliveries] by (fastforce simp: rows_in)

lemma acts_save_preference:
  "pf_tenant_id v = t \<Longrightarrow> T_notification_preferences \<in> L \<Longrightarrow> acts h t L (mutate (save_notification_preference v)) (\<lambda>_. True)"
  by (rule acts_mutate) (auto simp: save_notification_preference_def Let_def checks_ok intro!: writes_one W_notification_preferences)

lemma acts_save_delivery:
  "nd_tenant_id v = t \<Longrightarrow> T_notification_deliveries \<in> L \<Longrightarrow> acts h t L (mutate (save_notification_delivery v)) (\<lambda>_. True)"
  by (rule acts_mutate) (auto simp: save_notification_delivery_def checks_ok split: option.splits intro!: writes_one W_notification_deliveries)

lemma acts_save_acknowledgement:
  "ik_tenant_id v = t \<Longrightarrow> T_incident_acknowledgements \<in> L \<Longrightarrow> acts h t L (mutate (save_incident_acknowledgement v)) (\<lambda>_. True)"
  by (rule acts_mutate) (auto simp: save_incident_acknowledgement_def checks_ok split: option.splits intro!: writes_one W_incident_acknowledgements)

lemmas acts_notification_saves [acts_rules] = acts_save_preference acts_save_delivery acts_save_acknowledgement

lemma acts_attempt_delivery [acts_rules]:
  "t = ctx_tenant_id ctx \<Longrightarrow> T_notification_deliveries \<in> L \<Longrightarrow>
     acts h t L (attempt_delivery ctx nkey key encoded channel state n previous) (\<lambda>_. True)"
  unfolding attempt_delivery_def by (rule acts_rules TrueI | simp)+

lemma acts_fall_back [acts_rules]:
  "t = ctx_tenant_id ctx \<Longrightarrow> T_notification_deliveries \<in> L \<Longrightarrow>
     acts h t L (fall_back ctx nkey key encoded failed cs n previous) (\<lambda>_. True)"
proof (induction cs arbitrary: n previous)
  case (Cons c cs)
  then show ?case unfolding fall_back.simps Let_def by - (rule acts_rules TrueI | assumption | simp split del: if_split)+
qed (simp add: acts_ret)

lemma acts_announce_delivery [acts_rules]:
  "t = ctx_tenant_id ctx \<Longrightarrow> {T_audit_events, T_outbox} \<subseteq> L \<Longrightarrow> acts h t L (announce_delivery ctx nkey key final) (\<lambda>_. True)"
  unfolding announce_delivery_def Let_def by (rule acts_rules TrueI | simp split del: if_split)+

lemma acts_notify_demo:
  "{T_notification_deliveries, T_audit_events, T_outbox} \<subseteq> L \<Longrightarrow>
     acts h (ctx_tenant_id ctx) L (notify_demo ctx nkey payload key failed) (\<lambda>_. True)"
  unfolding notify_demo_def notify_muted_def notify_channels_def Let_def
  by (rule acts_rules TrueI | simp split del: if_split)+

lemma acts_set_preference:
  "{T_notification_preferences, T_audit_events} \<subseteq> L \<Longrightarrow>
     acts h (ctx_tenant_id ctx) L (set_demo_notification_preference ctx key channels muted) (\<lambda>_. True)"
  unfolding set_demo_notification_preference_def Let_def by (rule acts_rules TrueI | simp)+

lemma acts_acknowledge:
  "{T_incident_acknowledgements, T_audit_events} \<subseteq> L \<Longrightarrow>
     acts h (ctx_tenant_id ctx) L (acknowledge_demo_incident ctx incident note key) (\<lambda>_. True)"
  unfolding acknowledge_demo_incident_def Let_def by (rule acts_rules TrueI | simp)+

end
