(* ===== verification/Recovery.thy ===== *)
theory Recovery
  imports Execution_Laws
begin

section \<open>A lost answer is recovered\<close>

text \<open>
  The way back from UNKNOWN: a worker that holds the lease and finds the effect the provider
  made, although its answer was lost, closes the attempt with it.
\<close>

text \<open>What a step leaves for the next one.\<close>

definition carried :: "world \<Rightarrow> world \<Rightarrow> nat \<Rightarrow> bool" where
  "carried s w n \<longleftrightarrow> memberships (db w) = memberships (db s) \<and> sha256 w = sha256 s \<and> clock_src w = clock_src s \<and> uuid_src w = uuid_src s
     \<and> clock_ctr w = clock_ctr s + n"

definition event_key :: "execution_attempt \<Rightarrow> string \<Rightarrow> string" where
  "event_key v topic = topic @ '':'' @ ea_id v @ '':'' @ show_int (ea_version v)"

lemma attempt_event_runs:
  assumes "dget (outbox_idempotency (db s)) (ctx_tenant_id ctx, event_key v topic) = None"
  shows "\<exists>w. attempt_event ctx v topic s = (Inr (), w) \<and> carried s w 2 \<and> attempts (db w) = attempts (db s)
     \<and> observations (db w) = observations (db s)
     \<and> (\<forall>k. k \<noteq> (ctx_tenant_id ctx, event_key v topic) \<longrightarrow> dget (outbox_idempotency (db w)) k = dget (outbox_idempotency (db s)) k)"
  using assms
  by (simp add: attempt_event_def Let_def op_simps audit_run append_outbox_def put_event_def new_outbox_event_def append_audit_def
      event_key_def carried_def)

lemma leased_runs:
  assumes "require ctx Cap_TENANT_ADMIN s = (Inr (), s)" "dget (attempts (db s)) (ctx_tenant_id ctx, i) = Some v"
    and "ea_lease_owner v = Some worker" "ea_fencing_token v = token" "ea_lease_until v = Some u" "clock_src s (clock_ctr s) < u"
  shows "leased ctx i worker token s = (Inr v, s\<lparr>clock_ctr := clock_ctr s + 1\<rparr>)"
  using assms by (simp add: leased_def op_simps get_attempt_row_def)

lemma require_carried: "carried s w n \<Longrightarrow> require ctx c w = (Inr (), w) \<longleftrightarrow> require ctx c s = (Inr (), s)"
  by (simp add: require_ok carried_def)

text \<open>An attempt under a worker's lease, whose lease outlasts the call.\<close>

definition held :: "tenant_context \<Rightarrow> string \<Rightarrow> string \<Rightarrow> int \<Rightarrow> execution_attempt \<Rightarrow> world \<Rightarrow> bool" where
  "held ctx i worker token v s \<longleftrightarrow> require ctx Cap_TENANT_ADMIN s = (Inr (), s) \<and> dget (attempts (db s)) (ctx_tenant_id ctx, i) = Some v
     \<and> ea_id v = i \<and> ea_tenant_id v = ctx_tenant_id ctx \<and> ea_lease_owner v = Some worker \<and> ea_fencing_token v = token
     \<and> (\<exists>u. ea_lease_until v = Some u \<and> clock_src s (clock_ctr s) < u)"

lemma held_leased: "held ctx i worker token v s \<Longrightarrow> leased ctx i worker token s = (Inr v, s\<lparr>clock_ctr := clock_ctr s + 1\<rparr>)"
  using leased_runs unfolding held_def by blast

definition unused_key :: "tenant_context \<Rightarrow> string \<Rightarrow> world \<Rightarrow> bool" where
  "unused_key ctx k s \<longleftrightarrow> dget (outbox_idempotency (db s)) (ctx_tenant_id ctx, k) = None"

lemma begin_reconciliation_runs:
  assumes h: "held ctx i worker token v s" and st: "ea_state v = Att_UNKNOWN"
    and k: "unused_key ctx (event_key (advanced v Att_RECONCILING) ''attempt.reconciling'') s"
  shows "\<exists>w. begin_reconciliation ctx i worker token s = (Inr (advanced v Att_RECONCILING), w) \<and> carried s w 3
     \<and> attempts (db w) = dset (ctx_tenant_id ctx, i) (advanced v Att_RECONCILING) (attempts (db s)) \<and> observations (db w) = observations (db s)
     \<and> (\<forall>j. j \<noteq> event_key (advanced v Att_RECONCILING) ''attempt.reconciling'' \<longrightarrow> unused_key ctx j s \<longrightarrow> unused_key ctx j w)"
proof -
  let ?v = "advanced v Att_RECONCILING"
  define s1 where "s1 = s\<lparr>clock_ctr := clock_ctr s + 1, db := (db s)\<lparr>attempts := dset (ctx_tenant_id ctx, i) ?v (attempts (db s))\<rparr>\<rparr>"
  have row: "dget (attempts (db s)) (ctx_tenant_id ctx, i) = Some v" "ea_id v = i" "ea_tenant_id v = ctx_tenant_id ctx"
    using h by (simp_all add: held_def)
  have "mutate (update_attempt ?v (ea_version v)) (s\<lparr>clock_ctr := clock_ctr s + 1\<rparr>) = (Inr (), s1)"
    using row by (simp add: op_simps update_attempt_def get_attempt_row_def check_def s1_def)
  moreover obtain w where "attempt_event ctx ?v ''attempt.reconciling'' s1 = (Inr (), w)" "carried s1 w 2" "attempts (db w) = attempts (db s1)"
    "observations (db w) = observations (db s1)"
    "\<forall>j. j \<noteq> (ctx_tenant_id ctx, event_key ?v ''attempt.reconciling'') \<longrightarrow> dget (outbox_idempotency (db w)) j = dget (outbox_idempotency (db s1)) j"
    using attempt_event_runs [of s1 ctx ?v "''attempt.reconciling''"] k by (auto simp: s1_def unused_key_def)
  ultimately show ?thesis
    using held_leased [OF h] st
    by (intro exI [of _ w]) (auto simp: begin_reconciliation_def Let_def op_simps transaction_def s1_def carried_def unused_key_def)
qed

text \<open>An observation that found the effect closes the attempt.\<close>

lemma record_found_runs:
  assumes h: "held ctx i worker token v s" and st: "ea_state v = Att_RECONCILING"
    and d: "read_observation obs True = Inr d" "od_kind d = ''FOUND_SUCCESS''" "od_reference d = Some ref"
    and ids: "\<forall>n. \<forall>x\<in>set (observation_rows (ctx_tenant_id ctx) i (db s)). ao_id x \<noteq> uuid_src s n"
    and k: "\<And>seen. unused_key ctx (event_key (observed_attempt v Att_VERIFIED_SUCCESS (Some ref) seen None) ''attempt.observed'') s"
  shows "\<exists>v' w. record_observation ctx i worker token obs s = (Inr v', w) \<and> ea_state v' = Att_VERIFIED_SUCCESS
     \<and> ea_provider_reference v' = Some ref \<and> dget (attempts (db w)) (ctx_tenant_id ctx, i) = Some v'"
proof -
  let ?t = "ctx_tenant_id ctx" and ?u = "s\<lparr>clock_ctr := clock_ctr s + 1\<rparr>"
  define seen where "seen = clock_src s (clock_ctr s + 1)"
  define v' where "v' = observed_attempt v Att_VERIFIED_SUCCESS (Some ref) seen None"
  have row: "dget (attempts (db s)) (?t, i) = Some v" "ea_id v = i" "ea_tenant_id v = ?t" using h by (simp_all add: held_def)
  define ob where "ob = \<lparr>ao_id = uuid_src s (uuid_ctr s), ao_tenant_id = ?t, ao_attempt_id = i, ao_observation_kind = od_kind d,
      ao_response_digest = od_digest d, ao_observed_at = clock_src s (clock_ctr s + 2), ao_correlation_id = uuid_src s (uuid_ctr s + 1)\<rparr>"
  define r where "r = (db s)\<lparr>attempts := dset (?t, i) v' (attempts (db s)), observations := dset (?t, i)
      (observation_rows ?t i (db s) @ [ob]) (observations (db s))\<rparr>"
  define s1 where "s1 = s\<lparr>clock_ctr := clock_ctr s + 3, uuid_ctr := uuid_ctr s + 2, db := r\<rparr>"
  have new: "\<not> list_ex (\<lambda>x. ao_id x = uuid_src s (uuid_ctr s)) (observation_rows ?t i (db s))"
    using ids by (auto simp: list_ex_iff)
  obtain w where w: "attempt_event ctx v' ''attempt.observed'' s1 = (Inr (), w)" "attempts (db w) = attempts (db s1)"
    using attempt_event_runs [of s1 ctx v' "''attempt.observed''"] k [of seen] by (auto simp: s1_def r_def unused_key_def v'_def)
  have "store_observation ctx v d Att_VERIFIED_SUCCESS n ?u = (Inr v', w)" for n
    using w new row
    by (simp add: store_observation_def next_check_def Let_def op_simps update_attempt_def get_attempt_row_def check_def
        append_observation_def observation_rows_def d(3) numeral_3_eq_3 s1_def r_def ob_def v'_def seen_def)
  moreover have "in_flight v" "observed_state ctx v d = ret Att_VERIFIED_SUCCESS" using st d(2) by (simp_all add: in_flight_def observed_state_def)
  ultimately have "record_observation ctx i worker token obs s = (Inr v', w)"
    using held_leased [OF h] st row d(1)
    by (simp add: record_observation_def op_simps transaction_def observations_for_def get_attempt_row_def settled_state_def)
  with w(2) show ?thesis by (auto simp: s1_def r_def v'_def observed_attempt_def)
qed

text \<open>The provider made the effect of the attempt and shows it.\<close>

definition effect_shown :: "execution_attempt \<Rightarrow> effect \<Rightarrow> provider \<Rightarrow> bool" where
  "effect_shown v e p \<longleftrightarrow> dget (pv_effects p) (ea_tenant_id v, ea_operation_key v) = Some e
     \<and> ea_tenant_id v \<noteq> [] \<and> ea_operation_key v \<noteq> [] \<and> ea_intent_digest v \<noteq> []
     \<and> ef_intent_digest e = ea_intent_digest v \<and> ef_kind e = ''FOUND_SUCCESS'' \<and> ef_hidden_lookups e = 0
     \<and> opaque (ef_reference e) \<and> pv_mode p \<notin> {Lookup_unavailable, Stale_response}"

lemma lookup_shown:
  "effect_shown v e p \<Longrightarrow> lookup h (ea_tenant_id v) (ea_operation_key v) (ea_intent_digest v) p =
     (Inr (provider_result h ''FOUND_SUCCESS'' (ea_tenant_id v) (ea_operation_key v) (ea_intent_digest v) (Some (ef_reference e)) False), p)"
  by (simp add: lookup_def existing_effect_def check_def effect_shown_def)

lemma read_shown:
  "(\<And>x. hex64 (h x)) \<Longrightarrow> opaque ref \<Longrightarrow>
     \<exists>d. read_observation (provider_result h ''FOUND_SUCCESS'' t key dg (Some ref) False) True = Inr d
       \<and> od_kind d = ''FOUND_SUCCESS'' \<and> od_reference d = Some ref"
  by (simp add: read_observation_def provider_result_def Let_def checks_ok that_def need_def check_def observation_kinds_def del: dumps.simps)

text \<open>
  C34: A lost answer is recovered.  When an attempt is UNKNOWN, its worker holds a lease that outlasts
  the call, and the provider made the effect and shows it, then one reconciliation returns: it
  stores the attempt as VERIFIED_SUCCESS with the reference of the effect and makes no other
  effect.  Identifiers and event keys are new; a digest is 64 hexadecimal digits.
\<close>

theorem lost_answer_recovered:
  assumes h: "held ctx i worker token v s" and st: "ea_state v = Att_UNKNOWN" "ea_adapter_version v = adapter_version"
    and e: "effect_shown v e p" and hex: "\<And>x. hex64 (sha256 s x)"
    and lease: "ea_lease_until v = Some u" "clock_src s (clock_ctr s + 3) < u"
    and ids: "\<forall>n. \<forall>x\<in>set (observation_rows (ctx_tenant_id ctx) i (db s)). ao_id x \<noteq> uuid_src s n"
    and keys: "\<forall>n > ea_version v. \<forall>topic. unused_key ctx (event_key (v\<lparr>ea_version := n\<rparr>) topic) s"
  shows "\<exists>v' w. reconcile_attempt ctx i worker token (s, p) = (Inr v', (w, p)) \<and> ea_state v' = Att_VERIFIED_SUCCESS
     \<and> ea_provider_reference v' = Some (ef_reference e) \<and> dget (attempts (db w)) (ctx_tenant_id ctx, i) = Some v'"
proof -
  let ?v = "advanced v Att_RECONCILING" and ?t = "ctx_tenant_id ctx"
  let ?answer = "provider_result (sha256 s) ''FOUND_SUCCESS'' (ea_tenant_id v) (ea_operation_key v) (ea_intent_digest v) (Some (ef_reference e)) False"
  have same: "event_key (advanced v x) topic = event_key (v\<lparr>ea_version := ea_version v + 1\<rparr>) topic"
    "event_key (observed_attempt ?v x y z a) topic = event_key (v\<lparr>ea_version := ea_version v + 2\<rparr>) topic" for topic x y z a
    by (simp_all add: event_key_def add.commute)
  obtain w where w: "begin_reconciliation ctx i worker token s = (Inr ?v, w)" "carried s w 3"
    "attempts (db w) = dset (?t, i) ?v (attempts (db s))" "observations (db w) = observations (db s)"
    "\<And>j. j \<noteq> event_key ?v ''attempt.reconciling'' \<Longrightarrow> unused_key ctx j s \<Longrightarrow> unused_key ctx j w"
    using begin_reconciliation_runs [OF h st(1)] keys unfolding same by auto
  have sha: "sha256 w = sha256 s" using w(2) by (simp add: carried_def)
  have hw: "held ctx i worker token ?v w"
    using h w(2,3) lease require_carried [OF w(2)] by (simp add: held_def carried_def advanced_def)
  obtain d where d: "read_observation ?answer True = Inr d" "od_kind d = ''FOUND_SUCCESS''" "od_reference d = Some (ef_reference e)"
    using read_shown [of "sha256 s" "ef_reference e" "ea_tenant_id v" "ea_operation_key v" "ea_intent_digest v"] hex e
    by (auto simp: effect_shown_def)
  have idw: "\<forall>n. \<forall>x\<in>set (observation_rows ?t i (db w)). ao_id x \<noteq> uuid_src w n"
    using ids w(2,4) by (simp add: observation_rows_def carried_def)
  have kw: "unused_key ctx (event_key (observed_attempt ?v Att_VERIFIED_SUCCESS (Some (ef_reference e)) seen None) ''attempt.observed'') w" for seen
    by (rule w(5)) (use keys in \<open>simp_all add: same, simp add: event_key_def\<close>)
  obtain v' w' where r: "record_observation ctx i worker token ?answer w = (Inr v', w')" "ea_state v' = Att_VERIFIED_SUCCESS"
    "ea_provider_reference v' = Some (ef_reference e)" "dget (attempts (db w')) (?t, i) = Some v'"
    using record_found_runs [OF hw _ d idw kw] by auto
  have "get_attempt ctx i s = (Inr v, s)"
    using h by (simp add: get_attempt_def held_def op_simps get_attempt_row_def)
  then have "reconcile_attempt ctx i worker token (s, p) = (Inr v', (w', p))"
    using w(1) r(1) st(2) lookup_shown [OF e] sha
    by (simp add: reconcile_attempt_def local_def remote_def or_unknown_def op_simps check_provider_def advanced_def)
  with r show ?thesis by blast
qed

subsection \<open>An answer that was lost\<close>

definition demo_found :: provider where
  "demo_found = \<lparr>pv_mode = Timeout_after, pv_authoritative_absence = False, pv_effects = [((''u0'', replicate 64 CHR ''0''),
     \<lparr>ef_intent_digest = replicate 64 CHR ''0'', ef_kind = ''FOUND_SUCCESS'', ef_reference = ''r1'', ef_hidden_lookups = 0\<rparr>)]\<rparr>"

lemma demo_floor_rest:
  "memberships (db (demo_floor st)) = memberships (db demo_tenant)" "observations (db (demo_floor st)) = []"
  "outbox_idempotency (db (demo_floor st)) = []" "clock_src (demo_floor st) = clock_src demo_world" "clock_ctr (demo_floor st) = 2"
  "sha256 (demo_floor st) = sha256 demo_world"
  by (simp_all add: demo_floor_def demo_tenant_more)

theorem lost_answer_recovered_witness:
  "\<exists>v' w. reconcile_attempt demo_master ''x1'' ''w'' 1 (demo_floor Att_UNKNOWN, demo_found) = (Inr v', (w, demo_found))
     \<and> ea_state v' = Att_VERIFIED_SUCCESS"
proof -
  let ?s = "demo_floor Att_UNKNOWN" and ?v = "demo_attempt Att_UNKNOWN"
  have r: "require demo_master Cap_TENANT_ADMIN ?s = (Inr (), ?s)"
    using demo_tenant_tables by (simp add: require_ok demo_floor_rest demo_master_def new_membership_def member_capabilities_def)
  have t: "clock_src ?s n = int n * 1000000" "clock_ctr ?s = 2" for n by (simp_all add: demo_floor_rest demo_world_def)
  have h: "held demo_master ''x1'' ''w'' 1 ?v ?s"
    using r by (simp add: held_def demo_floor_row t) (simp add: demo_master_def demo_floor_row demo_attempt_def new_execution_attempt_def)
  have e: "effect_shown ?v (snd (hd (pv_effects demo_found))) demo_found"
    by (simp add: effect_shown_def demo_found_def demo_attempt_def new_execution_attempt_def opaque_def opaque_with_def is_alnum_def
        is_digit_def is_lower_def)
  have x: "hex64 (sha256 ?s y)" for y by (simp add: demo_floor_rest demo_world_def hex64_def is_digit_def list_all_iff)
  have k: "unused_key demo_master j ?s" for j by (simp add: unused_key_def demo_floor_rest)
  from lost_answer_recovered [OF h _ _ e x, of 60000000] k t show ?thesis
    by (auto simp: demo_attempt_def new_execution_attempt_def adapter_version_def observation_rows_def demo_floor_rest)
qed

end
