(* ===== verification/Service.thy ===== *)
theory Service
  imports Redaction Ingestion_Laws Purchasing_Laws Claims Settlement Budget_Laws Gateway_Laws Effects Tool_Worker
    Catalog_Laws Browser_Laws Notifications Recovery Safety
begin

section \<open>The service as a whole\<close>

text \<open>
  Every call a client, a worker or an operator can make, as one datatype over the calls of the
  components, and for which tenant each call acts.  A call through the browser acts for the
  tenant of its session, \<open>bootstrap_tenant\<close> for the tenant whose identifier it draws.
\<close>

datatype service_call =
    Bootstrap string string
  | Members tenant_context member_op
  | Approving approval_call
  | Inbound inbound_call
  | Take_order tenant_context string string "string option"
  | Route tenant_context string json int
  | Decide_po tenant_context string bool string
  | Renew_po tenant_context string string int
  | Submit_po tenant_context string
  | Reconcile_po tenant_context string demo_po_response
  | Cancel tenant_context string string int
  | Track tenant_context string string string "stamp option" "int option"
  | Open_claim tenant_context string string int string
  | Report_claim tenant_context string string string int
  | Settle tenant_context string string "json list" string
  | Budgeting budget_call
  | Use_tool tenant_context tool_request
  | Stop tenant_context string string bool string
  | Back_up bool "string option" int time string
  | Count_stock tenant_context string string int "stamp option"
  | Project_price tenant_context string int int int fee_rate
  | Cataloging catalog_call
  | Browsing browser_call
  | Prefer tenant_context string "string list" bool
  | Notify tenant_context string json string "string list"
  | Acknowledge tenant_context string string string
  | Queue lease_call
  | List_inbox tenant_context
  | Show_approval tenant_context string
  | Executing execution_call
  | Work tenant_context tool_worker string
  | Work_next tenant_context tool_worker int

fun service_op :: "service_call \<Rightarrow> (platform, unit) op" where
  "service_op (Bootstrap name email) = void (local (bootstrap_tenant name email))"
| "service_op (Members ctx c) = local (member_call ctx c)"
| "service_op (Approving c) = local (approval_op c)"
| "service_op (Inbound c) = local (inbound_op c)"
| "service_op (Take_order ctx channel ref idem) = void (local (ingest_order ctx channel ref idem))"
| "service_op (Route ctx oid options n) = void (local (propose_routing ctx oid options n))"
| "service_op (Decide_po ctx pid approve reason) = void (local (approve_demo_po ctx pid approve reason))"
| "service_op (Renew_po ctx pid reason n) = void (local (regenerate_demo_po ctx pid reason n))"
| "service_op (Submit_po ctx pid) = void (local (submit_demo_po ctx pid))"
| "service_op (Reconcile_po ctx pid rsp) = void (local (reconcile_demo_po ctx pid rsp))"
| "service_op (Cancel ctx oid reason n) = void (local (request_demo_cancel ctx oid reason n))"
| "service_op (Track ctx lid key status at n) = void (local (ingest_demo_tracking ctx lid key status at n))"
| "service_op (Open_claim ctx oid kind amount key) = void (local (open_demo_claim ctx oid kind amount key))"
| "service_op (Report_claim ctx i kind status n) = void (local (record_demo_claim_status ctx i kind status n))"
| "service_op (Settle ctx channel period raw key) = void (local (import_demo_settlement ctx channel period raw key))"
| "service_op (Budgeting c) = local (budget_op c)"
| "service_op (Use_tool ctx q) = void (local (submit_demo_tool ctx q))"
| "service_op (Stop ctx scope ref stopped reason) = void (local (set_demo_stop ctx scope ref stopped reason))"
| "service_op (Back_up existing copied schema now t) = void (local (backup_demo_sqlite existing copied schema now t))"
| "service_op (Count_stock ctx sku supplier n at) = void (local (record_demo_inventory ctx sku supplier n at))"
| "service_op (Project_price ctx sku selling supply variable fee) = void (local (record_demo_price_projection ctx sku selling supply variable fee))"
| "service_op (Cataloging c) = local (catalog_op c)"
| "service_op (Browsing c) = local (browser_op c)"
| "service_op (Prefer ctx key channels muted) = void (local (set_demo_notification_preference ctx key channels muted))"
| "service_op (Notify ctx nkey payload key failed) = void (local (notify_demo ctx nkey payload key failed))"
| "service_op (Acknowledge ctx incident note key) = void (local (acknowledge_demo_incident ctx incident note key))"
| "service_op (Queue c) = void (local (worker_call c))"
| "service_op (List_inbox ctx) = void (local (approval_inbox ctx))"
| "service_op (Show_approval ctx aid) = void (local (approval_detail ctx aid))"
| "service_op (Executing c) = execution_op c"
| "service_op (Work ctx w i) = void (process ctx w i)"
| "service_op (Work_next ctx w n) = void (process_next ctx w n)"

fun run_service :: "service_call list \<Rightarrow> platform \<Rightarrow> platform" where
  "run_service [] s = s"
| "run_service (c # cs) s = run_service cs (snd (service_op c s))"

subsection \<open>For whom a call acts\<close>

fun budget_owner :: "budget_call \<Rightarrow> string" where
  "budget_owner (Byok ctx p ref status) = ctx_tenant_id ctx"
| "budget_owner (Policy ctx d m g n tk tc tier) = ctx_tenant_id ctx"
| "budget_owner (Agent_run ctx q) = ctx_tenant_id ctx"

fun catalog_owner :: "catalog_call \<Rightarrow> string" where
  "catalog_owner (Import ctx supplier xs key) = ctx_tenant_id ctx"
| "catalog_owner (Project ctx pid channel price age) = ctx_tenant_id ctx"
| "catalog_owner (Ask ctx oid key age) = ctx_tenant_id ctx"
| "catalog_owner (Verify ctx oid cid age) = ctx_tenant_id ctx"

definition session_tenant :: "string \<Rightarrow> world \<Rightarrow> string option" where
  "session_tenant token s = map_option bs_tenant_id (dget (browser_sessions (db s)) (sha256 s token))"

fun browser_owner :: "browser_call \<Rightarrow> world \<Rightarrow> string option" where
  "browser_owner (Login ctx assertion ttl) s = Some (ctx_tenant_id ctx)"
| "browser_owner (Nonce token aid ttl) s = session_tenant token s"
| "browser_owner (Decide_with token aid approve reason nonce) s = session_tenant token s"
| "browser_owner (Decide_as ctx cid approve reason) s = Some (ctx_tenant_id ctx)"

fun execution_owner :: "execution_call \<Rightarrow> string option" where
  "execution_owner (Control ctx cid policy tv stopped) = Some (ctx_tenant_id ctx)"
| "execution_owner (Prepare_attempt ctx cid policy tv a p c) = Some (ctx_tenant_id ctx)"
| "execution_owner (Claim ctx i worker n l) = Some (ctx_tenant_id ctx)"
| "execution_owner (Begin_dispatch ctx i worker token) = Some (ctx_tenant_id ctx)"
| "execution_owner (Begin_reconciliation ctx i worker token) = Some (ctx_tenant_id ctx)"
| "execution_owner (Observe ctx i worker token obs) = Some (ctx_tenant_id ctx)"
| "execution_owner (Dispatch ctx i worker token) = Some (ctx_tenant_id ctx)"
| "execution_owner (Reconcile ctx i worker token) = Some (ctx_tenant_id ctx)"
| "execution_owner (Mode v) = None"
| "execution_owner (Absence v) = None"

fun acting_tenant :: "service_call \<Rightarrow> world \<Rightarrow> string option" where
  "acting_tenant (Bootstrap name email) s = Some (uuid_src s (uuid_ctr s))"
| "acting_tenant (Members ctx c) s = Some (ctx_tenant_id ctx)"
| "acting_tenant (Approving c) s = Some (call_owner c)"
| "acting_tenant (Inbound c) s = Some (inbound_owner c)"
| "acting_tenant (Take_order ctx channel ref idem) s = Some (ctx_tenant_id ctx)"
| "acting_tenant (Route ctx oid options n) s = Some (ctx_tenant_id ctx)"
| "acting_tenant (Decide_po ctx pid approve reason) s = Some (ctx_tenant_id ctx)"
| "acting_tenant (Renew_po ctx pid reason n) s = Some (ctx_tenant_id ctx)"
| "acting_tenant (Submit_po ctx pid) s = Some (ctx_tenant_id ctx)"
| "acting_tenant (Reconcile_po ctx pid rsp) s = Some (ctx_tenant_id ctx)"
| "acting_tenant (Cancel ctx oid reason n) s = Some (ctx_tenant_id ctx)"
| "acting_tenant (Track ctx lid key status at n) s = Some (ctx_tenant_id ctx)"
| "acting_tenant (Open_claim ctx oid kind amount key) s = Some (ctx_tenant_id ctx)"
| "acting_tenant (Report_claim ctx i kind status n) s = Some (ctx_tenant_id ctx)"
| "acting_tenant (Settle ctx channel period raw key) s = Some (ctx_tenant_id ctx)"
| "acting_tenant (Budgeting c) s = Some (budget_owner c)"
| "acting_tenant (Use_tool ctx q) s = Some (ctx_tenant_id ctx)"
| "acting_tenant (Stop ctx scope ref stopped reason) s = Some (ctx_tenant_id ctx)"
| "acting_tenant (Back_up existing copied schema now t) s = Some t"
| "acting_tenant (Count_stock ctx sku supplier n at) s = Some (ctx_tenant_id ctx)"
| "acting_tenant (Project_price ctx sku selling supply variable fee) s = Some (ctx_tenant_id ctx)"
| "acting_tenant (Cataloging c) s = Some (catalog_owner c)"
| "acting_tenant (Browsing c) s = browser_owner c s"
| "acting_tenant (Prefer ctx key channels muted) s = Some (ctx_tenant_id ctx)"
| "acting_tenant (Notify ctx nkey payload key failed) s = Some (ctx_tenant_id ctx)"
| "acting_tenant (Acknowledge ctx incident note key) s = Some (ctx_tenant_id ctx)"
| "acting_tenant (Queue c) s = Some (call_tenant c)"
| "acting_tenant (List_inbox ctx) s = Some (ctx_tenant_id ctx)"
| "acting_tenant (Show_approval ctx aid) s = Some (ctx_tenant_id ctx)"
| "acting_tenant (Executing c) s = execution_owner c"
| "acting_tenant (Work ctx w i) s = Some (ctx_tenant_id ctx)"
| "acting_tenant (Work_next ctx w n) s = Some (ctx_tenant_id ctx)"

subsection \<open>A call writes for its tenant only\<close>

definition ledger_kept :: "string \<Rightarrow> provider \<Rightarrow> provider \<Rightarrow> bool" where
  "ledger_kept t p p' \<longleftrightarrow> (\<forall>key. dget (pv_effects p') (t, key) = dget (pv_effects p) (t, key))"

definition confined :: "string \<Rightarrow> platform \<Rightarrow> platform \<Rightarrow> bool" where
  "confined t s s' \<longleftrightarrow> (wf_repo (db (fst s)) \<longrightarrow> wf_repo (db (fst s')) \<and> sha256 (fst s') = sha256 (fst s)
     \<and> writes (sha256 (fst s)) t UNIV (db (fst s)) (db (fst s')) \<and> (\<forall>t'. t' \<noteq> t \<longrightarrow> ledger_kept t' (snd s) (snd s')))"

interpretation alone: step_relation "confined t" for t
proof
  show "confined t s s" for s by (simp add: confined_def ledger_kept_def)
  show "confined t s u \<Longrightarrow> confined t u w \<Longrightarrow> confined t s w" for s u w
    unfolding confined_def ledger_kept_def by (metis writes_trans)
qed

lemma confined_acts:
  "acts (sha256 s) t UNIV m Q \<Longrightarrow> m s = (x, w) \<Longrightarrow> confined t (s, p) (w, p)"
  using actsD [of "sha256 s" t UNIV m Q s x w] by (auto simp: confined_def ledger_kept_def)

lemma alone_local_bnd:
  assumes m: "\<And>h. acts h t UNIV m Q" and f: "\<And>a. Q a \<Longrightarrow> alone.steady t (f a)"
  shows "alone.steady t (bnd (local m) f)"
proof (rule alone.steadyI)
  fix s x s' assume run: "bnd (local m) f s = (x, s')"
  obtain y w where y: "m (fst s) = (y, w)" by (cases "m (fst s)") auto
  have c: "confined t s (w, snd s)" using confined_acts [OF m y, of "snd s"] by simp
  show "confined t s s'"
  proof (cases "wf_repo (db (fst s))")
    case wf: True
    show ?thesis
    proof (cases y)
      case (Inl e)
      with run y c show ?thesis by (simp add: op_simps local_def)
    next
      case (Inr a)
      with actsD(4) [OF m refl wf y] have "alone.steady t (f a)" by (intro f) simp
      with run y Inr have "confined t (w, snd s) s'" by (auto simp: op_simps local_def dest: alone.steadyD)
      with c show ?thesis by (rule alone.R_trans)
    qed
  qed (simp add: confined_def)
qed

lemma alone_local: "(\<And>h. acts h t UNIV m Q) \<Longrightarrow> alone.steady t (local m)"
proof (rule alone.steadyI)
  fix s x s' assume a: "\<And>h. acts h t UNIV m Q" and run: "local m s = (x, s')"
  obtain y w where m: "m (fst s) = (y, w)" by (cases "m (fst s)") auto
  then have "s' = (w, snd s)" using run by (simp add: local_def)
  with confined_acts [OF a m, of "snd s"] show "confined t s s'" by simp
qed

lemma alone_provider:
  "alone.steady t (remote (\<lambda>h. execute h t key dg))" "alone.steady t (remote (\<lambda>h. lookup h t key dg))"
  by (auto intro!: alone.steadyI simp: confined_def remote_def ledger_kept_def dget_dset
      split: prod.splits dest!: execute_ledger lookup_ledger)

lemma alone_check_provider: "alone.steady t (check_provider v)"
  unfolding check_provider_def by (rule alone.steady_ensure alone.steady_basic)+

lemma alone_or_unknown: "alone.steady t m \<Longrightarrow> alone.steady t (or_unknown m)"
proof -
  have "acts h t UNIV unknown_result (\<lambda>_. True)" for h
    unfolding unknown_result_def strict_intent_digest_def by (rule acts_rules TrueI)+
  note u = alone_local [OF this]
  show "alone.steady t m \<Longrightarrow> alone.steady t (or_unknown m)"
    unfolding or_unknown_def by (rule alone.steady_catch) (auto intro: u alone.steady_basic split: err.split)
qed

lemma acts_queue_step:
  "(\<And>r. mem_call c r = settle r (f r) g) \<Longrightarrow> acts h (call_tenant c) UNIV (mutate f) (\<lambda>_. True)"
proof (rule acts_mutate)
  fix r a r' assume c: "\<And>r. mem_call c r = settle r (f r) g" and wf: "wf_repo r" and run: "f r = Inr (a, r')"
  have "snd (mem_call c r) = r'" using c [of r] run by (simp add: settle_def)
  with mem_call_writes [OF wf, of h c] show "writes h (call_tenant c) UNIV r r' \<and> True" by (auto intro: writes_mono)
qed

lemma queue_steps:
  "acts h t UNIV (mutate (claim_outbox t i w now until)) (\<lambda>_. True)"
  "acts h t UNIV (mutate (claim_next_outbox t w now until)) (\<lambda>_. True)"
  "acts h t UNIV (mutate (checkpoint_outbox t i w tok p now d)) (\<lambda>_. True)"
  "acts h t UNIV (mutate (fail_outbox t i w tok e now k)) (\<lambda>_. True)"
  using acts_queue_step [OF mem_call.simps(1)] acts_queue_step [OF mem_call.simps(2)]
    acts_queue_step [OF mem_call.simps(3)] acts_queue_step [OF mem_call.simps(4)] by simp_all

subsection \<open>The workers' calls\<close>

lemmas alone_rules = alone.steady_bnd alone.steady_seq alone.steady_ensure alone.steady_catch alone.steady_void alone.steady_basic
  alone_check_provider alone_or_unknown

lemmas execution_acts = acts_set_demo_control [OF subset_UNIV] acts_prepare_attempt [OF subset_UNIV]
  acts_claim_attempt [OF subset_UNIV] acts_begin_dispatch [OF subset_UNIV] acts_begin_reconciliation [OF subset_UNIV]
  acts_record_observation [OF subset_UNIV]

lemmas alone_execution = execution_acts [THEN alone_local]

lemmas alone_any = alone_local [where Q = "\<lambda>_. True"]

lemma alone_get_attempt: "alone.steady t (local (get_attempt ctx i))"
  unfolding get_attempt_def by (rule alone_any acts_rules TrueI)+

lemma alone_bound_command: "alone.steady t (local (bound_command ctx e))"
  unfolding bound_command_def Let_def by (rule alone_any acts_rules TrueI)+

lemma alone_simple: "alone.steady t (local (require ctx p))" "alone.steady t (local clock)"
  by (rule alone_any acts_rules)+

lemmas alone_queue = queue_steps [THEN alone_local]

lemma acts_dispatching:
  "acts h (ctx_tenant_id ctx) UNIV (begin_dispatch ctx i worker token) (\<lambda>v. ea_tenant_id v = ctx_tenant_id ctx)"
  unfolding begin_dispatch_def Let_def
  by (rule acts_bnd [OF acts_leased] acts_bnd_any [OF acts_gate] acts_seq [OF acts_execution_manifest] acts_attempt_event acts_rules TrueI | simp)+

lemma acts_reconciling:
  "acts h (ctx_tenant_id ctx) UNIV (begin_reconciliation ctx i worker token) (\<lambda>v. ea_tenant_id v = ctx_tenant_id ctx)"
  unfolding begin_reconciliation_def Let_def
  by (rule acts_bnd [OF acts_leased] acts_attempt_event acts_rules TrueI | simp)+

lemma alone_dispatch: "alone.steady (ctx_tenant_id ctx) (dispatch_demo ctx i worker token)"
  unfolding dispatch_demo_def
  by (rule alone_local_bnd [OF acts_dispatching] alone_rules alone_get_attempt alone_execution
      | simp only:, rule alone_or_unknown alone_provider)+

lemma alone_reconcile: "alone.steady (ctx_tenant_id ctx) (reconcile_attempt ctx i worker token)"
  unfolding reconcile_attempt_def
  by (rule alone_local_bnd [OF acts_reconciling] alone_rules alone_get_attempt alone_execution
      | simp only:, rule alone_or_unknown alone_provider)+

lemma alone_advance: "alone.steady (ctx_tenant_id ctx) (advance_attempt ctx w a)"
  by (auto simp: advance_attempt_def intro!: alone_rules alone_execution alone_dispatch alone_reconcile)

lemma alone_drive: "alone.steady (ctx_tenant_id ctx) (drive ctx w e)"
  unfolding drive_def split_def
  by (rule alone_rules alone_bound_command alone_execution alone_advance alone_simple alone_queue)+

lemma alone_process: "alone.steady (ctx_tenant_id ctx) (process ctx w i)"
  unfolding process_def by (rule alone_rules alone_simple alone_queue alone_drive)+

lemma alone_process_next: "alone.steady (ctx_tenant_id ctx) (process_next ctx w n)"
  unfolding process_next_def
  by (rule alone_rules alone_simple alone_queue alone_drive | simp split: option.split | intro conjI allI impI)+

lemma alone_execution_op: "execution_owner c \<in> {None, Some t} \<Longrightarrow> alone.steady t (execution_op c)"
proof (cases c)
  case (Mode v)
  then show ?thesis by (auto simp: alone.steady_def confined_def ledger_kept_def set_mode_def split: option.split)
next
  case (Absence v)
  then show ?thesis by (simp add: alone.steady_def confined_def ledger_kept_def set_authoritative_absence_def)
qed (auto intro: alone_execution alone.steady_void alone_dispatch alone_reconcile)

subsection \<open>The browser's calls\<close>

lemma acts_confirm: "acts h (ctx_tenant_id ctx) UNIV (confirm ctx st aid nonce) (\<lambda>_. True)"
  unfolding confirm_def Let_def by (rule acts_consume_nonce acts_rules TrueI | simp)+

text \<open>What is done after \<open>authenticate_browser_session\<close> is done for the tenant of the session.\<close>

lemma alone_session:
  assumes "\<And>h ctx. acts h (ctx_tenant_id ctx) UNIV (f ctx) (\<lambda>_. True)" "session_tenant token s \<in> {None, Some t}"
    and "bnd (authenticate_browser_session token) f s = (x, s')"
  shows "confined t (s, p) (s', p)"
  using assms(3)
proof (cases rule: bnd_cases)
  case (raised e)
  from confined_acts [OF acts_authenticate raised(1)] show ?thesis .
next
  case (went ctx u)
  then obtain v where v: "session_live s token v" "ctx = session_context v" unfolding authenticate_ok by blast
  with assms(2) have t: "ctx_tenant_id ctx = t" by (auto simp: session_tenant_def session_live_def session_context_def)
  have "confined t (s, p) (u, p)" by (rule confined_acts [OF acts_authenticate went(1)])
  moreover have "confined t (u, p) (s', p)" by (rule confined_acts [OF assms(1) [of _ ctx, unfolded t] went(2)])
  ultimately show ?thesis by (rule alone.R_trans)
qed

lemma alone_ensured:
  assumes "\<And>x s'. m s = (x, s') \<Longrightarrow> confined t (s, p) (s', p)" "ensure b e m s = (x, s')"
  shows "confined t (s, p) (s', p)"
  using assms by (cases b) (auto simp: ensure_run alone.R_refl)

lemma alone_issue_nonce:
  assumes "session_tenant token s \<in> {None, Some t}" "issue_nonce token aid ttl s = (x, s')"
  shows "confined t (s, p) (s', p)"
  using assms(2) unfolding issue_nonce_def Let_def
proof (rule alone_ensured [rotated])
qed (erule alone_session [OF _ assms(1), rotated], (rule acts_save_nonce acts_rules TrueI | simp)+)

lemma alone_decide_authenticated:
  assumes "session_tenant token s \<in> {None, Some t}" "decide_approval_authenticated token aid approve reason nonce s = (x, s')"
  shows "confined t (s, p) (s', p)"
  using assms(2) unfolding decide_approval_authenticated_def
proof (rule alone_ensured [rotated])
qed (erule alone_session [OF _ assms(1), rotated], (rule acts_seq acts_bnd_any acts_confirm acts_decide subset_UNIV | simp)+)

subsection \<open>All calls\<close>

lemma acts_budget_op: "acts h (budget_owner c) UNIV (budget_op c) (\<lambda>_. True)"
  by (cases c) (auto intro: acts_void acts_configure_demo_byok acts_set_demo_budget_policy acts_record_demo_agent_run)

lemma acts_catalog_op: "acts h (catalog_owner c) UNIV (catalog_op c) (\<lambda>_. True)"
  by (cases c) (auto intro: acts_void acts_ingest_demo_catalog acts_project_demo_offer acts_request_demo_offer_approval
    acts_verify_approved_demo_offer)

lemma acts_item_view [acts_rules]: "acts h t L (item_view ctx a c ps now) (\<lambda>_. True)"
  unfolding item_view_def Let_def split_def by (rule acts_rules TrueI)+

lemma acts_readers:
  "acts h t UNIV (approval_inbox ctx) (\<lambda>_. True)" "acts h t UNIV (approval_detail ctx aid) (\<lambda>_. True)"
  unfolding approval_inbox_def approval_detail_def permissions_def Let_def by (rule acts_rules TrueI)+

lemmas service_acts = acts_mono [OF acts_member_call subset_UNIV] acts_mono [OF acts_approval_op subset_UNIV]
  acts_mono [OF acts_inbound_op subset_UNIV] acts_mono [OF acts_worker_call subset_UNIV] acts_budget_op acts_catalog_op acts_readers
  acts_ingest_order [OF subset_UNIV] acts_propose_routing [OF subset_UNIV] acts_approve_demo_po [OF subset_UNIV]
  acts_regenerate_demo_po [OF subset_UNIV] acts_submit_demo_po [OF subset_UNIV] acts_reconcile_demo_po [OF subset_UNIV]
  acts_request_demo_cancel [OF subset_UNIV] acts_ingest_demo_tracking [OF subset_UNIV] acts_open_demo_claim [OF subset_UNIV]
  acts_record_demo_claim_status [OF subset_UNIV] acts_import_demo_settlement [OF subset_UNIV] acts_submit_demo_tool [OF subset_UNIV UNIV_I]
  acts_set_demo_stop [OF subset_UNIV] acts_backup_demo_sqlite [OF UNIV_I] acts_record_demo_inventory [OF subset_UNIV refl]
  acts_record_demo_price_projection [OF subset_UNIV refl] acts_notify_demo [OF subset_UNIV] acts_set_preference [OF subset_UNIV]
  acts_acknowledge [OF subset_UNIV]

lemma alone_now: "alone.steady t m \<Longrightarrow> confined t s (snd (m s))"
  unfolding alone.steady_def by blast

lemmas alone_service_rules = service_acts [THEN alone_local] alone_execution_op alone_process alone_process_next

lemma confined_local:
  assumes "\<And>x s'. m (fst s) = (x, s') \<Longrightarrow> confined t (fst s, snd s) (s', snd s)"
  shows "confined t s (snd (local m s))"
  using assms by (auto simp: local_def split: prod.split)

lemma confined_void: "confined t s (snd (m s)) \<Longrightarrow> confined t s (snd (void m s))"
  by (auto simp: void_def op_simps split: prod.split sum.split)

lemma alone_browser:
  assumes "browser_owner c (fst s) \<in> {None, Some t}" shows "confined t s (snd (local (browser_op c) s))"
proof (cases c)
  case (Login ctx assertion ttl)
  with assms have "alone.steady t (local (browser_op c))"
    by (auto intro!: alone_local acts_void acts_issue_browser_session)
  then show ?thesis by (rule alone_now)
next
  case (Decide_as ctx cid approve reason)
  with assms have "alone.steady t (local (browser_op c))"
    by (auto intro!: alone_local acts_void acts_decide)
  then show ?thesis by (rule alone_now)
next
  case (Nonce token aid ttl)
  with assms alone_issue_nonce [of token "fst s" t aid ttl _ _ "snd s"] show ?thesis
    by (intro confined_local) (auto simp: void_def op_simps split: prod.splits sum.splits)
next
  case (Decide_with token aid approve reason nonce)
  with assms alone_decide_authenticated [of token "fst s" t aid approve reason nonce _ _ "snd s"] show ?thesis
    by (intro confined_local) (auto simp: void_def op_simps split: prod.splits sum.splits)
qed

lemma alone_bootstrap:
  assumes "uuid_src (fst s) (uuid_ctr (fst s)) = t" shows "confined t s (snd (local (bootstrap_tenant name email) s))"
proof (rule confined_local)
  fix x s' assume "bootstrap_tenant name email (fst s) = (x, s')"
  from bootstrap_writes [OF _ this] assms show "confined t (fst s, snd s) (s', snd s)"
    by (auto simp: confined_def ledger_kept_def intro: writes_mono)
qed

lemma alone_service_op: "acting_tenant c (fst s) \<in> {None, Some t} \<Longrightarrow> confined t s (snd (service_op c s))"
proof (cases c)
  case (Bootstrap name email)
  moreover assume "acting_tenant c (fst s) \<in> {None, Some t}"
  ultimately show ?thesis by (auto intro: confined_void alone_bootstrap)
next
  case (Browsing b)
  moreover assume "acting_tenant c (fst s) \<in> {None, Some t}"
  ultimately show ?thesis by (simp add: alone_browser)
qed (auto intro: confined_void alone_service_rules [THEN alone_now])

subsection \<open>Sequences of calls\<close>

fun acts_for :: "string \<Rightarrow> service_call list \<Rightarrow> platform \<Rightarrow> bool" where
  "acts_for t [] s \<longleftrightarrow> False"
| "acts_for t (c # cs) s \<longleftrightarrow> acting_tenant c (fst s) = Some t \<or> acts_for t cs (snd (service_op c s))"

text \<open>A call that acts for nobody is confined to any tenant.\<close>

lemma service_op_confined:
  "\<exists>t. (acting_tenant c (fst s) = Some t \<or> acting_tenant c (fst s) = None \<and> t \<noteq> u) \<and> confined t s (snd (service_op c s))"
proof (cases "acting_tenant c (fst s)")
  case None
  then have "confined (CHR ''x'' # u) s (snd (service_op c s))" by (simp add: alone_service_op)
  with None show ?thesis by (metis not_Cons_self2)
next
  case (Some t)
  then have "confined t s (snd (service_op c s))" by (simp add: alone_service_op)
  with Some show ?thesis by blast
qed

lemma run_service_isolated:
  assumes "wf_repo (db (fst s))" "\<not> acts_for u cs s"
  shows "wf_repo (db (fst (run_service cs s))) \<and> same_tenant u (db (fst s)) (db (fst (run_service cs s)))
     \<and> ledger_kept u (snd s) (snd (run_service cs s))"
  using assms
proof (induction cs s rule: run_service.induct)
  case (1 s)
  then show ?case by (simp add: ledger_kept_def)
next
  case (2 c cs s)
  let ?s = "snd (service_op c s)"
  obtain t where t: "t \<noteq> u" "confined t s ?s" using service_op_confined [of c s u] 2(3) by auto
  then have *: "wf_repo (db (fst ?s))" "writes (sha256 (fst s)) t UNIV (db (fst s)) (db (fst ?s))" "ledger_kept u (snd s) (snd ?s)"
    using 2(2) by (auto simp: confined_def)
  have "same_tenant u (db (fst s)) (db (fst ?s))"
    using isolation.writes_keep [OF *(2) 2(2), of u "db (fst s)"] t(1) by simp
  with * 2(1) [OF *(1)] 2(3) show ?case by (auto simp: ledger_kept_def intro: same_tenant_trans)
qed

lemma run_service_audits:
  assumes "wf_repo (db (fst s))" "chains_ok (sha256 (fst s)) (db (fst s))"
  shows "wf_repo (db (fst (run_service cs s))) \<and> sha256 (fst (run_service cs s)) = sha256 (fst s)
     \<and> chains_ok (sha256 (fst s)) (db (fst (run_service cs s)))
     \<and> prefix (audits_for t (db (fst s))) (audits_for t (db (fst (run_service cs s))))"
  using assms
proof (induction cs s rule: run_service.induct)
  case (2 c cs s)
  let ?s = "snd (service_op c s)"
  obtain u where "confined u s ?s" using service_op_confined [of c s "[]"] by auto
  then have *: "wf_repo (db (fst ?s))" "sha256 (fst ?s) = sha256 (fst s)" "writes (sha256 (fst s)) u UNIV (db (fst s)) (db (fst ?s))"
    using 2(2) by (auto simp: confined_def)
  have ok: "chains_ok (sha256 (fst ?s)) (db (fst ?s))" using audit_links.writes_keep [OF *(3) 2(2,3)] *(2) by simp
  have "prefix (audits_for t (db (fst s))) (audits_for t (db (fst ?s)))"
    by (rule audit_prefix.writes_keep [OF *(3) 2(2) prefix_order.refl])
  with 2(1) [OF *(1) ok] *(2) show ?case by (auto intro: prefix_order.trans)
qed simp

end
