(* ===== verification/Retries.thy ===== *)
theory Retries
  imports Outbox
begin

section \<open>Retries end\<close>

text \<open>
  The delivery loop of the SQLite adapter: an event is claimed, its delivery fails, it is retried
  and claimed again.  What the loop has left is bounded by \<open>rounds_left\<close>, which every accepted
  failure report lowers and no call raises.
\<close>

definition rounds_left :: "int \<Rightarrow> outbox_event \<Rightarrow> int" where
  "rounds_left k e = (if terminal_event e then 0
     else max 1 (k - ob_attempts e + (if ob_state e = Obx_LEASED then 1 else 0)))"

fun failure_of :: "string \<Rightarrow> string \<Rightarrow> lease_call \<Rightarrow> outbox_event list \<Rightarrow> bool" where
  "failure_of t i (LFail u j w tok err now m) tbl \<longleftrightarrow> u = t \<and> j = i \<and> \<not> isl (sq_fail_outbox u j w tok err now m tbl)"
| "failure_of t i _ tbl \<longleftrightarrow> False"

fun failures :: "string \<Rightarrow> string \<Rightarrow> lease_call list \<Rightarrow> outbox_event list \<Rightarrow> nat" where
  "failures t i [] tbl = 0"
| "failures t i (c # cs) tbl = (if failure_of t i c tbl then 1 else 0) + failures t i cs (snd (sq_call c tbl))"

fun attempts_limited :: "int \<Rightarrow> lease_call \<Rightarrow> bool" where
  "attempts_limited k (LFail t i w tok err now m) \<longleftrightarrow> m \<le> k"
| "attempts_limited k _ \<longleftrightarrow> True"

lemma rounds_left_nonneg: "0 \<le> rounds_left k e"
  by (simp add: rounds_left_def max_def)

lemma rounds_claim:
  "\<not> terminal_event e \<Longrightarrow>
     rounds_left k ((lease w until e)\<lparr>ob_attempts := ob_attempts e + 1, ob_last_error := None\<rparr>) \<le> rounds_left k e"
  by (auto simp: rounds_left_def lease_def terminal_event_def max_def)

lemma rounds_put:
  assumes "sq_row t i tbl = Some e" "sq_row u j tbl = Some x" "ob_tenant_id x' = u" "ob_id x' = j"
    and "t = u \<Longrightarrow> i = j \<Longrightarrow> x = e \<Longrightarrow> rounds_left k x' + n \<le> rounds_left k e" and "t = u \<and> i = j \<or> n = 0"
  shows "\<exists>e'. sq_row t i (sq_put x' tbl) = Some e' \<and> rounds_left k e' + n \<le> rounds_left k e"
  using assms by (auto simp: sq_row_put)

lemma rounds_claimed:
  assumes "sq_claim_outbox u j w now until tbl = Inr (e1, tbl')" "sq_row t i tbl = Some e"
  shows "\<exists>e'. sq_row t i tbl' = Some e' \<and> rounds_left k e' \<le> rounds_left k e"
proof -
  from sq_claim_ok [OF assms(1)] obtain e0 where e0: "sq_row u j tbl = Some e0" "\<not> terminal_event e0"
    "e1 = (lease w until e0)\<lparr>ob_attempts := ob_attempts e0 + 1, ob_last_error := None\<rparr>" "tbl' = sq_put e1 tbl" by blast
  have "ob_tenant_id e1 = u" "ob_id e1 = j" using sq_row_Some [OF e0(1)] e0(3) by (simp_all add: lease_def)
  moreover have "rounds_left k e1 \<le> rounds_left k e0" using rounds_claim [OF e0(2), of k w until] e0(3) by simp
  ultimately show ?thesis using rounds_put [OF assms(2) e0(1), of e1 k 0] e0(4) by auto
qed

lemma rounds_checkpoint:
  assumes "sq_checkpoint_outbox u j w tok p now d tbl = Inr (e1, tbl')" "sq_row t i tbl = Some e"
  shows "\<exists>e'. sq_row t i tbl' = Some e' \<and> rounds_left k e' \<le> rounds_left k e"
proof -
  from assms(1) obtain x where x: "sq_row u j tbl = Some x" "ob_state x = Obx_LEASED" and tbl': "tbl' = sq_put e1 tbl"
    and e1: "e1 = (if d then x\<lparr>ob_checkpoint := p, ob_state := Obx_COMPLETED, ob_completed_at := Some now,
        ob_lease_owner := None, ob_lease_until := None\<rparr> else x\<lparr>ob_checkpoint := p, ob_state := Obx_LEASED, ob_completed_at := None\<rparr>)"
  proof (cases "sq_claimed u j w tok now tbl")
    case (Inr x)
    then have "sq_row u j tbl = Some x" "ob_state x = Obx_LEASED" by (simp_all add: sq_claimed_ok holds_lease_def)
    then show thesis by (rule that) (use assms(1) Inr in \<open>auto simp: sq_checkpoint_outbox_def Let_def\<close>)
  qed (use assms(1) in \<open>simp add: sq_checkpoint_outbox_def\<close>)
  have "ob_tenant_id e1 = u" "ob_id e1 = j" using sq_row_Some [OF x(1)] e1 by simp_all
  moreover have "rounds_left k e1 \<le> rounds_left k x" using x(2) e1 by (simp add: rounds_left_def terminal_event_def max_def)
  ultimately show ?thesis using rounds_put [OF assms(2) x(1), of e1 k 0] tbl' by auto
qed

lemma rounds_failed:
  assumes "sq_fail_outbox u j w tok err now m tbl = Inr (e1, tbl')" "sq_row t i tbl = Some e" "m \<le> k"
  shows "\<exists>e'. sq_row t i tbl' = Some e' \<and> rounds_left k e' + (if u = t \<and> j = i then 1 else 0) \<le> rounds_left k e"
proof -
  from assms(1) obtain x where x: "sq_row u j tbl = Some x" "ob_state x = Obx_LEASED" and tbl': "tbl' = sq_put e1 tbl"
    and e1: "e1 = x\<lparr>ob_state := ob_state e1, ob_available_at := ob_available_at e1, ob_last_error := ob_last_error e1,
        ob_lease_owner := None, ob_lease_until := None\<rparr>" "ob_state e1 = (if ob_attempts x \<ge> m then Obx_DEAD else Obx_RETRY)"
  proof (cases "sq_claimed u j w tok now tbl")
    case (Inr x)
    then have "sq_row u j tbl = Some x" "ob_state x = Obx_LEASED" by (simp_all add: sq_claimed_ok holds_lease_def)
    then show thesis by (rule that) (use assms(1) Inr in \<open>auto simp: sq_fail_outbox_def Let_def split: if_splits\<close>)
  qed (use assms(1) in \<open>simp add: sq_fail_outbox_def split: if_splits\<close>)
  have "ob_tenant_id e1 = ob_tenant_id x" "ob_id e1 = ob_id x" "ob_attempts e1 = ob_attempts x" by (subst e1(1), simp)+
  moreover from this e1(2) have "rounds_left k e1 + 1 \<le> rounds_left k x"
    using x(2) assms(3) by (auto simp: rounds_left_def terminal_event_def max_def)
  ultimately show ?thesis
    using sq_row_Some [OF x(1)] assms(2) x(1) tbl' by (auto simp: sq_row_put)
qed

lemma rounds_step:
  assumes row: "sq_row t i tbl = Some e" and lim: "attempts_limited k c"
  shows "\<exists>e'. sq_row t i (snd (sq_call c tbl)) = Some e' \<and> rounds_left k e' + (if failure_of t i c tbl then 1 else 0) \<le> rounds_left k e"
proof (cases c)
  case (LClaim u j w now until)
  with row rounds_claimed [OF _ row, of u j w now until _ _ k] show ?thesis
    by (cases "sq_claim_outbox u j w now until tbl") (auto simp: settle_def)
next
  case (LNext u w now until)
  with row rounds_claimed [OF _ row, of u _ w now until _ _ k] show ?thesis
    by (auto simp: settle_def sq_claim_next_outbox_def split: option.split sum.split)
next
  case (LCheckpoint u j w tok p now d)
  with row rounds_checkpoint [OF _ row, of u j w tok p now d _ _ k] show ?thesis
    by (cases "sq_checkpoint_outbox u j w tok p now d tbl") (auto simp: settle_def)
next
  case (LFail u j w tok err now m)
  with row lim rounds_failed [OF _ row, of u j w tok err now m _ _ k] show ?thesis
    by (cases "sq_fail_outbox u j w tok err now m tbl") (auto simp: settle_def split: if_splits)
qed

lemma rounds_run:
  assumes "sq_row t i tbl = Some e" "list_all (attempts_limited k) cs"
  shows "\<exists>e'. sq_row t i (run_calls sq_call cs tbl) = Some e' \<and> rounds_left k e' + int (failures t i cs tbl) \<le> rounds_left k e"
  using assms
proof (induction cs arbitrary: tbl e)
  case (Cons c cs)
  obtain e1 where e1: "sq_row t i (snd (sq_call c tbl)) = Some e1"
    "rounds_left k e1 + (if failure_of t i c tbl then 1 else 0) \<le> rounds_left k e"
    using rounds_step [OF Cons.prems(1), of k c] Cons.prems(2) by auto
  from Cons.IH [OF e1(1)] Cons.prems(2) e1(2) show ?case by fastforce
qed simp


definition demo_rounds :: "lease_call list" where
  "demo_rounds = [LClaim ''t'' ''e'' ''w'' 0 10, LFail ''t'' ''e'' ''w'' 1 ''boom'' 5 2,
     LClaim ''t'' ''e'' ''w'' 100000000000 200000000000, LFail ''t'' ''e'' ''w'' 2 ''boom'' 100000000001 2]"

lemma demo_rounds_fail: "failures ''t'' ''e'' demo_rounds [demo_event] = 2"
  by code_simp


subsection \<open>The in-memory adapter\<close>

text \<open>
  Its claims do not count attempts, so there the same loop never ends: whatever calls are made,
  an event appended with no attempts is never dead.
\<close>

definition untried :: "outbox_event \<Rightarrow> bool" where
  "untried e \<longleftrightarrow> ob_attempts e \<le> 0 \<and> ob_state e \<noteq> Obx_DEAD"

lemma untried_put:
  assumes "dget (outbox r) (t, i) = Some e" "untried e" "dget (outbox r) (u, j) = Some x" "ob_tenant_id x' = u" "ob_id x' = j"
    and "untried x \<Longrightarrow> untried x'"
  shows "\<exists>e'. dget (outbox (put_event x' r)) (t, i) = Some e' \<and> untried e'"
  using assms by (auto simp: put_event_def dget_dset)

lemma untried_claim:
  assumes "claim_outbox u j w now until r = Inr (x', r')" "outbox_wf r" "dget (outbox r) (t, i) = Some e" "untried e"
  shows "\<exists>e'. dget (outbox r') (t, i) = Some e' \<and> untried e'"
proof -
  from claim_outbox_ok [OF assms(1)] obtain x where x: "dget (outbox r) (u, j) = Some x" "x' = lease w until x" "r' = put_event x' r"
    by blast
  show ?thesis unfolding x(3)
    by (rule untried_put [OF assms(3,4) x(1)]) (use outbox_wf_dget [OF assms(2) x(1)] x(2) in \<open>simp_all add: untried_def lease_def\<close>)
qed

lemma untried_report:
  assumes "claimed_outbox u j w tok now r = Inr x" "outbox_wf r" "dget (outbox r) (t, i) = Some e" "untried e"
    and "ob_tenant_id x' = ob_tenant_id x" "ob_id x' = ob_id x" "untried x \<Longrightarrow> untried x'"
  shows "\<exists>e'. dget (outbox (put_event x' r)) (t, i) = Some e' \<and> untried e'"
proof -
  have x: "dget (outbox r) (u, j) = Some x" using assms(1) claimed_outbox_ok [OF assms(2)] by blast
  show ?thesis by (rule untried_put [OF assms(3,4) x]) (use outbox_wf_dget [OF assms(2) x] assms(5-7) in simp_all)
qed

lemma untried_step:
  assumes wf: "outbox_wf r" and row: "dget (outbox r) (t, i) = Some e" "untried e"
  shows "\<exists>e'. dget (outbox (snd (mem_call c r))) (t, i) = Some e' \<and> untried e'"
proof (cases c)
  case (LClaim u j w now until)
  with row untried_claim [OF _ wf row, of u j w now until] show ?thesis
    by (cases "claim_outbox u j w now until r") (auto simp: settle_def)
next
  case (LNext u w now until)
  with row untried_claim [OF _ wf row, of u _ w now until] show ?thesis
    by (auto simp: settle_def claim_next_outbox_def split: option.split sum.split)
next
  case (LCheckpoint u j w tok p now d)
  with row untried_report [OF _ wf row, of u j w tok now] show ?thesis
    by (cases "claimed_outbox u j w tok now r") (simp_all add: settle_def checkpoint_outbox_def Let_def untried_def)
next
  case (LFail u j w tok err now m)
  with row untried_report [OF _ wf row, of u j w tok now] show ?thesis
    by (cases "claimed_outbox u j w tok now r") (simp_all add: settle_def fail_outbox_def Let_def untried_def)
qed

theorem memory_retries_never_end:
  assumes "outbox_wf r" "dget (outbox r) (t, i) = Some e" "ob_attempts e = 0" "ob_state e = Obx_PENDING"
  shows "\<exists>e'. dget (outbox (run_calls mem_call cs r)) (t, i) = Some e' \<and> ob_state e' \<noteq> Obx_DEAD"
proof -
  have "outbox_wf r \<Longrightarrow> dget (outbox r) (t, i) = Some e \<Longrightarrow> untried e \<Longrightarrow>
      \<exists>e'. dget (outbox (run_calls mem_call cs r)) (t, i) = Some e' \<and> untried e'" for e
  proof (induction cs arbitrary: r e)
    case (Cons c cs)
    with untried_step [OF Cons.prems, of c] mem_queue.wf_step [OF Cons.prems(1), of c] show ?case by auto
  qed auto
  from this [OF assms(1,2)] assms(3,4) show ?thesis by (auto simp: untried_def)
qed

end
