(* ===== verification/Notification_Laws.thy ===== *)
theory Notification_Laws
  imports Notifications Approval_Laws Versioned
begin

section \<open>Laws of notifications\<close>

text \<open>
  The channels of a new notification are tried in the preferred order up to the first that
  does not fail, and a notification that was announced is never delivered again.
\<close>

interpretation acknowledged: saved_once prior_acknowledgement save_incident_acknowledgement same_incident
  by unfold_locales
    (auto simp: save_incident_acknowledgement_def same_incident_def prior_acknowledgement_def check_def first_dset_new
      split: option.splits if_splits)

interpretation delivered: saved_once prior_delivery save_notification_delivery same_delivery
  by unfold_locales
    (auto simp: save_notification_delivery_def same_delivery_def prior_delivery_def check_def first_dset_new
      split: option.splits if_splits)

subsection \<open>The order of the channels\<close>

definition undelivered :: "repo \<Rightarrow> string \<Rightarrow> string \<Rightarrow> bool" where
  "undelivered r t key \<longleftrightarrow> (\<forall>v\<in>set (rows t (notification_deliveries r)). nd_idempotency_key v \<noteq> key)"

lemma attempt_ok:
  assumes "attempt_delivery ctx nkey key encoded c state n previous s = (Inr (d, replay), s')"
    and "undelivered (db s) (ctx_tenant_id ctx) key"
  shows "nd_channel d = c \<and> nd_state d = state \<and> nd_attempt d = n \<and> nd_fallback_from d = previous \<and> \<not> replay
     \<and> nd_idempotency_key d = key \<and> d \<in> set (rows (ctx_tenant_id ctx) (notification_deliveries (db s')))
     \<and> (\<forall>k. k \<noteq> key \<longrightarrow> undelivered (db s) (ctx_tenant_id ctx) k \<longrightarrow> undelivered (db s') (ctx_tenant_id ctx) k)"
  using assms
  by (auto simp: attempt_delivery_def svc_ok save_notification_delivery_def prior_delivery_def undelivered_def first_None
      checks_ok rows_dset_in dest!: first_Some subsetD [OF rows_dset_sub] split: option.splits)

definition tried :: "string list \<Rightarrow> string list \<Rightarrow> string list" where
  "tried failed cs = take (Suc (length (takeWhile (\<lambda>c. c \<in> set failed) cs))) cs"

lemma fall_back_order:
  "fall_back ctx nkey key encoded failed cs n previous s = (Inr (ds, rep), s') \<Longrightarrow> distinct cs \<Longrightarrow>
     \<forall>c\<in>set cs. undelivered (db s) (ctx_tenant_id ctx) (key @ '':'' @ c) \<Longrightarrow>
     map nd_channel ds = tried failed cs
     \<and> map nd_state ds = map (\<lambda>c. if c \<in> set failed then ''FAILED'' else ''DELIVERED'') (tried failed cs)
     \<and> map nd_fallback_from ds = butlast (previous # map Some (tried failed cs)) \<and> (rep \<longleftrightarrow> cs = [])"
proof (induction cs arbitrary: n previous s ds rep)
  case (Cons c cs)
  let ?k = "key @ '':'' @ c"
  obtain d replay u where one: "attempt_delivery ctx nkey ?k encoded c (if c \<in> set failed then ''FAILED'' else ''DELIVERED'') n previous s
      = (Inr (d, replay), u)"
    and k: "(if (if c \<in> set failed then ''FAILED'' else ''DELIVERED'') = ''DELIVERED'' then ret ([d], replay)
        else bnd (fall_back ctx nkey key encoded failed cs (n + 1) (Some c)) (\<lambda>(ds, replays). ret (d # ds, replay \<and> replays))) u
      = (Inr (ds, rep), s')"
    using Cons.prems(1) unfolding fall_back.simps Let_def bnd_ok by (auto simp del: fall_back.simps)
  note d = attempt_ok [OF one]
  show ?case
  proof (cases "c \<in> set failed")
    case False
    with k have "ds = [d]" "rep = replay" by (simp_all add: ret_ok)
    with False d Cons.prems(3) show ?thesis by (auto simp: tried_def)
  next
    case True
    with k obtain ds' reps where r: "fall_back ctx nkey key encoded failed cs (n + 1) (Some c) u = (Inr (ds', reps), s')"
      "ds = d # ds'" "rep = (replay \<and> reps)"
      by (simp add: bnd_ok split_paired_Ex ret_ok) blast
    have "undelivered (db u) (ctx_tenant_id ctx) (key @ '':'' @ x)" if "x \<in> set cs" for x
    proof -
      have "key @ '':'' @ x \<noteq> ?k" "undelivered (db s) (ctx_tenant_id ctx) (key @ '':'' @ x)" using that Cons.prems(2,3) by auto
      with d Cons.prems(3) show ?thesis by (meson list.set_intros(1))
    qed
    then have "\<forall>x\<in>set cs. undelivered (db u) (ctx_tenant_id ctx) (key @ '':'' @ x)" by blast
    from Cons.IH [OF r(1) _ this] Cons.prems(2) d Cons.prems(3) True r(2,3) show ?thesis
      by (cases cs) (auto simp: tried_def)
  qed
qed (simp add: ret_ok tried_def)

lemma last_tried: "cs \<noteq> [] \<Longrightarrow> last (tried failed cs) \<notin> set failed \<longleftrightarrow> \<not> set cs \<subseteq> set failed"
proof (induction cs)
  case (Cons c cs)
  then show ?case by (cases "cs = []") (auto simp: tried_def take_Suc split: if_splits)
qed simp

definition preferred :: "repo \<Rightarrow> string \<Rightarrow> string \<Rightarrow> demo_notification_preference" where
  "preferred r t nkey = (case get_notification_preference t nkey r of Some p \<Rightarrow> p | None \<Rightarrow> default_preference t nkey)"

text \<open>A notification that is not muted goes to its channels, in the state the call started from.\<close>

lemma notify_ok:
  assumes "notify_demo ctx nkey payload key failed s = (Inr n, s')" "\<not> pf_muted (preferred (db s) (ctx_tenant_id ctx) nkey)"
  shows "notify_channels ctx nkey key (dumps payload) failed (pf_channels (preferred (db s) (ctx_tenant_id ctx) nkey)) s = (Inr n, s')"
  using assms unfolding notify_demo_def Let_def
  by (auto simp: call_ok notification_id_def encode_payload_def checks_ok preferred_def)

lemma notify_channels_ok:
  assumes "notify_channels ctx nkey key encoded failed cs s = (Inr n, s')"
  obtains ds rep u where "fall_back ctx nkey key encoded failed cs 1 None s = (Inr (ds, rep), u)" "ds \<noteq> []"
    "n = \<lparr>nt_state = nd_state (last ds), nt_channel = nd_channel (last ds), nt_deliveries = ds, nt_replayed = rep\<rparr>"
    "if rep then s' = u else announce_delivery ctx nkey key (last ds) u = (Inr (), s')"
  using assms unfolding notify_channels_def Let_def
  by (auto simp: svc_ok split: if_splits)

text \<open>
  Channels are tried in the preferred order, and no further than needed.  A notification that is
  not muted and has no delivery under its key yet is tried on the preferred channels from the
  first on, up to and including the first one that does not fail; every attempt but that one
  is FAILED and each names the channel it falls back from.  The outcome is DELIVERED exactly
  when some preferred channel does not fail.
\<close>

theorem fallback_in_order:
  assumes run: "notify_demo ctx nkey payload key failed s = (Inr n, s')"
    and open_: "\<not> pf_muted (preferred (db s) (ctx_tenant_id ctx) nkey)"
    and cs: "cs = pf_channels (preferred (db s) (ctx_tenant_id ctx) nkey)" "distinct cs"
    and new: "\<forall>c\<in>set cs. undelivered (db s) (ctx_tenant_id ctx) (key @ '':'' @ c)"
  shows "map nd_channel (nt_deliveries n) = tried failed cs
     \<and> map nd_state (nt_deliveries n) = map (\<lambda>c. if c \<in> set failed then ''FAILED'' else ''DELIVERED'') (tried failed cs)
     \<and> map nd_fallback_from (nt_deliveries n) = butlast (None # map Some (tried failed cs))
     \<and> (nt_state n = ''DELIVERED'' \<longleftrightarrow> \<not> set cs \<subseteq> set failed) \<and> \<not> nt_replayed n"
proof -
  obtain ds rep u where f: "fall_back ctx nkey key (dumps payload) failed cs 1 None s = (Inr (ds, rep), u)" "ds \<noteq> []"
    and n: "n = \<lparr>nt_state = nd_state (last ds), nt_channel = nd_channel (last ds), nt_deliveries = ds, nt_replayed = rep\<rparr>"
    and "if rep then s' = u else announce_delivery ctx nkey key (last ds) u = (Inr (), s')"
    using notify_ok [OF run open_, folded cs(1)] by (rule notify_channels_ok)
  note o = fall_back_order [OF f(1) cs(2) new]
  have ne: "tried failed cs \<noteq> []" using o f(2) by (metis map_is_Nil_conv)
  have "nd_state (last ds) = last (map nd_state ds)" using f(2) by (simp add: last_map)
  also have "map nd_state ds = map (\<lambda>c. if c \<in> set failed then ''FAILED'' else ''DELIVERED'') (tried failed cs)"
    using o by blast
  also have "last \<dots> = (if last (tried failed cs) \<in> set failed then ''FAILED'' else ''DELIVERED'')"
    using ne by (rule last_map)
  finally have st: "nd_state (last ds) = ''DELIVERED'' \<longleftrightarrow> last (tried failed cs) \<notin> set failed" by simp
  have "cs \<noteq> []" using ne by (auto simp: tried_def)
  then have "last (tried failed cs) \<notin> set failed \<longleftrightarrow> \<not> set cs \<subseteq> set failed" by (rule last_tried)
  with o n st \<open>cs \<noteq> []\<close> show ?thesis by simp
qed

subsection \<open>Announced once\<close>

definition announced :: "repo \<Rightarrow> string \<Rightarrow> string \<Rightarrow> bool" where
  "announced r t key \<longleftrightarrow> dget (outbox_idempotency r) (t, ''notification:'' @ key @ '':simulated'') \<noteq> None"

lemma fall_back_replays:
  "fall_back ctx nkey key encoded failed cs n previous s = (Inr (ds, True), s') \<Longrightarrow> db s' = db s"
proof (induction cs arbitrary: n previous s ds)
  case (Cons c cs)
  have same: "attempt_delivery ctx nkey k encoded c st n previous s = (Inr (d, True), u) \<Longrightarrow> db u = db s" for k st d u
    by (auto simp: attempt_delivery_def svc_ok dest!: delivered.replay_reads)
  from Cons show ?case by (auto simp: Let_def svc_ok split: if_splits dest!: same)
qed (simp add: ret_ok)

lemma announce_fails:
  "announced (db s) (ctx_tenant_id ctx) key \<Longrightarrow> announce_delivery ctx nkey key final s \<noteq> (Inr (), s')"
  by (auto simp: announce_delivery_def Let_def announced_def svc_ok audit_run enqueue_def append_outbox_def append_audit_def new_outbox_event_def
      split: if_splits)

lemma atomic_notify: "atomic (notify_demo ctx nkey payload key failed)"
  unfolding notify_demo_def Let_def require_def membership_of_def by (rule atomic_rules)+

text \<open>
  An announced notification is not delivered again.  Once the announcement of a key is in the
  tenant's outbox, a further call with that key, for whatever notification, payload, failed channels and
  preferences that do not mute it, stores no delivery: it returns what was stored or raises.
\<close>

theorem announced_not_redelivered:
  assumes run: "notify_demo ctx nkey payload key failed s = (x, s')" and wf: "wf_repo (db s)"
    and ann: "announced (db s) (ctx_tenant_id ctx) key" and open_: "\<not> pf_muted (preferred (db s) (ctx_tenant_id ctx) nkey)"
  shows "db s' = db s \<and> (\<forall>n. x = Inr n \<longrightarrow> nt_replayed n)"
proof (cases x)
  case (Inl e)
  with run atomicD [OF atomic_notify] show ?thesis by blast
next
  case (Inr n)
  with run have "notify_demo ctx nkey payload key failed s = (Inr n, s')" by simp
  from notify_ok [OF this open_] obtain ds rep u where f: "fall_back ctx nkey key (dumps payload) failed
      (pf_channels (preferred (db s) (ctx_tenant_id ctx) nkey)) 1 None s = (Inr (ds, rep), u)" and "ds \<noteq> []"
    and n: "n = \<lparr>nt_state = nd_state (last ds), nt_channel = nd_channel (last ds), nt_deliveries = ds, nt_replayed = rep\<rparr>"
    and k: "if rep then s' = u else announce_delivery ctx nkey key (last ds) u = (Inr (), s')"
    by (rule notify_channels_ok)
  have "outbox_idempotency (db u) = outbox_idempotency (db s)"
    using writes_frame [OF actsD(3) [OF acts_fall_back [OF refl, of "{T_notification_deliveries}"] refl wf f], of T_outbox] by simp
  then have "announced (db u) (ctx_tenant_id ctx) key" using ann by (simp add: announced_def)
  with k have rep using announce_fails [of u ctx key nkey "last ds" s'] by (auto split: if_splits)
  with f k n Inr fall_back_replays show ?thesis by auto
qed

subsection \<open>A notification that falls back\<close>

definition demo_notify :: "(err + notice) \<times> world" where
  "demo_notify = notify_demo demo_master ''n1'' (JObj [(''a'', JInt 1)]) ''k1'' [''app_push''] demo_tenant"

lemma demo_counts: "show_nat 1 = ''1''" "show_nat 9 = ''9''" "show_nat 10 = ''10''"
  by code_simp+

lemma demo_plain: "opaque_colon ''n1''" "opaque_colon ''k1''" "length (dumps (JObj [(''a'', JInt 1)])) \<le> 16384"
  by code_simp+

lemma demo_unmuted: "preferred (db demo_tenant) ''u0'' ''n1'' = default_preference ''u0'' ''n1''"
  by (simp add: preferred_def get_notification_preference_def demo_tenant_more)

lemma demo_notify_run:
  "\<exists>n s'. demo_notify = (Inr n, s') \<and> announced (db s') ''u0'' ''k1'' \<and> notification_preferences (db s') = []"
  using demo_tenant_tables
  by (simp add: demo_notify_def notify_demo_def notify_channels_def announce_delivery_def attempt_delivery_def demo_simps
      notification_id_def demo_plain encode_payload_def check_def get_notification_preference_def default_preference_def all_channels_def
      save_notification_delivery_def prior_delivery_def rows_def announced_def transaction_def demo_counts del: dumps.simps)

theorem fallback_in_order_witness:
  "\<exists>n. fst demo_notify = Inr n \<and> map nd_channel (nt_deliveries n) = [''app_push'', ''email''] \<and> nt_state n = ''DELIVERED''"
proof -
  obtain n s' where run: "demo_notify = (Inr n, s')" using demo_notify_run by blast
  have "\<forall>c\<in>set all_channels. undelivered (db demo_tenant) ''u0'' (''k1:'' @ c)"
    by (simp add: undelivered_def rows_def demo_tenant_more)
  moreover have "fst demo_notify = Inr n" unfolding run by (rule fst_conv)
  ultimately show ?thesis using fallback_in_order [OF run [unfolded demo_notify_def], of all_channels]
    by (auto simp: demo_master_def demo_unmuted default_preference_def all_channels_def tried_def)
qed

theorem announced_not_redelivered_witness:
  "db (snd (notify_demo demo_master ''n2'' (JObj []) ''k1'' [] (snd demo_notify))) = db (snd demo_notify)"
proof -
  obtain n s' where run: "demo_notify = (Inr n, s')" and k: "announced (db s') ''u0'' ''k1''" "notification_preferences (db s') = []"
    using demo_notify_run by blast
  have "acts (sha256 demo_tenant) ''u0'' {T_notification_deliveries, T_audit_events, T_outbox}
      (notify_demo demo_master ''n1'' (JObj [(''a'', JInt 1)]) ''k1'' [''app_push'']) (\<lambda>_. True)"
    using acts_notify_demo [OF subset_refl, of _ demo_master] by (simp add: demo_master_def)
  from actsD(2) [OF this refl demo_tenant_wf run [unfolded demo_notify_def]] have "wf_repo (db s')" .
  from announced_not_redelivered [OF surjective_pairing this, where ctx = demo_master and key = "''k1''" and nkey = "''n2''"
      and payload = "JObj []" and failed = "[]"] k show ?thesis
    unfolding run by (simp add: demo_master_def preferred_def get_notification_preference_def default_preference_def)
qed

end
