(* ===== verification/Contracts.thy ===== *)
theory Contracts
  imports Checks
begin

section \<open>Channel pages\<close>

text \<open>
  channel_order_contracts.py and channel_claim_contracts.py: pages a channel answered with are read
  into snapshots of order lines and claim lines, or quarantined with a fixed reason.  A page is a
  JSON value; \<open>h\<close> is SHA-256.  The Unicode part of \<open>str.isprintable\<close> is an argument \<open>uni\<close>, and the
  nesting of a page stays below Python's recursion limit.
\<close>

definition quarantine :: "string \<Rightarrow> err" where
  "quarantine reason = OtherError ''ContractQuarantine'' reason"

definition chain :: "err + 'a \<Rightarrow> ('a \<Rightarrow> err + 'b) \<Rightarrow> err + 'b" where
  "chain x k = (case x of Inl e \<Rightarrow> Inl e | Inr a \<Rightarrow> k a)"

lemma chain_ok: "chain x k = Inr b \<longleftrightarrow> (\<exists>a. x = Inr a \<and> k a = Inr b)"
  by (cases x) (simp_all add: chain_def)

lemma chain_Inr [simp]: "chain (Inr a) k = k a"
  by (simp add: chain_def)

lemmas read_ok = chain_ok checks_ok

subsection \<open>Reading values\<close>

definition contract_json :: "json \<Rightarrow> err + string" where
  "contract_json v =
     check (finite_json v) (quarantine ''invalid_json'') (
     check (length (dumps v) \<le> 2097152) (quarantine ''page_size_exceeded'') (
     Inr (dumps v)))"

definition contract_hash :: "(string \<Rightarrow> string) \<Rightarrow> json \<Rightarrow> err + string" where
  "contract_hash h v = chain (contract_json v) (\<lambda>s. Inr (h s))"

definition object_of :: "json option \<Rightarrow> err + json" where
  "object_of v = (case v of Some (JObj kvs) \<Rightarrow> Inr (JObj kvs) | _ \<Rightarrow> Inl (quarantine ''object_required''))"

definition integer_of :: "bool \<Rightarrow> json option \<Rightarrow> err + int" where
  "integer_of positive v =
     need (that (\<lambda>n. (if positive then 1 else 0) \<le> n \<and> n \<le> 9223372036854775807) (js_int v)) (quarantine ''invalid_integer'') Inr"

text \<open>\<open>re.compile(r"[A-Za-z0-9][A-Za-z0-9_.-]{0,149}\\Z").fullmatch\<close>.\<close>

definition external_id :: "string \<Rightarrow> bool" where
  "external_id s \<longleftrightarrow> opaque s \<and> length s \<le> 150"

definition identifier_of :: "json option \<Rightarrow> err + string" where
  "identifier_of v = need (that external_id (js_str v)) (quarantine ''invalid_external_id'') Inr"

definition numeric_id :: "json option \<Rightarrow> err + string" where
  "numeric_id v = chain (integer_of True v) (\<lambda>n. Inr (show_int n))"

definition rows_of :: "nat \<Rightarrow> json option \<Rightarrow> err + json list" where
  "rows_of maximum v = need (that (\<lambda>xs. length xs \<le> maximum) (js_list v)) (quarantine ''invalid_row_list'') Inr"

definition state_of :: "string list \<Rightarrow> json option \<Rightarrow> err + string" where
  "state_of states v = need (that (\<lambda>s. s \<in> set states) (js_str v)) (quarantine ''unknown_order_state'') Inr"

definition is_printable :: "(string \<Rightarrow> bool) \<Rightarrow> string \<Rightarrow> bool" where
  "is_printable uni s \<longleftrightarrow> list_all (\<lambda>c. 32 \<le> (of_char c :: nat) \<and> (of_char c :: nat) \<noteq> 127) s
     \<and> (list_all (\<lambda>c. (of_char c :: nat) < 128) s \<or> uni s)"

definition cursor_of :: "(string \<Rightarrow> bool) \<Rightarrow> json option \<Rightarrow> err + string" where
  "cursor_of uni v = need (that (\<lambda>s. 1 \<le> py_len s \<and> py_len s \<le> 4096 \<and> is_printable uni s) (js_str v)) (quarantine ''invalid_cursor'') Inr"

text \<open>\<open>None if token in (None, "") else _cursor(token)\<close>.\<close>

definition next_cursor_of :: "(string \<Rightarrow> bool) \<Rightarrow> json option \<Rightarrow> err + string option" where
  "next_cursor_of uni v =
     (if v = None \<or> v = Some JNull \<or> v = Some (JStr []) then Inr None else chain (cursor_of uni v) (\<lambda>c. Inr (Some c)))"

fun truthy :: "json option \<Rightarrow> bool" where
  "truthy None = False"
| "truthy (Some JNull) = False"
| "truthy (Some (JBool b)) = b"
| "truthy (Some (JInt n)) = (n \<noteq> 0)"
| "truthy (Some (JFloat r)) = (r \<noteq> ''0.0'' \<and> r \<noteq> ''-0.0'')"
| "truthy (Some (JStr s)) = (s \<noteq> [])"
| "truthy (Some (JList xs)) = (xs \<noteq> [])"
| "truthy (Some (JObj kvs)) = (kvs \<noteq> [])"

subsection \<open>Order pages\<close>

record order_snapshot =
  os_provider :: string
  os_order_id :: string
  os_line_id :: string
  os_product_id :: string
  os_shipment_id :: "string option"
  os_status :: string
  os_initial_quantity :: int
  os_remaining_quantity :: int
  os_amounts_krw :: "(string \<times> int option) list"
  os_claim_review_required :: bool
  os_source_digest :: string
  os_executable :: bool

record order_page =
  og_provider :: string
  og_snapshots :: "order_snapshot list"
  og_next_cursor :: "string option"
  og_source_digest :: string

definition naver_states :: "string list" where
  "naver_states = [''PAYMENT_WAITING'', ''PAYED'', ''DELIVERING'', ''DELIVERED'', ''PURCHASE_DECIDED'', ''EXCHANGED'',
     ''CANCELED'', ''RETURNED'', ''CANCELED_BY_NOPAYMENT'']"

definition coupang_states :: "string list" where
  "coupang_states = [''ACCEPT'', ''INSTRUCT'', ''DEPARTURE'', ''DELIVERING'', ''FINAL_DELIVERY'', ''NONE_TRACKING'']"

text \<open>The loop of \<open>parse_naver_details\<close>; \<open>seen\<close> holds the line identifiers of the snapshots so far.\<close>

definition naver_row :: "(string \<Rightarrow> string) \<Rightarrow> json \<Rightarrow> order_snapshot list \<Rightarrow> err + order_snapshot list" where
  "naver_row h v snapshots =
     chain (object_of (Some v)) (\<lambda>row.
     chain (object_of (jget row ''order'')) (\<lambda>order.
     chain (object_of (jget row ''productOrder'')) (\<lambda>product.
     chain (identifier_of (jget product ''productOrderId'')) (\<lambda>line_id.
     check (line_id \<notin> os_line_id ` set snapshots) (quarantine ''duplicate_product_order'') (
     chain (integer_of True (jget product ''initialQuantity'')) (\<lambda>initial.
     chain (integer_of False (jget product ''remainQuantity'')) (\<lambda>remaining.
     chain (integer_of False (jget product ''initialPaymentAmount'')) (\<lambda>initial_payment.
     chain (integer_of False (jget product ''remainPaymentAmount'')) (\<lambda>remaining_payment.
     check (remaining \<le> initial \<and> remaining_payment \<le> initial_payment) (quarantine ''contradictory_remaining_amount'') (
     chain (identifier_of (jget order ''orderId'')) (\<lambda>order_id.
     chain (identifier_of (jget product ''productId'')) (\<lambda>product_id.
     chain (state_of naver_states (jget product ''productOrderStatus'')) (\<lambda>status.
     chain (integer_of False (jget product ''unitPrice'')) (\<lambda>unit_price.
     chain (contract_hash h row) (\<lambda>dg.
     Inr (snapshots @ [\<lparr>os_provider = ''naver'', os_order_id = order_id, os_line_id = line_id, os_product_id = product_id,
       os_shipment_id = None, os_status = status, os_initial_quantity = initial, os_remaining_quantity = remaining,
       os_amounts_krw = [(''initial_payment'', Some initial_payment), (''remaining_payment'', Some remaining_payment),
         (''unit_price'', Some unit_price)],
       os_claim_review_required = (truthy (jget product ''claimStatus'')
         \<or> list_ex (\<lambda>k. truthy (jget row k)) [''currentClaim'', ''cancel'', ''return'', ''exchange'']),
       os_source_digest = dg, os_executable = False\<rparr>]))))))))))))))))"

definition parse_naver_details :: "(string \<Rightarrow> string) \<Rightarrow> json \<Rightarrow> string list \<Rightarrow> err + order_page" where
  "parse_naver_details h body requested =
     chain (contract_hash h body) (\<lambda>dg.
     chain (object_of (Some body)) (\<lambda>b.
     chain (rows_of 300 (jget b ''data'')) (\<lambda>data.
     check (1 \<le> length requested \<and> length requested \<le> 300) (quarantine ''requested_ids_required'') (
     check (list_all external_id requested) (quarantine ''invalid_external_id'') (
     check (distinct requested) (quarantine ''duplicate_requested_id'') (
     chain (fold_check (naver_row h) data []) (\<lambda>snapshots.
     check (os_line_id ` set snapshots = set requested) (quarantine ''requested_id_coverage_mismatch'') (
     Inr \<lparr>og_provider = ''naver'', og_snapshots = snapshots, og_next_cursor = None, og_source_digest = dg\<rparr>))))))))"

definition krw_of :: "json option \<Rightarrow> err + int" where
  "krw_of v =
     chain (object_of v) (\<lambda>money.
     check (jget money ''currencyCode'' = Some (JStr ''KRW'') \<and> jget money ''nanos'' = Some (JInt 0)) (quarantine ''unsupported_money'') (
     integer_of False (jget money ''units'')))"

definition krw_or_none :: "json option \<Rightarrow> err + int option" where
  "krw_or_none v = (if v = None \<or> v = Some JNull then Inr None else chain (krw_of v) (\<lambda>n. Inr (Some n)))"

text \<open>What the lines of one shipment share.\<close>

record shipment =
  sh_row :: json
  sh_order_id :: string
  sh_shipment_id :: string
  sh_status :: string
  sh_shipping :: int
  sh_remote :: "int option"

definition coupang_line :: "(string \<Rightarrow> string) \<Rightarrow> shipment \<Rightarrow> json \<Rightarrow> order_snapshot list \<Rightarrow> err + order_snapshot list" where
  "coupang_line h s v snapshots =
     chain (object_of (Some v)) (\<lambda>line.
     need (that (\<lambda>x. length x = 3 \<and> list_all is_digit x) (js_str (jget line ''sequenceNo''))) (quarantine ''invalid_sequence'') (\<lambda>sequence.
     let line_id = sh_shipment_id s @ '':'' @ sequence in
     check (line_id \<notin> os_line_id ` set snapshots) (quarantine ''duplicate_shipment_line'') (
     chain (integer_of True (jget line ''shippingCount'')) (\<lambda>initial.
     chain (integer_of False (jget line ''cancelCount'')) (\<lambda>cancelled.
     chain (integer_of False (jget line ''holdCountForCancel'')) (\<lambda>pending.
     let remaining = initial - cancelled - pending in
     check (0 \<le> remaining) (quarantine ''contradictory_cancellation_count'') (
     chain (krw_of (jget line ''salesPrice'')) (\<lambda>unit_price.
     chain (krw_of (jget line ''orderPrice'')) (\<lambda>order_price.
     chain (krw_or_none (jget line ''discountPrice'')) (\<lambda>discount.
     check (order_price = unit_price * initial) (quarantine ''order_price_mismatch'') (
     chain (numeric_id (jget line ''vendorItemId'')) (\<lambda>product_id.
     chain (contract_hash h (sh_row s)) (\<lambda>dg.
     Inr (snapshots @ [\<lparr>os_provider = ''coupang'', os_order_id = sh_order_id s, os_line_id = line_id, os_product_id = product_id,
       os_shipment_id = Some (sh_shipment_id s), os_status = sh_status s, os_initial_quantity = initial, os_remaining_quantity = remaining,
       os_amounts_krw = [(''unit_price'', Some unit_price), (''order_price'', Some order_price), (''discount'', discount),
         (''shipment_shipping'', Some (sh_shipping s)), (''shipment_remote'', sh_remote s)],
       os_claim_review_required = (cancelled \<noteq> 0 \<or> pending \<noteq> 0), os_source_digest = dg, os_executable = False\<rparr>]))))))))))))))"

definition coupang_row :: "(string \<Rightarrow> string) \<Rightarrow> json \<Rightarrow> order_snapshot list \<Rightarrow> err + order_snapshot list" where
  "coupang_row h v snapshots =
     chain (object_of (Some v)) (\<lambda>row.
     chain (numeric_id (jget row ''orderId'')) (\<lambda>order_id.
     chain (numeric_id (jget row ''shipmentBoxId'')) (\<lambda>shipment_id.
     chain (state_of coupang_states (jget row ''status'')) (\<lambda>status.
     chain (krw_of (jget row ''shippingPrice'')) (\<lambda>shipping.
     chain (krw_or_none (jget row ''remotePrice'')) (\<lambda>remote.
     chain (rows_of 100 (jget row ''orderItems'')) (\<lambda>lines.
     check (lines \<noteq> []) (quarantine ''empty_order_items'') (
     fold_check (coupang_line h \<lparr>sh_row = row, sh_order_id = order_id, sh_shipment_id = shipment_id, sh_status = status,
       sh_shipping = shipping, sh_remote = remote\<rparr>) lines snapshots))))))))"

definition parse_coupang_day_page :: "(string \<Rightarrow> bool) \<Rightarrow> (string \<Rightarrow> string) \<Rightarrow> json \<Rightarrow> err + order_page" where
  "parse_coupang_day_page uni h body =
     chain (contract_hash h body) (\<lambda>dg.
     chain (object_of (Some body)) (\<lambda>b.
     check (jget b ''code'' = Some (JInt 200)) (quarantine ''provider_response_error'') (
     chain (rows_of 50 (jget b ''data'')) (\<lambda>data.
     chain (fold_check (coupang_row h) data []) (\<lambda>snapshots.
     chain (next_cursor_of uni (jget b ''nextToken'')) (\<lambda>token.
     Inr \<lparr>og_provider = ''coupang'', og_snapshots = snapshots, og_next_cursor = token, og_source_digest = dg\<rparr>))))))"

subsection \<open>Claim pages\<close>

record claim_line =
  cl_receipt_id :: string
  cl_order_id :: string
  cl_shipment_id :: string
  cl_vendor_item_id :: string
  cl_receipt_type :: string
  cl_receipt_status :: string
  cl_purchase_quantity :: int
  cl_cancel_quantity :: int
  cl_pre_refund_observed :: bool
  cl_return_shipping_charge_krw :: "int option"
  cl_source_digest :: string
  cl_bank_refund_verified :: bool

record claim_page =
  cg_lines :: "claim_line list"
  cg_source_digest :: string
  cg_next_cursor :: "string option"
  cg_provider :: string

definition receipt_states :: "string list" where
  "receipt_states = [''RELEASE_STOP_UNCHECKED'', ''RETURNS_UNCHECKED'', ''VENDOR_WAREHOUSE_CONFIRM'', ''REQUEST_COUPANG_CHECK'',
     ''RETURNS_COMPLETED'']"

fun js_bool :: "json option \<Rightarrow> bool option" where
  "js_bool (Some (JBool b)) = Some b"
| "js_bool _ = None"

definition charge_of :: "json option \<Rightarrow> err + int option" where
  "charge_of v = (if v = None \<or> v = Some JNull then Inr None else
     chain (object_of v) (\<lambda>c.
     check (jget c ''currencyCode'' = Some (JStr ''KRW'') \<and> jget c ''nanos'' = Some (JInt 0)) (quarantine ''unsupported_claim_money'') (
     need (that (\<lambda>n. -9223372036854775808 \<le> n \<and> n < 9223372036854775808) (js_int (jget c ''units''))) (quarantine ''unsupported_claim_money'')
       (\<lambda>n. Inr (Some n)))))"

text \<open>The inner loop: the items of a receipt, the sum of their counts and the items seen.\<close>

definition claim_item :: "(string \<Rightarrow> string) \<Rightarrow> json \<Rightarrow> claim_line \<Rightarrow> json \<Rightarrow> claim_line list \<times> int \<times> (string \<times> string) list
    \<Rightarrow> err + claim_line list \<times> int \<times> (string \<times> string) list" where
  "claim_item h receipt template v = (\<lambda>(lines, total, seen).
     chain (object_of (Some v)) (\<lambda>item.
     chain (numeric_id (jget item ''shipmentBoxId'')) (\<lambda>shipment_id.
     chain (numeric_id (jget item ''vendorItemId'')) (\<lambda>vendor_item_id.
     check ((shipment_id, vendor_item_id) \<notin> set seen) (quarantine ''duplicate_claim_item'') (
     chain (integer_of True (jget item ''purchaseCount'')) (\<lambda>purchase.
     chain (integer_of True (jget item ''cancelCount'')) (\<lambda>cancel.
     check (cancel \<le> purchase) (quarantine ''claim_quantity_exceeds_purchase'') (
     chain (contract_hash h receipt) (\<lambda>dg.
     Inr (lines @ [template\<lparr>cl_shipment_id := shipment_id, cl_vendor_item_id := vendor_item_id, cl_purchase_quantity := purchase,
         cl_cancel_quantity := cancel, cl_source_digest := dg\<rparr>],
       total + cancel, (shipment_id, vendor_item_id) # seen))))))))))"

definition claim_receipt :: "(string \<Rightarrow> string) \<Rightarrow> json \<Rightarrow> claim_line list \<times> string list \<Rightarrow> err + claim_line list \<times> string list" where
  "claim_receipt h v = (\<lambda>(lines, seen).
     chain (object_of (Some v)) (\<lambda>receipt.
     chain (numeric_id (jget receipt ''receiptId'')) (\<lambda>receipt_id.
     chain (numeric_id (jget receipt ''orderId'')) (\<lambda>order_id.
     check (receipt_id \<notin> set seen) (quarantine ''duplicate_claim_receipt'') (
     need (that (\<lambda>x. x \<in> {''RETURN'', ''CANCEL''}) (js_str (jget receipt ''receiptType''))) (quarantine ''unknown_receipt_type'') (\<lambda>kind.
     need (that (\<lambda>x. x \<in> set receipt_states) (js_str (jget receipt ''receiptStatus''))) (quarantine ''unknown_receipt_state'') (\<lambda>state.
     need (js_bool (jget receipt ''preRefund'')) (quarantine ''invalid_pre_refund_observation'') (\<lambda>pre_refund.
     chain (charge_of (jget receipt ''returnShippingCharge'')) (\<lambda>charge.
     chain (rows_of 1000 (jget receipt ''returnItems'')) (\<lambda>items.
     check (items \<noteq> []) (quarantine ''claim_items_required'') (
     chain (fold_check (claim_item h receipt \<lparr>cl_receipt_id = receipt_id, cl_order_id = order_id, cl_shipment_id = [],
         cl_vendor_item_id = [], cl_receipt_type = kind, cl_receipt_status = state, cl_purchase_quantity = 0, cl_cancel_quantity = 0,
         cl_pre_refund_observed = pre_refund, cl_return_shipping_charge_krw = charge, cl_source_digest = [],
         cl_bank_refund_verified = False\<rparr>) items (lines, 0, [])) (\<lambda>(lines', total, _).
     chain (integer_of True (jget receipt ''cancelCountSum'')) (\<lambda>n.
     check (total = n) (quarantine ''claim_count_sum_mismatch'') (
     Inr (lines', receipt_id # seen)))))))))))))))"

definition parse_coupang_claim_page :: "(string \<Rightarrow> bool) \<Rightarrow> (string \<Rightarrow> string) \<Rightarrow> json \<Rightarrow> err + claim_page" where
  "parse_coupang_claim_page uni h body =
     chain (contract_hash h body) (\<lambda>dg.
     chain (object_of (Some body)) (\<lambda>b.
     check (jget b ''code'' = Some (JInt 200)) (quarantine ''claim_response_not_success'') (
     chain (rows_of 50 (jget b ''data'')) (\<lambda>data.
     chain (fold_check (claim_receipt h) data ([], [])) (\<lambda>(lines, _).
     chain (next_cursor_of uni (jget b ''nextToken'')) (\<lambda>token.
     Inr \<lparr>cg_lines = lines, cg_source_digest = dg, cg_next_cursor = token, cg_provider = ''coupang''\<rparr>))))))"

subsection \<open>What a page guarantees\<close>

definition line_sound :: "order_snapshot \<Rightarrow> bool" where
  "line_sound s \<longleftrightarrow> 0 \<le> os_remaining_quantity s \<and> os_remaining_quantity s \<le> os_initial_quantity s
     \<and> 1 \<le> os_initial_quantity s \<and> os_initial_quantity s \<le> 9223372036854775807 \<and> \<not> os_executable s
     \<and> (if os_provider s = ''naver'' then os_status s \<in> set naver_states \<and> os_shipment_id s = None
        else os_status s \<in> set coupang_states
          \<and> (\<exists>unit. dget (os_amounts_krw s) ''unit_price'' = Some (Some unit)
              \<and> dget (os_amounts_krw s) ''order_price'' = Some (Some (unit * os_initial_quantity s))))"

definition lines_sound :: "string \<Rightarrow> order_snapshot list \<Rightarrow> bool" where
  "lines_sound provider ss \<longleftrightarrow> distinct (map os_line_id ss) \<and> (\<forall>s \<in> set ss. os_provider s = provider \<and> line_sound s)"

lemma lines_sound_snoc:
  "lines_sound p (ss @ [s]) \<longleftrightarrow> lines_sound p ss \<and> os_line_id s \<notin> os_line_id ` set ss \<and> os_provider s = p \<and> line_sound s"
  by (auto simp: lines_sound_def)

lemma integer_of_ok: "integer_of positive v = Inr n \<longleftrightarrow> v = Some (JInt n) \<and> (if positive then 1 else 0) \<le> n \<and> n \<le> 9223372036854775807"
  by (auto simp: integer_of_def read_ok)

lemma object_of_ok: "object_of v = Inr r \<longleftrightarrow> v = Some r \<and> (\<exists>kvs. r = JObj kvs)"
  by (auto simp: object_of_def split: option.split json.split)

lemma identifier_of_ok: "identifier_of v = Inr i \<longleftrightarrow> v = Some (JStr i) \<and> external_id i"
  by (auto simp: identifier_of_def read_ok)

lemma state_of_ok: "state_of states v = Inr s \<longleftrightarrow> v = Some (JStr s) \<and> s \<in> set states"
  by (auto simp: state_of_def read_ok)

lemma contract_hash_ok: "contract_hash h v = Inr d \<longleftrightarrow> finite_json v \<and> length (dumps v) \<le> 2097152 \<and> d = h (dumps v)"
  by (auto simp: contract_hash_def contract_json_def read_ok)

lemma naver_row_sound: "naver_row h v ss = Inr ss' \<Longrightarrow> lines_sound ''naver'' ss \<Longrightarrow> lines_sound ''naver'' ss' \<and> length ss' = Suc (length ss)"
  by (auto simp: naver_row_def read_ok lines_sound_snoc line_sound_def integer_of_ok state_of_ok)

lemma coupang_line_sound: "coupang_line h sh v ss = Inr ss' \<Longrightarrow> sh_status sh \<in> set coupang_states \<Longrightarrow> lines_sound ''coupang'' ss \<Longrightarrow> lines_sound ''coupang'' ss'"
  by (auto simp: coupang_line_def Let_def read_ok lines_sound_snoc line_sound_def integer_of_ok)

lemma coupang_lines_sound:
  "fold_check (coupang_line h sh) xs ss = Inr ss' \<Longrightarrow> sh_status sh \<in> set coupang_states \<Longrightarrow> lines_sound ''coupang'' ss \<Longrightarrow> lines_sound ''coupang'' ss'"
  by (erule fold_check_inv [where P = "lines_sound ''coupang''"]) (auto dest: coupang_line_sound)

lemma coupang_row_sound: "coupang_row h v ss = Inr ss' \<Longrightarrow> lines_sound ''coupang'' ss \<Longrightarrow> lines_sound ''coupang'' ss'"
  by (auto simp: coupang_row_def read_ok state_of_ok dest: coupang_lines_sound)

lemma naver_rows_sound:
  "fold_check (naver_row h) data ss = Inr ss' \<Longrightarrow> lines_sound ''naver'' ss \<Longrightarrow>
     lines_sound ''naver'' ss' \<and> length ss' = length ss + length data"
proof (induction data arbitrary: ss)
  case (Cons v data)
  then show ?case by (cases "naver_row h v ss") (auto dest: naver_row_sound)
qed simp


definition demo_order_row :: json where
  "demo_order_row = JObj [(''orderId'', JInt 7), (''shipmentBoxId'', JInt 8),
     (''status'', JStr ''INSTRUCT''), (''shippingPrice'', JObj [(''currencyCode'', JStr ''KRW''), (''units'', JInt 0), (''nanos'', JInt 0)]),
     (''orderItems'', JList [JObj [(''sequenceNo'', JStr ''001''), (''shippingCount'', JInt 3), (''cancelCount'', JInt 1),
       (''holdCountForCancel'', JInt 0), (''salesPrice'', JObj [(''currencyCode'', JStr ''KRW''), (''units'', JInt 5), (''nanos'', JInt 0)]),
       (''orderPrice'', JObj [(''currencyCode'', JStr ''KRW''), (''units'', JInt 15), (''nanos'', JInt 0)]),
       (''vendorItemId'', JInt 9)]])]"

definition demo_order_page :: json where
  "demo_order_page = JObj [(''code'', JInt 200), (''data'', JList [demo_order_row])]"

definition demo_snapshot :: order_snapshot where
  "demo_snapshot = \<lparr>os_provider = ''coupang'', os_order_id = ''7'', os_line_id = ''8:001'', os_product_id = ''9'',
     os_shipment_id = Some ''8'', os_status = ''INSTRUCT'', os_initial_quantity = 3, os_remaining_quantity = 2,
     os_amounts_krw = [(''unit_price'', Some 5), (''order_price'', Some 15), (''discount'', None), (''shipment_shipping'', Some 0),
       (''shipment_remote'', None)],
     os_claim_review_required = True, os_source_digest = ''d'', os_executable = False\<rparr>"

lemma demo_page_short: "length (dumps demo_order_page) \<le> 2097152" "length (dumps demo_order_row) \<le> 2097152"
proof -
  have "length (dumps demo_order_page) \<le> 1000" "length (dumps demo_order_row) \<le> 1000" by code_simp+
  then show "length (dumps demo_order_page) \<le> 2097152" "length (dumps demo_order_row) \<le> 2097152" by simp_all
qed

lemma show_small: "show_int 7 = ''7''" "show_int 8 = ''8''" "show_int 9 = ''9''"
  by code_simp+

lemma demo_hash: "contract_hash (\<lambda>_. ''d'') demo_order_page = Inr ''d''" "contract_hash (\<lambda>_. ''d'') demo_order_row = Inr ''d''"
  using demo_page_short by (simp_all add: contract_hash_ok) (simp_all add: demo_order_page_def demo_order_row_def)

lemma demo_row_read: "coupang_row (\<lambda>_. ''d'') demo_order_row [] = Inr [demo_snapshot]"
  using demo_hash(2)
  by (simp add: coupang_row_def coupang_line_def demo_order_row_def object_of_def numeric_id_def integer_of_def need_def check_def that_def
      state_of_def coupang_states_def krw_of_def krw_or_none_def rows_of_def is_digit_def show_small Let_def demo_snapshot_def)

lemma demo_page_read:
  "parse_coupang_day_page (\<lambda>_. False) (\<lambda>_. ''d'') demo_order_page =
     Inr \<lparr>og_provider = ''coupang'', og_snapshots = [demo_snapshot], og_next_cursor = None, og_source_digest = ''d''\<rparr>"
  using demo_hash(1) demo_row_read
  by (simp add: parse_coupang_day_page_def demo_order_page_def object_of_def check_def need_def that_def rows_of_def next_cursor_of_def)


end
