(* ===== verification/Finance_Pages.thy ===== *)
theory Finance_Pages
  imports Contracts
begin

section \<open>Settlement pages\<close>

text \<open>
  channel_finance_contracts.py: settlement pages of both channels as observations with the amount
  expected of each, and their comparison with the rows of a ledger, by the reference of the source
  record only.
\<close>

fun each :: "('a \<Rightarrow> err + 'b) \<Rightarrow> 'a list \<Rightarrow> err + 'b list" where
  "each f [] = Inr []"
| "each f (x # xs) = chain (f x) (\<lambda>y. chain (each f xs) (\<lambda>ys. Inr (y # ys)))"

definition null :: "json option \<Rightarrow> bool" where
  "null v \<longleftrightarrow> v = None \<or> v = Some JNull"

definition signed_of :: "bool \<Rightarrow> json option \<Rightarrow> err + int option" where
  "signed_of optional v =
     (if null v \<and> optional then Inr None
      else need (that (\<lambda>n. -9223372036854775808 \<le> n \<and> n \<le> 9223372036854775807) (js_int v)) (quarantine ''integral_krw_amount_required'')
        (\<lambda>n. Inr (Some n)))"

text \<open>The strings \<open>date.fromisoformat\<close> reads and \<open>isoformat\<close> prints back: \<open>YYYY-MM-DD\<close>.\<close>

definition days_in_month :: "nat \<Rightarrow> nat \<Rightarrow> nat" where
  "days_in_month y m =
     (if m = 2 then (if y mod 4 = 0 \<and> (y mod 100 \<noteq> 0 \<or> y mod 400 = 0) then 29 else 28)
      else if m \<in> {4, 6, 9, 11} then 30 else 31)"

definition calendar_date :: "string \<Rightarrow> bool" where
  "calendar_date s = (case s of
     [a, b, c, d, p, e, f, q, g, k] \<Rightarrow>
       p = CHR ''-'' \<and> q = CHR ''-'' \<and> list_all is_digit [a, b, c, d, e, f, g, k]
       \<and> 1 \<le> read_nat 0 [a, b, c, d] \<and> 1 \<le> read_nat 0 [e, f] \<and> read_nat 0 [e, f] \<le> 12
       \<and> 1 \<le> read_nat 0 [g, k] \<and> read_nat 0 [g, k] \<le> days_in_month (read_nat 0 [a, b, c, d]) (read_nat 0 [e, f])
   | _ \<Rightarrow> False)"

definition date_of :: "bool \<Rightarrow> json option \<Rightarrow> err + string option" where
  "date_of optional v =
     (if null v \<and> optional then Inr None
      else need (that calendar_date (js_str v)) (quarantine ''calendar_date_required'') (\<lambda>d. Inr (Some d)))"

definition optional_id :: "json option \<Rightarrow> err + string option" where
  "optional_id v = (if null v then Inr None else chain (identifier_of v) (\<lambda>i. Inr (Some i)))"

text \<open>\<open>tuple((key, read(row.get(key))) for key in keys)\<close>, the key with whether it may be absent.\<close>

definition fields_of :: "(bool \<Rightarrow> json option \<Rightarrow> err + 'a) \<Rightarrow> json \<Rightarrow> (string \<times> bool) list \<Rightarrow> err + (string \<times> 'a) list" where
  "fields_of read row = each (\<lambda>(k, optional). chain (read optional (jget row k)) (\<lambda>v. Inr (k, v)))"

definition amount_at :: "string \<Rightarrow> (string \<times> int option) list \<Rightarrow> (int \<Rightarrow> err + 'a) \<Rightarrow> err + 'a" where
  "amount_at k amounts = need (Option.bind (dget amounts k) (\<lambda>x. x)) (KeyError k)"

record settlement_observation =
  so_provider :: string
  so_source_record_ref :: string
  so_order_id :: "string option"
  so_product_ref :: "string option"
  so_kind :: string
  so_dates :: "(string \<times> string option) list"
  so_amounts_krw :: "(string \<times> int option) list"
  so_expected_minor :: int
  so_source_digest :: string
  so_received_minor :: "int option"
  so_cash_receipt_verified :: bool

record settlement_page =
  sg_provider :: string
  sg_observations :: "settlement_observation list"
  sg_next_cursor :: "string option"
  sg_warnings :: "string list"
  sg_source_digest :: string
  sg_pagination :: "(string \<times> int) list"

definition naver_settle_types :: "string list" where
  "naver_settle_types = [''NORMAL_SETTLE_ORIGINAL'', ''NORMAL_SETTLE_AFTER_CANCEL'', ''NORMAL_SETTLE_BEFORE_CANCEL'',
     ''QUICK_SETTLE_ORIGINAL'', ''QUICK_SETTLE_CANCEL'', ''QUANTITY_CANCEL_DEDUCTION'', ''QUANTITY_CANCEL_RESTORE'']"

definition naver_targets :: "string list" where
  "naver_targets = [''PROD_ORDER'', ''DELIVERY'', ''EXTRAFEE'', ''WITHDRAW'', ''REFUND'', ''PL_REFUND'', ''DEDUCTION_RESTORE'',
     ''PROD_PAY'', ''PURCHASE_REVIEW'', ''PREMIUM_PURCHASE_REVIEW'', ''REGULAR_PURCHASE_REVIEW'', ''ONE_MONTH_PURCHASE_REVIEW'',
     ''ONE_MONTH_PREMIUM_PURCHASE_REVIEW'', ''REVIEW'', ''ETC_COUPON'', ''QUICK_SETTLE'', ''QUANTITY_CANCEL'', ''DIFFERENCE_SETTLE'',
     ''DEPOSIT_SETTLE'', ''RENTAL_ORDER'', ''MANUAL_ORDER'', ''RENTAL_SCHEDULED_ORDER'', ''PREFERENTIAL_COMMISSION'',
     ''POINT_ACCUMULATION'', ''POST_ORDER_ADJUSTMENT_AMOUNT'', ''CSF'', ''CONCESSION'']"

subsection \<open>Naver\<close>

definition naver_settlement_row :: "(string \<Rightarrow> string) \<Rightarrow> json \<Rightarrow> settlement_observation list \<Rightarrow> err + settlement_observation list" where
  "naver_settlement_row h v obs =
     chain (object_of (Some v)) (\<lambda>row.
     need (that (\<lambda>x. x \<in> set naver_targets) (js_str (jget row ''productOrderType''))) (quarantine ''unknown_settlement_kind'') (\<lambda>target.
     need (that (\<lambda>x. x \<in> set naver_settle_types) (js_str (jget row ''settleType''))) (quarantine ''unknown_settlement_kind'') (\<lambda>kind.
     chain (contract_hash h row) (\<lambda>dg.
     check (dg \<notin> so_source_record_ref ` set obs) (quarantine ''duplicate_settlement_record'') (
     chain (fields_of date_of row [(''settleBasisDate'', True), (''settleExpectDate'', True), (''settleCompleteDate'', True), (''payDate'', True)]) (\<lambda>dates.
     chain (fields_of signed_of row [(''paySettleAmount'', False), (''benefitSettleAmount'', False), (''settleExpectAmount'', False),
       (''totalPayCommissionAmount'', True), (''freeInstallmentCommissionAmount'', True), (''sellingInterlockCommissionAmount'', True)]) (\<lambda>amounts.
     chain (optional_id (jget row ''orderId'')) (\<lambda>order_id.
     chain (optional_id (jget row ''productOrderId'')) (\<lambda>product_ref.
     amount_at ''settleExpectAmount'' amounts (\<lambda>expected.
     Inr (obs @ [\<lparr>so_provider = ''naver'', so_source_record_ref = dg, so_order_id = order_id, so_product_ref = product_ref,
       so_kind = target @ '':'' @ kind, so_dates = dates, so_amounts_krw = amounts, so_expected_minor = expected, so_source_digest = dg,
       so_received_minor = None, so_cash_receipt_verified = False\<rparr>])))))))))))"

definition parse_naver_settlement_page :: "(string \<Rightarrow> string) \<Rightarrow> json \<Rightarrow> err + settlement_page" where
  "parse_naver_settlement_page h body =
     chain (contract_hash h body) (\<lambda>dg.
     chain (object_of (Some body)) (\<lambda>b.
     chain (rows_of 1000 (jget b ''elements'')) (\<lambda>data.
     chain (object_of (jget b ''pagination'')) (\<lambda>p.
     chain (integer_of False (jget p ''page'')) (\<lambda>page.
     chain (integer_of False (jget p ''size'')) (\<lambda>size.
     chain (integer_of False (jget p ''totalPages'')) (\<lambda>pages.
     chain (integer_of False (jget p ''totalElements'')) (\<lambda>total.
     check (1 \<le> size \<and> size \<le> 1000 \<and> int (length data) \<le> size \<and> int (length data) \<le> total) (quarantine ''invalid_settlement_pagination'') (
     chain (fold_check (naver_settlement_row h) data []) (\<lambda>obs.
     Inr \<lparr>sg_provider = ''naver'', sg_observations = obs, sg_next_cursor = None,
       sg_warnings = [''pagination_requires_request_context''], sg_source_digest = dg,
       sg_pagination = [(''page'', page), (''size'', size), (''totalPages'', pages), (''totalElements'', total)]\<rparr>))))))))))"

subsection \<open>Coupang\<close>

text \<open>The observations and warnings of one revenue row: of its delivery, then of its items.\<close>

definition revenue_item :: "(string \<Rightarrow> string) \<Rightarrow> string \<Rightarrow> settlement_observation \<Rightarrow> nat \<times> json
    \<Rightarrow> settlement_observation list \<times> string list \<Rightarrow> err + settlement_observation list \<times> string list" where
  "revenue_item h dg template x = (\<lambda>(obs, warnings).
     chain (object_of (Some (snd x))) (\<lambda>item.
     chain (integer_of False (jget item ''vendorItemId'')) (\<lambda>vendor_item.
     chain (fields_of signed_of item [(''salePrice'', True), (''saleAmount'', False), (''serviceFee'', False), (''serviceFeeVat'', False),
       (''settlementAmount'', False), (''coupangDiscountCoupon'', True), (''sellerDiscountCoupon'', True), (''downloadableCoupon'', True),
       (''couranteeFee'', True), (''couranteeFeeVat'', True), (''storeFeeDiscount'', True), (''storeFeeDiscountVat'', True)]) (\<lambda>amounts.
     chain (contract_hash h (JList [JStr dg, JStr ''item'', JInt (int (fst x))])) (\<lambda>ref.
     amount_at ''settlementAmount'' amounts (\<lambda>expected.
     Inr (obs @ [template\<lparr>so_source_record_ref := ref,
         so_product_ref := (if vendor_item = 0 then None else Some (show_int vendor_item)),
         so_amounts_krw := amounts, so_expected_minor := expected\<rparr>],
       if vendor_item = 0 then warnings @ [''unbound_adjustment_item''] else warnings)))))))"

definition revenue_row :: "(string \<Rightarrow> string) \<Rightarrow> json \<Rightarrow> settlement_observation list \<times> string list \<times> string list
    \<Rightarrow> err + settlement_observation list \<times> string list \<times> string list" where
  "revenue_row h v = (\<lambda>(obs, warnings, seen).
     chain (object_of (Some v)) (\<lambda>row.
     chain (contract_hash h row) (\<lambda>dg.
     check (dg \<notin> set seen) (quarantine ''duplicate_settlement_record'') (
     chain (numeric_id (jget row ''orderId'')) (\<lambda>order_id.
     need (that (\<lambda>x. x \<in> {''SALE'', ''REFUND''}) (js_str (jget row ''saleType''))) (quarantine ''unknown_settlement_kind'') (\<lambda>kind.
     chain (fields_of date_of row [(''saleDate'', False), (''recognitionDate'', False), (''settlementDate'', False), (''finalSettlementDate'', True)]) (\<lambda>dates.
     chain (object_of (jget row ''deliveryFee'')) (\<lambda>delivery.
     chain (fields_of signed_of delivery [(''amount'', False), (''fee'', False), (''feeVat'', False), (''settlementAmount'', False)]) (\<lambda>fees.
     chain (contract_hash h (JList [JStr dg, JStr ''delivery''])) (\<lambda>ref.
     amount_at ''settlementAmount'' fees (\<lambda>expected.
     chain (rows_of 100 (jget row ''items'')) (\<lambda>items.
     let observed = \<lparr>so_provider = ''coupang'', so_source_record_ref = ref, so_order_id = Some order_id, so_product_ref = None,
           so_kind = kind @ '':DELIVERY'', so_dates = dates, so_amounts_krw = fees, so_expected_minor = expected, so_source_digest = dg,
           so_received_minor = None, so_cash_receipt_verified = False\<rparr>;
         noted = (if items = [] then warnings @ [''items_unavailable_not_zero_revenue''] else warnings) in
     chain (fold_check (revenue_item h dg (observed\<lparr>so_kind := kind @ '':ITEM''\<rparr>)) (enumerate 0 items) (obs @ [observed], noted))
       (\<lambda>(obs', warnings'). Inr (obs', warnings', dg # seen))))))))))))))"

definition parse_coupang_revenue_page :: "(string \<Rightarrow> bool) \<Rightarrow> (string \<Rightarrow> string) \<Rightarrow> json \<Rightarrow> err + settlement_page" where
  "parse_coupang_revenue_page uni h body =
     chain (contract_hash h body) (\<lambda>dg.
     chain (object_of (Some body)) (\<lambda>b.
     check (jget b ''code'' = Some (JInt 200)) (quarantine ''provider_response_error'') (
     need (js_bool (jget b ''hasNext'')) (quarantine ''has_next_required'') (\<lambda>more.
     chain (if more then chain (cursor_of uni (jget b ''nextToken'')) (\<lambda>c. Inr (Some c))
            else check (null (jget b ''nextToken'') \<or> jget b ''nextToken'' = Some (JStr [])) (quarantine ''contradictory_revenue_cursor'') (Inr None)) (\<lambda>token.
     chain (rows_of 50 (jget b ''data'')) (\<lambda>data.
     chain (fold_check (revenue_row h) data ([], [], [])) (\<lambda>(obs, warnings, _).
     Inr \<lparr>sg_provider = ''coupang'', sg_observations = obs, sg_next_cursor = token,
       sg_warnings = sort (remdups warnings), sg_source_digest = dg, sg_pagination = []\<rparr>)))))))"

subsection \<open>Comparison with a ledger\<close>

record ledger_comparison =
  lc_source_record_ref :: string
  lc_expected_minor :: int
  lc_ledger_minor :: "int option"
  lc_status :: string
  lc_cash_receipt_verified :: bool

text \<open>The loop over the ledger's rows: what was received under each reference, and the ledger references seen.\<close>

definition ledger_row :: "string list \<Rightarrow> json \<Rightarrow> (string, int) dict \<times> string list \<Rightarrow> err + (string, int) dict \<times> string list" where
  "ledger_row expected v = (\<lambda>(received, seen).
     chain (object_of (Some v)) (\<lambda>row.
     check (map_option set (js_keys row) = Some {''source_record_ref'', ''ledger_ref'', ''amount_minor'', ''currency'', ''date''}) (quarantine ''ledger_schema_mismatch'') (
     chain (identifier_of (jget row ''source_record_ref'')) (\<lambda>ref.
     chain (identifier_of (jget row ''ledger_ref'')) (\<lambda>ledger_ref.
     check (ref \<in> set expected \<and> dget received ref = None \<and> ledger_ref \<notin> set seen) (quarantine ''unmatched_or_duplicate_ledger_row'') (
     chain (date_of False (jget row ''date'')) (\<lambda>_.
     chain (signed_of False (jget row ''amount_minor'')) (\<lambda>amount.
     check (jget row ''currency'' = Some (JStr ''KRW'')) (quarantine ''ledger_currency_mismatch'') (
     need amount (quarantine ''integral_krw_amount_required'') (\<lambda>n. Inr (dset ref n received, ledger_ref # seen)))))))))))"

definition comparison :: "(string, int) dict \<Rightarrow> settlement_observation \<Rightarrow> ledger_comparison" where
  "comparison received o' = \<lparr>lc_source_record_ref = so_source_record_ref o', lc_expected_minor = so_expected_minor o',
     lc_ledger_minor = dget received (so_source_record_ref o'),
     lc_status = (case dget received (so_source_record_ref o') of None \<Rightarrow> ''MISSING_LEDGER''
       | Some n \<Rightarrow> if n = so_expected_minor o' then ''MATCHED_FIXTURE'' else ''AMOUNT_MISMATCH''),
     lc_cash_receipt_verified = False\<rparr>"

definition compare_fixture_ledger :: "settlement_page \<Rightarrow> json \<Rightarrow> err + ledger_comparison list" where
  "compare_fixture_ledger page ledger = (let refs = map so_source_record_ref (sg_observations page) in
     check (distinct refs) (quarantine ''duplicate_settlement_record'') (
     chain (rows_of 1000 (Some ledger)) (\<lambda>entries.
     chain (fold_check (ledger_row refs) entries ([], [])) (\<lambda>(received, _).
     Inr (map (comparison received) (sg_observations page))))))"

subsection \<open>What a comparison says\<close>

definition ledger_entry :: "string \<Rightarrow> int \<Rightarrow> json \<Rightarrow> bool" where
  "ledger_entry ref n row \<longleftrightarrow> jget row ''source_record_ref'' = Some (JStr ref) \<and> jget row ''amount_minor'' = Some (JInt n)"

lemma signed_of_False: "signed_of False v = Inr x \<Longrightarrow> \<exists>n. v = Some (JInt n) \<and> x = Some n"
  by (auto simp: signed_of_def read_ok)

lemma ledger_row_ok:
  assumes "ledger_row refs v (received, seen) = Inr (received', seen')"
  shows "\<exists>ref n. ref \<in> set refs \<and> dget received ref = None \<and> received' = dset ref n received \<and> (\<forall>k m. ledger_entry k m v \<longleftrightarrow> k = ref \<and> m = n)"
proof -
  from assms obtain ref amount n where "identifier_of (jget v ''source_record_ref'') = Inr ref" "ref \<in> set refs" "dget received ref = None"
    "signed_of False (jget v ''amount_minor'') = Inr amount" "amount = Some n" "received' = dset ref n received"
    by (auto simp: ledger_row_def read_ok object_of_ok)
  then show ?thesis by (intro exI [of _ ref] exI [of _ n]) (auto simp: identifier_of_ok ledger_entry_def dest!: signed_of_False)
qed

lemma ledger_rows_ok:
  "fold_check (ledger_row refs) entries (received, seen) = Inr (received', seen') \<Longrightarrow>
     (dget received' k = Some n \<longleftrightarrow> dget received k = Some n \<or> (\<exists>row \<in> set entries. ledger_entry k n row))"
proof (induction entries arbitrary: received seen)
  case (Cons v entries)
  then obtain received1 seen1 where one: "ledger_row refs v (received, seen) = Inr (received1, seen1)"
    and rest: "fold_check (ledger_row refs) entries (received1, seen1) = Inr (received', seen')"
    by (auto split: sum.splits)
  from ledger_row_ok [OF one] obtain ref m where "dget received ref = None" "received1 = dset ref m received"
    "\<forall>k n. ledger_entry k n v \<longleftrightarrow> k = ref \<and> n = m" by blast
  with Cons.IH [OF rest] show ?case by (auto simp: dget_dset)
qed simp

definition judged :: "json list \<Rightarrow> settlement_observation \<Rightarrow> ledger_comparison \<Rightarrow> bool" where
  "judged entries x c \<longleftrightarrow> lc_source_record_ref c = so_source_record_ref x \<and> lc_expected_minor c = so_expected_minor x
     \<and> (lc_status c = ''MATCHED_FIXTURE'' \<longleftrightarrow> (\<exists>row \<in> set entries. ledger_entry (so_source_record_ref x) (so_expected_minor x) row))
     \<and> (lc_status c = ''MISSING_LEDGER'' \<longleftrightarrow> \<not> (\<exists>row \<in> set entries. \<exists>n. ledger_entry (so_source_record_ref x) n row))
     \<and> lc_status c \<in> {''MATCHED_FIXTURE'', ''MISSING_LEDGER'', ''AMOUNT_MISMATCH''} \<and> \<not> lc_cash_receipt_verified c"

text \<open>
  A comparison with a ledger says what the ledger holds.  It has one line per observation of the
  page, in their order; a line is matched exactly when the ledger has a row for that observation's
  record with exactly the expected amount, missing exactly when it has no row for the record, and
  otherwise a mismatch; no line proves that money was received.
\<close>

theorem ledger_compared_exactly:
  assumes "compare_fixture_ledger page (JList entries) = Inr cs"
  shows "list_all2 (judged entries) (sg_observations page) cs"
proof -
  from assms obtain received seen where run: "fold_check (ledger_row (map so_source_record_ref (sg_observations page))) entries ([], []) = Inr (received, seen)"
    and cs: "cs = map (comparison received) (sg_observations page)"
    by (auto simp: compare_fixture_ledger_def Let_def read_ok rows_of_def)
  have key: "dget received k = Some n \<longleftrightarrow> (\<exists>row \<in> set entries. ledger_entry k n row)" for k n
    using ledger_rows_ok [OF run, of k n] by simp
  have any: "(\<exists>row \<in> set entries. \<exists>n. ledger_entry k n row) \<longleftrightarrow> dget received k \<noteq> None" for k using key by blast
  have "judged entries x (comparison received x)" for x
    unfolding judged_def any key [symmetric] by (simp add: comparison_def split: option.split)
  then show ?thesis by (simp add: cs list_all2_conv_all_nth)
qed

definition demo_observation :: settlement_observation where
  "demo_observation = \<lparr>so_provider = ''coupang'', so_source_record_ref = ''r1'', so_order_id = Some ''7'', so_product_ref = None,
     so_kind = ''SALE:DELIVERY'', so_dates = [], so_amounts_krw = [], so_expected_minor = 900, so_source_digest = ''d'',
     so_received_minor = None, so_cash_receipt_verified = False\<rparr>"

definition demo_ledger :: "json list" where
  "demo_ledger = [JObj [(''source_record_ref'', JStr ''r1''), (''ledger_ref'', JStr ''l1''), (''amount_minor'', JInt 800),
     (''currency'', JStr ''KRW''), (''date'', JStr ''2024-02-29'')]]"

definition demo_settlements :: settlement_page where
  "demo_settlements = \<lparr>sg_provider = ''coupang'', sg_observations = [demo_observation, demo_observation\<lparr>so_source_record_ref := ''r2''\<rparr>],
     sg_next_cursor = None, sg_warnings = [], sg_source_digest = ''d'', sg_pagination = []\<rparr>"

definition demo_comparisons :: "ledger_comparison list" where
  "demo_comparisons = map (comparison [(''r1'', 800)]) (sg_observations demo_settlements)"

lemma demo_date: "calendar_date ''2024-02-29''"
  by (simp add: calendar_date_def days_in_month_def is_digit_def)

lemma demo_comparison_run: "compare_fixture_ledger demo_settlements (JList demo_ledger) = Inr demo_comparisons"
  using demo_date
  by (simp add: compare_fixture_ledger_def demo_settlements_def demo_observation_def demo_ledger_def demo_comparisons_def rows_of_def
      ledger_row_def object_of_def identifier_of_def external_id_def opaque_def opaque_with_def is_alnum_def is_digit_def is_lower_def
      date_of_def signed_of_def null_def need_def check_def that_def Let_def)

theorem ledger_compared_exactly_witness:
  "list_all2 (judged demo_ledger) [demo_observation, demo_observation\<lparr>so_source_record_ref := ''r2''\<rparr>] demo_comparisons"
  using ledger_compared_exactly [OF demo_comparison_run] by (simp add: demo_settlements_def)

end
