(* ===== verification/Journal.thy ===== *)
theory Journal
  imports Finance_Pages
begin

section \<open>The journal of channel pages\<close>

text \<open>
  offline_contract_journal.py: accepted pages are recorded once, under their key, and move the
  checkpoint of their tenant, connection and provider by one.  A journal is its two tables; the file
  behind them, and the marker looked for when it is opened, are left out.  \<open>record\<close> is one
  transaction, so a raise leaves the journal as it was.
\<close>

type_synonym scope = "string \<times> string \<times> string"

record journal =
  jn_checkpoints :: "(scope, int \<times> string option) dict"
  jn_pages :: "(scope \<times> string, string \<times> string) dict"

definition empty_journal :: journal where
  "empty_journal = \<lparr>jn_checkpoints = [], jn_pages = []\<rparr>"

datatype contract_page = Order_page order_page | Settlement_page settlement_page

subsection \<open>The recorded text of a page\<close>

definition opt_json :: "('a \<Rightarrow> json) \<Rightarrow> 'a option \<Rightarrow> json" where
  "opt_json f v = (case v of None \<Rightarrow> JNull | Some x \<Rightarrow> f x)"

definition pairs_json :: "('a \<Rightarrow> json) \<Rightarrow> (string \<times> 'a) list \<Rightarrow> json" where
  "pairs_json f kvs = JList (map (\<lambda>(k, v). JList [JStr k, f v]) kvs)"

definition order_snapshot_json :: "order_snapshot \<Rightarrow> json" where
  "order_snapshot_json s = JObj
     [(''provider'', JStr (os_provider s)), (''order_id'', JStr (os_order_id s)), (''line_id'', JStr (os_line_id s)),
      (''product_id'', JStr (os_product_id s)), (''shipment_id'', opt_json JStr (os_shipment_id s)), (''status'', JStr (os_status s)),
      (''initial_quantity'', JInt (os_initial_quantity s)), (''remaining_quantity'', JInt (os_remaining_quantity s)),
      (''amounts_krw'', pairs_json (opt_json JInt) (os_amounts_krw s)),
      (''claim_review_required'', JBool (os_claim_review_required s)), (''source_digest'', JStr (os_source_digest s)),
      (''executable'', JBool (os_executable s))]"

definition order_page_json :: "order_page \<Rightarrow> json" where
  "order_page_json p = JObj
     [(''provider'', JStr (og_provider p)), (''snapshots'', JList (map order_snapshot_json (og_snapshots p))),
      (''next_cursor'', opt_json JStr (og_next_cursor p)), (''source_digest'', JStr (og_source_digest p))]"

definition settlement_observation_json :: "settlement_observation \<Rightarrow> json" where
  "settlement_observation_json s = JObj
     [(''provider'', JStr (so_provider s)), (''source_record_ref'', JStr (so_source_record_ref s)),
      (''order_id'', opt_json JStr (so_order_id s)), (''product_ref'', opt_json JStr (so_product_ref s)), (''kind'', JStr (so_kind s)),
      (''dates'', pairs_json (opt_json JStr) (so_dates s)), (''amounts_krw'', pairs_json (opt_json JInt) (so_amounts_krw s)),
      (''expected_minor'', JInt (so_expected_minor s)), (''source_digest'', JStr (so_source_digest s)),
      (''received_minor'', opt_json JInt (so_received_minor s)), (''cash_receipt_verified'', JBool (so_cash_receipt_verified s))]"

definition settlement_page_json :: "settlement_page \<Rightarrow> json" where
  "settlement_page_json p = JObj
     [(''provider'', JStr (sg_provider p)), (''observations'', JList (map settlement_observation_json (sg_observations p))),
      (''next_cursor'', opt_json JStr (sg_next_cursor p)), (''warnings'', JList (map JStr (sg_warnings p))),
      (''source_digest'', JStr (sg_source_digest p)), (''pagination'', pairs_json JInt (sg_pagination p))]"

fun canonical_payload :: "contract_page \<Rightarrow> err + string" where
  "canonical_payload (Order_page p) = contract_json (order_page_json p)"
| "canonical_payload (Settlement_page p) = contract_json (settlement_page_json p)"

fun page_provider :: "contract_page \<Rightarrow> string" where
  "page_provider (Order_page p) = og_provider p"
| "page_provider (Settlement_page p) = sg_provider p"

fun page_cursor :: "contract_page \<Rightarrow> string option" where
  "page_cursor (Order_page p) = og_next_cursor p"
| "page_cursor (Settlement_page p) = sg_next_cursor p"

fun provider_scope :: "contract_page \<Rightarrow> string" where
  "provider_scope (Order_page p) = og_provider p"
| "provider_scope (Settlement_page p) = sg_provider p @ ''_settlement''"

subsection \<open>Operations\<close>

definition scope_of :: "string \<Rightarrow> string \<Rightarrow> string \<Rightarrow> err + scope" where
  "scope_of tenant connection provider =
     chain (identifier_of (Some (JStr tenant))) (\<lambda>t.
     chain (identifier_of (Some (JStr connection))) (\<lambda>c.
     check (provider \<in> {''naver'', ''coupang'', ''naver_settlement'', ''coupang_settlement''}) (quarantine ''unsupported_provider'') (
     Inr (t, c, provider))))"

definition checkpoint_at :: "scope \<Rightarrow> journal \<Rightarrow> int \<times> string option" where
  "checkpoint_at s j = (case dget (jn_checkpoints j) s of None \<Rightarrow> (0, None) | Some c \<Rightarrow> c)"

definition journal_checkpoint :: "string \<Rightarrow> string \<Rightarrow> string \<Rightarrow> journal \<Rightarrow> err + int \<times> string option" where
  "journal_checkpoint tenant connection provider j = chain (scope_of tenant connection provider) (\<lambda>s. Inr (checkpoint_at s j))"

definition pages_at :: "scope \<Rightarrow> journal \<Rightarrow> nat" where
  "pages_at s j = length (filter (\<lambda>r. fst (fst r) = s) (jn_pages j))"

definition journal_page_count :: "string \<Rightarrow> string \<Rightarrow> string \<Rightarrow> journal \<Rightarrow> err + int" where
  "journal_page_count tenant connection provider j = chain (scope_of tenant connection provider) (\<lambda>s. Inr (int (pages_at s j)))"

text \<open>The transaction of \<open>record\<close>: the version after it and whether the page was there.\<close>

definition record_page_in :: "scope \<Rightarrow> string \<Rightarrow> string \<Rightarrow> string \<Rightarrow> int \<Rightarrow> string option \<Rightarrow> journal \<Rightarrow> err + (int \<times> bool) \<times> journal" where
  "record_page_in s key dg payload expected continuation j = (let current = fst (checkpoint_at s j) in
     case dget (jn_pages j) (s, key) of
       Some page \<Rightarrow> check (fst page = dg) (quarantine ''page_identity_content_conflict'') (Inr ((current, True), j))
     | None \<Rightarrow> check (current = expected) (quarantine ''checkpoint_version_conflict'') (
         Inr ((current + 1, False), j\<lparr>jn_pages := jn_pages j @ [((s, key), (dg, payload))],
           jn_checkpoints := dset s (current + 1, continuation) (jn_checkpoints j)\<rparr>)))"

definition record_page :: "(string \<Rightarrow> bool) \<Rightarrow> (string \<Rightarrow> string) \<Rightarrow> string \<Rightarrow> string \<Rightarrow> string \<Rightarrow> contract_page \<Rightarrow> int \<Rightarrow> string option
    \<Rightarrow> journal \<Rightarrow> err + (int \<times> bool) \<times> journal" where
  "record_page uni h tenant connection key page expected continuation j =
     chain (scope_of tenant connection (provider_scope page)) (\<lambda>s.
     chain (identifier_of (Some (JStr key))) (\<lambda>_.
     chain (integer_of False (Some (JInt expected))) (\<lambda>_.
     chain (case continuation of None \<Rightarrow> Inr [] | Some c \<Rightarrow> cursor_of uni (Some (JStr c))) (\<lambda>_.
     check (page_provider page = ''coupang'' \<longrightarrow> continuation = page_cursor page) (quarantine ''continuation_mismatch'') (
     chain (canonical_payload page) (\<lambda>payload.
     record_page_in s key (h (payload @ [CHR 0x0A] @ (case continuation of None \<Rightarrow> [] | Some c \<Rightarrow> c))) payload expected continuation j))))))"

subsection \<open>Sequences of recordings\<close>

datatype recording = Recording string string string contract_page int "string option"

fun record_step :: "(string \<Rightarrow> bool) \<Rightarrow> (string \<Rightarrow> string) \<Rightarrow> recording \<Rightarrow> journal \<Rightarrow> journal" where
  "record_step uni h (Recording t c key page expected continuation) j =
     (case record_page uni h t c key page expected continuation j of Inl e \<Rightarrow> j | Inr (_, j') \<Rightarrow> j')"

fun run_journal :: "(string \<Rightarrow> bool) \<Rightarrow> (string \<Rightarrow> string) \<Rightarrow> recording list \<Rightarrow> journal \<Rightarrow> journal" where
  "run_journal uni h [] j = j"
| "run_journal uni h (r # rs) j = run_journal uni h rs (record_step uni h r j)"

definition counted :: "journal \<Rightarrow> bool" where
  "counted j \<longleftrightarrow> (\<forall>s. fst (checkpoint_at s j) = int (pages_at s j))"

definition pages_kept :: "journal \<Rightarrow> journal \<Rightarrow> bool" where
  "pages_kept j j' \<longleftrightarrow> (\<forall>k page. dget (jn_pages j) k = Some page \<longrightarrow> dget (jn_pages j') k = Some page)"

lemma record_page_in_counted:
  assumes "record_page_in s key dg payload expected continuation j = Inr (r, j')" "counted j"
  shows "counted j' \<and> pages_kept j j'"
proof (cases "dget (jn_pages j) (s, key)")
  case (Some page)
  with assms show ?thesis by (auto simp: record_page_in_def Let_def check_ok pages_kept_def)
next
  case None
  with assms have j': "j' = j\<lparr>jn_pages := jn_pages j @ [((s, key), (dg, payload))],
      jn_checkpoints := dset s (fst (checkpoint_at s j) + 1, continuation) (jn_checkpoints j)\<rparr>"
    by (auto simp: record_page_in_def Let_def check_ok)
  have "fst (checkpoint_at s j) = int (pages_at s j)" for s using assms(2) unfolding counted_def by blast
  then have "counted j'" by (auto simp: counted_def j' checkpoint_at_def pages_at_def dget_dset)
  moreover have "pages_kept j j'" using None by (auto simp: pages_kept_def j' map_add_def split: option.split)
  ultimately show ?thesis ..
qed

lemma record_step_counted: "counted j \<Longrightarrow> counted (record_step uni h r j) \<and> pages_kept j (record_step uni h r j)"
  by (cases r) (auto simp: record_page_def read_ok pages_kept_def split: sum.split dest: record_page_in_counted)

lemma run_journal_counted: "counted j \<Longrightarrow> counted (run_journal uni h rs j) \<and> pages_kept j (run_journal uni h rs j)"
proof (induction rs arbitrary: j)
  case (Cons r rs)
  from record_step_counted [OF Cons.prems, of uni h r] Cons.IH [of "record_step uni h r j"] show ?case by (auto simp: pages_kept_def)
qed (simp add: pages_kept_def)

text \<open>
  C37: The journal loses no page and counts none twice.  After any recordings, accepted or quarantined,
  in any order, the version of every checkpoint is the number of pages recorded under it, and
  every page that was recorded before is there as it was recorded.
\<close>

theorem journal_counts_pages:
  assumes "counted j"
  shows "fst (checkpoint_at s (run_journal uni h rs j)) = int (pages_at s (run_journal uni h rs j)) \<and> pages_kept j (run_journal uni h rs j)"
  using run_journal_counted [OF assms, of uni h rs] unfolding counted_def by blast

definition demo_recordings :: "recording list" where
  "demo_recordings = [Recording ''t'' ''c'' ''p1'' (Settlement_page demo_settlements) 0 None,
     Recording ''t'' ''c'' ''p1'' (Settlement_page demo_settlements) 0 None,
     Recording ''t'' ''c'' ''p2'' (Settlement_page demo_settlements) 0 None]"

theorem journal_counts_pages_witness:
  "fst (checkpoint_at (''t'', ''c'', ''coupang_settlement'') (run_journal (\<lambda>_. False) (\<lambda>x. x) demo_recordings empty_journal))
     = int (pages_at (''t'', ''c'', ''coupang_settlement'') (run_journal (\<lambda>_. False) (\<lambda>x. x) demo_recordings empty_journal))"
proof -
  have "counted empty_journal" by (simp add: counted_def empty_journal_def checkpoint_at_def pages_at_def)
  from journal_counts_pages [OF this] show ?thesis by blast
qed

end
