(* ===== verification/Shadow.thy ===== *)
theory Shadow
  imports Journal
begin

section \<open>Shadow comparison\<close>

text \<open>
  demo_shadow.py: the lines the operation holds against the lines a channel page shows.  The modes of
  the approval records, which the program reads from files, are an argument; ages stay below 285
  years, so that \<open>total_seconds\<close> is exact to the second.
\<close>

record line_comparison =
  lp_provider :: string
  lp_line_id :: string
  lp_classes :: "string list"
  lp_verified :: bool

record operator_exception =
  oe_kind :: string
  oe_provider :: string
  oe_line_id :: "string option"
  oe_detail :: string

record shadow_report =
  sr_mode :: string
  sr_gates :: "(string \<times> string) list"
  sr_provider :: string
  sr_polling_window_seconds :: int
  sr_age_seconds :: int
  sr_stale :: bool
  sr_pages_compared :: int
  sr_operation_digest :: string
  sr_channel_digest :: string
  sr_lines :: "line_comparison list"
  sr_exceptions :: "operator_exception list"
  sr_decision :: string
  sr_rollback :: string
  sr_digest :: string

text \<open>\<open>require_demo_gates\<close> of demo_shadow.py and demo_bounded.py.\<close>

definition require_gates :: "string \<Rightarrow> string list \<Rightarrow> (string, string) dict \<Rightarrow> err + (string \<times> string) list" where
  "require_gates blocked gates modes = (let missing = filter (\<lambda>g. dget modes g \<noteq> Some ''DEMO'') gates in
     check (missing = []) (OtherError blocked (''no DEMO approval record for '' @ join '', '' missing))
       (Inr (map (\<lambda>g. (g, ''DEMO'')) gates)))"

definition shadow_gates :: "string list" where
  "shadow_gates = [''G1'', ''G3'', ''G5'']"

definition snapshot_key :: "order_snapshot \<Rightarrow> string \<times> string" where
  "snapshot_key s = (os_provider s, os_line_id s)"

text \<open>\<open>dict(amounts)\<close> and its \<open>get\<close>, for which an absent key and \<open>None\<close> are the same.\<close>

definition as_dict :: "(string \<times> 'v) list \<Rightarrow> (string, 'v) dict" where
  "as_dict kvs = foldl (\<lambda>d (k, v). dset k v d) [] kvs"

definition amount_get :: "(string, int option) dict \<Rightarrow> string \<Rightarrow> int option" where
  "amount_get d k = (case dget d k of None \<Rightarrow> None | Some v \<Rightarrow> v)"

definition quantities :: "order_snapshot \<Rightarrow> string" where
  "quantities s = show_int (os_initial_quantity s) @ ''/'' @ show_int (os_remaining_quantity s)"

definition line_drift :: "order_snapshot \<Rightarrow> order_snapshot \<Rightarrow> (string \<times> string) list" where
  "line_drift op ch = (let a = as_dict (os_amounts_krw op); b = as_dict (os_amounts_krw ch) in
     (if os_status op \<noteq> os_status ch then [(''status_drift'', ''status '' @ os_status op @ ''->'' @ os_status ch)] else [])
     @ (if (os_initial_quantity op, os_remaining_quantity op) \<noteq> (os_initial_quantity ch, os_remaining_quantity ch)
        then [(''quantity_drift'', ''quantity '' @ quantities op @ ''->'' @ quantities ch)] else [])
     @ (if set a \<noteq> set b
        then [(''amount_drift'', ''amounts '' @ join '','' (sort (filter (\<lambda>k. amount_get a k \<noteq> amount_get b k) (remdups (map fst a @ map fst b)))))]
        else []))"

definition compare_line :: "order_snapshot \<Rightarrow> order_snapshot \<Rightarrow> string list \<times> operator_exception list" where
  "compare_line op ch = (let drift = line_drift op ch in
     (if drift = [] then [''match''] else map fst drift,
      map (\<lambda>(k, d). \<lparr>oe_kind = k, oe_provider = os_provider ch, oe_line_id = Some (os_line_id ch), oe_detail = d\<rparr>) drift))"

definition snapshots_digest :: "(string \<Rightarrow> string) \<Rightarrow> order_snapshot list \<Rightarrow> err + string" where
  "snapshots_digest h ss = contract_hash h (JList (map order_snapshot_json ss))"

text \<open>What the loop does for one key.\<close>

definition shadow_line :: "order_snapshot list \<Rightarrow> order_snapshot list \<Rightarrow> bool \<Rightarrow> string \<times> string \<Rightarrow> line_comparison \<times> operator_exception list" where
  "shadow_line op ch stale key = (case key of (provider, line_id) \<Rightarrow>
     let missing = (\<lambda>kind detail. (\<lparr>lp_provider = provider, lp_line_id = line_id, lp_classes = [kind], lp_verified = \<not> stale\<rparr>,
           [\<lparr>oe_kind = kind, oe_provider = provider, oe_line_id = Some line_id, oe_detail = detail\<rparr>])) in
     case first (\<lambda>s. snapshot_key s = key) ch of
       None \<Rightarrow> missing ''missing_in_channel'' ''line absent from channel page''
     | Some c \<Rightarrow> (case first (\<lambda>s. snapshot_key s = key) op of
         None \<Rightarrow> missing ''missing_in_operation'' ''line absent from existing operation''
       | Some x \<Rightarrow> (case compare_line x c of (classes, found) \<Rightarrow>
           (\<lparr>lp_provider = provider, lp_line_id = line_id, lp_classes = classes, lp_verified = \<not> stale\<rparr>, found))))"

definition line_comparison_json :: "line_comparison \<Rightarrow> json" where
  "line_comparison_json l = JObj [(''provider'', JStr (lp_provider l)), (''line_id'', JStr (lp_line_id l)),
     (''classes'', JList (map JStr (lp_classes l))), (''verified'', JBool (lp_verified l))]"

definition operator_exception_json :: "operator_exception \<Rightarrow> json" where
  "operator_exception_json e = JObj [(''kind'', JStr (oe_kind e)), (''provider'', JStr (oe_provider e)),
     (''line_id'', opt_json JStr (oe_line_id e)), (''detail'', JStr (oe_detail e))]"

text \<open>The body of a report, without its digest.\<close>

definition shadow_body :: "shadow_report \<Rightarrow> json" where
  "shadow_body r = JObj
     [(''mode'', JStr (sr_mode r)), (''gates'', pairs_json JStr (sr_gates r)), (''provider'', JStr (sr_provider r)),
      (''polling_window_seconds'', JInt (sr_polling_window_seconds r)), (''age_seconds'', JInt (sr_age_seconds r)),
      (''stale'', JBool (sr_stale r)), (''pages_compared'', JInt (sr_pages_compared r)),
      (''operation_digest'', JStr (sr_operation_digest r)), (''channel_digest'', JStr (sr_channel_digest r)),
      (''lines'', JList (map line_comparison_json (sr_lines r))),
      (''exceptions'', JList (map operator_exception_json (sr_exceptions r))),
      (''decision'', JStr (sr_decision r)), (''rollback'', JStr (sr_rollback r))]"

definition whole_seconds :: "int \<Rightarrow> int" where
  "whole_seconds d = (if d < 0 then - (- d div 1000000) else d div 1000000)"

definition shadow_decision :: "bool \<Rightarrow> line_comparison list \<Rightarrow> operator_exception list \<Rightarrow> string" where
  "shadow_decision stale lines exceptions =
     (if stale \<or> list_ex (\<lambda>l. ''missing_in_channel'' \<in> set (lp_classes l) \<or> ''missing_in_operation'' \<in> set (lp_classes l)) lines then ''exit''
      else if exceptions \<noteq> [] then ''hold'' else ''continue'')"

definition stale_exceptions :: "string \<Rightarrow> int \<Rightarrow> int \<Rightarrow> operator_exception list" where
  "stale_exceptions provider age window =
     (if age > window then [\<lparr>oe_kind = ''stale_page'', oe_provider = provider, oe_line_id = None,
        oe_detail = ''age '' @ show_int age @ ''s exceeds window '' @ show_int window @ ''s''\<rparr>] else [])"

definition run_demo_shadow :: "(string \<Rightarrow> string) \<Rightarrow> (string, string) dict \<Rightarrow> order_snapshot list \<Rightarrow> order_page \<Rightarrow> stamp \<Rightarrow> stamp \<Rightarrow> int
    \<Rightarrow> err + shadow_report" where
  "run_demo_shadow h modes op channel observed_at now window =
     chain (require_gates ''ShadowBlocked'' shadow_gates modes) (\<lambda>gates.
     check (60 \<le> window \<and> window \<le> 86400) (ValueError ''polling window must be an int between 60 and 86400 seconds'') (
     check (is_aware observed_at \<and> is_aware now) (ValueError ''observed_at and now must be timezone-aware'') (
     let age = whole_seconds (instant now - instant observed_at); stale = (age > window); ch = og_snapshots channel in
     check (0 \<le> age) (ValueError ''observed_at is in the future'') (
     check (distinct (map snapshot_key op) \<and> distinct (map snapshot_key ch)) (ValueError ''duplicate line id on one side'') (
     let found = map (shadow_line op ch stale) (sort (remdups (map snapshot_key op @ map snapshot_key ch)));
         lines = map fst found;
         exceptions = stale_exceptions (og_provider channel) age window @ concat (map snd found) in
     chain (snapshots_digest h op) (\<lambda>dg.
     let report = \<lparr>sr_mode = ''DEMO'', sr_gates = gates, sr_provider = og_provider channel, sr_polling_window_seconds = window,
           sr_age_seconds = age, sr_stale = stale, sr_pages_compared = 1, sr_operation_digest = dg,
           sr_channel_digest = og_source_digest channel, sr_lines = lines, sr_exceptions = exceptions,
           sr_decision = shadow_decision stale lines exceptions, sr_rollback = ''none_required'', sr_digest = []\<rparr> in
     chain (contract_hash h (shadow_body report)) (\<lambda>body.
     Inr (report\<lparr>sr_digest := body\<rparr>))))))))"

subsection \<open>What the decision means\<close>

text \<open>The two sides of a line agree.\<close>

definition agree :: "order_snapshot \<Rightarrow> order_snapshot \<Rightarrow> bool" where
  "agree a b \<longleftrightarrow> os_status a = os_status b \<and> os_initial_quantity a = os_initial_quantity b
     \<and> os_remaining_quantity a = os_remaining_quantity b \<and> set (as_dict (os_amounts_krw a)) = set (as_dict (os_amounts_krw b))"

lemma line_drift_agree: "line_drift a b = [] \<longleftrightarrow> agree a b"
  by (auto simp: line_drift_def agree_def Let_def)

lemma drift_kinds: "set (map fst (line_drift a b)) \<subseteq> {''status_drift'', ''quantity_drift'', ''amount_drift''}"
  by (auto simp: line_drift_def Let_def)

definition absent :: "line_comparison \<Rightarrow> bool" where
  "absent l \<longleftrightarrow> ''missing_in_channel'' \<in> set (lp_classes l) \<or> ''missing_in_operation'' \<in> set (lp_classes l)"

lemma compare_line_absent:
  "''missing_in_channel'' \<notin> set (fst (compare_line a b))" "''missing_in_operation'' \<notin> set (fst (compare_line a b))"
  "snd (compare_line a b) = [] \<longleftrightarrow> agree a b"
  using drift_kinds [of a b] by (auto simp: compare_line_def Let_def line_drift_agree)

lemma found_key: "distinct (map snapshot_key xs) \<Longrightarrow> first (\<lambda>s. snapshot_key s = k) xs = Some x \<longleftrightarrow> x \<in> set xs \<and> snapshot_key x = k"
  by (induction xs) (auto split: if_splits)

lemma shadow_line_cases:
  "first (\<lambda>s. snapshot_key s = k) ch = None \<Longrightarrow> absent (fst (shadow_line op ch stale k)) \<and> snd (shadow_line op ch stale k) \<noteq> []"
  "first (\<lambda>s. snapshot_key s = k) op = None \<Longrightarrow> absent (fst (shadow_line op ch stale k)) \<and> snd (shadow_line op ch stale k) \<noteq> []"
  "first (\<lambda>s. snapshot_key s = k) ch = Some c \<Longrightarrow> first (\<lambda>s. snapshot_key s = k) op = Some x \<Longrightarrow>
     \<not> absent (fst (shadow_line op ch stale k)) \<and> (snd (shadow_line op ch stale k) = [] \<longleftrightarrow> agree x c)"
  using compare_line_absent [of x c]
  by (auto simp: shadow_line_def Let_def absent_def split: prod.split option.split)

text \<open>Two sides match at a key.\<close>

definition both_agree :: "order_snapshot list \<Rightarrow> order_snapshot list \<Rightarrow> string \<times> string \<Rightarrow> bool" where
  "both_agree op ch k \<longleftrightarrow> (\<exists>a \<in> set op. \<exists>b \<in> set ch. snapshot_key a = k \<and> snapshot_key b = k \<and> agree a b)"

lemma both_agree_keys: "both_agree op ch k \<Longrightarrow> k \<in> snapshot_key ` set op \<and> k \<in> snapshot_key ` set ch"
  unfolding both_agree_def by (metis imageI)

lemma not_found_key: "first (\<lambda>s. snapshot_key s = k) xs = None \<longleftrightarrow> k \<notin> snapshot_key ` set xs"
  by (auto simp: first_None)

lemma shadow_line_ok:
  assumes "distinct (map snapshot_key op)" "distinct (map snapshot_key ch)"
  shows "absent (fst (shadow_line op ch stale k)) \<longleftrightarrow> k \<notin> snapshot_key ` set op \<or> k \<notin> snapshot_key ` set ch"
    and "snd (shadow_line op ch stale k) = [] \<longleftrightarrow> both_agree op ch k"
proof -
  note f = found_key [OF assms(1), of k] found_key [OF assms(2), of k] and n = not_found_key [of k op] not_found_key [of k ch]
  have "(absent (fst (shadow_line op ch stale k)) \<longleftrightarrow> k \<notin> snapshot_key ` set op \<or> k \<notin> snapshot_key ` set ch)
     \<and> (snd (shadow_line op ch stale k) = [] \<longleftrightarrow> both_agree op ch k)"
  proof (cases "first (\<lambda>s. snapshot_key s = k) op")
    case None
    with shadow_line_cases(2) [OF None, of ch stale] n(1) both_agree_keys [of op ch k] show ?thesis by blast
  next
    case x: (Some x)
    show ?thesis
    proof (cases "first (\<lambda>s. snapshot_key s = k) ch")
      case None
      with shadow_line_cases(1) [OF None, of op stale] n(2) both_agree_keys [of op ch k] show ?thesis by blast
    next
      case c: (Some c)
      have "both_agree op ch k \<longleftrightarrow> agree x c"
      proof
        assume "both_agree op ch k"
        then obtain a b where "a \<in> set op" "b \<in> set ch" "snapshot_key a = k" "snapshot_key b = k" "agree a b"
          unfolding both_agree_def by blast
        moreover from this have "a = x" "b = c" using f(1) [of a] f(2) [of b] x c by simp_all
        ultimately show "agree x c" by simp
      qed (use f x c in \<open>auto simp: both_agree_def\<close>)
      with shadow_line_cases(3) [OF c x, of stale] n x c show ?thesis by simp
    qed
  qed
  then show "absent (fst (shadow_line op ch stale k)) \<longleftrightarrow> k \<notin> snapshot_key ` set op \<or> k \<notin> snapshot_key ` set ch"
    and "snd (shadow_line op ch stale k) = [] \<longleftrightarrow> both_agree op ch k" by blast+
qed

text \<open>
  C38: The shadow run continues exactly when both sides hold the same.  A report says \<open>continue\<close>
  exactly when the page is within its window and every line of either side is on the other with
  the same state, quantities and amounts; \<open>exit\<close> exactly when the page is stale or a line is missing
  on one side; and \<open>hold\<close> otherwise.
\<close>

theorem shadow_decision_exact:
  assumes "run_demo_shadow h modes op channel observed_at now window = Inr report"
  shows "(sr_decision report = ''continue'' \<longleftrightarrow> \<not> sr_stale report
            \<and> list_all (both_agree op (og_snapshots channel)) (map snapshot_key op @ map snapshot_key (og_snapshots channel)))
     \<and> (sr_decision report = ''exit'' \<longleftrightarrow> sr_stale report \<or> snapshot_key ` set op \<noteq> snapshot_key ` set (og_snapshots channel))
     \<and> (sr_stale report \<longleftrightarrow> window < whole_seconds (instant now - instant observed_at))
     \<and> sr_decision report \<in> {''continue'', ''exit'', ''hold''}"
proof -
  let ?ch = "og_snapshots channel" and ?stale = "window < whole_seconds (instant now - instant observed_at)"
  let ?keys = "sort (remdups (map snapshot_key op @ map snapshot_key ?ch))"
  let ?found = "map (shadow_line op ?ch ?stale) ?keys"
  let ?note = "stale_exceptions (og_provider channel) (whole_seconds (instant now - instant observed_at)) window"
  have d: "distinct (map snapshot_key op)" "distinct (map snapshot_key ?ch)" "sr_stale report = ?stale"
    "sr_decision report = shadow_decision ?stale (map fst ?found) (?note @ concat (map snd ?found))" "?stale \<or> ?note = []"
    using assms by (auto simp: run_demo_shadow_def Let_def read_ok stale_exceptions_def)
  note ok = shadow_line_ok [OF d(1,2), of ?stale]
  have keys: "set ?keys = snapshot_key ` set op \<union> snapshot_key ` set ?ch" by auto
  have "list_ex (\<lambda>l. ''missing_in_channel'' \<in> set (lp_classes l) \<or> ''missing_in_operation'' \<in> set (lp_classes l)) (map fst ?found)
      \<longleftrightarrow> (\<exists>k \<in> set ?keys. absent (fst (shadow_line op ?ch ?stale k)))"
    by (simp add: list_ex_iff absent_def)
  also have "\<dots> \<longleftrightarrow> snapshot_key ` set op \<noteq> snapshot_key ` set ?ch" unfolding keys ok(1) by blast
  finally have gone: "list_ex (\<lambda>l. ''missing_in_channel'' \<in> set (lp_classes l) \<or> ''missing_in_operation'' \<in> set (lp_classes l)) (map fst ?found)
      \<longleftrightarrow> snapshot_key ` set op \<noteq> snapshot_key ` set ?ch" .
  have "concat (map snd ?found) = [] \<longleftrightarrow> (\<forall>k \<in> set ?keys. snd (shadow_line op ?ch ?stale k) = [])" by simp
  also have "\<dots> \<longleftrightarrow> list_all (both_agree op ?ch) (map snapshot_key op @ map snapshot_key ?ch)"
    unfolding ok(2) keys by (auto simp: list_all_iff)
  finally have found: "concat (map snd ?found) = [] \<longleftrightarrow> list_all (both_agree op ?ch) (map snapshot_key op @ map snapshot_key ?ch)" .
  have same: "snapshot_key ` set op = snapshot_key ` set ?ch" if "list_all (both_agree op ?ch) (map snapshot_key op @ map snapshot_key ?ch)"
    using that both_agree_keys [of op ?ch] unfolding list_all_iff by (auto simp del: map_append)
  define all_same where "all_same \<longleftrightarrow> list_all (both_agree op ?ch) (map snapshot_key op @ map snapshot_key ?ch)"
  define exceptions where "exceptions = concat (map snd ?found)"
  have "sr_decision report = (if ?stale \<or> snapshot_key ` set op \<noteq> snapshot_key ` set ?ch then ''exit''
      else if ?note @ exceptions \<noteq> [] then ''hold'' else ''continue'')"
    unfolding d(4) shadow_decision_def gone exceptions_def by simp
  moreover have "exceptions = [] \<longleftrightarrow> all_same" "all_same \<Longrightarrow> snapshot_key ` set op = snapshot_key ` set ?ch"
    using found same unfolding exceptions_def all_same_def by blast+
  ultimately show ?thesis using d(3,5) unfolding all_same_def [symmetric] by auto
qed

definition demo_modes :: "(string, string) dict" where
  "demo_modes = [(''G1'', ''DEMO''), (''G3'', ''DEMO''), (''G5'', ''DEMO'')]"

definition demo_shown :: order_page where
  "demo_shown = \<lparr>og_provider = ''coupang'', og_snapshots = [demo_snapshot\<lparr>os_status := ''DEPARTURE''\<rparr>], og_next_cursor = None,
     og_source_digest = ''d''\<rparr>"

definition demo_held :: shadow_report where
  "demo_held = \<lparr>sr_mode = ''DEMO'', sr_gates = demo_modes, sr_provider = ''coupang'', sr_polling_window_seconds = 60, sr_age_seconds = 30,
     sr_stale = False, sr_pages_compared = 1, sr_operation_digest = ''d'', sr_channel_digest = ''d'',
     sr_lines = [\<lparr>lp_provider = ''coupang'', lp_line_id = ''8:001'', lp_classes = [''status_drift''], lp_verified = True\<rparr>],
     sr_exceptions = [\<lparr>oe_kind = ''status_drift'', oe_provider = ''coupang'', oe_line_id = Some ''8:001'',
       oe_detail = ''status INSTRUCT->DEPARTURE''\<rparr>],
     sr_decision = ''hold'', sr_rollback = ''none_required'', sr_digest = []\<rparr>"

lemma demo_held_hash: "contract_hash (\<lambda>_. ''d'') (shadow_body demo_held) = Inr ''d''"
proof -
  have "length (dumps (shadow_body demo_held)) \<le> 1000" "finite_json (shadow_body demo_held)" by code_simp+
  then show ?thesis by (simp add: contract_hash_ok)
qed

lemma demo_operation_hash: "snapshots_digest (\<lambda>_. ''d'') [demo_snapshot] = Inr ''d''"
proof -
  have "length (dumps (JList (map order_snapshot_json [demo_snapshot]))) \<le> 1000"
    "finite_json (JList (map order_snapshot_json [demo_snapshot]))" by code_simp+
  then show ?thesis by (simp add: snapshots_digest_def contract_hash_ok)
qed

lemma demo_shadow_line:
  "shadow_line [demo_snapshot] [demo_snapshot\<lparr>os_status := ''DEPARTURE''\<rparr>] False (''coupang'', ''8:001'') =
     (hd (sr_lines demo_held), sr_exceptions demo_held)"
  by code_simp

lemma demo_shadow_run:
  "run_demo_shadow (\<lambda>_. ''d'') demo_modes [demo_snapshot] demo_shown (Aware 0) (Aware 30000000) 60 = Inr (demo_held\<lparr>sr_digest := ''d''\<rparr>)"
proof -
  have "require_gates ''ShadowBlocked'' shadow_gates demo_modes = Inr demo_modes" by code_simp
  moreover have "snapshot_key demo_snapshot = (''coupang'', ''8:001'')" "snapshot_key (demo_snapshot\<lparr>os_status := ''DEPARTURE''\<rparr>) = (''coupang'', ''8:001'')"
    by (simp_all add: snapshot_key_def demo_snapshot_def)
  ultimately show ?thesis
    using demo_held_hash demo_operation_hash demo_shadow_line
    by (simp add: run_demo_shadow_def demo_shown_def whole_seconds_def check_def Let_def stale_exceptions_def shadow_decision_def demo_held_def)
qed

theorem shadow_decision_exact_witness:
  "\<not> list_all (both_agree [demo_snapshot] (og_snapshots demo_shown)) (map snapshot_key [demo_snapshot] @ map snapshot_key (og_snapshots demo_shown))"
  using shadow_decision_exact [OF demo_shadow_run] by (simp add: demo_held_def)

end
