(* ===== verification/Bounded.thy ===== *)
theory Bounded
  imports Shadow
begin

section \<open>The bounded release gate\<close>

text \<open>
  demo_bounded.py: a gate that decides whether a proposed write may proceed, within the caps of a
  policy, and keeps a ledger of its decisions.  A \<open>datetime\<close> is its wall clock time with its offset
  from UTC, if any; durations stay below 285 years, so that \<open>total_seconds\<close> is exact.
\<close>

record zoned =
  zn_local :: int
  zn_offset :: "int option"

definition zone_text :: "int option \<Rightarrow> string" where
  "zone_text off = (case off of None \<Rightarrow> [] | Some n \<Rightarrow> (let a = \<bar>n\<bar>; s = a div 1000000; f = a mod 1000000 in
     (if n < 0 then ''-'' else ''+'') @ pad 2 (nat (s div 3600)) @ '':'' @ pad 2 (nat (s div 60 mod 60))
     @ (if s mod 60 = 0 \<and> f = 0 then [] else '':'' @ pad 2 (nat (s mod 60)) @ (if f = 0 then [] else ''.'' @ pad 6 (nat f)))))"

text \<open>\<open>isoformat\<close>: the text of the wall clock time, then the offset.  Its first ten characters are \<open>date().isoformat()\<close>.\<close>

definition iso_zoned :: "zoned \<Rightarrow> string" where
  "iso_zoned z = (let s = isoformat (zn_local z) in take (length s - 6) s @ zone_text (zn_offset z))"

definition day_of :: "zoned \<Rightarrow> string" where
  "day_of z = take 10 (iso_zoned z)"

text \<open>\<open>a - b\<close>, which mixes neither kind with the other.\<close>

definition zoned_diff :: "zoned \<Rightarrow> zoned \<Rightarrow> err + int" where
  "zoned_diff a b = (case (zn_offset a, zn_offset b) of
     (Some m, Some n) \<Rightarrow> Inr ((zn_local a - m) - (zn_local b - n))
   | (None, None) \<Rightarrow> Inr (zn_local a - zn_local b)
   | _ \<Rightarrow> Inl (OtherError ''TypeError'' ''can't subtract offset-naive and offset-aware datetimes''))"

record bounded_policy =
  by_version :: int
  by_capability :: string
  by_max_amount_minor :: int
  by_max_skus :: int
  by_max_writes_per_day :: int
  by_max_age_seconds :: int
  by_halted :: bool

definition positive_field :: "string \<Rightarrow> int \<Rightarrow> err + unit \<Rightarrow> err + unit" where
  "positive_field name n = check (1 \<le> n) (ValueError (name @ '' must be a positive integer''))"

definition check_policy :: "bounded_policy \<Rightarrow> err + unit" where
  "check_policy p =
     positive_field ''version'' (by_version p) (
     check (0 \<le> by_max_amount_minor p) (ValueError ''max_amount_minor must be a positive integer'') (
     positive_field ''max_skus'' (by_max_skus p) (
     positive_field ''max_writes_per_day'' (by_max_writes_per_day p) (
     positive_field ''max_age_seconds'' (by_max_age_seconds p) (
     check (by_capability p \<noteq> []) (ValueError ''capability required'') (Inr ()))))))"

record scoped_approval =
  sa_capability :: string
  sa_target_ref :: string
  sa_payload_digest :: string
  sa_approved_at :: zoned
  sa_approver :: string

record proposed_write =
  pw_capability :: string
  pw_target_ref :: string
  pw_payload :: json
  pw_amount_minor :: int
  pw_sku_count :: int
  pw_proposed_at :: zoned

record gate_record =
  gr_sequence :: int
  gr_kind :: string
  gr_decision :: "string option"
  gr_reasons :: "string list"
  gr_capability :: string
  gr_target_ref :: "string option"
  gr_payload_digest :: "string option"
  gr_policy_version :: int
  gr_at :: string

record bounded_gate =
  bg_gates :: "(string \<times> string) list"
  bg_policy :: bounded_policy
  bg_ledger :: "gate_record list"
  bg_admitted_days :: "(string, int) dict"

definition new_bounded_gate :: "(string, string) dict \<Rightarrow> bounded_policy \<Rightarrow> err + bounded_gate" where
  "new_bounded_gate modes policy = chain (require_gates ''BoundedBlocked'' [''G4'', ''G5''] modes) (\<lambda>gates.
     Inr \<lparr>bg_gates = gates, bg_policy = policy, bg_ledger = [], bg_admitted_days = []\<rparr>)"

definition append_record :: "string \<Rightarrow> string option \<Rightarrow> string list \<Rightarrow> string \<Rightarrow> string option \<Rightarrow> string option \<Rightarrow> zoned \<Rightarrow> bounded_gate
    \<Rightarrow> gate_record \<times> bounded_gate" where
  "append_record kind decision reasons capability target dg at g =
     (let r = \<lparr>gr_sequence = int (length (bg_ledger g)) + 1, gr_kind = kind, gr_decision = decision, gr_reasons = reasons,
          gr_capability = capability, gr_target_ref = target, gr_payload_digest = dg, gr_policy_version = by_version (bg_policy g),
          gr_at = iso_zoned at\<rparr>
      in (r, g\<lparr>bg_ledger := bg_ledger g @ [r]\<rparr>))"

subsection \<open>Decisions\<close>

text \<open>The reason of the approval, if any: its scope, its digest, its age.\<close>

definition approval_reason :: "bounded_policy \<Rightarrow> proposed_write \<Rightarrow> string \<Rightarrow> scoped_approval option \<Rightarrow> err + string list" where
  "approval_reason p w dg approval = (case approval of
     None \<Rightarrow> Inr [''scope_mismatch'']
   | Some a \<Rightarrow>
       if (sa_capability a, sa_target_ref a) \<noteq> (pw_capability w, pw_target_ref w) \<or> pw_capability w \<noteq> by_capability p
       then Inr [''scope_mismatch'']
       else if sa_payload_digest a \<noteq> dg then Inr [''digest_mismatch'']
       else chain (zoned_diff (pw_proposed_at w) (sa_approved_at a)) (\<lambda>age.
         Inr (if age > by_max_age_seconds p * 1000000 \<or> age < 0 then [''approval_expired''] else [])))"

definition admitted_on :: "string \<Rightarrow> bounded_gate \<Rightarrow> int" where
  "admitted_on day g = (case dget (bg_admitted_days g) day of None \<Rightarrow> 0 | Some n \<Rightarrow> n)"

text \<open>The reasons in the order of \<open>REASONS\<close>, which is also the order they are found in.\<close>

definition bounded_decide :: "(string \<Rightarrow> string) \<Rightarrow> proposed_write \<Rightarrow> scoped_approval option \<Rightarrow> bounded_gate \<Rightarrow> err + gate_record \<times> bounded_gate" where
  "bounded_decide h w approval g = (let p = bg_policy g; day = day_of (pw_proposed_at w) in
     check (zn_offset (pw_proposed_at w) \<noteq> None) (ValueError ''proposed_at must be timezone-aware'') (
     chain (contract_hash h (pw_payload w)) (\<lambda>dg.
     chain (approval_reason p w dg approval) (\<lambda>found.
     let reasons = (if by_halted p then [''halted''] else []) @ found
           @ (if pw_amount_minor w > by_max_amount_minor p then [''amount_cap''] else [])
           @ (if pw_sku_count w > by_max_skus p then [''sku_cap''] else [])
           @ (if admitted_on day g + 1 > by_max_writes_per_day p then [''daily_cap''] else []);
         admitted = (reasons = []);
         g' = (if admitted then g\<lparr>bg_admitted_days := dset day (admitted_on day g + 1) (bg_admitted_days g)\<rparr> else g) in
     Inr (append_record ''decision'' (Some (if admitted then ''admit'' else ''reject'')) reasons (pw_capability w)
       (Some (pw_target_ref w)) (Some dg) (pw_proposed_at w) g')))))"

definition set_halted :: "bool \<Rightarrow> zoned \<Rightarrow> string \<Rightarrow> bounded_gate \<Rightarrow> gate_record \<times> bounded_gate" where
  "set_halted halted at operator g = (let g' = g\<lparr>bg_policy := (bg_policy g)\<lparr>by_halted := halted\<rparr>\<rparr> in
     append_record (if halted then ''halt'' else ''restore'') None [''operator:'' @ operator] (by_capability (bg_policy g')) None None at g')"

definition bounded_halt :: "zoned \<Rightarrow> string \<Rightarrow> bounded_gate \<Rightarrow> gate_record \<times> bounded_gate" where
  "bounded_halt = set_halted True"

definition bounded_restore :: "zoned \<Rightarrow> string \<Rightarrow> bounded_gate \<Rightarrow> gate_record \<times> bounded_gate" where
  "bounded_restore = set_halted False"

definition gate_record_json :: "gate_record \<Rightarrow> json" where
  "gate_record_json r = JObj
     [(''sequence'', JInt (gr_sequence r)), (''kind'', JStr (gr_kind r)), (''decision'', opt_json JStr (gr_decision r)),
      (''reasons'', JList (map JStr (gr_reasons r))), (''capability'', JStr (gr_capability r)),
      (''target_ref'', opt_json JStr (gr_target_ref r)), (''payload_digest'', opt_json JStr (gr_payload_digest r)),
      (''policy_version'', JInt (gr_policy_version r)), (''at'', JStr (gr_at r))]"

definition outcome_of :: "gate_record \<Rightarrow> string" where
  "outcome_of r = (case gr_decision r of Some d \<Rightarrow> d | None \<Rightarrow> gr_kind r)"

definition bounded_evidence :: "(string \<Rightarrow> string) \<Rightarrow> bounded_gate \<Rightarrow> err + string" where
  "bounded_evidence h g = (let n = (\<lambda>k. int (length (filter (\<lambda>r. outcome_of r = k) (bg_ledger g)))) in
     chain (contract_hash h (JList (map gate_record_json (bg_ledger g)))) (\<lambda>dg.
     contract_json (JObj [(''mode'', JStr ''DEMO''), (''gates'', pairs_json JStr (bg_gates g)),
       (''policy_version'', JInt (by_version (bg_policy g))), (''halted'', JBool (by_halted (bg_policy g))),
       (''counts'', JObj (map (\<lambda>k. (k, JInt (n k))) [''admit'', ''reject'', ''halt'', ''restore''])),
       (''ledger_digest'', JStr dg), (''records'', JInt (int (length (bg_ledger g))))])))"

subsection \<open>What is admitted\<close>

definition admissible :: "(string \<Rightarrow> string) \<Rightarrow> proposed_write \<Rightarrow> scoped_approval option \<Rightarrow> bounded_gate \<Rightarrow> bool" where
  "admissible h w approval g \<longleftrightarrow> (let p = bg_policy g in \<not> by_halted p
     \<and> (\<exists>a age. approval = Some a \<and> sa_capability a = by_capability p \<and> pw_capability w = by_capability p
          \<and> sa_target_ref a = pw_target_ref w \<and> sa_payload_digest a = h (dumps (pw_payload w))
          \<and> zoned_diff (pw_proposed_at w) (sa_approved_at a) = Inr age \<and> 0 \<le> age \<and> age \<le> by_max_age_seconds p * 1000000)
     \<and> pw_amount_minor w \<le> by_max_amount_minor p \<and> pw_sku_count w \<le> by_max_skus p
     \<and> admitted_on (day_of (pw_proposed_at w)) g < by_max_writes_per_day p)"

datatype gate_call = Propose proposed_write "scoped_approval option" | Halt zoned string | Restore zoned string

fun gate_step :: "(string \<Rightarrow> string) \<Rightarrow> gate_call \<Rightarrow> bounded_gate \<Rightarrow> bounded_gate" where
  "gate_step h (Propose w approval) g = (case bounded_decide h w approval g of Inl e \<Rightarrow> g | Inr (_, g') \<Rightarrow> g')"
| "gate_step h (Halt at operator) g = snd (bounded_halt at operator g)"
| "gate_step h (Restore at operator) g = snd (bounded_restore at operator g)"

fun run_gate :: "(string \<Rightarrow> string) \<Rightarrow> gate_call list \<Rightarrow> bounded_gate \<Rightarrow> bounded_gate" where
  "run_gate h [] g = g"
| "run_gate h (c # cs) g = run_gate h cs (gate_step h c g)"

definition admits_on :: "string \<Rightarrow> bounded_gate \<Rightarrow> nat" where
  "admits_on day g = length (filter (\<lambda>r. gr_decision r = Some ''admit'' \<and> take 10 (gr_at r) = day) (bg_ledger g))"

lemma approval_reason_none:
  "approval_reason p w dg approval = Inr [] \<longleftrightarrow>
     (\<exists>a age. approval = Some a \<and> sa_capability a = by_capability p \<and> pw_capability w = by_capability p
        \<and> sa_target_ref a = pw_target_ref w \<and> sa_payload_digest a = dg
        \<and> zoned_diff (pw_proposed_at w) (sa_approved_at a) = Inr age \<and> 0 \<le> age \<and> age \<le> by_max_age_seconds p * 1000000)"
proof (cases approval)
  case (Some a)
  show ?thesis
    by (cases "zoned_diff (pw_proposed_at w) (sa_approved_at a)") (auto simp: Some approval_reason_def chain_def)
qed (simp add: approval_reason_def)

lemma decide_ok:
  assumes "bounded_decide h w approval g = Inr (r, g')"
  obtains "gr_decision r = Some (if admissible h w approval g then ''admit'' else ''reject'')"
    and "gr_at r = iso_zoned (pw_proposed_at w)" and "bg_ledger g' = bg_ledger g @ [r]" and "bg_policy g' = bg_policy g"
    and "bg_admitted_days g' = (if admissible h w approval g
           then dset (day_of (pw_proposed_at w)) (admitted_on (day_of (pw_proposed_at w)) g + 1) (bg_admitted_days g) else bg_admitted_days g)"
proof -
  from assms obtain found where found: "approval_reason (bg_policy g) w (h (dumps (pw_payload w))) approval = Inr found"
    by (auto simp: bounded_decide_def Let_def check_ok chain_ok contract_hash_ok)
  have adm: "admissible h w approval g \<longleftrightarrow> \<not> by_halted (bg_policy g) \<and> found = [] \<and> pw_amount_minor w \<le> by_max_amount_minor (bg_policy g)
      \<and> pw_sku_count w \<le> by_max_skus (bg_policy g) \<and> admitted_on (day_of (pw_proposed_at w)) g < by_max_writes_per_day (bg_policy g)"
    using approval_reason_none [of "bg_policy g" w "h (dumps (pw_payload w))" approval] found by (simp add: admissible_def Let_def)
  from assms found have "gr_decision r = Some (if admissible h w approval g then ''admit'' else ''reject'')
      \<and> gr_at r = iso_zoned (pw_proposed_at w) \<and> bg_ledger g' = bg_ledger g @ [r] \<and> bg_policy g' = bg_policy g
      \<and> bg_admitted_days g' = (if admissible h w approval g
           then dset (day_of (pw_proposed_at w)) (admitted_on (day_of (pw_proposed_at w)) g + 1) (bg_admitted_days g) else bg_admitted_days g)"
    by (auto simp: adm bounded_decide_def Let_def check_ok chain_ok contract_hash_ok append_record_def split: if_splits)
  then show thesis by (blast intro: that)
qed

lemma decide_exact: "bounded_decide h w approval g = Inr (r, g') \<Longrightarrow> gr_decision r = Some ''admit'' \<longleftrightarrow> admissible h w approval g"
  by (erule decide_ok) (simp split: if_splits)

definition within_cap :: "int \<Rightarrow> bounded_gate \<Rightarrow> bool" where
  "within_cap cap g \<longleftrightarrow> by_max_writes_per_day (bg_policy g) = cap \<and> (\<forall>day. int (admits_on day g) = admitted_on day g \<and> admitted_on day g \<le> cap)"

lemma within_capD: "within_cap cap g \<Longrightarrow> int (admits_on day g) \<le> cap"
  by (simp add: within_cap_def)

lemma admits_on_append:
  "bg_ledger g' = bg_ledger g @ [r] \<Longrightarrow>
     admits_on day g' = admits_on day g + (if gr_decision r = Some ''admit'' \<and> take 10 (gr_at r) = day then 1 else 0)"
  by (simp add: admits_on_def)

lemma admitted_on_set:
  "bg_admitted_days g' = dset d n (bg_admitted_days g) \<Longrightarrow> admitted_on day g' = (if day = d then n else admitted_on day g)"
  by (simp add: admitted_on_def dget_dset)

lemma decide_within_cap:
  assumes cap: "within_cap cap g" and step: "bounded_decide h w approval g = Inr (r, g')"
  shows "within_cap cap g'"
  using step
proof (rule decide_ok)
  assume r: "gr_decision r = Some (if admissible h w approval g then ''admit'' else ''reject'')"
    "gr_at r = iso_zoned (pw_proposed_at w)" "bg_ledger g' = bg_ledger g @ [r]" "bg_policy g' = bg_policy g"
  assume days: "bg_admitted_days g' = (if admissible h w approval g
      then dset (day_of (pw_proposed_at w)) (admitted_on (day_of (pw_proposed_at w)) g + 1) (bg_admitted_days g) else bg_admitted_days g)"
  show ?thesis
  proof (cases "admissible h w approval g")
    case True
    have "admitted_on (day_of (pw_proposed_at w)) g < cap"
      using True cap by (simp add: admissible_def within_cap_def Let_def)
    then show ?thesis
      using cap r True admitted_on_set [of g' "day_of (pw_proposed_at w)" _ g] days
      by (auto simp: within_cap_def admits_on_append [OF r(3)] day_of_def)
  next
    case False
    then have "admitted_on day g' = admitted_on day g" for day
      using days by (simp add: admitted_on_def)
    then show ?thesis using cap r False by (simp add: within_cap_def admits_on_append [OF r(3)])
  qed
qed

lemma set_halted_within_cap: "within_cap cap g \<Longrightarrow> within_cap cap (snd (set_halted b at operator g))"
  by (simp add: within_cap_def set_halted_def append_record_def Let_def admits_on_def admitted_on_def)

lemma gate_step_within_cap: "within_cap cap g \<Longrightarrow> within_cap cap (gate_step h c g)"
  by (cases c) (auto simp: bounded_halt_def bounded_restore_def set_halted_within_cap dest: decide_within_cap split: sum.splits)

lemma run_gate_within_cap: "within_cap cap g \<Longrightarrow> within_cap cap (run_gate h calls g)"
  by (induction calls arbitrary: g) (simp_all add: gate_step_within_cap)

lemma new_gate_within_cap:
  assumes "new_bounded_gate modes policy = Inr g" and "check_policy policy = Inr ()"
  shows "within_cap (by_max_writes_per_day policy) g"
  using assms by (auto simp: new_bounded_gate_def chain_ok check_policy_def positive_field_def check_ok within_cap_def admits_on_def admitted_on_def)

text \<open> C39: the bounded release gate admits a write exactly when the policy is not halted, an approval of the
  policy's capability names that target and the digest of that payload and is neither older than the
  policy allows nor given after the write was proposed, and the amount, the count of SKUs and the
  admits of the day are within their caps; and whatever is proposed, halted and restored, the ledger
  never shows more admits on a day than the policy's daily cap.\<close>

theorem bounded_gate_exact:
  assumes "check_policy policy = Inr ()" and "new_bounded_gate modes policy = Inr g0"
  shows "int (admits_on day (run_gate h calls g0)) \<le> by_max_writes_per_day policy
    \<and> (bounded_decide h w approval (run_gate h calls g0) = Inr (r, g') \<longrightarrow>
         (gr_decision r = Some ''admit'' \<longleftrightarrow> admissible h w approval (run_gate h calls g0)))"
proof
  show "int (admits_on day (run_gate h calls g0)) \<le> by_max_writes_per_day policy"
    by (rule within_capD [OF run_gate_within_cap [OF new_gate_within_cap [OF assms(2,1)]]])
  show "bounded_decide h w approval (run_gate h calls g0) = Inr (r, g') \<longrightarrow>
      (gr_decision r = Some ''admit'' \<longleftrightarrow> admissible h w approval (run_gate h calls g0))"
    by (rule impI) (erule decide_exact)
qed

definition demo_gate_policy :: bounded_policy where
  "demo_gate_policy = \<lparr>by_version = 1, by_capability = ''c'', by_max_amount_minor = 10, by_max_skus = 1, by_max_writes_per_day = 1,
     by_max_age_seconds = 60, by_halted = False\<rparr>"

definition demo_write :: proposed_write where
  "demo_write = \<lparr>pw_capability = ''c'', pw_target_ref = ''t'', pw_payload = JNull, pw_amount_minor = 10, pw_sku_count = 1,
     pw_proposed_at = \<lparr>zn_local = 5, zn_offset = Some 0\<rparr>\<rparr>"

definition demo_scoped :: scoped_approval where
  "demo_scoped = \<lparr>sa_capability = ''c'', sa_target_ref = ''t'', sa_payload_digest = ''d'',
     sa_approved_at = \<lparr>zn_local = 0, zn_offset = Some 0\<rparr>, sa_approver = ''o''\<rparr>"

definition demo_gate :: bounded_gate where
  "demo_gate = \<lparr>bg_gates = [(''G4'', ''DEMO''), (''G5'', ''DEMO'')], bg_policy = demo_gate_policy, bg_ledger = [], bg_admitted_days = []\<rparr>"

lemma demo_gate_new: "new_bounded_gate [(''G4'', ''DEMO''), (''G5'', ''DEMO'')] demo_gate_policy = Inr demo_gate"
  by code_simp

lemma demo_gate_policy_ok: "check_policy demo_gate_policy = Inr ()"
  by code_simp

lemma demo_null_hash: "contract_hash (\<lambda>_. ''d'') JNull = Inr ''d''"
  by (simp add: contract_hash_ok)

lemma demo_decided: "\<exists>r g'. bounded_decide (\<lambda>_. ''d'') demo_write (Some demo_scoped) demo_gate = Inr (r, g')"
  by (simp add: bounded_decide_def Let_def check_def demo_write_def demo_scoped_def demo_gate_def demo_gate_policy_def demo_null_hash
      approval_reason_def zoned_diff_def append_record_def)

lemma demo_admissible: "admissible (\<lambda>_. ''d'') demo_write (Some demo_scoped) demo_gate"
  by (simp add: admissible_def Let_def demo_write_def demo_scoped_def demo_gate_def demo_gate_policy_def zoned_diff_def admitted_on_def)

theorem bounded_gate_exact_witness:
  "\<exists>r g'. bounded_decide (\<lambda>_. ''d'') demo_write (Some demo_scoped) demo_gate = Inr (r, g') \<and> gr_decision r = Some ''admit''
    \<and> int (admits_on ''2024-01-01'' (run_gate (\<lambda>_. ''d'') [Propose demo_write (Some demo_scoped)] demo_gate)) \<le> 1"
proof -
  obtain r g' where run: "bounded_decide (\<lambda>_. ''d'') demo_write (Some demo_scoped) demo_gate = Inr (r, g')"
    using demo_decided by blast
  note exact = bounded_gate_exact [OF demo_gate_policy_ok demo_gate_new]
  have "gr_decision r = Some ''admit''"
    using exact [where calls = "[]" and h = "\<lambda>_. ''d''" and w = demo_write and approval = "Some demo_scoped" and r = r and g' = g'] run demo_admissible by simp
  moreover have "int (admits_on ''2024-01-01'' (run_gate (\<lambda>_. ''d'') [Propose demo_write (Some demo_scoped)] demo_gate)) \<le> 1"
    using exact [of "''2024-01-01''" "\<lambda>_. ''d''" "[Propose demo_write (Some demo_scoped)]"] by (simp add: demo_gate_policy_def)
  ultimately show ?thesis using run by blast
qed

end
