(* ===== verification/Bridge.thy ===== *)
theory Bridge
  imports Shadow Ingestion_Laws
begin

section \<open>Channel pages as a demo adapter\<close>

text \<open>
  contract_demo_bridge.py: a complete channel page, whose products are bound to SKUs, becomes the
  adapter that \<open>poll_demo_connection\<close> reads.  The adapter's own clock is an argument, \<open>now\<close>;
  \<open>bindings\<close> is the dictionary of the bindings.
\<close>

subsection \<open>The adapter\<close>

definition fresh_fixture :: "stamp \<Rightarrow> stamp \<Rightarrow> err + unit" where
  "fresh_fixture observed now =
     check (is_aware observed \<and> is_aware now \<and> 0 \<le> instant now - instant observed \<and> instant now - instant observed \<le> 900 * 1000000)
       (quarantine ''fresh_fixture_observation_required'') (Inr ())"

text \<open>The page, and the digest of the claims looked at with it.\<close>

definition fixture_page :: "(string \<Rightarrow> bool) \<Rightarrow> (string \<Rightarrow> string) \<Rightarrow> string \<Rightarrow> json \<Rightarrow> string list \<Rightarrow> json \<Rightarrow> err + order_page \<times> string option" where
  "fixture_page uni h provider body requested claim_body =
     (if provider = ''naver'' then chain (parse_naver_details h body requested) (\<lambda>page. Inr (page, None))
      else chain (parse_coupang_day_page uni h body) (\<lambda>page.
        chain (parse_coupang_claim_page uni h claim_body) (\<lambda>claimed.
        check (cg_next_cursor claimed = None \<and> cg_lines claimed = []) (quarantine ''fixture_claim_reconciliation_required'') (
        Inr (page, Some (cg_source_digest claimed))))))"

text \<open>\<open>(row, sku, unit, quantity)\<close>.\<close>

record fixture_line =
  fl_row :: order_snapshot
  fl_sku :: string
  fl_unit :: int
  fl_quantity :: int

definition fixture_line_of :: "string \<Rightarrow> (string, json) dict \<Rightarrow> order_snapshot \<Rightarrow> err + fixture_line" where
  "fixture_line_of provider bindings row =
     check (os_status row = (if provider = ''naver'' then ''PAYED'' else ''INSTRUCT'') \<and> \<not> os_claim_review_required row
         \<and> os_initial_quantity row = os_remaining_quantity row) (quarantine ''unsupported_fixture_order_state'') (
     let money = as_dict (os_amounts_krw row); quantity = os_remaining_quantity row in
     amount_at ''unit_price'' money (\<lambda>unit_price.
     check (provider = ''naver'' \<longrightarrow> dget money ''initial_payment'' = Some (Some (unit_price * quantity))
         \<and> dget money ''remaining_payment'' = Some (Some (unit_price * quantity)))
       (quarantine ''fixture_discount_or_partial_payment_unsupported'') (
     check (provider \<noteq> ''naver'' \<longrightarrow> list_all (\<lambda>k. dget money k = Some (Some 0)) [''discount'', ''shipment_shipping'', ''shipment_remote''])
       (quarantine ''fixture_extra_or_unknown_amount_unsupported'') (
     need (js_str (dget bindings (os_product_id row))) (quarantine ''explicit_fixture_sku_binding_required'') (\<lambda>sku.
     Inr \<lparr>fl_row = row, fl_sku = sku, fl_unit = unit_price, fl_quantity = quantity\<rparr>)))))"

text \<open>\<open>grouped.setdefault(row.order_id, []).append(...)\<close>.\<close>

definition group_line :: "fixture_line \<Rightarrow> (string, fixture_line list) dict \<Rightarrow> (string, fixture_line list) dict" where
  "group_line l g = (let k = os_order_id (fl_row l) in dset k ((case dget g k of None \<Rightarrow> [] | Some ls \<Rightarrow> ls) @ [l]) g)"

definition fixture_row :: "string \<Rightarrow> (string, json) dict \<Rightarrow> order_snapshot \<Rightarrow> (string, fixture_line list) dict \<Rightarrow> err + (string, fixture_line list) dict" where
  "fixture_row provider bindings row g = chain (fixture_line_of provider bindings row) (\<lambda>l. Inr (group_line l g))"

definition line_total :: "fixture_line \<Rightarrow> int" where
  "line_total l = fl_unit l * fl_quantity l"

definition fixture_line_json :: "fixture_line \<Rightarrow> json" where
  "fixture_line_json l = JObj [(''sku'', JStr (fl_sku l)), (''quantity'', JInt (fl_quantity l)), (''unit_minor'', JInt (fl_unit l)),
     (''source_line_key'', JStr (os_line_id (fl_row l)))]"

definition fixture_digest :: "(string \<Rightarrow> string) \<Rightarrow> string \<Rightarrow> string option \<Rightarrow> fixture_line list \<Rightarrow> err + string" where
  "fixture_digest h provider claimed ls = contract_hash h (JObj [(''provider'', JStr provider), (''claims'', opt_json JStr claimed),
     (''lines'', JList (map (\<lambda>(a, b, c). JList [JStr a, JStr b, JStr c])
        (sort (map (\<lambda>l. (os_line_id (fl_row l), os_source_digest (fl_row l), fl_sku l)) ls))))])"

definition fixture_item_json :: "string \<Rightarrow> string \<Rightarrow> fixture_line list \<Rightarrow> json" where
  "fixture_item_json order_id dg ls = JObj
     [(''external_order_id'', JStr order_id), (''event_id'', JStr (''fixture-'' @ dg)), (''revision'', JInt 1), (''currency'', JStr ''KRW''),
      (''total_minor'', JInt (sum_list (map line_total ls))),
      (''lines'', JList (map fixture_line_json (sort_key (\<lambda>l. os_line_id (fl_row l)) ls))), (''source_digest'', JStr dg)]"

text \<open>The call of \<open>normalize_demo_order\<close>, for the errors it raises.\<close>

definition normalizes :: "json \<Rightarrow> err + unit" where
  "normalizes item = chain (normalize_fields item) (\<lambda>o'.
     check (length (dumps (order_payload o')) \<le> 64 * 1024) (ConflictError ''normalized DEMO payload exceeds size limit'') (Inr ()))"

definition fixture_item :: "(string \<Rightarrow> string) \<Rightarrow> string \<Rightarrow> string option \<Rightarrow> string \<times> fixture_line list \<Rightarrow> err + json" where
  "fixture_item h provider claimed = (\<lambda>(order_id, ls).
     check (distinct (map fl_sku ls)) (quarantine ''duplicate_fixture_sku_mapping'') (
     chain (fixture_digest h provider claimed ls) (\<lambda>dg.
     chain (normalizes (fixture_item_json order_id dg ls)) (\<lambda>_.
     Inr (fixture_item_json order_id dg ls)))))"

record contract_adapter =
  ca_provider :: string
  ca_observed_at :: stamp
  ca_items_json :: string

definition new_contract_adapter :: "(string \<Rightarrow> bool) \<Rightarrow> (string \<Rightarrow> string) \<Rightarrow> string \<Rightarrow> json \<Rightarrow> (string, json) dict \<Rightarrow> stamp \<Rightarrow> string list
    \<Rightarrow> json \<Rightarrow> stamp \<Rightarrow> err + contract_adapter" where
  "new_contract_adapter uni h provider body bindings observed requested claim_body now =
     chain (fresh_fixture observed now) (\<lambda>_.
     check (provider \<in> {''naver'', ''coupang''}) (quarantine ''unsupported_fixture_provider_or_mapping'') (
     chain (fixture_page uni h provider body requested claim_body) (\<lambda>(page, claimed).
     check (og_next_cursor page = None \<and> og_snapshots page \<noteq> []) (quarantine ''complete_nonempty_fixture_page_required'') (
     chain (fold_check (fixture_row provider bindings) (og_snapshots page) []) (\<lambda>grouped.
     chain (each (fixture_item h provider claimed) (sort_key fst grouped)) (\<lambda>items.
     check (length items \<le> 100) (quarantine ''fixture_order_count_exceeded'') (
     chain (contract_json (JList items)) (\<lambda>text.
     Inr \<lparr>ca_provider = ''fixture-'' @ provider, ca_observed_at = observed, ca_items_json = text\<rparr>))))))))"

definition contract_describe :: "contract_adapter \<Rightarrow> demo_adapter_description" where
  "contract_describe a = \<lparr>da_provider = ca_provider a, da_adapter_version = ''contract-fixture-orders-v1'',
     da_normalized_schema_version = 1, da_capability = Adp_ORDERS_READ, da_mode = ''DEMO''\<rparr>"

definition contract_list_changes :: "contract_adapter \<Rightarrow> stamp \<Rightarrow> string option \<Rightarrow> time option \<Rightarrow> err + demo_page" where
  "contract_list_changes a now cursor overlap =
     chain (fresh_fixture (ca_observed_at a) now) (\<lambda>_.
     check (cursor = None \<and> overlap = None) (quarantine ''fixture_continuation_unsupported'') (
     need (js_list (loads (ca_items_json a))) (ValueError ''invalid JSON'') (\<lambda>items.
     Inr \<lparr>dp_items = items, dp_next_cursor = None, dp_has_more = False, dp_observed_at = instant (ca_observed_at a)\<rparr>)))"

definition read_adapter_of :: "contract_adapter \<Rightarrow> stamp \<Rightarrow> demo_read_adapter" where
  "read_adapter_of a now = \<lparr>rd_describe = contract_describe a, rd_list_changes = contract_list_changes a now\<rparr>"

subsection \<open>Normalization does not look at the order of keys\<close>

lemma jget_norm:
  assumes "wf_json j"
  shows "jget (norm j) k = map_option norm (jget j k)"
proof (cases j)
  case (JObj kvs)
  have "map_of (sort_key fst (map (\<lambda>(k, v). (k, norm v)) kvs)) = map_of (map (\<lambda>(k, v). (k, norm v)) kvs)"
    using assms by (subst map_of_inject_set) (simp_all add: JObj sort_key_map case_prod_beta comp_def distinct_map inj_on_def)
  then show ?thesis by (simp add: JObj map_of_map)
qed simp_all

lemma norm_null [simp]: "norm v = JNull \<longleftrightarrow> v = JNull"
  by (cases v) simp_all

lemma js_norm [simp]:
  "js_str (map_option norm x) = js_str x" "js_int (map_option norm x) = js_int x"
  "js_list (map_option norm x) = map_option (map norm) (js_list x)"
  by (cases x; cases "the x"; simp)+

lemma norm_keys: "js_keys j = Some ks \<Longrightarrow> \<exists>ks'. js_keys (norm j) = Some ks' \<and> set ks' = set ks"
  by (auto simp: case_prod_beta image_image)

lemma not_object_norm: "js_keys j = None \<Longrightarrow> js_keys (norm j) = None"
  by (cases j) simp_all

lemma need_Some [simp]: "need (Some a) e k = k a" "need None e k = Inl e"
  by (simp_all add: need_def)

lemma that_if: "that p (Some a) = (if p a then Some a else None)" "that p None = None"
  by (simp_all add: that_def)

lemma normalize_line_norm:
  assumes "wf_json raw"
  shows "normalize_line (norm raw) acc = normalize_line raw acc"
proof (cases "js_keys raw")
  case None
  with not_object_norm [OF None] show ?thesis by (cases acc) (simp add: normalize_line_def that_if)
next
  case (Some ks)
  from norm_keys [OF Some] obtain ks' where ks': "js_keys (norm raw) = Some ks'" "set ks' = set ks" by blast
  show ?thesis by (cases acc) (simp add: normalize_line_def ks' Some that_if jget_norm [OF assms] cong: if_cong)
qed

lemma normalize_lines_norm:
  "list_all wf_json xs \<Longrightarrow> fold_check normalize_line (map norm xs) acc = fold_check normalize_line xs acc"
  by (induction xs arbitrary: acc) (simp_all add: normalize_line_norm split: sum.split)

lemma wf_json_field: "wf_json j \<Longrightarrow> jget j k = Some v \<Longrightarrow> wf_json v"
  by (cases j) (auto simp: list_all_iff dest!: map_of_SomeD)

lemma normalize_fields_norm:
  assumes "wf_json item"
  shows "normalize_fields (norm item) = normalize_fields item"
proof (cases "js_keys item")
  case None
  with not_object_norm [OF None] show ?thesis by (simp add: normalize_fields_def)
next
  case (Some ks)
  from norm_keys [OF Some] obtain ks' where ks': "js_keys (norm item) = Some ks'" "set ks' = set ks" by blast
  show ?thesis
  proof (cases "js_list (jget item ''lines'')")
    case None
    show ?thesis by (simp add: normalize_fields_def ks' Some jget_norm [OF assms] None that_if)
  next
    case (Some xs)
    have "list_all wf_json xs" using wf_json_field [OF assms, of "''lines''"] Some by simp
    from normalize_lines_norm [OF this] show ?thesis
      by (simp add: normalize_fields_def ks' \<open>js_keys item = Some ks\<close> jget_norm [OF assms] Some that_if Let_def cong: if_cong sum.case_cong prod.case_cong)
  qed
qed

lemma case_sum_ok: "(case x of Inl e \<Rightarrow> Inl e | Inr a \<Rightarrow> k a) = Inr b \<longleftrightarrow> (\<exists>a. x = Inr a \<and> k a = Inr b)"
  by (cases x) simp_all

lemma normalize_fields_read:
  "normalize_fields item = Inr o' \<Longrightarrow> jget item ''total_minor'' = Some (JInt (no_total_minor o'))
     \<and> jget item ''external_order_id'' = Some (JStr (no_external_order_id o')) \<and> jget item ''currency'' = Some (JStr (no_currency o'))"
  by (auto simp: normalize_fields_def checks_ok Let_def case_sum_ok)

subsection \<open>From snapshots to orders\<close>

text \<open>What a line of the page is worth.\<close>

definition snapshot_value :: "order_snapshot \<Rightarrow> int" where
  "snapshot_value s = (case amount_get (as_dict (os_amounts_krw s)) ''unit_price'' of None \<Rightarrow> 0 | Some u \<Rightarrow> u * os_remaining_quantity s)"

lemma fixture_line_value:
  "fixture_line_of provider bindings row = Inr l \<Longrightarrow> fl_row l = row \<and> line_total l = snapshot_value row"
  by (auto simp: fixture_line_of_def Let_def checks_ok amount_at_def bind_eq_Some_conv snapshot_value_def amount_get_def line_total_def)

definition group_total :: "(string, fixture_line list) dict \<Rightarrow> int" where
  "group_total g = sum_list (map (\<lambda>(k, ls). sum_list (map line_total ls)) g)"

lemma group_total_dset:
  "group_total (dset k (ls @ [l]) g) = group_total (dset k ls g) + line_total l"
  by (induction g) (auto simp: group_total_def)

lemma dset_same: "dget d k = Some v \<Longrightarrow> dset k v d = d"
  by (induction d) (auto split: if_splits)

lemma group_line_total: "group_total (group_line l g) = group_total g + line_total l"
  by (cases "dget g (os_order_id (fl_row l))")
    (simp_all add: group_line_def Let_def group_total_dset dset_same, simp_all add: dset_new group_total_def)

lemma keys_dset: "fst ` set (dset k v d) = insert k (fst ` set d)"
  by (induction d) auto

lemma group_line_keys:
  "distinct (map fst g) \<Longrightarrow> distinct (map fst (group_line l g)) \<and> fst ` set (group_line l g) = insert (os_order_id (fl_row l)) (fst ` set g)"
  by (simp add: group_line_def Let_def distinct_dset keys_dset)

lemma fixture_rows_grouped:
  "fold_check (fixture_row provider bindings) shown g = Inr g' \<Longrightarrow> distinct (map fst g) \<Longrightarrow>
     distinct (map fst g') \<and> fst ` set g' = fst ` set g \<union> os_order_id ` set shown
       \<and> group_total g' = group_total g + sum_list (map snapshot_value shown)"
proof (induction shown arbitrary: g)
  case (Cons row shown)
  then obtain l where l: "fixture_line_of provider bindings row = Inr l"
    and rest: "fold_check (fixture_row provider bindings) shown (group_line l g) = Inr g'"
    by (auto simp: fixture_row_def [of provider bindings row] chain_ok split: sum.splits)
  from Cons.IH [OF rest] group_line_keys [OF Cons.prems(2), of l] fixture_line_value [OF l] group_line_total [of l g]
  show ?case by auto
qed simp

lemma each_ok: "each f xs = Inr ys \<longleftrightarrow> list_all2 (\<lambda>x y. f x = Inr y) xs ys"
  by (induction xs arbitrary: ys) (auto simp: chain_ok list_all2_Cons1)

subsection \<open>What a poll receives\<close>

lemma fixture_item_wf: "wf_json (fixture_item_json order_id dg ls)"
  by (simp add: fixture_item_json_def fixture_line_json_def list_all_iff)

lemma normalizes_run:
  "normalizes item = Inr () \<Longrightarrow> \<exists>o'. normalize_fields item = Inr o' \<and>
     normalize_demo_order item w = (Inr (o', dumps (order_payload o'), payload_ref_of (no_event_id o') (no_revision o') (sha256 w (dumps (order_payload o')))), w)"
  by (auto simp: normalizes_def read_ok normalize_demo_order_ok)

text \<open>One order as it is read back.\<close>

definition order_of_group :: "string \<times> fixture_line list \<Rightarrow> normalized_demo_order \<Rightarrow> bool" where
  "order_of_group g o' \<longleftrightarrow> no_external_order_id o' = fst g \<and> no_total_minor o' = sum_list (map line_total (snd g)) \<and> no_currency o' = ''KRW''"

lemma fixture_item_read:
  assumes "fixture_item h provider cdg g = Inr item"
  shows "wf_json item \<and> (\<exists>o' e. order_of_group g o' \<and> normalize_demo_order (norm item) w = (Inr (o', e), w))"
proof -
  from assms obtain dg where item: "item = fixture_item_json (fst g) dg (snd g)" "normalizes item = Inr ()"
    by (auto simp: fixture_item_def read_ok split: prod.split_asm)
  have wf: "wf_json item" using fixture_item_wf by (simp add: item)
  then have "normalizes (norm item) = Inr ()"
    using item(2) by (simp add: normalizes_def normalize_fields_norm)
  from normalizes_run [OF this, of w] obtain o' e where o': "normalize_fields item = Inr o'" "normalize_demo_order (norm item) w = (Inr (o', e), w)"
    using normalize_fields_norm [OF wf] by auto
  from normalize_fields_read [OF o'(1)] have "order_of_group g o'"
    by (simp add: order_of_group_def item(1) fixture_item_json_def)
  with wf o'(2) show ?thesis by blast
qed

lemma fixture_items_read:
  "list_all2 (\<lambda>g item. fixture_item h provider cdg g = Inr item) gs items \<Longrightarrow>
     list_all wf_json items \<and> (\<exists>orders. mapM normalize_demo_order (map norm items) w = (Inr orders, w) \<and> list_all2 order_of_group gs (map fst orders))"
proof (induction rule: list_all2_induct)
  case (Cons g gs item items)
  from fixture_item_read [OF Cons.hyps(1), of w] obtain o' e where one: "wf_json item" "order_of_group g o'"
    "normalize_demo_order (norm item) w = (Inr (o', e), w)" by blast
  from Cons.IH obtain orders where rest: "list_all wf_json items" "mapM normalize_demo_order (map norm items) w = (Inr orders, w)"
    "list_all2 order_of_group gs (map fst orders)" by blast
  from one rest have "mapM normalize_demo_order (map norm (item # items)) w = (Inr ((o', e) # orders), w)"
    by (simp add: op_simps)
  with one rest show ?case by fastforce
qed (simp add: op_simps)

lemma orders_of_groups:
  "list_all2 order_of_group gs os \<Longrightarrow> map no_external_order_id os = map fst gs \<and> sum_list (map no_total_minor os) = group_total gs
     \<and> list_all (\<lambda>o'. no_currency o' = ''KRW'') os"
  by (induction rule: list_all2_induct) (auto simp: order_of_group_def group_total_def case_prod_beta)

lemma group_total_insort: "group_total (insort_key f x g) = group_total (x # g)"
  by (induction g) (auto simp: group_total_def)

lemma group_total_sort: "group_total (sort_key f g) = group_total g"
  by (induction g) (simp_all add: group_total_insort, simp_all add: group_total_def)

lemma contract_json_ok: "contract_json v = Inr t \<longleftrightarrow> finite_json v \<and> length (dumps v) \<le> 2097152 \<and> t = dumps v"
  by (auto simp: contract_json_def check_ok)

lemma fresh_read:
  assumes "new_contract_adapter uni h provider body bindings observed requested claim_body now = Inr a"
  obtains page cdg grouped items where "fixture_page uni h provider body requested claim_body = Inr (page, cdg)"
    and "fold_check (fixture_row provider bindings) (og_snapshots page) [] = Inr grouped"
    and "list_all2 (\<lambda>g item. fixture_item h provider cdg g = Inr item) (sort_key fst grouped) items"
    and "length items \<le> 100" and "ca_items_json a = dumps (JList items)" and "ca_observed_at a = observed"
  using assms by (auto simp: new_contract_adapter_def read_ok each_ok contract_json_ok split: prod.split_asm)

text \<open>
  C40: A channel page that becomes an adapter can be polled, and nothing of it is lost.  As long as the
  observation is fresh, the adapter answers the first poll with a page the poll accepts, every row of
  which it can normalize; the orders are the orders of the channel page, once each, in KRW, and
  together they are worth what the lines of the channel page are worth.
\<close>

theorem channel_page_becomes_orders:
  assumes "new_contract_adapter uni h provider body bindings observed requested claim_body now = Inr a"
    and "fresh_fixture observed later = Inr ()"
  shows "\<exists>page cdg changes orders. fixture_page uni h provider body requested claim_body = Inr (page, cdg)
    \<and> rd_list_changes (read_adapter_of a later) None None = Inr changes \<and> validate_demo_page changes = Inr ()
    \<and> mapM normalize_demo_order (dp_items changes) w = (Inr orders, w)
    \<and> distinct (map no_external_order_id (map fst orders))
    \<and> set (map no_external_order_id (map fst orders)) = os_order_id ` set (og_snapshots page)
    \<and> sum_list (map no_total_minor (map fst orders)) = sum_list (map snapshot_value (og_snapshots page))
    \<and> list_all (\<lambda>o'. no_currency o' = ''KRW'') (map fst orders)"
proof -
  from fresh_read [OF assms(1)] obtain page cdg grouped items
    where page: "fixture_page uni h provider body requested claim_body = Inr (page, cdg)"
    and grouped: "fold_check (fixture_row provider bindings) (og_snapshots page) [] = Inr grouped"
    and items: "list_all2 (\<lambda>g item. fixture_item h provider cdg g = Inr item) (sort_key fst grouped) items"
    and a: "length items \<le> 100" "ca_items_json a = dumps (JList items)" "ca_observed_at a = observed" by metis
  from fixture_items_read [OF items, of w] obtain orders where wf: "list_all wf_json items"
    and orders: "mapM normalize_demo_order (map norm items) w = (Inr orders, w)"
      "list_all2 order_of_group (sort_key fst grouped) (map fst orders)" by blast
  have "loads (ca_items_json a) = Some (JList (map norm items))"
    using loads_dumps [of "JList items"] wf by (simp add: a(2))
  then have "rd_list_changes (read_adapter_of a later) None None =
      Inr \<lparr>dp_items = map norm items, dp_next_cursor = None, dp_has_more = False, dp_observed_at = instant observed\<rparr>"
    using assms(2) by (simp add: read_adapter_of_def contract_list_changes_def a(3) check_def)
  moreover have "validate_demo_page \<lparr>dp_items = map norm items, dp_next_cursor = None, dp_has_more = False, dp_observed_at = instant observed\<rparr> = Inr ()"
    using a(1) by (simp add: validate_demo_page_def check_def)
  moreover have "distinct (map fst grouped)" "fst ` set grouped = os_order_id ` set (og_snapshots page)"
    "group_total grouped = sum_list (map snapshot_value (og_snapshots page))"
    using fixture_rows_grouped [OF grouped] by (simp_all add: group_total_def)
  moreover note page orders(1) orders_of_groups [OF orders(2)]
  ultimately show ?thesis
    by (intro exI [of _ page] exI [of _ cdg] exI exI [of _ orders] conjI) (assumption | simp add: group_total_sort distinct_map)+
qed

definition demo_fixture_digest :: string where
  "demo_fixture_digest = replicate 64 (CHR ''a'')"

definition demo_naver_row :: json where
  "demo_naver_row = JObj [(''order'', JObj [(''orderId'', JStr ''o1'')]),
     (''productOrder'', JObj [(''productOrderId'', JStr ''l1''), (''initialQuantity'', JInt 2), (''remainQuantity'', JInt 2),
       (''initialPaymentAmount'', JInt 10), (''remainPaymentAmount'', JInt 10), (''productId'', JStr ''p1''),
       (''productOrderStatus'', JStr ''PAYED''), (''unitPrice'', JInt 5)])]"

definition demo_naver_page :: json where
  "demo_naver_page = JObj [(''data'', JList [demo_naver_row])]"

definition demo_naver_snapshot :: order_snapshot where
  "demo_naver_snapshot = \<lparr>os_provider = ''naver'', os_order_id = ''o1'', os_line_id = ''l1'', os_product_id = ''p1'',
     os_shipment_id = None, os_status = ''PAYED'', os_initial_quantity = 2, os_remaining_quantity = 2,
     os_amounts_krw = [(''initial_payment'', Some 10), (''remaining_payment'', Some 10), (''unit_price'', Some 5)],
     os_claim_review_required = False, os_source_digest = demo_fixture_digest, os_executable = False\<rparr>"

definition demo_fixture_line :: fixture_line where
  "demo_fixture_line = \<lparr>fl_row = demo_naver_snapshot, fl_sku = ''s1'', fl_unit = 5, fl_quantity = 2\<rparr>"

definition demo_item :: json where
  "demo_item = fixture_item_json ''o1'' demo_fixture_digest [demo_fixture_line]"

definition demo_normalized :: normalized_demo_order where
  "demo_normalized = \<lparr>no_external_order_id = ''o1'', no_event_id = ''fixture-'' @ demo_fixture_digest, no_revision = 1, no_currency = ''KRW'',
     no_total_minor = 10, no_lines = [JObj [(''sku'', JStr ''s1''), (''quantity'', JInt 2), (''unit_minor'', JInt 5),
       (''source_line_key'', JStr ''l1'')]], no_source_digest = Some demo_fixture_digest\<rparr>"

lemma demo_naver_hash:
  "contract_hash (\<lambda>_. demo_fixture_digest) demo_naver_page = Inr demo_fixture_digest" "contract_hash (\<lambda>_. demo_fixture_digest) demo_naver_row = Inr demo_fixture_digest"
  "fixture_digest (\<lambda>_. demo_fixture_digest) ''naver'' None [demo_fixture_line] = Inr demo_fixture_digest"
  "contract_json (JList [demo_item]) = Inr (dumps (JList [demo_item]))"
proof -
  have "length (dumps demo_naver_page) \<le> 1000" "length (dumps demo_naver_row) \<le> 1000" "finite_json demo_naver_page" "finite_json demo_naver_row"
    by code_simp+
  then show "contract_hash (\<lambda>_. demo_fixture_digest) demo_naver_page = Inr demo_fixture_digest" "contract_hash (\<lambda>_. demo_fixture_digest) demo_naver_row = Inr demo_fixture_digest"
    by (simp_all add: contract_hash_ok)
  have "length (dumps (JObj [(''provider'', JStr ''naver''), (''claims'', JNull),
      (''lines'', JList [JList [JStr ''l1'', JStr demo_fixture_digest, JStr ''s1'']])])) \<le> 1000" by code_simp
  then show "fixture_digest (\<lambda>_. demo_fixture_digest) ''naver'' None [demo_fixture_line] = Inr demo_fixture_digest"
    by (simp add: fixture_digest_def demo_fixture_line_def demo_naver_snapshot_def contract_hash_ok opt_json_def)
  have "length (dumps (JList [demo_item])) \<le> 1000" "finite_json (JList [demo_item])" by code_simp+
  then show "contract_json (JList [demo_item]) = Inr (dumps (JList [demo_item]))" by (simp add: contract_json_ok)
qed

lemma demo_naver_read:
  "parse_naver_details (\<lambda>_. demo_fixture_digest) demo_naver_page [''l1''] =
     Inr \<lparr>og_provider = ''naver'', og_snapshots = [demo_naver_snapshot], og_next_cursor = None, og_source_digest = demo_fixture_digest\<rparr>"
proof -
  have "naver_row (\<lambda>_. demo_fixture_digest) demo_naver_row [] = Inr [demo_naver_snapshot]"
    using demo_naver_hash(2)
    by (simp add: naver_row_def demo_naver_row_def object_of_def identifier_of_def external_id_def opaque_def opaque_with_def is_alnum_def
        is_digit_def is_lower_def integer_of_def state_of_def naver_states_def need_def check_def that_def demo_naver_snapshot_def)
  moreover have "external_id ''l1''" by code_simp
  ultimately show ?thesis
    using demo_naver_hash(1)
    by (simp add: parse_naver_details_def demo_naver_page_def object_of_def rows_of_def need_def check_def that_def)
      (simp add: demo_naver_snapshot_def)
qed

lemma demo_line_bound: "fixture_line_of ''naver'' [(''p1'', JStr ''s1'')] demo_naver_snapshot = Inr demo_fixture_line"
  by (simp add: fixture_line_of_def demo_naver_snapshot_def demo_fixture_line_def as_dict_def amount_at_def check_def Let_def)

lemma demo_item_normal: "normalizes demo_item = Inr ()"
proof -
  have "normalize_fields demo_item = Inr demo_normalized" by code_simp
  moreover have "length (dumps (order_payload demo_normalized)) \<le> 1000" by code_simp
  ultimately show ?thesis by (simp add: normalizes_def check_def)
qed

lemma demo_adapter_new:
  "new_contract_adapter (\<lambda>_. False) (\<lambda>_. demo_fixture_digest) ''naver'' demo_naver_page [(''p1'', JStr ''s1'')] (Aware 0) [''l1''] JNull (Aware 5)
     = Inr \<lparr>ca_provider = ''fixture-naver'', ca_observed_at = Aware 0, ca_items_json = dumps (JList [demo_item])\<rparr>"
proof -
  have "fixture_row ''naver'' [(''p1'', JStr ''s1'')] demo_naver_snapshot [] = Inr [(''o1'', [demo_fixture_line])]"
    by (simp add: fixture_row_def demo_line_bound group_line_def) (simp add: demo_fixture_line_def demo_naver_snapshot_def)
  moreover have "fixture_item (\<lambda>_. demo_fixture_digest) ''naver'' None (''o1'', [demo_fixture_line]) = Inr demo_item"
    using demo_naver_hash(3) demo_item_normal by (simp add: fixture_item_def demo_item_def check_def)
  ultimately show ?thesis
    using demo_naver_read demo_naver_hash(4)
    by (simp add: new_contract_adapter_def fresh_fixture_def fixture_page_def check_def)
qed

theorem channel_page_becomes_orders_witness:
  "\<exists>(changes :: demo_page) orders. mapM normalize_demo_order (dp_items changes) demo_tenant = (Inr orders, demo_tenant)
     \<and> sum_list (map no_total_minor (map fst orders)) = 10"
proof -
  have "fresh_fixture (Aware 0) (Aware 6) = Inr ()" by (simp add: fresh_fixture_def check_def)
  from channel_page_becomes_orders [OF demo_adapter_new this, of demo_tenant] obtain page cdg and changes :: demo_page and orders
    where page: "fixture_page (\<lambda>_. False) (\<lambda>_. demo_fixture_digest) ''naver'' demo_naver_page [''l1''] JNull = Inr (page, cdg)"
    and orders: "mapM normalize_demo_order (dp_items changes) demo_tenant = (Inr orders, demo_tenant)"
      "sum_list (map no_total_minor (map fst orders)) = sum_list (map snapshot_value (og_snapshots page))" by (elim exE conjE) (rule that)
  have "og_snapshots page = [demo_naver_snapshot]" using page by (auto simp: fixture_page_def demo_naver_read)
  moreover have "snapshot_value demo_naver_snapshot = 10"
    by (simp add: snapshot_value_def amount_get_def as_dict_def demo_naver_snapshot_def)
  ultimately have "sum_list (map no_total_minor (map fst orders)) = 10" by (simp only: orders(2)) simp
  with orders(1) show ?thesis by blast
qed

end
