(* ===== verification/Spec2Isabelle.thy ===== *)
theory Spec2Isabelle
  imports Service Retries Notification_Laws Recovery Json Bounded Bridge
begin

text \<open>
  This library models the store control plane of 100meAiStore: the Python package
  \<open>packages/store_core\<close>, which takes a tenant's orders, approvals, purchases, claims, settlements,
  catalog, budgets and tool commands through one service over one repository, in DEMO mode.

  \<^bold>\<open>Program and model.\<close>  \<open>StoreControlPlane\<close> (service.py) and the modules mixed into it
  (approvals.py, ingestion.py, orders.py, order02.py, order03.py, claim01.py, finance01.py,
  inventory.py, catalog.py, gateway.py, budget.py, safety.py, notifications.py, browser_auth.py) work on
  one \<open>InMemoryRepository\<close> (repository.py), whose attributes are the fields of the record \<open>repo\<close>, each
  dictionary an association list in insertion order.  A \<open>world\<close> adds what the process consumes: the
  identifiers \<open>uuid4\<close> will give, the readings of the clock, the tokens of \<open>secrets\<close>, and SHA-256 as a
  function.  A method is a function from a world to a result and a world (\<open>svc\<close>); a result is
  \<open>Inl\<close> of the exception or \<open>Inr\<close> of the value, and \<open>transaction\<close> restores the tables when its body
  raises.  execution.py and tool_worker.py work on a \<open>platform\<close>, a world and the \<open>provider\<close>, the
  second database of synthetic_provider.py, with no transaction over both.

  \<^bold>\<open>Theories.\<close>
  \<^item> \<open>PyStd\<close>, \<open>Json\<close>, \<open>Checks\<close>: the Python values used, canonical JSON and its parser, tests of
    untrusted JSON.  \<open>Prelude\<close>: insertion-ordered dictionaries, errors, the state and exception
    combinators, the triples \<open>keeps\<close>.  \<open>Domain\<close>: the enums and dataclasses of domain.py.
  \<^item> \<open>Repo_State\<close>, \<open>Audit_Log\<close>, \<open>Writes\<close>, \<open>Invariants\<close>, \<open>Versioned\<close>: the repository, the hash chain, what a
    call may write (\<open>acts\<close>), and the locales for invariants of tables, for rows with a version and for
    rows saved once.
  \<^item> \<open>Identity\<close> (tenants, members, contexts), \<open>Outbox\<close> (events, leases and fencing tokens in both
    adapters), \<open>Retries\<close> (how often an event is retried), \<open>Approvals\<close> and \<open>Approval_Laws\<close> (commands, approvals,
    intents, preparations, expiry), \<open>Redaction\<close> (the inbox of approvals.py), \<open>Browser\<close> and \<open>Browser_Laws\<close>.
  \<^item> \<open>Ingestion\<close> and \<open>Ingestion_Laws\<close> (manifests, inbox, polls), \<open>Orders\<close>, \<open>Purchasing\<close> and
    \<open>Purchasing_Laws\<close> (orders, routing, purchase orders, tracking), \<open>Claims\<close>, \<open>Settlement\<close>, \<open>Inventory\<close>,
    \<open>Catalog\<close> and \<open>Catalog_Laws\<close>, \<open>Notifications\<close> and \<open>Notification_Laws\<close>, \<open>Safety\<close> (stops, backups, readiness).
  \<^item> \<open>Budget\<close> and \<open>Budget_Laws\<close> (the ledger and agent runs), \<open>Gateway\<close> and \<open>Gateway_Laws\<close> (tool commands),
    \<open>Provider\<close>, \<open>Execution\<close>, \<open>Execution_Laws\<close>, \<open>Effects\<close>, \<open>Recovery\<close>, \<open>Tool_Worker\<close> (attempts, the
    provider's effects, the worker that carries an accepted command to the provider).
  \<^item> \<open>Contracts\<close>, \<open>Finance_Pages\<close>, \<open>Journal\<close> (the readers of channel pages of channel_order_contracts.py,
    channel_claim_contracts.py and channel_finance_contracts.py, and the journal of pages of
    offline_contract_journal.py), \<open>Shadow\<close> and \<open>Bounded\<close> (demo_shadow.py and demo_bounded.py), \<open>Bridge\<close> (contract_demo_bridge.py,
    which makes a channel page the adapter the service polls).  They stand beside the service.  A page is read by a chain of checks, each with its
    reason; what Unicode calls printable beyond ASCII and the modes of the approval files are
    arguments, and a page nests less deeply than Python's recursion limit.
  \<^item> \<open>Service\<close>: every call as one datatype \<open>service_call\<close>, for which tenant it acts, and sequences of calls;
    this theory has the properties of all of them together.

  \<^bold>\<open>What is shown.\<close>  Each component has its invariants under every sequence of its calls, returning or
  raising; what its decisions rest on, with the errors of the other branches; and what a repeated
  request does.  The larger contracts are locales, interpreted on the model: \<open>leased_queue\<close> on both
  outbox adapters, \<open>versioned_table\<close> and \<open>saved_once\<close> on the tables that follow them, \<open>table_invariant\<close>
  and \<open>guarded_writes\<close> on the invariants, \<open>step_relation\<close> on the relations of the two databases.
  Attempts refine the life cycle \<open>attempt_step\<close>, the provider's effects are those that were
  approved, tenants are isolated, and the audit log is kept, whatever calls are made.  Accepted
  pages are sound, the journal counts its pages, the shadow run continues exactly when both sides
  hold the same, the bounded gate admits exactly what its policy allows, and a channel page polled
  through the bridge becomes orders of the same worth.

  \<^bold>\<open>Bounds and fuel.\<close>  \<open>loads\<close> and the secret filter recurse on fuel, the length of the text, which every
  round shortens (\<open>loads_dumps\<close>); a preview descends as many levels as the code does; every other
  function is structural.  Python's integers are \<open>int\<close>; no fixed width is used by the code.

  \<^bold>\<open>Limits of the model.\<close>  Strings are UTF-8 byte lists; lower-casing, letters, digits and white space are
  those of ASCII and the few other characters the code's patterns can meet, so texts that use
  other alphabets in keys may be classified differently by Python.  Times are microseconds of one
  time zone, the service clock is taken to be aware, and durations stay within \<open>timedelta\<close>.
  Decimals have a sign only when they are not zero, and exponents are not limited.  Identifiers
  are whatever the sequence \<open>uuid_src\<close> gives: collisions are not excluded, and a property that needs
  fresh identifiers says so.  Two threads do not interleave inside a transaction, as the
  repository's lock ensures.

  \<^bold>\<open>Not modelled.\<close>  Of sqlite_repository.py only the outbox is modelled, as the second implementation
  of its contract; its other methods are SQL statements for the same tables.  The copy of the database
  file in safety.py, the check that the provider object is the durable one (reduced to its adapter
  version) and the files of synthetic_provider.py are arguments or left out.  dashboard.py and
  final_audit.py read files and git.  parse_naver_changes of channel_order_contracts.py reads times with
  \<open>datetime.fromisoformat\<close>, whose grammar is not modelled, and neither are the reviews built on it
  (offline_*_contracts.py and the batches, release_review.py), the gateways that pass a review on to
  \<open>submit_demo_tool\<close>, the request plans of channel_contracts.py, the csv files of
  supplier_file_contracts.py with demo_discovery.py;
  \<open>smart_store_aios\<close> is the older prototype the README sets aside, \<open>smart_store_control\<close>, scripts and
  tools drive local development workers, and \<open>build/lib\<close> holds stale copies of the sources.
\<close>

section \<open>Properties of the whole service\<close>

definition demo_service :: platform where
  "demo_service = (demo_tenant, demo_provider)"

definition demo_calls :: "service_call list" where
  "demo_calls = [Bootstrap ''Beta'' ''owner@beta.test'',
     Stop \<lparr>ctx_tenant_id = ''u4'', ctx_user_id = ''u5'', ctx_membership_version = 1\<rparr> ''tenant'' ''u4'' True ''drill'',
     Queue (LNext ''u4'' ''w1'' 0 10)]"

lemma demo_calls_foreign: "\<not> acts_for ''u0'' demo_calls demo_service"
  by (simp add: demo_calls_def demo_service_def demo_tenant_tables demo_world_def)

text \<open>
  C1: Tenants are isolated.  Whatever calls are made, by clients, browsers, workers and operators,
  as long as none of them acts for the tenant, none of the tenant's rows is added, changed,
  removed or reordered in any table, and nothing the provider has recorded for it changes.
\<close>

theorem tenants_isolated:
  assumes "wf_repo (db (fst s))" "\<not> acts_for t cs s"
  shows "same_tenant t (db (fst s)) (db (fst (run_service cs s))) \<and> ledger_kept t (snd s) (snd (run_service cs s))"
  using run_service_isolated [OF assms] by simp

theorem tenants_isolated_witness:
  "same_tenant ''u0'' (db demo_tenant) (db (fst (run_service demo_calls demo_service)))"
  using tenants_isolated [of demo_service "''u0''" demo_calls] demo_tenant_wf demo_calls_foreign
  by (simp add: demo_service_def)

text \<open>
  C4: The audit log only grows and stays verifiable.  Whatever calls are made, returning or raising,
  every tenant's log keeps its events, unchanged and in their order, and \<open>verify_audit_chain\<close>
  accepts it.
\<close>

theorem audit_log_kept:
  assumes "wf_repo (db (fst s))" "chains_ok (sha256 (fst s)) (db (fst s))"
  shows "prefix (audits_for t (db (fst s))) (audits_for t (db (fst (run_service cs s))))
     \<and> verify_audit_chain t (fst (run_service cs s)) = (Inr True, fst (run_service cs s))"
  using run_service_audits [OF assms, of cs t] by (simp add: verify_audit_chain_def chains_ok_def)

lemma demo_tenant_chains: "chains_ok (sha256 demo_tenant) (db demo_tenant)"
proof -
  have wf: "wf_repo (db demo_world)" by (simp add: demo_world_def wf_empty)
  note w = bootstrap_writes [OF wf surjective_pairing, of "''Acme''" "''master@acme.test''"]
  have "chains_ok (sha256 demo_world) (db demo_world)"
    by (simp add: demo_world_def chains_ok_def audits_for_def empty_repo_def)
  with w audit_links.writes_keep [OF _ wf] show ?thesis unfolding demo_tenant_def by metis
qed

theorem audit_log_kept_witness:
  "verify_audit_chain ''u0'' (fst (run_service demo_calls demo_service)) = (Inr True, fst (run_service demo_calls demo_service))"
  using audit_log_kept [of demo_service "''u0''" demo_calls] demo_tenant_wf demo_tenant_chains
  by (simp add: demo_service_def)

end
